(* ===== verification/Prelude.thy ===== *)
theory Prelude
  imports Main "HOL-Library.AList" "HOL-Library.Sublist"
begin

text \<open>
  Shared vocabulary of the development: Python exceptions as values, the exception monad and the
  state-and-exception monad the transaction processors are written in, the Python string and
  integer primitives the sources use, and dictionaries as association lists in insertion order.

  Strings and byte strings are both \<^typ>\<open>string\<close>: a text string is its UTF-8 encoding. The
  sources only compare, slice, concatenate and hash them, and every string they slice or measure
  is ASCII (hexadecimal addresses, keys, dotted setting names).
\<close>

named_theorems res_simps
  \<comment> \<open>evaluation and inversion rules of the exception monads\<close>

section \<open>Exceptions\<close>

text \<open>
  One constructor per exception class the code raises, catches or lets through. The two classes of
  \<open>sawtooth_sdk.processor.exceptions\<close> carry their message; the message of \<open>remme/tp/basic.py:157\<close>,
  which prints the form's error dictionary, keeps the class name and the dictionary itself as
  \<open>InvalidFormData\<close>; a form's errors are a list of messages per field, or the dictionary of a
  nested form. The constructors from \<open>ClientException\<close> on are the errors of the node's API
  (\<open>remme/shared/exceptions.py\<close>, \<open>aiohttp_json_rpc\<close>) and of its connection to the validator
  (\<open>TimeoutError\<close> stands for both \<open>asyncio.TimeoutError\<close> and \<open>FutureTimeoutError\<close>).
\<close>

datatype form_error = ErrList "string list" | ErrDict "(string \<times> form_error) list"

datatype exc =
    InvalidTransaction string
  | InvalidFormData string "(string \<times> form_error) list"
  | InternalError string
  | AuthorizationException
  | DecodeError
  | ParseError
  | ValueError
  | TypeError
  | KeyError
  | IndexError
  | AttributeError
  | NotImplementedError
  | AssertionError
  | BinasciiError
  | OtherException string
  | ClientException string
  | KeyNotFound string
  | ValidatorNotReadyException string
  | ResourceHeaderInvalid
  | InvalidResourceId string
  | CountInvalid
  | RpcInvalidParamsError string
  | RpcGenericServerDefinedError int string
  | RpcMethodNotFoundError string
  | RpcInvalidRequestError
  | RpcInternalError
  | RpcDecodeError string
  | ValidatorConnectionError string
  | TimeoutError
  | SendBackoffTimeoutError
  | DisconnectError

fun is_invalid_transaction :: "exc \<Rightarrow> bool" where
  "is_invalid_transaction (InvalidTransaction m) = True"
| "is_invalid_transaction (InvalidFormData c e) = True"
| "is_invalid_transaction _ = False"

type_synonym 'a res = "exc + 'a"

section \<open>The exception monad\<close>

definition rbind :: "'a res \<Rightarrow> ('a \<Rightarrow> 'b res) \<Rightarrow> 'b res" where
  "rbind m f = (case m of Inl e \<Rightarrow> Inl e | Inr x \<Rightarrow> f x)"

lemma rbind_Inl [simp, res_simps]: "rbind (Inl e) f = Inl e"
  by (simp add: rbind_def)

lemma rbind_Inr [simp, res_simps]: "rbind (Inr x) f = f x"
  by (simp add: rbind_def)

lemma rbind_eq_Inr [res_simps]: "rbind m f = Inr y \<longleftrightarrow> (\<exists>x. m = Inr x \<and> f x = Inr y)"
  by (cases m) auto

lemma rbind_eq_Inl [res_simps]:
  "rbind m f = Inl e \<longleftrightarrow> m = Inl e \<or> (\<exists>x. m = Inr x \<and> f x = Inl e)"
  by (cases m) auto

lemma rbind_assoc: "rbind (rbind m f) g = rbind m (\<lambda>x. rbind (f x) g)"
  by (cases m) auto

section \<open>State and exceptions\<close>

text \<open>
  A processor reads the chain through a service object it mutates (a cache), and may raise:
  \<open>('s, 'a) sx\<close> takes the object and returns either the exception or the value with the updated
  object. What a processor did to the object before an exception is not observable, since
  \<open>BasicHandler.apply\<close> drops the object when the exception passes through it.
\<close>

type_synonym ('s, 'a) sx = "'s \<Rightarrow> ('a \<times> 's) res"

definition sret :: "'a \<Rightarrow> ('s, 'a) sx" where
  "sret x s = Inr (x, s)"

definition sraise :: "exc \<Rightarrow> ('s, 'a) sx" where
  "sraise e s = Inl e"

definition slift :: "'a res \<Rightarrow> ('s, 'a) sx" where
  "slift r s = rbind r (\<lambda>x. Inr (x, s))"

definition sbind :: "('s, 'a) sx \<Rightarrow> ('a \<Rightarrow> ('s, 'b) sx) \<Rightarrow> ('s, 'b) sx" where
  "sbind m f s = rbind (m s) (\<lambda>(x, s'). f x s')"

lemma sret_apply [simp]: "sret x s = Inr (x, s)"
  by (simp add: sret_def)

lemma sraise_apply [simp]: "sraise e s = Inl e"
  by (simp add: sraise_def)

lemma slift_Inl [simp]: "slift (Inl e) s = Inl e"
  by (simp add: slift_def)

lemma slift_Inr [simp]: "slift (Inr x) s = Inr (x, s)"
  by (simp add: slift_def)

lemma slift_eq_Inr [res_simps]: "slift r s = Inr (y, s') \<longleftrightarrow> r = Inr y \<and> s' = s"
  by (cases r) auto

lemma sbind_eq_Inr [res_simps]:
  "sbind m f s = Inr (y, s') \<longleftrightarrow> (\<exists>x s1. m s = Inr (x, s1) \<and> f x s1 = Inr (y, s'))"
  by (auto simp: sbind_def rbind_eq_Inr)

lemma sbind_run [simp]: "m s = Inr (x, s1) \<Longrightarrow> sbind m f s = f x s1"
  by (simp add: sbind_def)

lemma sbind_raise [simp]: "m s = Inl e \<Longrightarrow> sbind m f s = Inl e"
  by (simp add: sbind_def)

text \<open>
  Code that catches exceptions and goes on sees what happened before them. There an operation
  takes the state and returns the value or the exception, and the new state in either case.
\<close>

type_synonym ('s, 'a) ex = "'s \<Rightarrow> 'a res \<times> 's"

definition eret :: "'a \<Rightarrow> ('s, 'a) ex" where
  "eret x s = (Inr x, s)"

definition eraise :: "exc \<Rightarrow> ('s, 'a) ex" where
  "eraise e s = (Inl e, s)"

definition elift :: "'a res \<Rightarrow> ('s, 'a) ex" where
  "elift r s = (r, s)"

definition ebind :: "('s, 'a) ex \<Rightarrow> ('a \<Rightarrow> ('s, 'b) ex) \<Rightarrow> ('s, 'b) ex" where
  "ebind m f s = (case m s of (Inl e, s') \<Rightarrow> (Inl e, s') | (Inr x, s') \<Rightarrow> f x s')"

text \<open>\<open>try: m  except e: h e\<close>; a handler re-raises what its clauses do not name.\<close>

definition ecatch :: "('s, 'a) ex \<Rightarrow> (exc \<Rightarrow> ('s, 'a) ex) \<Rightarrow> ('s, 'a) ex" where
  "ecatch m h s = (case m s of (Inl e, s') \<Rightarrow> h e s' | (Inr x, s') \<Rightarrow> (Inr x, s'))"

lemma ex_apply [simp]:
  "eret x s = (Inr x, s)" "eraise e s = (Inl e, s)" "elift r s = (r, s)"
  by (simp_all add: eret_def eraise_def elift_def)

lemma ebind_run [simp]: "m s = (Inr x, s1) \<Longrightarrow> ebind m f s = f x s1"
  by (simp add: ebind_def)

lemma ebind_raise [simp]: "m s = (Inl e, s1) \<Longrightarrow> ebind m f s = (Inl e, s1)"
  by (simp add: ebind_def)

lemma ebind_eq_Inr [res_simps]:
  "ebind m f s = (Inr y, s') \<longleftrightarrow> (\<exists>x s1. m s = (Inr x, s1) \<and> f x s1 = (Inr y, s'))"
  by (auto simp: ebind_def split: sum.splits prod.splits)

lemma ebind_eq_Inl [res_simps]:
  "ebind m f s = (Inl e, s') \<longleftrightarrow>
     m s = (Inl e, s') \<or> (\<exists>x s1. m s = (Inr x, s1) \<and> f x s1 = (Inl e, s'))"
  by (auto simp: ebind_def split: sum.splits prod.splits)

lemma ecatch_run [simp]: "m s = (Inr x, s1) \<Longrightarrow> ecatch m h s = (Inr x, s1)"
  by (simp add: ecatch_def)

lemma ecatch_raise [simp]: "m s = (Inl e, s1) \<Longrightarrow> ecatch m h s = h e s1"
  by (simp add: ecatch_def)

lemma ex_map_option: "(\<exists>x. m = map_option f x) \<longleftrightarrow> (\<forall>y. m = Some y \<longrightarrow> (\<exists>x. y = f x))"
proof
  assume "\<forall>y. m = Some y \<longrightarrow> (\<exists>x. y = f x)"
  then show "\<exists>x. m = map_option f x"
    by (cases m) (auto intro: exI [of _ None] exI [of _ "Some _"])
qed auto

section \<open>Dictionaries\<close>

text \<open>
  A Python dictionary is the list of its items in insertion order. Assigning to a key keeps the
  position of a key that is already there, which is what \<^const>\<open>AList.update\<close> does.
\<close>

definition dict_update :: "('k \<times> 'v) list \<Rightarrow> ('k \<times> 'v) list \<Rightarrow> ('k \<times> 'v) list" where
  "dict_update d new = fold (\<lambda>(k, v). AList.update k v) new d"

definition dict_literal :: "('k \<times> 'v) list \<Rightarrow> ('k \<times> 'v) list" where
  "dict_literal items = dict_update [] items"

lemma lambda_fun_upd [simp]: "(\<lambda>a. if a = k then Some v else m a) = m(k \<mapsto> v)"
  by (simp add: fun_eq_iff)

lemma dict_update_Nil [simp]: "dict_update d [] = d"
  by (simp add: dict_update_def)

lemma dict_update_Cons [simp]:
  "dict_update d ((k, v) # new) = dict_update (AList.update k v d) new"
  by (simp add: dict_update_def)

lemma map_of_dict_update: "map_of (dict_update d new) = (map_of d) ++ map_of (rev new)"
proof (induction new arbitrary: d)
  case Nil
  then show ?case by simp
next
  case (Cons p new)
  obtain k v where "p = (k, v)" by force
  with Cons.IH [of "AList.update k v d"] show ?case
    by (auto simp: update_conv' map_add_def fun_eq_iff split: option.split)
qed

lemma distinct_dict_update: "distinct (map fst d) \<Longrightarrow> distinct (map fst (dict_update d new))"
proof (induction new arbitrary: d)
  case Nil
  then show ?case by simp
next
  case (Cons p new)
  obtain k v where "p = (k, v)" by force
  with Cons show ?case by (simp add: distinct_update)
qed

lemma distinct_dict_literal [simp]: "distinct (map fst (dict_literal items))"
  by (simp add: dict_literal_def distinct_dict_update)

lemma map_of_dict_literal: "map_of (dict_literal items) = map_of (rev items)"
  by (simp add: dict_literal_def map_of_dict_update)

lemma dict_literal_SomeD: "map_of (dict_literal items) k = Some v \<Longrightarrow> (k, v) \<in> set items"
  by (auto simp: map_of_dict_literal dest: map_of_SomeD)

section \<open>Python strings\<close>

definition startswith :: "string \<Rightarrow> string \<Rightarrow> bool" where
  "startswith s p = prefix p s"

lemma startswith_code [code, simp]: "startswith s p \<longleftrightarrow> take (length p) s = p"
  by (auto simp: startswith_def prefix_def) (metis append_take_drop_id)

definition endswith :: "string \<Rightarrow> string \<Rightarrow> bool" where
  "endswith s p = (length p \<le> length s \<and> drop (length s - length p) s = p)"

definition hex_chars :: string where
  "hex_chars = ''0123456789abcdef''"

definition is_hex :: "char \<Rightarrow> bool" where
  "is_hex c = (c \<in> set hex_chars)"

definition is_digit :: "char \<Rightarrow> bool" where
  "is_digit c = (c \<in> set ''0123456789'')"

text \<open>\<open>re.match('[0-9a-f]{n}', s)\<close>: anchored at the start only; \<open>re.fullmatch\<close> at both ends.\<close>

definition re_match_hex :: "nat \<Rightarrow> string \<Rightarrow> bool" where
  "re_match_hex n s = (n \<le> length s \<and> list_all is_hex (take n s))"

definition re_fullmatch_hex :: "nat \<Rightarrow> string \<Rightarrow> bool" where
  "re_fullmatch_hex n s = (length s = n \<and> list_all is_hex s)"

lemma re_fullmatch_hex_match: "re_fullmatch_hex n s \<Longrightarrow> re_match_hex n s"
  by (simp add: re_fullmatch_hex_def re_match_hex_def)

text \<open>\<open>str.isdigit\<close>, on ASCII.\<close>

definition isdigit :: "string \<Rightarrow> bool" where
  "isdigit s = (s \<noteq> [] \<and> list_all is_digit s)"

definition lower_char :: "char \<Rightarrow> char" where
  "lower_char c =
     (let n = (of_char c :: nat) in if 65 \<le> n \<and> n \<le> 90 then char_of (n + 32) else c)"

definition lower :: "string \<Rightarrow> string" where
  "lower s = map lower_char s"

text \<open>\<open>','.join(xs)\<close> and \<open>s.split(sep, maxsplit=n)\<close> for a one-character separator.\<close>

fun join :: "string \<Rightarrow> string list \<Rightarrow> string" where
  "join sep [] = []"
| "join sep [x] = x"
| "join sep (x # y # ys) = x @ sep @ join sep (y # ys)"

fun split_aux :: "char \<Rightarrow> nat \<Rightarrow> string \<Rightarrow> string \<Rightarrow> string list" where
  "split_aux sep n acc [] = [rev acc]"
| "split_aux sep n acc (c # cs) =
     (if c = sep \<and> 0 < n then rev acc # split_aux sep (n - 1) [] cs
      else split_aux sep n (c # acc) cs)"

definition split_max :: "char \<Rightarrow> nat \<Rightarrow> string \<Rightarrow> string list" where
  "split_max sep n s = split_aux sep n [] s"

definition split :: "char \<Rightarrow> string \<Rightarrow> string list" where
  "split sep s = split_max sep (length s) s"

lemma length_split_aux: "length (split_aux sep n acc s) \<le> Suc n"
proof (induction s arbitrary: n acc)
  case Nil
  then show ?case by simp
next
  case (Cons c s)
  show ?case
    using Cons.IH [of "n - 1" "[]"] Cons.IH [of n "c # acc"] by (cases n) auto
qed

lemma length_split_max: "length (split_max sep n s) \<le> Suc n"
  by (simp add: split_max_def length_split_aux)

lemma split_aux_not_Nil [simp]: "split_aux sep n acc s \<noteq> []"
  by (induction s arbitrary: n acc) auto

lemma join_Cons: "ys \<noteq> [] \<Longrightarrow> join sep (y # ys) = y @ sep @ join sep ys"
  by (cases ys) auto

lemma join_split_aux: "join [sep] (split_aux sep n acc s) = rev acc @ s"
  by (induction s arbitrary: n acc) (auto simp: join_Cons)

lemma join_split: "join [sep] (split sep s) = s"
  by (simp add: split_def split_max_def join_split_aux)

section \<open>Python integers\<close>

text \<open>\<open>str(n)\<close> and \<open>hex(n)[2:]\<close> of an integer, and \<open>zfill\<close> of a string without a sign.\<close>

fun digits_base :: "nat \<Rightarrow> nat \<Rightarrow> string" where
  "digits_base b n =
     (if n < b \<or> b < 2 then [hex_chars ! (n mod 16)]
      else digits_base b (n div b) @ [hex_chars ! (n mod b)])"

declare digits_base.simps [simp del]

definition py_str :: "int \<Rightarrow> string" where
  "py_str n = (if n < 0 then ''-'' @ digits_base 10 (nat (- n)) else digits_base 10 (nat n))"

definition hex_digits :: "nat \<Rightarrow> string" where
  "hex_digits n = digits_base 16 n"

definition zfill :: "nat \<Rightarrow> string \<Rightarrow> string" where
  "zfill w s = replicate (w - length s) (CHR ''0'') @ s"

text \<open>
  \<open>int(s, base)\<close> of a string, for bases 10 and 16: white space around is dropped, a sign is
  allowed, base 16 allows the prefix \<open>0x\<close>, and single underscores may stand between digits.
\<close>

definition is_space :: "char \<Rightarrow> bool" where
  "is_space c = (c = CHR '' '' \<or> c = CHR 0x09 \<or> c = CHR 0x0A \<or> c = CHR 0x0B \<or> c = CHR 0x0C \<or> c = CHR 0x0D)"

definition strip :: "string \<Rightarrow> string" where
  "strip s = rev (dropWhile is_space (rev (dropWhile is_space s)))"

definition digit_value :: "char \<Rightarrow> nat option" where
  "digit_value c =
     (let n = (of_char c :: nat) in
      if 48 \<le> n \<and> n \<le> 57 then Some (n - 48)
      else if 97 \<le> n \<and> n \<le> 102 then Some (n - 87)
      else if 65 \<le> n \<and> n \<le> 70 then Some (n - 55)
      else None)"

fun digits_value :: "nat \<Rightarrow> nat \<Rightarrow> string \<Rightarrow> nat option" where
  "digits_value b acc [] = Some acc"
| "digits_value b acc (c # cs) =
     (if c = CHR ''_'' then
        (case cs of [] \<Rightarrow> None | d # ds \<Rightarrow>
           (if d = CHR ''_'' then None else digits_value b acc cs))
      else (case digit_value c of None \<Rightarrow> None
            | Some v \<Rightarrow> if v < b then digits_value b (acc * b + v) cs else None))"

definition unsigned_value :: "nat \<Rightarrow> string \<Rightarrow> nat option" where
  "unsigned_value b s =
     (case s of [] \<Rightarrow> None | c # cs \<Rightarrow> if c = CHR ''_'' then None else digits_value b 0 s)"

definition strip_0x :: "nat \<Rightarrow> string \<Rightarrow> string" where
  "strip_0x b s =
     (if b = 16 \<and> (startswith s ''0x'' \<or> startswith s ''0X'')
      then (let t = drop 2 s in if startswith t ''_'' then drop 1 t else t)
      else s)"

definition py_int :: "nat \<Rightarrow> string \<Rightarrow> int res" where
  "py_int b s0 =
     (let s = strip s0;
          neg = startswith s ''-'';
          u = strip_0x b (if neg \<or> startswith s ''+'' then drop 1 s else s)
      in case unsigned_value b u of
           None \<Rightarrow> Inl ValueError
         | Some n \<Rightarrow> Inr (if neg then - int n else int n))"

text \<open>
  Assigning a Python integer to an unsigned field of a protocol buffer message raises
  \<open>ValueError\<close> outside the field's range; it never wraps.
\<close>

definition set_uint :: "nat \<Rightarrow> int \<Rightarrow> int res" where
  "set_uint w n = (if 0 \<le> n \<and> n < 2 ^ w then Inr n else Inl ValueError)"

abbreviation set_uint64 :: "int \<Rightarrow> int res" where
  "set_uint64 \<equiv> set_uint 64"

abbreviation set_uint32 :: "int \<Rightarrow> int res" where
  "set_uint32 \<equiv> set_uint 32"

lemma set_uint_eq_Inr [res_simps]: "set_uint w n = Inr m \<longleftrightarrow> m = n \<and> 0 \<le> n \<and> n < 2 ^ w"
  by (auto simp: set_uint_def)

lemma set_uint_in_range [simp]: "0 \<le> n \<Longrightarrow> n < 2 ^ w \<Longrightarrow> set_uint w n = Inr n"
  by (simp add: set_uint_def)

lemma set_uint_out_of_range [simp]: "2 ^ w \<le> n \<Longrightarrow> set_uint w n = Inl ValueError"
  by (simp add: set_uint_def)

section \<open>Hexadecimal strings\<close>

lemma is_hex_hex_chars: "n < 16 \<Longrightarrow> is_hex (hex_chars ! n)"
  unfolding is_hex_def by (rule nth_mem) (simp add: hex_chars_def)

lemma list_all_hex_digits_base: "b \<le> 16 \<Longrightarrow> 2 \<le> b \<Longrightarrow> list_all is_hex (digits_base b n)"
proof (induction n rule: less_induct)
  case (less n)
  have "n mod b < b" using less.prems by simp
  with less.prems have m: "n mod b < 16" by linarith
  show ?case
  proof (cases "n < b")
    case True
    then show ?thesis
      using less.prems by (subst digits_base.simps) (simp add: is_hex_hex_chars)
  next
    case False
    with less.prems have "n div b < n" by (intro div_less_dividend) auto
    then have "list_all is_hex (digits_base b (n div b))"
      using less by blast
    with False m less.prems show ?thesis
      by (subst digits_base.simps) (simp add: is_hex_hex_chars)
  qed
qed

lemma hex_digits_hex [simp]: "list_all is_hex (hex_digits n)"
  by (simp add: hex_digits_def list_all_hex_digits_base)

text \<open>A non-empty string of lower-case hexadecimal digits is a base 16 literal.\<close>

lemma is_hex_value: "is_hex c \<Longrightarrow> \<exists>v. digit_value c = Some v \<and> v < 16"
  by (auto simp: is_hex_def hex_chars_def digit_value_def)

lemma is_hex_not_special:
  "is_hex c \<Longrightarrow> c \<noteq> CHR ''_'' \<and> c \<noteq> CHR ''-'' \<and> c \<noteq> CHR ''+'' \<and> c \<noteq> CHR ''x''
     \<and> c \<noteq> CHR ''X'' \<and> \<not> is_space c"
  by (auto simp: is_hex_def hex_chars_def is_space_def)

lemma digits_value_hex: "list_all is_hex s \<Longrightarrow> \<exists>v. digits_value 16 acc s = Some v"
proof (induction s arbitrary: acc)
  case Nil
  then show ?case by simp
next
  case (Cons c s)
  from Cons.prems obtain v where "digit_value c = Some v" "v < 16"
    using is_hex_value by auto
  with Cons show ?case by (auto dest: is_hex_not_special)
qed

lemma strip_hex:
  assumes "list_all is_hex s"
  shows "strip s = s"
proof -
  have dw: "dropWhile is_space t = t" if "list_all is_hex t" for t
    using that by (cases t) (auto dest: is_hex_not_special)
  show ?thesis
    using assms by (simp add: strip_def dw list_all_iff)
qed

lemma py_int_hex:
  assumes hex: "list_all is_hex s" and ne: "s \<noteq> []"
  shows "\<exists>n. py_int 16 s = Inr (int n)"
proof -
  obtain c cs where s: "s = c # cs" using ne by (cases s) auto
  have ns: "c \<noteq> CHR ''-''" "c \<noteq> CHR ''+''" "c \<noteq> CHR ''_''"
    using hex is_hex_not_special by (auto simp: s)
  have no_x: "take 2 s \<noteq> ''0x''" "take 2 s \<noteq> ''0X''"
    using hex is_hex_not_special by (cases cs; auto simp: s)+
  have nsign: "\<not> startswith s ''-''" "\<not> startswith s ''+''" and nx: "strip_0x 16 s = s"
    using ns no_x by (auto simp: strip_0x_def s)
  obtain v where v: "digits_value 16 0 s = Some v"
    using digits_value_hex [OF hex] by blast
  have u: "unsigned_value 16 s = Some v"
    unfolding unsigned_value_def using ns v by (simp add: s del: digits_value.simps)
  have "py_int 16 s = Inr (int v)"
    unfolding py_int_def strip_hex [OF hex] Let_def using nsign nx u by (simp del: startswith_code)
  then show ?thesis by blast
qed

end
