(* ===== verification/Base64.thy ===== *)
theory Base64
  imports Prelude
begin

text \<open>
  \<open>base64.b64decode\<close> of the Python standard library, which the clients apply to what the validator
  sends: characters outside the alphabet are skipped, a padding sequence ends the data, and bits left
  over without padding raise \<open>binascii.Error\<close>. The encoder is the reference it is proved against.
\<close>

definition b64_chars :: string where
  "b64_chars = ''ABCDEFGHIJKLMNOPQRSTUVWXYZabcdefghijklmnopqrstuvwxyz0123456789+/''"

definition b64_value :: "char \<Rightarrow> nat option" where
  "b64_value c = map_of (zip b64_chars [0..<64]) c"

text \<open>The next character that is in the alphabet or is a padding character.\<close>

fun next_valid :: "string \<Rightarrow> char option" where
  "next_valid [] = None"
| "next_valid (c # cs) = (if c = CHR ''='' \<or> b64_value c \<noteq> None then Some c else next_valid cs)"

text \<open>
  The loop of \<open>a2b_base64\<close>: \<open>q\<close> is the position in the group of four characters, \<open>left\<close> holds the
  \<open>bits\<close> bits that do not fill a byte yet.
\<close>

fun a2b_loop :: "nat \<Rightarrow> nat \<Rightarrow> nat \<Rightarrow> string \<Rightarrow> string res" where
  "a2b_loop q left bits [] = (if bits = 0 then Inr [] else Inl BinasciiError)"
| "a2b_loop q left bits (c # cs) =
     (if c = CHR ''='' then
        (if q < 2 \<or> (q = 2 \<and> next_valid cs \<noteq> Some (CHR ''='')) then a2b_loop q left bits cs
         else Inr [])
      else (case b64_value c of
              None \<Rightarrow> a2b_loop q left bits cs
            | Some v \<Rightarrow>
                (let q' = (q + 1) mod 4; w = left * 64 + v; b = bits + 6 in
                 if b \<ge> 8
                 then rbind (a2b_loop q' (w mod 2 ^ (b - 8)) (b - 8) cs)
                        (\<lambda>r. Inr (char_of (w div 2 ^ (b - 8)) # r))
                 else a2b_loop q' w b cs)))"

definition b64decode :: "string \<Rightarrow> string res" where
  "b64decode s = a2b_loop 0 0 0 s"

definition b64_char :: "nat \<Rightarrow> char" where
  "b64_char n = b64_chars ! (n mod 64)"

fun b64encode :: "string \<Rightarrow> string" where
  "b64encode [] = []"
| "b64encode [a] =
     (let n = of_char a :: nat in [b64_char (n div 4), b64_char (n mod 4 * 16), CHR ''='', CHR ''=''])"
| "b64encode [a, b] =
     (let n = of_char a :: nat; m = of_char b :: nat in
      [b64_char (n div 4), b64_char (n mod 4 * 16 + m div 16), b64_char (m mod 16 * 4), CHR ''=''])"
| "b64encode (a # b # c # cs) =
     (let n = of_char a :: nat; m = of_char b :: nat; k = of_char c :: nat in
      [b64_char (n div 4), b64_char (n mod 4 * 16 + m div 16), b64_char (m mod 16 * 4 + k div 64),
       b64_char (k mod 64)] @ b64encode cs)"

lemma b64_value_char: "b64_value (b64_char n) = Some (n mod 64)"
proof -
  have "distinct b64_chars" "length b64_chars = 64" by (simp_all add: b64_chars_def)
  with map_of_zip_nth [of b64_chars "[0..<64]" "n mod 64"] show ?thesis
    by (simp add: b64_value_def b64_char_def)
qed

lemma b64_char_not_pad: "b64_char n \<noteq> CHR ''=''"
proof -
  have "b64_char n \<in> set b64_chars" unfolding b64_char_def by (rule nth_mem) (simp add: b64_chars_def)
  then show ?thesis by (auto simp: b64_chars_def)
qed

lemma a2b_loop_char:
  "a2b_loop q left bits (b64_char n # cs) =
     (let q' = (q + 1) mod 4; w = left * 64 + n mod 64; b = bits + 6 in
      if b \<ge> 8
      then rbind (a2b_loop q' (w mod 2 ^ (b - 8)) (b - 8) cs)
             (\<lambda>r. Inr (char_of (w div 2 ^ (b - 8)) # r))
      else a2b_loop q' w b cs)"
  by (simp add: b64_value_char b64_char_not_pad)

lemma of_char_less [simp]: "(of_char c :: nat) < 256"
  by (simp add: of_char_def)

text \<open>Splitting bytes at the boundaries of the groups of six bits.\<close>

lemma group_split:
  fixes n d k :: nat assumes "0 < k" and "d < j" and "j * k = 64"
  shows "(n mod k * j + d) mod 64 = n mod k * j + d"
    "(n div k * 64 + (n mod k * j + d)) div j = n"
    "(n div k * 64 + (n mod k * j + d)) mod j = d"
proof -
  have "n mod k * j + d < 64"
  proof -
    have "n mod k \<le> k - 1" using assms(1) by (simp add: Suc_leI less_Suc_eq_le [symmetric])
    then have "n mod k * j \<le> (k - 1) * j" by (rule mult_le_mono1)
    also have "(k - 1) * j = 64 - j" using assms(3) by (simp add: diff_mult_distrib mult.commute [of k j])
    finally show ?thesis using assms by (cases k) auto
  qed
  then show "(n mod k * j + d) mod 64 = n mod k * j + d" by simp
  have "n div k * 64 + (n mod k * j + d) = d + (n div k * k + n mod k) * j"
    unfolding assms(3) [symmetric] by (simp only: algebra_simps)
  then have e: "n div k * 64 + (n mod k * j + d) = d + n * j" by simp
  show "(n div k * 64 + (n mod k * j + d)) div j = n" "(n div k * 64 + (n mod k * j + d)) mod j = d"
    unfolding e using assms(2) by simp_all
qed

lemmas byte_parts =
  group_split [where k = 4 and j = 16, simplified] group_split [where k = 16 and j = 4, simplified]

lemma byte_mod: "(of_char c :: nat) div 4 mod 64 = of_char c div 4"
  using of_char_less [of c] by (simp add: div_less_iff_less_mult)

lemma byte_div: "(of_char c :: nat) div 16 < 16" "(of_char c :: nat) div 64 < 4"
  using of_char_less [of c] by linarith+

lemmas byte_simps = byte_parts byte_parts [where d = 0, simplified] byte_div byte_mod

lemma b64decode_encode_loop: "a2b_loop 0 0 0 (b64encode s) = Inr s"
proof (induction s rule: b64encode.induct)
  case 1
  then show ?case by simp
next
  case (2 a)
  then show ?case
    by (simp add: a2b_loop_char Let_def byte_simps del: a2b_loop.simps(2)) (simp add: byte_simps)
next
  case (3 a b)
  then show ?case
    by (simp add: a2b_loop_char Let_def byte_simps del: a2b_loop.simps(2)) (simp add: byte_simps)
next
  case (4 a b c cs)
  then show ?case
    by (simp add: a2b_loop_char Let_def byte_simps del: a2b_loop.simps(2))
qed

lemma b64decode_encode [simp]: "b64decode (b64encode s) = Inr s"
  by (simp add: b64decode_def b64decode_encode_loop)

lemma a2b_loop_error: "a2b_loop q left bits s = Inl e \<Longrightarrow> e = BinasciiError"
  by (induction q left bits s rule: a2b_loop.induct)
    (auto simp: Let_def res_simps split: if_splits option.splits)

lemma b64decode_error: "b64decode s = Inl e \<Longrightarrow> e = BinasciiError"
  unfolding b64decode_def by (rule a2b_loop_error)

end
