(* ===== verification/Messages.thy ===== *)
theory Messages
  imports Prelude
begin

text \<open>
  The protocol buffer messages the transaction processors exchange and store, with the fields the
  sources read and write, and the interface to the protocol buffer library. The message classes
  are generated at build time from the submodule \<open>protos\<close>; the field types are the ones the
  chapters on the transaction families under \<open>src/docs\<close> give (\<open>uint64\<close> amounts, \<open>uint32\<close> times).
  An unsigned field is an integer that every assignment checks (\<^const>\<open>set_uint\<close>).

  The wire format is a parameter of the model: \<open>'b\<close> is the type of serialised messages and a
  value of \<open>pblib\<close> holds the functions of the library the sources call.
\<close>

section \<open>State entries\<close>

record Account =
  balance :: int
  pub_keys :: "string list"

definition Account_default :: Account where
  "Account_default = \<lparr>balance = 0, pub_keys = []\<rparr>"

record GenesisStatus =
  status :: bool

definition GenesisStatus_default :: GenesisStatus where
  "GenesisStatus_default = \<lparr>status = False\<rparr>"

datatype swap_status = OPENED | SECRET_LOCK_PROVIDED | APPROVED | CLOSED | EXPIRED

record AtomicSwapInfo =
  swap_id :: string
  state :: swap_status
  amount :: int
  created_at :: int
  secret_lock :: string
  secret_key :: string
  email_address_encrypted_optional :: string
  sender_address :: string
  sender_address_non_local :: string
  receiver_address :: string
  is_initiator :: bool

datatype configuration =
    RSAConfiguration string int    \<comment> \<open>\<open>key\<close>, \<open>padding\<close>\<close>
  | ECDSAConfiguration string int  \<comment> \<open>\<open>key\<close>, \<open>ec\<close>\<close>
  | Ed25519Configuration string    \<comment> \<open>\<open>key\<close>\<close>

fun config_key :: "configuration \<Rightarrow> string" where
  "config_key (RSAConfiguration k p) = k"
| "config_key (ECDSAConfiguration k e) = k"
| "config_key (Ed25519Configuration k) = k"

record NewPubKeyPayload =
  hashing_algorithm :: int
  entity_hash :: string
  entity_hash_signature :: string
  valid_from :: int
  valid_to :: int
  which_configuration :: "configuration option"

record PubKeyStorage =
  owner :: string
  payload :: NewPubKeyPayload
  is_revoked :: bool

record Setting =
  entries :: "(string \<times> string) list"

record BlockInfoConfig =
  latest_block :: int
  oldest_block :: int

record BlockInfo =
  block_num :: int
  previous_block_id :: string
  signer_public_key :: string
  header_signature :: string
  timestamp :: int

section \<open>Transaction payloads\<close>

record TransferPayload =
  address_to :: string
  tp_value :: int

record GenesisPayload =
  total_supply :: int

record NewPubKeyStoreAndPayPayload =
  pub_key_payload :: NewPubKeyPayload
  owner_public_key :: string
  signature_by_owner :: string

record RevokePubKeyPayload =
  revoke_address :: string

record AtomicSwapInitPayload =
  init_receiver_address :: string
  init_sender_address_non_local :: string
  init_amount :: int
  init_swap_id :: string
  init_secret_lock_by_solicitor :: string
  init_email_address_encrypted_by_initiator :: string
  init_created_at :: int

record AtomicSwapApprovePayload =
  approve_swap_id :: string

record AtomicSwapExpirePayload =
  expire_swap_id :: string

record AtomicSwapSetSecretLockPayload =
  lock_swap_id :: string
  lock_secret_lock :: string

record AtomicSwapClosePayload =
  close_swap_id :: string
  close_secret_key :: string

section \<open>Messages of any class\<close>

datatype message =
    AccountM Account
  | GenesisStatusM GenesisStatus
  | AtomicSwapInfoM AtomicSwapInfo
  | PubKeyStorageM PubKeyStorage
  | SettingM Setting
  | BlockInfoConfigM BlockInfoConfig
  | BlockInfoM BlockInfo
  | TransferPayloadM TransferPayload
  | GenesisPayloadM GenesisPayload
  | NewPubKeyPayloadM NewPubKeyPayload
  | NewPubKeyStoreAndPayPayloadM NewPubKeyStoreAndPayPayload
  | RevokePubKeyPayloadM RevokePubKeyPayload
  | AtomicSwapInitPayloadM AtomicSwapInitPayload
  | AtomicSwapApprovePayloadM AtomicSwapApprovePayload
  | AtomicSwapExpirePayloadM AtomicSwapExpirePayload
  | AtomicSwapSetSecretLockPayloadM AtomicSwapSetSecretLockPayload
  | AtomicSwapClosePayloadM AtomicSwapClosePayload

datatype pb_class =
    AccountC | GenesisStatusC | AtomicSwapInfoC | PubKeyStorageC | SettingC
  | BlockInfoConfigC | BlockInfoC | TransferPayloadC | GenesisPayloadC | NewPubKeyPayloadC
  | NewPubKeyStoreAndPayPayloadC | RevokePubKeyPayloadC | AtomicSwapInitPayloadC
  | AtomicSwapApprovePayloadC | AtomicSwapExpirePayloadC | AtomicSwapSetSecretLockPayloadC
  | AtomicSwapClosePayloadC

fun class_of :: "message \<Rightarrow> pb_class" where
  "class_of (AccountM x) = AccountC"
| "class_of (GenesisStatusM x) = GenesisStatusC"
| "class_of (AtomicSwapInfoM x) = AtomicSwapInfoC"
| "class_of (PubKeyStorageM x) = PubKeyStorageC"
| "class_of (SettingM x) = SettingC"
| "class_of (BlockInfoConfigM x) = BlockInfoConfigC"
| "class_of (BlockInfoM x) = BlockInfoC"
| "class_of (TransferPayloadM x) = TransferPayloadC"
| "class_of (GenesisPayloadM x) = GenesisPayloadC"
| "class_of (NewPubKeyPayloadM x) = NewPubKeyPayloadC"
| "class_of (NewPubKeyStoreAndPayPayloadM x) = NewPubKeyStoreAndPayPayloadC"
| "class_of (RevokePubKeyPayloadM x) = RevokePubKeyPayloadC"
| "class_of (AtomicSwapInitPayloadM x) = AtomicSwapInitPayloadC"
| "class_of (AtomicSwapApprovePayloadM x) = AtomicSwapApprovePayloadC"
| "class_of (AtomicSwapExpirePayloadM x) = AtomicSwapExpirePayloadC"
| "class_of (AtomicSwapSetSecretLockPayloadM x) = AtomicSwapSetSecretLockPayloadC"
| "class_of (AtomicSwapClosePayloadM x) = AtomicSwapClosePayloadC"

text \<open>\<open>pb.__class__.__name__\<close>\<close>

fun class_name :: "pb_class \<Rightarrow> string" where
  "class_name AccountC = ''Account''"
| "class_name GenesisStatusC = ''GenesisStatus''"
| "class_name AtomicSwapInfoC = ''AtomicSwapInfo''"
| "class_name PubKeyStorageC = ''PubKeyStorage''"
| "class_name SettingC = ''Setting''"
| "class_name BlockInfoConfigC = ''BlockInfoConfig''"
| "class_name BlockInfoC = ''BlockInfo''"
| "class_name TransferPayloadC = ''TransferPayload''"
| "class_name GenesisPayloadC = ''GenesisPayload''"
| "class_name NewPubKeyPayloadC = ''NewPubKeyPayload''"
| "class_name NewPubKeyStoreAndPayPayloadC = ''NewPubKeyStoreAndPayPayload''"
| "class_name RevokePubKeyPayloadC = ''RevokePubKeyPayload''"
| "class_name AtomicSwapInitPayloadC = ''AtomicSwapInitPayload''"
| "class_name AtomicSwapApprovePayloadC = ''AtomicSwapApprovePayload''"
| "class_name AtomicSwapExpirePayloadC = ''AtomicSwapExpirePayload''"
| "class_name AtomicSwapSetSecretLockPayloadC = ''AtomicSwapSetSecretLockPayload''"
| "class_name AtomicSwapClosePayloadC = ''AtomicSwapClosePayload''"

text \<open>
  The library yields messages of the class it was asked for; reading a field of a message of
  another class would be an \<open>AttributeError\<close>. The projections below are the places where a
  processor starts to read fields of what it loaded.
\<close>

fun as_account :: "message option \<Rightarrow> Account option res" where
  "as_account None = Inr None"
| "as_account (Some (AccountM x)) = Inr (Some x)"
| "as_account (Some _) = Inl AttributeError"

fun as_genesis_status :: "message option \<Rightarrow> GenesisStatus option res" where
  "as_genesis_status None = Inr None"
| "as_genesis_status (Some (GenesisStatusM x)) = Inr (Some x)"
| "as_genesis_status (Some _) = Inl AttributeError"

fun as_swap_info :: "message option \<Rightarrow> AtomicSwapInfo option res" where
  "as_swap_info None = Inr None"
| "as_swap_info (Some (AtomicSwapInfoM x)) = Inr (Some x)"
| "as_swap_info (Some _) = Inl AttributeError"

fun as_pub_key_storage :: "message option \<Rightarrow> PubKeyStorage option res" where
  "as_pub_key_storage None = Inr None"
| "as_pub_key_storage (Some (PubKeyStorageM x)) = Inr (Some x)"
| "as_pub_key_storage (Some _) = Inl AttributeError"

fun as_setting :: "message option \<Rightarrow> Setting option res" where
  "as_setting None = Inr None"
| "as_setting (Some (SettingM x)) = Inr (Some x)"
| "as_setting (Some _) = Inl AttributeError"

fun as_block_info_config :: "message option \<Rightarrow> BlockInfoConfig option res" where
  "as_block_info_config None = Inr None"
| "as_block_info_config (Some (BlockInfoConfigM x)) = Inr (Some x)"
| "as_block_info_config (Some _) = Inl AttributeError"

fun as_block_info :: "message option \<Rightarrow> BlockInfo option res" where
  "as_block_info None = Inr None"
| "as_block_info (Some (BlockInfoM x)) = Inr (Some x)"
| "as_block_info (Some _) = Inl AttributeError"

lemma as_account_Inr [res_simps]:
  "as_account m = Inr a \<longleftrightarrow> m = map_option AccountM a"
  by (cases a; cases m rule: as_account.cases) auto

lemma as_genesis_status_Inr [res_simps]:
  "as_genesis_status m = Inr a \<longleftrightarrow> m = map_option GenesisStatusM a"
  by (cases a; cases m rule: as_genesis_status.cases) auto

lemma as_swap_info_Inr [res_simps]:
  "as_swap_info m = Inr a \<longleftrightarrow> m = map_option AtomicSwapInfoM a"
  by (cases a; cases m rule: as_swap_info.cases) auto

lemma as_pub_key_storage_Inr [res_simps]:
  "as_pub_key_storage m = Inr a \<longleftrightarrow> m = map_option PubKeyStorageM a"
  by (cases a; cases m rule: as_pub_key_storage.cases) auto

lemma as_setting_Inr [res_simps]:
  "as_setting m = Inr a \<longleftrightarrow> m = map_option SettingM a"
  by (cases a; cases m rule: as_setting.cases) auto

lemma as_block_info_config_Inr [res_simps]:
  "as_block_info_config m = Inr a \<longleftrightarrow> m = map_option BlockInfoConfigM a"
  by (cases a; cases m rule: as_block_info_config.cases) auto

lemma as_block_info_Inr [res_simps]:
  "as_block_info m = Inr a \<longleftrightarrow> m = map_option BlockInfoM a"
  by (cases a; cases m rule: as_block_info.cases) auto

lemma as_account_map [simp]: "as_account (map_option AccountM a) = Inr a"
  by (cases a) auto

lemma as_genesis_status_map [simp]: "as_genesis_status (map_option GenesisStatusM a) = Inr a"
  by (cases a) auto

lemma as_swap_info_map [simp]: "as_swap_info (map_option AtomicSwapInfoM a) = Inr a"
  by (cases a) auto

lemma as_pub_key_storage_map [simp]: "as_pub_key_storage (map_option PubKeyStorageM a) = Inr a"
  by (cases a) auto

lemma as_setting_map [simp]: "as_setting (map_option SettingM a) = Inr a"
  by (cases a) auto

lemma as_block_info_config_map [simp]: "as_block_info_config (map_option BlockInfoConfigM a) = Inr a"
  by (cases a) auto

lemma as_block_info_map [simp]: "as_block_info (map_option BlockInfoM a) = Inr a"
  by (cases a) auto

section \<open>Values of a decoded message\<close>

text \<open>
  The values of the dictionaries \<open>MessageToDict\<close> and JSON decoding build. The only floats the sources
  compute hold whole numbers, which is what \<open>PFloat\<close> carries.
\<close>

datatype pyval =
    PNone
  | PBool bool
  | PInt int
  | PFloat int
  | PStr string
  | PList "pyval list"
  | PDict "(string \<times> pyval) list"

section \<open>The protocol buffer library\<close>

text \<open>
  \<open>ParseFromString c d\<close> is \<open>pb = c(); pb.ParseFromString(d)\<close>; \<open>Parse_TransactionPayload\<close> is the
  same for the outer envelope, whose \<open>data\<close> field is itself a serialised message.
  \<open>MessageToDict\<close> has the options of \<open>message_to_dict\<close> of \<open>remme/shared/utils.py\<close>. \<open>EnumValue E n\<close>
  is the number of item \<open>n\<close> of the generated enumeration \<open>E\<close> and \<open>EnumName E i\<close> its inverse
  \<open>E.Name(i)\<close>, which raises for a number without an item.
\<close>

record 'b pblib =
  ParseFromString :: "pb_class \<Rightarrow> 'b \<Rightarrow> message res"
  SerializeToString :: "message \<Rightarrow> 'b"
  Parse_TransactionPayload :: "'b \<Rightarrow> (int \<times> 'b) res"
  MessageToDict :: "message \<Rightarrow> (string \<times> pyval) list"
  EnumValue :: "string \<Rightarrow> string \<Rightarrow> int"
  EnumName :: "string \<Rightarrow> int \<Rightarrow> string res"

text \<open>
  The range of the unsigned fields: a message object never holds a value outside, since assigning
  one raises.
\<close>

abbreviation uint :: "nat \<Rightarrow> int \<Rightarrow> bool" where
  "uint w n \<equiv> 0 \<le> n \<and> n < 2 ^ w"

definition valid_pub_key :: "NewPubKeyPayload \<Rightarrow> bool" where
  "valid_pub_key p \<longleftrightarrow> uint 32 (valid_from p) \<and> uint 32 (valid_to p)"

fun valid_message :: "message \<Rightarrow> bool" where
  "valid_message (AccountM x) = uint 64 (balance x)"
| "valid_message (AtomicSwapInfoM x) = (uint 64 (amount x) \<and> uint 32 (created_at x))"
| "valid_message (PubKeyStorageM x) = valid_pub_key (payload x)"
| "valid_message (BlockInfoConfigM x) = (uint 64 (latest_block x) \<and> uint 64 (oldest_block x))"
| "valid_message (BlockInfoM x) = (uint 64 (block_num x) \<and> uint 64 (timestamp x))"
| "valid_message (TransferPayloadM x) = uint 64 (tp_value x)"
| "valid_message (GenesisPayloadM x) = uint 64 (total_supply x)"
| "valid_message (NewPubKeyPayloadM x) = valid_pub_key x"
| "valid_message (NewPubKeyStoreAndPayPayloadM x) = valid_pub_key (pub_key_payload x)"
| "valid_message (AtomicSwapInitPayloadM x) = (uint 64 (init_amount x) \<and> uint 32 (init_created_at x))"
| "valid_message _ = True"

text \<open>
  What the code relies on of the library: parsing yields a message of the requested class with its
  fields in range, parsing what was serialised gives the message back, and the only exception of
  parsing is \<open>google.protobuf.message.DecodeError\<close>.
\<close>

definition pb_typed :: "'b pblib \<Rightarrow> bool" where
  "pb_typed P \<longleftrightarrow> (\<forall>c d m. ParseFromString P c d = Inr m \<longrightarrow> class_of m = c \<and> valid_message m)"

definition pb_roundtrip :: "'b pblib \<Rightarrow> bool" where
  "pb_roundtrip P \<longleftrightarrow>
     (\<forall>m. valid_message m \<longrightarrow> ParseFromString P (class_of m) (SerializeToString P m) = Inr m)"

definition pb_decode_errors :: "'b pblib \<Rightarrow> bool" where
  "pb_decode_errors P \<longleftrightarrow> (\<forall>c d e. ParseFromString P c d = Inl e \<longrightarrow> e = DecodeError)"

lemma pb_typedD: "pb_typed P \<Longrightarrow> ParseFromString P c d = Inr m \<Longrightarrow> class_of m = c"
  by (simp add: pb_typed_def)

lemma pb_validD: "pb_typed P \<Longrightarrow> ParseFromString P c d = Inr m \<Longrightarrow> valid_message m"
  by (simp add: pb_typed_def)

lemma pb_roundtripD:
  "pb_roundtrip P \<Longrightarrow> valid_message m \<Longrightarrow> class_of m = c \<Longrightarrow>
   ParseFromString P c (SerializeToString P m) = Inr m"
  by (auto simp: pb_roundtrip_def)

lemma class_of_AccountC: "class_of m = AccountC \<longleftrightarrow> (\<exists>x. m = AccountM x)"
  by (cases m) auto

lemma class_of_GenesisStatusC: "class_of m = GenesisStatusC \<longleftrightarrow> (\<exists>x. m = GenesisStatusM x)"
  by (cases m) auto

lemma class_of_AtomicSwapInfoC: "class_of m = AtomicSwapInfoC \<longleftrightarrow> (\<exists>x. m = AtomicSwapInfoM x)"
  by (cases m) auto

lemma class_of_PubKeyStorageC: "class_of m = PubKeyStorageC \<longleftrightarrow> (\<exists>x. m = PubKeyStorageM x)"
  by (cases m) auto

lemma class_of_SettingC: "class_of m = SettingC \<longleftrightarrow> (\<exists>x. m = SettingM x)"
  by (cases m) auto

section \<open>A concrete library\<close>

text \<open>
  A library that satisfies all three: messages are their own serialisation, and bytes of another
  class do not decode. It instantiates the parameter where the development evaluates the model.
  The decoded dictionaries are those of the payloads the evaluations use, and the enumerations
  number their items from zero in the order of the documentation.
\<close>

datatype wire = Wire message | Envelope int wire | Garbage

fun wire_parse :: "pb_class \<Rightarrow> wire \<Rightarrow> message res" where
  "wire_parse c (Wire m) =
     (if class_of m = c \<and> valid_message m then Inr m else Inl DecodeError)"
| "wire_parse c _ = Inl DecodeError"

fun wire_parse_envelope :: "wire \<Rightarrow> (int \<times> wire) res" where
  "wire_parse_envelope (Envelope n d) = Inr (n, d)"
| "wire_parse_envelope _ = Inl DecodeError"

fun config_dict :: "configuration option \<Rightarrow> (string \<times> pyval) list" where
  "config_dict None = []"
| "config_dict (Some (RSAConfiguration k p)) =
     [(''rsa'', PDict [(''key'', PStr k), (''padding'', PInt p)])]"
| "config_dict (Some (ECDSAConfiguration k ec)) =
     [(''ecdsa'', PDict [(''key'', PStr k), (''ec'', PInt ec)])]"
| "config_dict (Some (Ed25519Configuration k)) = [(''ed25519'', PDict [(''key'', PStr k)])]"

definition pub_key_dict :: "NewPubKeyPayload \<Rightarrow> (string \<times> pyval) list" where
  "pub_key_dict x =
     [(''hashing_algorithm'', PInt (hashing_algorithm x)),
      (''entity_hash'', PStr (entity_hash x)),
      (''entity_hash_signature'', PStr (entity_hash_signature x)),
      (''valid_from'', PInt (valid_from x)), (''valid_to'', PInt (valid_to x))]
     @ config_dict (which_configuration x)"

text \<open>\<open>MessageToDict\<close> renders 64 bit integers as decimal strings.\<close>

fun wire_dict :: "message \<Rightarrow> (string \<times> pyval) list" where
  "wire_dict (AccountM x) =
     [(''balance'', PStr (py_str (balance x))), (''pub_keys'', PList (map PStr (pub_keys x)))]"
| "wire_dict (GenesisStatusM x) = [(''status'', PBool (status x))]"
| "wire_dict (TransferPayloadM x) =
     [(''address_to'', PStr (address_to x)), (''value'', PStr (py_str (tp_value x)))]"
| "wire_dict (GenesisPayloadM x) = [(''total_supply'', PStr (py_str (total_supply x)))]"
| "wire_dict (NewPubKeyPayloadM x) = pub_key_dict x"
| "wire_dict (NewPubKeyStoreAndPayPayloadM x) =
     [(''pub_key_payload'', PDict (pub_key_dict (pub_key_payload x))),
      (''owner_public_key'', PStr (owner_public_key x)),
      (''signature_by_owner'', PStr (signature_by_owner x))]"
| "wire_dict (RevokePubKeyPayloadM x) = [(''address'', PStr (revoke_address x))]"
| "wire_dict (AtomicSwapInitPayloadM x) =
     [(''receiver_address'', PStr (init_receiver_address x)),
      (''sender_address_non_local'', PStr (init_sender_address_non_local x)),
      (''amount'', PStr (py_str (init_amount x))),
      (''swap_id'', PStr (init_swap_id x)),
      (''secret_lock_by_solicitor'', PStr (init_secret_lock_by_solicitor x)),
      (''email_address_encrypted_by_initiator'', PStr (init_email_address_encrypted_by_initiator x)),
      (''created_at'', PInt (init_created_at x))]"
| "wire_dict (AtomicSwapApprovePayloadM x) = [(''swap_id'', PStr (approve_swap_id x))]"
| "wire_dict (AtomicSwapExpirePayloadM x) = [(''swap_id'', PStr (expire_swap_id x))]"
| "wire_dict (AtomicSwapSetSecretLockPayloadM x) =
     [(''swap_id'', PStr (lock_swap_id x)), (''secret_lock'', PStr (lock_secret_lock x))]"
| "wire_dict (AtomicSwapClosePayloadM x) =
     [(''swap_id'', PStr (close_swap_id x)), (''secret_key'', PStr (close_secret_key x))]"
| "wire_dict _ = []"

definition wire_items :: "string \<Rightarrow> string list" where
  "wire_items E =
     (if E = ''AccountMethod'' then [''TRANSFER'', ''GENESIS'']
      else if E = ''PubKeyMethod'' then [''STORE'', ''REVOKE'', ''STORE_AND_PAY'']
      else if E = ''AtomicSwapMethod'' then
        [''INIT'', ''APPROVE'', ''EXPIRE'', ''SET_SECRET_LOCK'', ''CLOSE'']
      else if E = ''HashingAlgorithm'' then [''SHA256'', ''SHA512'']
      else if E = ''Padding'' then [''EMPTY'', ''PSS'', ''PKCS1v15'']
      else [])"

fun position :: "'a list \<Rightarrow> 'a \<Rightarrow> int" where
  "position [] x = 0"
| "position (y # ys) x = (if x = y then 0 else 1 + position ys x)"

definition wire_lib :: "wire pblib" where
  "wire_lib = \<lparr>
     ParseFromString = wire_parse,
     SerializeToString = Wire,
     Parse_TransactionPayload = wire_parse_envelope,
     MessageToDict = wire_dict,
     EnumValue = (\<lambda>E n. position (wire_items E) n),
     EnumName = (\<lambda>E i. if 0 \<le> i \<and> i < int (length (wire_items E))
                       then Inr (wire_items E ! nat i) else Inl ValueError) \<rparr>"

lemma wire_lib_simps [simp]:
  "ParseFromString wire_lib = wire_parse" "SerializeToString wire_lib = Wire"
  "Parse_TransactionPayload wire_lib = wire_parse_envelope" "MessageToDict wire_lib = wire_dict"
  by (simp_all add: wire_lib_def)

lemma wire_parse_Inr: "wire_parse c d = Inr m \<longleftrightarrow> d = Wire m \<and> class_of m = c \<and> valid_message m"
  by (cases d) auto

lemma wire_parse_Inl: "wire_parse c d = Inl e \<Longrightarrow> e = DecodeError"
  by (cases d) (auto split: if_splits)

lemma wire_lib_typed [simp]: "pb_typed wire_lib"
  by (simp add: pb_typed_def wire_lib_def wire_parse_Inr)

lemma wire_lib_roundtrip [simp]: "pb_roundtrip wire_lib"
  by (simp add: pb_roundtrip_def wire_lib_def)

lemma wire_lib_decode_errors [simp]: "pb_decode_errors wire_lib"
  by (auto simp: pb_decode_errors_def wire_lib_def dest: wire_parse_Inl)

end
