(* ===== verification/Forms.thy ===== *)
theory Forms
  imports Messages
begin

text \<open>
  The payload forms of \<open>remme/shared/forms\<close>: the field tables of the form classes, \<open>ProtoForm\<close> with
  its loading of a decoded message (\<open>load_data\<close>, \<open>_gen_load\<close>) and its check for unknown keys, and
  the validation of \<open>NewPublicKeyPayloadForm\<close>, which rewrites the error dictionary.

  The fields and validators themselves are classes of the library \<open>wtforms\<close>. How one plain field
  validates one value is a parameter \<open>wt\<close> of the model; \<open>wt_documented\<close> is the documented behaviour
  of the fields and validators the forms use, a named hypothesis of the theorems that depend on it.
\<close>

section \<open>Form classes and their fields\<close>

text \<open>\<open>Regexp n m\<close> is \<open>validators.Regexp('[0-9a-f]{n}', message=m)\<close>.\<close>

datatype validator = DataRequired "string option" | Regexp nat string | OptionalData

datatype form_class =
    ProtoForm
  | TransferPayloadForm
  | GenesisPayloadForm
  | AddressForm string
  | RSAConfigurationForm
  | ECDSAConfigurationForm
  | Ed25519ConfigurationForm
  | NewPublicKeyPayloadForm
  | NewPubKeyStoreAndPayPayloadForm
  | RevokePubKeyPayloadForm
  | AtomicSwapInitPayloadForm
  | AtomicSwapApprovePayloadForm
  | AtomicSwapExpirePayloadForm
  | AtomicSwapSetSecretLockPayloadForm
  | AtomicSwapClosePayloadForm
  | AtomicSwapForm
  | IdentifierForm
  | IdentifiersForm
  | NodePKForm

text \<open>A select field carries the name of the enumeration whose items are its choices.\<close>

datatype field =
    StringField "validator list"
  | IntegerField "validator list"
  | SelectField string
  | FieldList field nat
  | FormField form_class

definition AddressField :: field where
  "AddressField = StringField
     [DataRequired (Some ''Missed address''),
      Regexp 70 ''Address is not of a blockchain token type.'']"

definition SwapIDField :: field where
  "SwapIDField = StringField
     [DataRequired (Some ''Missed swap_id''),
      Regexp 64 ''Incorrect atomic swap identifier.'']"

definition IDField :: field where
  "IDField = StringField
     [DataRequired (Some ''Missed id''), Regexp 128 ''Incorrect identifier.'']"

abbreviation required :: "validator list" where
  "required \<equiv> [DataRequired None]"

definition TransferPayloadForm_fields :: "(string \<times> field) list" where
  "TransferPayloadForm_fields =
     [(''address_to'', AddressField),
      (''value'', IntegerField [DataRequired (Some ''Could not transfer with zero amount.'')])]"

definition GenesisPayloadForm_fields :: "(string \<times> field) list" where
  "GenesisPayloadForm_fields =
     [(''total_supply'', IntegerField required)]"

definition AddressForm_fields :: "string \<Rightarrow> (string \<times> field) list" where
  "AddressForm_fields name = [(name, AddressField)]"

definition RSAConfigurationForm_fields :: "(string \<times> field) list" where
  "RSAConfigurationForm_fields =
     [(''key'', StringField required), (''padding'', SelectField ''Padding'')]"

definition ECDSAConfigurationForm_fields :: "(string \<times> field) list" where
  "ECDSAConfigurationForm_fields =
     [(''key'', StringField required), (''ec'', SelectField ''EC'')]"

definition Ed25519ConfigurationForm_fields :: "(string \<times> field) list" where
  "Ed25519ConfigurationForm_fields =
     [(''key'', StringField required)]"

definition NewPublicKeyPayloadForm_fields :: "(string \<times> field) list" where
  "NewPublicKeyPayloadForm_fields =
     [(''hashing_algorithm'', SelectField ''HashingAlgorithm''),
      (''entity_hash'', StringField required),
      (''entity_hash_signature'', StringField required),
      (''valid_from'', IntegerField required),
      (''valid_to'', IntegerField required),
      (''rsa'', FormField RSAConfigurationForm),
      (''ecdsa'', FormField ECDSAConfigurationForm),
      (''ed25519'', FormField Ed25519ConfigurationForm)]"

definition NewPubKeyStoreAndPayPayloadForm_fields :: "(string \<times> field) list" where
  "NewPubKeyStoreAndPayPayloadForm_fields =
     [(''pub_key_payload'', FormField NewPublicKeyPayloadForm),
      (''owner_public_key'', StringField required),
      (''signature_by_owner'', StringField required)]"

definition RevokePubKeyPayloadForm_fields :: "(string \<times> field) list" where
  "RevokePubKeyPayloadForm_fields =
     [(''address'', AddressField)]"

definition AtomicSwapInitPayloadForm_fields :: "(string \<times> field) list" where
  "AtomicSwapInitPayloadForm_fields =
     [(''receiver_address'', AddressField),
      (''sender_address_non_local'', StringField required),
      (''amount'', IntegerField required),
      (''swap_id'', SwapIDField),
      (''secret_lock_by_solicitor'', StringField [OptionalData]),
      (''email_address_encrypted_by_initiator'', StringField [OptionalData]),
      (''created_at'', IntegerField required)]"

definition AtomicSwapApprovePayloadForm_fields :: "(string \<times> field) list" where
  "AtomicSwapApprovePayloadForm_fields =
     [(''swap_id'', SwapIDField)]"

definition AtomicSwapExpirePayloadForm_fields :: "(string \<times> field) list" where
  "AtomicSwapExpirePayloadForm_fields =
     [(''swap_id'', SwapIDField)]"

definition AtomicSwapSetSecretLockPayloadForm_fields :: "(string \<times> field) list" where
  "AtomicSwapSetSecretLockPayloadForm_fields =
     [(''swap_id'', SwapIDField), (''secret_lock'', StringField required)]"

definition AtomicSwapClosePayloadForm_fields :: "(string \<times> field) list" where
  "AtomicSwapClosePayloadForm_fields =
     [(''swap_id'', SwapIDField), (''secret_key'', StringField required)]"

definition AtomicSwapForm_fields :: "(string \<times> field) list" where
  "AtomicSwapForm_fields =
     [(''swap_id'', SwapIDField)]"

definition IdentifierForm_fields :: "(string \<times> field) list" where
  "IdentifierForm_fields =
     [(''id'', IDField)]"

definition IdentifiersForm_fields :: "(string \<times> field) list" where
  "IdentifiersForm_fields =
     [(''ids'', FieldList (StringField
         [DataRequired (Some ''Missed ids''), Regexp 128 ''Incorrect identifier.'']) 1)]"

definition NodePKForm_fields :: "(string \<times> field) list" where
  "NodePKForm_fields =
     [(''private_key'', StringField
         [DataRequired (Some ''Missed private_key''), Regexp 64 ''Incorrect private key.''])]"

fun form_fields :: "form_class \<Rightarrow> (string \<times> field) list" where
  "form_fields ProtoForm = []"
| "form_fields TransferPayloadForm = TransferPayloadForm_fields"
| "form_fields GenesisPayloadForm = GenesisPayloadForm_fields"
| "form_fields (AddressForm name) = AddressForm_fields name"
| "form_fields RSAConfigurationForm = RSAConfigurationForm_fields"
| "form_fields ECDSAConfigurationForm = ECDSAConfigurationForm_fields"
| "form_fields Ed25519ConfigurationForm = Ed25519ConfigurationForm_fields"
| "form_fields NewPublicKeyPayloadForm = NewPublicKeyPayloadForm_fields"
| "form_fields NewPubKeyStoreAndPayPayloadForm = NewPubKeyStoreAndPayPayloadForm_fields"
| "form_fields RevokePubKeyPayloadForm = RevokePubKeyPayloadForm_fields"
| "form_fields AtomicSwapInitPayloadForm = AtomicSwapInitPayloadForm_fields"
| "form_fields AtomicSwapApprovePayloadForm = AtomicSwapApprovePayloadForm_fields"
| "form_fields AtomicSwapExpirePayloadForm = AtomicSwapExpirePayloadForm_fields"
| "form_fields AtomicSwapSetSecretLockPayloadForm = AtomicSwapSetSecretLockPayloadForm_fields"
| "form_fields AtomicSwapClosePayloadForm = AtomicSwapClosePayloadForm_fields"
| "form_fields AtomicSwapForm = AtomicSwapForm_fields"
| "form_fields IdentifierForm = IdentifierForm_fields"
| "form_fields IdentifiersForm = IdentifiersForm_fields"
| "form_fields NodePKForm = NodePKForm_fields"

lemmas form_fields_defs =
  TransferPayloadForm_fields_def GenesisPayloadForm_fields_def AddressForm_fields_def
  RSAConfigurationForm_fields_def ECDSAConfigurationForm_fields_def Ed25519ConfigurationForm_fields_def
  NewPublicKeyPayloadForm_fields_def NewPubKeyStoreAndPayPayloadForm_fields_def RevokePubKeyPayloadForm_fields_def
  AtomicSwapInitPayloadForm_fields_def AtomicSwapApprovePayloadForm_fields_def AtomicSwapExpirePayloadForm_fields_def
  AtomicSwapSetSecretLockPayloadForm_fields_def AtomicSwapClosePayloadForm_fields_def AtomicSwapForm_fields_def
  IdentifierForm_fields_def IdentifiersForm_fields_def NodePKForm_fields_def

text \<open>How deep forms nest; the recursions over nested forms decrease it.\<close>

fun form_depth :: "form_class \<Rightarrow> nat" where
  "form_depth NewPubKeyStoreAndPayPayloadForm = 2"
| "form_depth NewPublicKeyPayloadForm = 1"
| "form_depth _ = 0"

lemma form_depth_sub: "(n, FormField g) \<in> set (form_fields f) \<Longrightarrow> form_depth g < form_depth f"
  by (cases f) (auto simp: form_fields_defs AddressField_def SwapIDField_def IDField_def)

section \<open>Loading\<close>

text \<open>
  \<open>_gen_load\<close>: every plain field gets the decoded value, converted to an integer when its printed
  form consists of digits; fields that are forms are loaded recursively; keys that are not fields
  are skipped. Only whether the printed form is all digits matters, so the printed forms of lists
  and dictionaries are cut after their bracket.
\<close>

fun py_print :: "pyval \<Rightarrow> string" where
  "py_print (PInt n) = py_str n"
| "py_print (PFloat n) = py_str n @ ''.0''"
| "py_print (PStr s) = s"
| "py_print PNone = ''None''"
| "py_print (PBool b) = (if b then ''True'' else ''False'')"
| "py_print (PList xs) = ''[''"
| "py_print (PDict xs) = ''{''"

fun decimal_value :: "string \<Rightarrow> int" where
  "decimal_value s = foldl (\<lambda>n c. 10 * n + (of_char c - 48)) 0 s"

definition load_value :: "pyval \<Rightarrow> pyval" where
  "load_value v = (if isdigit (py_print v) then PInt (decimal_value (py_print v)) else v)"

fun rmap :: "('a \<Rightarrow> 'b res) \<Rightarrow> 'a list \<Rightarrow> 'b list res" where
  "rmap f [] = Inr []"
| "rmap f (x # xs) = rbind (f x) (\<lambda>y. rbind (rmap f xs) (\<lambda>ys. Inr (y # ys)))"

lemma rmap_cong [fundef_cong]:
  "xs = ys \<Longrightarrow> (\<And>x. x \<in> set ys \<Longrightarrow> f x = g x) \<Longrightarrow> rmap f xs = rmap g ys"
  by (induction ys arbitrary: xs) auto

function gen_load :: "form_class \<Rightarrow> (string \<times> pyval) list \<Rightarrow> (string \<times> pyval) list res" where
  "gen_load form data =
     rmap (\<lambda>(k, v).
       case map_of (form_fields form) k of
         None \<Rightarrow> Inr (k, v)
       | Some (FormField g) \<Rightarrow>
           (case v of PDict d \<Rightarrow> rbind (gen_load g d) (\<lambda>d'. Inr (k, PDict d'))
            | _ \<Rightarrow> Inl AttributeError)
       | Some _ \<Rightarrow> Inr (k, load_value v)) data"
  by pat_completeness auto
termination
  by (relation "measure (\<lambda>(f, d). form_depth f)")
    (auto dest!: map_of_SomeD intro: form_depth_sub)

declare gen_load.simps [simp del]

text \<open>
  \<open>load_data\<close>: a form object is its class, the decoded dictionary its fields were loaded from
  (a field that has no key there has no data) and the keys \<open>process\<close> recorded as unknown.
\<close>

record form =
  form_cls :: form_class
  form_data :: "(string \<times> pyval) list"
  wrong_fields :: "string list"

definition unknown_keys :: "form_class \<Rightarrow> (string \<times> pyval) list \<Rightarrow> string list" where
  "unknown_keys cls data = filter (\<lambda>k. k \<notin> fst ` set (form_fields cls)) (map fst data)"

definition load_data :: "form_class \<Rightarrow> (string \<times> pyval) list \<Rightarrow> form res" where
  "load_data cls data =
     rbind (gen_load cls data)
       (\<lambda>d. Inr \<lparr>form_cls = cls, form_data = d, wrong_fields = unknown_keys cls data\<rparr>)"

definition load_proto :: "'b pblib \<Rightarrow> form_class \<Rightarrow> message \<Rightarrow> form res" where
  "load_proto P cls pb = load_data cls (MessageToDict P pb)"

section \<open>Validation\<close>

type_synonym wtforms = "field \<Rightarrow> pyval \<Rightarrow> string list res"
  \<comment> \<open>the messages \<open>field.validate\<close> collects for a plain field with the given data\<close>

type_synonym form_errors = "(string \<times> form_error) list"

definition field_data :: "(string \<times> pyval) list \<Rightarrow> string \<Rightarrow> pyval" where
  "field_data d k = (case map_of d k of None \<Rightarrow> PNone | Some v \<Rightarrow> v)"

definition sub_data :: "pyval \<Rightarrow> (string \<times> pyval) list" where
  "sub_data v = (case v of PDict d \<Rightarrow> d | _ \<Rightarrow> [])"

fun has_errors :: "form_error \<Rightarrow> bool" where
  "has_errors (ErrList es) = (es \<noteq> [])"
| "has_errors (ErrDict es) = (es \<noteq> [])"

definition collect_errors :: "(string \<times> bool \<times> form_error) list \<Rightarrow> bool \<times> form_errors" where
  "collect_errors rs =
     (list_all (fst \<circ> snd) rs, map (\<lambda>(n, ok, e). (n, e)) (filter (has_errors \<circ> snd \<circ> snd) rs))"

definition dict_del :: "string \<Rightarrow> form_errors \<Rightarrow> form_errors res" where
  "dict_del k d = (if k \<in> fst ` set d then Inr (AList.delete k d) else Inl KeyError)"

text \<open>
  \<open>NewPublicKeyPayloadForm.validate\<close>: exactly the key configurations in use may validate; the
  errors of the unused ones are dropped, and when none is left the form is valid after all.
\<close>

definition config_keys :: "string list" where
  "config_keys = [''rsa'', ''ecdsa'', ''ed25519'']"

fun del_all :: "string list \<Rightarrow> form_errors \<Rightarrow> form_errors res" where
  "del_all [] d = Inr d"
| "del_all (k # ks) d = rbind (dict_del k d) (del_all ks)"

fun first_valid :: "string list \<Rightarrow> form_errors \<Rightarrow> string option" where
  "first_valid [] errs = None"
| "first_valid (ek # eks) errs = (if ek \<notin> fst ` set errs then Some ek else first_valid eks errs)"

definition fix_configuration_errors :: "bool \<times> form_errors \<Rightarrow> (bool \<times> form_errors) res" where
  "fix_configuration_errors r =
     (let (is_valid, errs) = r in
      if list_all (\<lambda>ek. ek \<in> fst ` set errs) config_keys then
        rbind (del_all config_keys
                (AList.update ''configuration''
                  (ErrList [''At least one of RSAConfiguration, ECDSAConfiguration or Ed25519Configuration must be set''])
                  errs))
          (\<lambda>errs'. Inr (False, errs'))
      else (case first_valid config_keys errs of
              None \<Rightarrow> Inr (is_valid, errs)
            | Some ek \<Rightarrow>
                rbind (del_all (remove1 ek config_keys) errs)
                  (\<lambda>errs'. Inr (if errs' = [] then True else is_valid, errs'))))"

text \<open>
  \<open>validate\<close> of a form: unknown keys fail it at once; otherwise every field validates, nested forms
  recursively with their own unknown keys, and \<open>NewPublicKeyPayloadForm\<close> reworks the outcome.
\<close>

definition post_validate :: "form_class \<Rightarrow> bool \<times> form_errors \<Rightarrow> (bool \<times> form_errors) res" where
  "post_validate cls r =
     (if cls = NewPublicKeyPayloadForm then fix_configuration_errors r else Inr r)"

definition wrong_keys_error :: "string list \<Rightarrow> form_errors" where
  "wrong_keys_error ks =
     [(''error'', ErrList [''Wrong params keys: ['' @
        join '', '' (map (\<lambda>k. CHR 0x27 # k @ [CHR 0x27]) ks) @ '']''])]"

function validate_form ::
  "wtforms \<Rightarrow> form_class \<Rightarrow> (string \<times> pyval) list \<Rightarrow> string list \<Rightarrow> (bool \<times> form_errors) res"
where
  "validate_form wt cls d wrong =
     rbind
       (if wrong \<noteq> [] then Inr (False, wrong_keys_error wrong)
        else rbind
          (rmap (\<lambda>(n, f).
             case f of
               FormField g \<Rightarrow>
                 (let sd = sub_data (field_data d n) in
                  rbind (validate_form wt g sd (unknown_keys g sd))
                    (\<lambda>(ok, es). Inr (n, ok, ErrDict es)))
             | _ \<Rightarrow> rbind (wt f (field_data d n)) (\<lambda>es. Inr (n, es = [], ErrList es)))
             (form_fields cls))
          (\<lambda>rs. Inr (collect_errors rs)))
       (post_validate cls)"
  by pat_completeness auto
termination
  by (relation "measure (\<lambda>(wt, f, d, w). form_depth f)") (auto intro: form_depth_sub)

declare validate_form.simps [simp del]

definition validate :: "wtforms \<Rightarrow> form \<Rightarrow> string list \<Rightarrow> (bool \<times> form_errors) res" where
  "validate wt f ignore_fields =
     validate_form wt (form_cls f) (form_data f)
       (filter (\<lambda>k. k \<notin> set ignore_fields) (wrong_fields f))"

section \<open>The documented behaviour of wtforms\<close>

text \<open>
  \<open>DataRequired\<close> stops with its message when the data is falsy or a blank string. \<open>Regexp\<close> matches
  the data (the empty string if it is falsy) with \<open>re.match\<close>, which raises \<open>TypeError\<close> on a value
  that is not a string. \<open>Optional\<close> stops without a message when there is no form input, which is
  always so for forms loaded from a message.
\<close>

fun truthy :: "pyval \<Rightarrow> bool" where
  "truthy PNone = False"
| "truthy (PBool b) = b"
| "truthy (PInt n) = (n \<noteq> 0)"
| "truthy (PFloat n) = (n \<noteq> 0)"
| "truthy (PStr s) = (s \<noteq> [])"
| "truthy (PList xs) = (xs \<noteq> [])"
| "truthy (PDict xs) = (xs \<noteq> [])"

fun present :: "pyval \<Rightarrow> bool" where
  "present (PStr s) = (strip s \<noteq> [])"
| "present v = truthy v"

fun wt_chain :: "validator list \<Rightarrow> pyval \<Rightarrow> string list res" where
  "wt_chain [] v = Inr []"
| "wt_chain (DataRequired m # vs) v =
     (if present v then wt_chain vs v
      else Inr [case m of None \<Rightarrow> ''This field is required.'' | Some t \<Rightarrow> t])"
| "wt_chain (Regexp n m # vs) v =
     rbind (case v of PStr s \<Rightarrow> Inr (re_match_hex n s)
            | _ \<Rightarrow> if truthy v then Inl TypeError else Inr (re_match_hex n []))
       (\<lambda>ok. rbind (wt_chain vs v) (\<lambda>es. Inr (if ok then es else m # es)))"
| "wt_chain (OptionalData # vs) v = Inr []"

definition wt_documented :: "wtforms \<Rightarrow> bool" where
  "wt_documented wt \<longleftrightarrow>
     (\<forall>vs v. wt (StringField vs) v = wt_chain vs v) \<and>
     (\<forall>vs v. wt (IntegerField vs) v = wt_chain vs v)"

end
