(* ===== verification/RestUtils.thy ===== *)
theory RestUtils
  imports Base64 Forms
begin

text \<open>
  \<open>remme/shared/exceptions.py\<close> and the helpers of \<open>remme/shared/utils.py\<close> that prepare requests to
  the validator and unpack its responses: identifiers, paging and sorting controls, headers of
  blocks, batches and transactions, and the clean-up of nested dictionaries.

  The message classes of the Sawtooth SDK are a parameter: \<open>construct cls kwargs\<close> builds a message
  from keyword arguments, \<open>parse_header_msg cls bytes\<close> is \<open>message_to_dict\<close> of a parsed header,
  \<open>parse_response cls bytes\<close> yields the \<open>status\<close> of a response, if its class has that field, with the
  dictionary of its fields, and \<open>status_attr cls name\<close> is the number of a status of that class.
\<close>

record rest_lib =
  construct :: "string \<Rightarrow> (string \<times> pyval) list \<Rightarrow> pyval res"
  parse_header_msg :: "string \<Rightarrow> string \<Rightarrow> (string \<times> pyval) list res"
  parse_response :: "string \<Rightarrow> string \<Rightarrow> (int option \<times> (string \<times> pyval) list) res"
  status_attr :: "string \<Rightarrow> string \<Rightarrow> int option"

section \<open>Errors of the API\<close>

text \<open>\<open>MESSAGE\<close> and \<open>ERROR_CODE\<close> of the classes derived from \<open>RemmeRpcError\<close>.\<close>

fun error_class :: "exc \<Rightarrow> (string \<times> int) option" where
  "error_class (ClientException m) = Some (''Unhandled exception'', -32000)"
| "error_class (KeyNotFound m) = Some (''Resource not found'', -32001)"
| "error_class (ValidatorNotReadyException m) = Some (''Validator is not ready yet'', -32002)"
| "error_class ResourceHeaderInvalid = Some (''Invalid or missing header'', -32003)"
| "error_class (InvalidResourceId m) = Some (''Invalid or missing resource id'', -32004)"
| "error_class CountInvalid = Some (''Invalid limit count'', -32005)"
| "error_class _ = None"

abbreviation is_remme_rpc_error :: "exc \<Rightarrow> bool" where
  "is_remme_rpc_error e \<equiv> error_class e \<noteq> None"

fun given_message :: "exc \<Rightarrow> string" where
  "given_message (ClientException m) = m"
| "given_message (KeyNotFound m) = m"
| "given_message (ValidatorNotReadyException m) = m"
| "given_message (InvalidResourceId m) = m"
| "given_message _ = []"

text \<open>\<open>RemmeRpcError.__init__\<close>: the message given, or else the one of the class.\<close>

definition error_message :: "exc \<Rightarrow> string option" where
  "error_message e =
     (case error_class e of None \<Rightarrow> None
      | Some (m, _) \<Rightarrow> Some (if given_message e \<noteq> [] then given_message e else m))"

text \<open>
  \<open>repr\<close> and \<open>str\<close> of a value, for strings without quotes, backslashes and control characters, as
  addresses, identifiers and keys are, and floats below \<open>10 ^ 16\<close>, which print without an exponent.
\<close>

fun py_repr :: "pyval \<Rightarrow> string" where
  "py_repr PNone = ''None''"
| "py_repr (PBool b) = (if b then ''True'' else ''False'')"
| "py_repr (PInt n) = py_str n"
| "py_repr (PFloat n) = py_str n @ ''.0''"
| "py_repr (PStr s) = [CHR 0x27] @ s @ [CHR 0x27]"
| "py_repr (PList xs) = ''['' @ join '', '' (map py_repr xs) @ '']''"
| "py_repr (PDict d) =
     ''{'' @ join '', '' (map (\<lambda>(k, v). [CHR 0x27] @ k @ [CHR 0x27] @ '': '' @ py_repr v) d) @ ''}''"

definition py_str_of :: "pyval \<Rightarrow> string" where
  "py_str_of v = (case v of PStr s \<Rightarrow> s | _ \<Rightarrow> py_repr v)"

section \<open>Identifiers\<close>

definition validate_id :: "string \<Rightarrow> unit res" where
  "validate_id resource_id =
     (if re_fullmatch_hex 128 resource_id then Inr ()
      else Inl (InvalidResourceId (''Invalid id '' @ [CHR 0x22] @ resource_id @ [CHR 0x22])))"

text \<open>A value that is not a string makes \<open>re.fullmatch\<close> raise \<open>TypeError\<close>.\<close>

definition validate_id_value :: "pyval \<Rightarrow> unit res" where
  "validate_id_value v = (case v of PStr s \<Rightarrow> validate_id s | _ \<Rightarrow> Inl TypeError)"

definition get_head_id :: "pyval \<Rightarrow> pyval res" where
  "get_head_id head_id =
     (if head_id = PNone then Inr PNone else rbind (validate_id_value head_id) (\<lambda>_. Inr head_id))"

definition get_filter_ids :: "string option \<Rightarrow> string list option res" where
  "get_filter_ids id_query =
     (case id_query of
        None \<Rightarrow> Inr None
      | Some q \<Rightarrow>
          (let filter_ids = split (CHR '','') q in
           rbind (rmap validate_id filter_ids) (\<lambda>_. Inr (Some filter_ids))))"

section \<open>Paging and sorting\<close>

definition py_int_value :: "pyval \<Rightarrow> int res" where
  "py_int_value v =
     (case v of PInt n \<Rightarrow> Inr n | PBool b \<Rightarrow> Inr (if b then 1 else 0)
      | PStr s \<Rightarrow> py_int 10 s | _ \<Rightarrow> Inl TypeError)"

definition get_paging_controls :: "pyval \<Rightarrow> pyval \<Rightarrow> (string \<times> pyval) list res" where
  "get_paging_controls start limit =
     rbind
       (if limit = PNone then Inr []
        else (case py_int_value limit of
                Inl e \<Rightarrow> Inl (if e = ValueError then CountInvalid else e)
              | Inr n \<Rightarrow> if n \<le> 0 then Inl CountInvalid else Inr [(''limit'', PInt n)]))
       (\<lambda>controls. Inr (if start = PNone then controls else controls @ [(''start'', start)]))"

definition dict_get :: "(string \<times> pyval) list \<Rightarrow> string \<Rightarrow> pyval" where
  "dict_get d k = (case map_of d k of None \<Rightarrow> PNone | Some v \<Rightarrow> v)"

definition make_paging_message :: "rest_lib \<Rightarrow> (string \<times> pyval) list \<Rightarrow> pyval res" where
  "make_paging_message L controls =
     construct L ''ClientPagingControls''
       [(''start'', dict_get controls ''start''), (''limit'', dict_get controls ''limit'')]"

definition sort_control :: "rest_lib \<Rightarrow> string \<Rightarrow> pyval res" where
  "sort_control L keys =
     construct L ''ClientSortControls''
       [(''reverse'', PBool True), (''keys'', PList (map PStr (split (CHR '','') keys)))]"

definition get_sorting_message :: "rest_lib \<Rightarrow> pyval \<Rightarrow> string \<Rightarrow> pyval list res" where
  "get_sorting_message L reverse key =
     (case reverse of
        PNone \<Rightarrow> Inr []
      | PStr r \<Rightarrow>
          if lower r = [] then rbind (sort_control L key) (\<lambda>c. Inr [c])
          else if lower r \<noteq> ''false'' then rbind (sort_control L r) (\<lambda>c. Inr [c])
          else Inr []
      | _ \<Rightarrow> Inl AttributeError)"

section \<open>Headers\<close>

text \<open>
  \<open>parse_header\<close> replaces the base64 text under \<open>header\<close> by the dictionary of the header. A missing
  header, a value that is not text, text that is not base64 and bytes that are not a header all
  raise the same error.
\<close>

fun py_b64decode :: "pyval \<Rightarrow> string res" where
  "py_b64decode (PStr s) = b64decode s"
| "py_b64decode v = Inl TypeError"

definition dict_lookup :: "(string \<times> pyval) list \<Rightarrow> string \<Rightarrow> pyval res" where
  "dict_lookup d k = (case map_of d k of None \<Rightarrow> Inl KeyError | Some v \<Rightarrow> Inr v)"

definition parse_header ::
  "rest_lib \<Rightarrow> string \<Rightarrow> (string \<times> pyval) list \<Rightarrow> (string \<times> pyval) list res"
where
  "parse_header L header_proto resource =
     (case rbind (dict_lookup resource ''header'')
             (\<lambda>h. rbind (py_b64decode h) (parse_header_msg L header_proto)) of
        Inl e \<Rightarrow>
          Inl (if e \<in> {KeyError, TypeError, ValueError, BinasciiError, DecodeError}
               then ResourceHeaderInvalid else e)
      | Inr header \<Rightarrow> Inr (AList.update ''header'' (PDict header) resource))"

text \<open>Reading a key of a value that is not a dictionary.\<close>

definition as_dict :: "pyval \<Rightarrow> (string \<times> pyval) list res" where
  "as_dict v = (case v of PDict d \<Rightarrow> Inr d | _ \<Rightarrow> Inl TypeError)"

definition as_list :: "pyval \<Rightarrow> pyval list res" where
  "as_list v = (case v of PList xs \<Rightarrow> Inr xs | _ \<Rightarrow> Inl TypeError)"

definition expand_transaction :: "rest_lib \<Rightarrow> pyval \<Rightarrow> pyval res" where
  "expand_transaction L t =
     rbind (as_dict t) (\<lambda>d. rbind (parse_header L ''TransactionHeader'' d) (\<lambda>d'. Inr (PDict d')))"

definition expand_items ::
  "(pyval \<Rightarrow> pyval res) \<Rightarrow> string \<Rightarrow> (string \<times> pyval) list \<Rightarrow> (string \<times> pyval) list res"
where
  "expand_items f key d =
     (case map_of d key of
        None \<Rightarrow> Inr d
      | Some v \<Rightarrow>
          rbind (as_list v) (\<lambda>xs. rbind (rmap f xs) (\<lambda>ys. Inr (AList.update key (PList ys) d))))"

definition expand_batch :: "rest_lib \<Rightarrow> pyval \<Rightarrow> pyval res" where
  "expand_batch L b =
     rbind (as_dict b) (\<lambda>d.
     rbind (parse_header L ''BatchHeader'' d) (\<lambda>d1.
     rbind (expand_items (expand_transaction L) ''transactions'' d1) (\<lambda>d2. Inr (PDict d2))))"

definition expand_block :: "rest_lib \<Rightarrow> pyval \<Rightarrow> pyval res" where
  "expand_block L b =
     rbind (as_dict b) (\<lambda>d.
     rbind (parse_header L ''BlockHeader'' d) (\<lambda>d1.
     rbind (expand_items (expand_batch L) ''batches'' d1) (\<lambda>d2. Inr (PDict d2))))"

section \<open>Nested dictionaries\<close>

fun drop_empty_props :: "pyval \<Rightarrow> pyval" where
  "drop_empty_props (PList xs) = PList (map drop_empty_props xs)"
| "drop_empty_props (PDict d) =
     PDict (map (\<lambda>(k, v). (k, drop_empty_props v)) (filter (\<lambda>(k, v). v \<noteq> PStr []) d))"
| "drop_empty_props v = v"

definition short_key :: "string \<Rightarrow> string" where
  "short_key k = (if endswith k ''id'' then ''id'' else k)"

fun drop_id_prefixes :: "pyval \<Rightarrow> pyval" where
  "drop_id_prefixes (PList xs) = PList (map drop_id_prefixes xs)"
| "drop_id_prefixes (PDict d) =
     PDict (dict_literal (map (\<lambda>(k, v). (short_key k, drop_id_prefixes v)) d))"
| "drop_id_prefixes v = v"

section \<open>Identifier lists\<close>

lemma rmap_Inr [res_simps]: "rmap f xs = Inr ys \<longleftrightarrow> list_all2 (\<lambda>x y. f x = Inr y) xs ys"
  by (induction xs arbitrary: ys) (auto simp: res_simps list_all2_Cons1)

lemma rmap_total: "list_all (\<lambda>x. f x = Inr (g x)) xs \<Longrightarrow> rmap f xs = Inr (map g xs)"
  by (induction xs) auto

lemma validate_id_ok [simp]: "validate_id s = Inr u \<longleftrightarrow> re_fullmatch_hex 128 s"
  by (simp add: validate_id_def)

lemma rmap_validate_id:
  "(\<exists>us. rmap validate_id xs = Inr us) \<longleftrightarrow> list_all (re_fullmatch_hex 128) xs"
  by (induction xs) (auto simp: res_simps)

lemma split_aux_sep_free:
  "sep \<notin> set x \<Longrightarrow> split_aux sep n acc (x @ s) = split_aux sep n (rev x @ acc) s"
  by (induction x arbitrary: acc) auto

lemma split_aux_join:
  assumes "xs \<noteq> []" and "\<forall>x\<in>set xs. sep \<notin> set x" and "length xs \<le> Suc n"
  shows "split_aux sep n [] (join [sep] xs) = xs"
  using assms
proof (induction xs arbitrary: n rule: induct_list012)
  case (2 x)
  then show ?case using split_aux_sep_free [of sep x n "[]" "[]"] by simp
next
  case (3 x y ys)
  from "3.prems" obtain m where n: "n = Suc m" by (cases n) auto
  with 3 show ?case by (simp add: split_aux_sep_free)
qed simp

lemma length_join: "length xs \<le> Suc (length (join [sep] xs))"
  by (induction xs rule: induct_list012) auto

lemma split_join:
  "xs \<noteq> [] \<Longrightarrow> \<forall>x\<in>set xs. sep \<notin> set x \<Longrightarrow> split sep (join [sep] xs) = xs"
  by (simp add: split_def split_max_def split_aux_join length_join)

lemma id_comma_free:
  assumes "re_fullmatch_hex n x" shows "CHR '','' \<notin> set x"
proof
  assume "CHR '','' \<in> set x"
  with assms have "is_hex (CHR '','')" by (simp add: re_fullmatch_hex_def list_all_iff)
  then show False by (simp add: is_hex_def hex_chars_def)
qed

lemma get_filter_ids_join:
  assumes "xs \<noteq> []" and "list_all (re_fullmatch_hex 128) xs"
  shows "get_filter_ids (Some (join '','' xs)) = Inr (Some xs)"
proof -
  have "split (CHR '','') (join '','' xs) = xs"
    using assms id_comma_free by (intro split_join) (auto simp: list_all_iff)
  with rmap_validate_id [of xs] assms(2) show ?thesis
    by (auto simp: get_filter_ids_def)
qed

lemma get_filter_ids_valid:
  "get_filter_ids (Some q) = Inr (Some xs) \<Longrightarrow>
     list_all (re_fullmatch_hex 128) xs \<and> join '','' xs = q"
  using rmap_validate_id [of xs] by (auto simp: get_filter_ids_def Let_def res_simps join_split)

section \<open>Cleaned dictionaries\<close>

fun no_empty_props :: "pyval \<Rightarrow> bool" where
  "no_empty_props (PList xs) = list_all no_empty_props xs"
| "no_empty_props (PDict d) = list_all (\<lambda>(k, v). v \<noteq> PStr [] \<and> no_empty_props v) d"
| "no_empty_props v = True"

lemma drop_empty_props_Nil: "drop_empty_props v = PStr [] \<longleftrightarrow> v = PStr []"
  by (cases v) auto

lemma no_empty_props_drop: "no_empty_props (drop_empty_props v)"
  by (induction v rule: drop_empty_props.induct)
    (auto simp: list_all_iff drop_empty_props_Nil)

lemma drop_empty_props_id: "no_empty_props v \<Longrightarrow> drop_empty_props v = v"
proof (induction v rule: drop_empty_props.induct)
  case (2 d)
  then have "filter (\<lambda>(k, v). v \<noteq> PStr []) d = d"
    by (auto simp: list_all_iff intro!: filter_True)
  with 2 show ?case by (auto simp: list_all_iff intro!: map_idI)
qed (auto simp: list_all_iff intro!: map_idI)

lemma drop_empty_props_idem: "drop_empty_props (drop_empty_props v) = drop_empty_props v"
  by (simp add: drop_empty_props_id no_empty_props_drop)

text \<open>After \<open>drop_id_prefixes\<close> a key that ends in \<open>id\<close> is \<open>id\<close>, and keys are unique.\<close>

fun short_keys :: "pyval \<Rightarrow> bool" where
  "short_keys (PList xs) = list_all short_keys xs"
| "short_keys (PDict d) =
     (distinct (map fst d) \<and> list_all (\<lambda>(k, v). short_key k = k \<and> short_keys v) d)"
| "short_keys v = True"

lemma short_key_idem [simp]: "short_key (short_key k) = short_key k"
  by (simp add: short_key_def endswith_def)

lemma set_dict_literal: "set (dict_literal items) \<subseteq> set items"
  using map_of_is_SomeI [OF distinct_dict_literal] dict_literal_SomeD by fastforce

lemma short_keys_drop: "short_keys (drop_id_prefixes v)"
proof (induction v rule: drop_id_prefixes.induct)
  case (2 d)
  let ?items = "map (\<lambda>(k, v). (short_key k, drop_id_prefixes v)) d"
  have "\<forall>(k, v)\<in>set ?items. short_key k = k \<and> short_keys v"
    using 2 by auto
  with set_dict_literal [of ?items] show ?case
    by (fastforce simp: list_all_iff)
qed (auto simp: list_all_iff)

lemma paging_limit_positive:
  "get_paging_controls start limit = Inr controls \<Longrightarrow> dict_get controls ''limit'' = PNone \<and> limit = PNone \<or>
     (\<exists>n > 0. dict_get controls ''limit'' = PInt n \<and> py_int_value limit = Inr n)"
  by (auto simp: get_paging_controls_def dict_get_def res_simps split: if_splits sum.splits)

section \<open>Expanded headers\<close>

lemma parse_header_ok:
  assumes "map_of d ''header'' = Some (PStr (b64encode bytes))"
    and "parse_header_msg L cls bytes = Inr h"
  shows "parse_header L cls d = Inr (AList.update ''header'' (PDict h) d)"
  using assms by (simp add: parse_header_def dict_lookup_def)

lemma parse_header_error:
  assumes "parse_header L cls d = Inl e"
    and "\<And>bytes x. parse_header_msg L cls bytes = Inl x \<Longrightarrow> x = DecodeError"
  shows "e = ResourceHeaderInvalid"
  using assms
  by (auto simp: parse_header_def dict_lookup_def res_simps split: sum.splits option.splits
      elim!: py_b64decode.elims dest: b64decode_error [OF sym])

end
