(* ===== verification/Router.thy ===== *)
theory Router
  imports RestUtils
begin

text \<open>
  \<open>remme/shared/router.py\<close>: the requests of the node's clients to the validator. A request is a
  message built by the SDK's classes and sent over the connection; \<open>S msg_type req\<close> stands for
  \<open>self._stream.send\<close>, which may raise and may change the state \<open>'v\<close> of the validator, and returns
  the content of the reply.
\<close>

type_synonym 'v stream = "string \<Rightarrow> pyval \<Rightarrow> ('v, string) ex"
type_synonym dict = "(string \<times> pyval) list"

section \<open>Requests and responses\<close>

text \<open>The \<open>except\<close> clauses of \<open>_handle_response\<close>, the last of which catches everything.\<close>

definition stream_error :: "exc \<Rightarrow> exc" where
  "stream_error e = ClientException
     (case e of
        DecodeError \<Rightarrow> ''Failed to parse '' @ [CHR 0x22] @ ''content'' @ [CHR 0x22] @ '' string from validator''
      | AttributeError \<Rightarrow> ''Failed to parse '' @ [CHR 0x22] @ ''content'' @ [CHR 0x22] @ '' string from validator''
      | ValidatorConnectionError vce \<Rightarrow> ''Failed with ZMQ interaction: '' @ vce
      | TimeoutError \<Rightarrow> ''Validator connection timeout''
      | _ \<Rightarrow> ''Unexpected validator error'')"

text \<open>
  The status checks stand inside \<open>suppress(AttributeError)\<close>: a status name the response class does not
  have ends the checks, and the response counts as a good one.
\<close>

definition status_error :: "rest_lib \<Rightarrow> string \<Rightarrow> int option \<Rightarrow> exc option" where
  "status_error L resp_proto st =
     (case (st, status_attr L resp_proto ''NO_RESOURCE'') of
        (Some s, Some no_resource) \<Rightarrow>
          if s = no_resource then Some (KeyNotFound ''Resource not found'')
          else (case status_attr L resp_proto ''NOT_READY'' of
                  None \<Rightarrow> None
                | Some not_ready \<Rightarrow>
                    if s = not_ready then Some (ValidatorNotReadyException ''Validator is not ready yet'')
                    else (case status_attr L resp_proto ''OK'' of
                            None \<Rightarrow> None
                          | Some ok \<Rightarrow>
                              if s \<noteq> ok then Some (ClientException ''Error occured'') else None))
      | _ \<Rightarrow> None)"

definition handle_response ::
  "rest_lib \<Rightarrow> 'v stream \<Rightarrow> string \<Rightarrow> string \<Rightarrow> pyval \<Rightarrow> ('v, dict) ex"
where
  "handle_response L S msg_type resp_proto req =
     ebind (ecatch (ebind (S msg_type req) (\<lambda>content. elift (parse_response L resp_proto content)))
              (\<lambda>e. eraise (stream_error e)))
       (\<lambda>(st, data).
         case status_error L resp_proto st of
           Some e \<Rightarrow> eraise e
         | None \<Rightarrow> eret data)"

text \<open>Building a request and sending it.\<close>

definition request ::
  "rest_lib \<Rightarrow> 'v stream \<Rightarrow> string \<Rightarrow> string \<Rightarrow> string \<Rightarrow> dict \<Rightarrow> ('v, dict) ex"
where
  "request L S msg_type resp_proto req_proto kwargs =
     ebind (elift (construct L req_proto kwargs)) (handle_response L S msg_type resp_proto)"

section \<open>Wrapping\<close>

definition get_metadata :: "dict \<Rightarrow> pyval \<Rightarrow> dict" where
  "get_metadata response head =
     (let head = (case map_of response ''head_id'' of None \<Rightarrow> head | Some h \<Rightarrow> h) in
      if head \<noteq> PNone then [(''head'', head)] else [])"

definition wrap_response :: "pyval \<Rightarrow> dict \<Rightarrow> dict" where
  "wrap_response data metadata =
     (if data \<noteq> PNone then AList.update ''data'' data metadata else metadata)"

definition wrap_paginated_response :: "dict \<Rightarrow> dict \<Rightarrow> pyval list res \<Rightarrow> pyval \<Rightarrow> dict res" where
  "wrap_paginated_response response controls data head =
     rbind (dict_lookup response ''paging'') (\<lambda>paging_response.
     rbind (if head = PNone then dict_lookup response ''head_id'' else Inr head) (\<lambda>head.
     rbind (case paging_response of PDict d \<Rightarrow> Inr (dict_get d ''next'') | _ \<Rightarrow> Inl AttributeError) (\<lambda>nxt.
     rbind data (\<lambda>data.
       Inr (wrap_response (PList data)
         [(''head'', head),
          (''paging'', PDict [(''limit'', dict_get controls ''limit''),
                              (''start'', dict_get controls ''start''), (''next'', nxt)])])))))"

text \<open>\<open>','.join(ids) if ids else None\<close>, for the values a JSON request can hold.\<close>

definition str_of :: "pyval \<Rightarrow> string res" where
  "str_of v = (case v of PStr s \<Rightarrow> Inr s | _ \<Rightarrow> Inl TypeError)"

definition id_query :: "pyval \<Rightarrow> string option res" where
  "id_query ids =
     (if \<not> truthy ids then Inr None
      else (case ids of
              PList xs \<Rightarrow> rbind (rmap str_of xs) (\<lambda>ss. Inr (Some (join '','' ss)))
            | PStr s \<Rightarrow> Inr (Some (join '','' (map (\<lambda>c. [c]) s)))
            | PDict d \<Rightarrow> Inr (Some (join '','' (map fst d)))
            | _ \<Rightarrow> Inl TypeError))"

definition filter_arg :: "string list option \<Rightarrow> pyval" where
  "filter_arg ids = (case ids of None \<Rightarrow> PNone | Some xs \<Rightarrow> PList (map PStr xs))"

section \<open>Blocks and state\<close>

definition nth_item :: "pyval \<Rightarrow> nat \<Rightarrow> pyval res" where
  "nth_item v i =
     rbind (as_list v) (\<lambda>xs. if i < length xs then Inr (xs ! i) else Inl IndexError)"

definition item :: "pyval \<Rightarrow> string \<Rightarrow> pyval res" where
  "item v k = rbind (as_dict v) (\<lambda>d. dict_lookup d k)"

definition head_to_root :: "rest_lib \<Rightarrow> 'v stream \<Rightarrow> pyval \<Rightarrow> ('v, pyval \<times> pyval) ex" where
  "head_to_root L S block_id =
     ebind
       (if truthy block_id then
          ebind (request L S ''CLIENT_BLOCK_GET_BY_ID_REQUEST'' ''ClientBlockGetResponse''
                   ''ClientBlockGetByIdRequest'' [(''block_id'', block_id)])
            (\<lambda>resp. elift (rbind (dict_lookup resp ''block'') (expand_block L)))
        else
          ebind (elift (construct L ''ClientPagingControls'' [(''limit'', PInt 1)])) (\<lambda>paging.
          ebind (request L S ''CLIENT_BLOCK_LIST_REQUEST'' ''ClientBlockListResponse''
                   ''ClientBlockListRequest'' [(''paging'', paging)])
            (\<lambda>resp. elift (rbind (dict_lookup resp ''blocks'')
               (\<lambda>bs. rbind (nth_item bs 0) (expand_block L))))))
       (\<lambda>block.
         elift (rbind (item block ''header_signature'') (\<lambda>sig.
                rbind (item block ''header'') (\<lambda>header.
                rbind (item header ''state_root_hash'') (\<lambda>root. Inr (sig, root))))))"

definition router_list_state ::
  "rest_lib \<Rightarrow> 'v stream \<Rightarrow> pyval \<Rightarrow> pyval \<Rightarrow> pyval \<Rightarrow> pyval \<Rightarrow> pyval \<Rightarrow> ('v, dict) ex"
where
  "router_list_state L S address start limit head reverse =
     ebind (elift (get_paging_controls start limit)) (\<lambda>paging_controls.
     ebind (head_to_root L S head) (\<lambda>(head, root).
     ebind (elift (get_sorting_message L reverse ''default'')) (\<lambda>sorting.
     ebind (elift (make_paging_message L paging_controls)) (\<lambda>paging.
     ebind (request L S ''CLIENT_STATE_LIST_REQUEST'' ''ClientStateListResponse'' ''ClientStateListRequest''
              [(''state_root'', root), (''address'', address), (''sorting'', PList sorting), (''paging'', paging)])
       (\<lambda>response.
         elift (wrap_paginated_response response paging_controls
           (case map_of response ''entries'' of None \<Rightarrow> Inr [] | Some v \<Rightarrow> as_list v) head))))))"

definition router_fetch_state :: "rest_lib \<Rightarrow> 'v stream \<Rightarrow> pyval \<Rightarrow> pyval \<Rightarrow> ('v, dict) ex" where
  "router_fetch_state L S address head =
     ebind (head_to_root L S head) (\<lambda>(head, root).
     ebind (request L S ''CLIENT_STATE_GET_REQUEST'' ''ClientStateGetResponse'' ''ClientStateGetRequest''
              [(''state_root'', root), (''address'', address)])
       (\<lambda>response.
         elift (rbind (dict_lookup response ''value'')
           (\<lambda>value. Inr (wrap_response value (get_metadata response head))))))"

section \<open>Lists of resources\<close>

text \<open>
  The lists of blocks, batches and transactions differ in the names of the messages and fields and
  in the sort key; \<open>list_request\<close> is the part they share.
\<close>

definition list_request ::
  "rest_lib \<Rightarrow> 'v stream \<Rightarrow> string \<Rightarrow> string \<Rightarrow> string \<Rightarrow> string \<Rightarrow> string \<Rightarrow> pyval \<Rightarrow> dict \<Rightarrow> pyval \<Rightarrow> pyval
     \<Rightarrow> ('v, dict) ex"
where
  "list_request L S msg_type resp_proto req_proto ids_key sorting_key ids paging_controls head reverse =
     ebind (elift (id_query ids)) (\<lambda>query.
     ebind (elift (get_head_id head)) (\<lambda>head_id.
     ebind (elift (get_filter_ids query)) (\<lambda>filter_ids.
     ebind (elift (get_sorting_message L reverse sorting_key)) (\<lambda>sorting.
     ebind (elift (make_paging_message L paging_controls)) (\<lambda>paging.
       request L S msg_type resp_proto req_proto
         [(''head_id'', head_id), (ids_key, filter_arg filter_ids),
          (''sorting'', PList sorting), (''paging'', paging)])))))"

definition router_list_blocks ::
  "rest_lib \<Rightarrow> 'v stream \<Rightarrow> pyval \<Rightarrow> pyval \<Rightarrow> pyval \<Rightarrow> pyval \<Rightarrow> pyval \<Rightarrow> ('v, dict) ex"
where
  "router_list_blocks L S block_ids start limit head reverse =
     ebind (elift (get_paging_controls start limit)) (\<lambda>paging_controls.
     ebind (list_request L S ''CLIENT_BLOCK_LIST_REQUEST'' ''ClientBlockListResponse''
              ''ClientBlockListRequest'' ''block_ids'' ''block_num'' block_ids paging_controls head reverse)
       (\<lambda>response.
         elift (rbind (rbind (dict_lookup response ''blocks'')
                        (\<lambda>bs. rbind (as_list bs) (rmap (expand_block L))))
           (\<lambda>data. wrap_paginated_response response paging_controls (Inr data) PNone))))"

definition router_list_batches ::
  "rest_lib \<Rightarrow> 'v stream \<Rightarrow> pyval \<Rightarrow> pyval \<Rightarrow> pyval \<Rightarrow> pyval \<Rightarrow> pyval \<Rightarrow> ('v, dict) ex"
where
  "router_list_batches L S batch_ids start limit head reverse =
     ebind (elift (get_paging_controls start limit)) (\<lambda>paging_controls.
     ebind (list_request L S ''CLIENT_BATCH_LIST_REQUEST'' ''ClientBatchListResponse''
              ''ClientBatchListRequest'' ''batch_ids'' ''default'' batch_ids paging_controls head reverse)
       (\<lambda>response.
         elift (rbind (rbind (dict_lookup response ''batches'')
                        (\<lambda>bs. rbind (as_list bs) (rmap (expand_batch L))))
           (\<lambda>data. wrap_paginated_response response paging_controls (Inr data) PNone))))"

text \<open>The transactions are expanded and filtered lazily, while the list is wrapped.\<close>

definition family_matches :: "pyval \<Rightarrow> pyval \<Rightarrow> bool res" where
  "family_matches family_name t =
     rbind (item t ''header'') (\<lambda>h. rbind (item h ''family_name'') (\<lambda>n. Inr (n = family_name)))"

fun rfilter :: "('a \<Rightarrow> bool res) \<Rightarrow> 'a list \<Rightarrow> 'a list res" where
  "rfilter p [] = Inr []"
| "rfilter p (x # xs) = rbind (p x) (\<lambda>b. rbind (rfilter p xs) (\<lambda>ys. Inr (if b then x # ys else ys)))"

definition router_list_transactions ::
  "rest_lib \<Rightarrow> 'v stream \<Rightarrow> pyval \<Rightarrow> pyval \<Rightarrow> pyval \<Rightarrow> pyval \<Rightarrow> pyval \<Rightarrow> pyval \<Rightarrow> ('v, dict) ex"
where
  "router_list_transactions L S transaction_ids start limit head reverse family_name =
     ebind (elift (get_paging_controls start limit)) (\<lambda>paging_controls.
     ebind (list_request L S ''CLIENT_TRANSACTION_LIST_REQUEST'' ''ClientTransactionListResponse''
              ''ClientTransactionListRequest'' ''transaction_ids'' ''default'' transaction_ids paging_controls
              head reverse)
       (\<lambda>response.
         elift (rbind (rbind (dict_lookup response ''transactions'') as_list) (\<lambda>ts.
           wrap_paginated_response response paging_controls
             (rbind (rmap (expand_transaction L) ts)
               (\<lambda>data. if family_name = PNone then Inr data
                       else rfilter (family_matches family_name) data)) PNone))))"

section \<open>Single resources\<close>

definition fetch_resource ::
  "rest_lib \<Rightarrow> 'v stream \<Rightarrow> string \<Rightarrow> string \<Rightarrow> string \<Rightarrow> string \<Rightarrow> string \<Rightarrow> (pyval \<Rightarrow> pyval res) \<Rightarrow> pyval
     \<Rightarrow> ('v, dict) ex"
where
  "fetch_resource L S msg_type resp_proto req_proto id_key field expand resource_id =
     ebind (elift (validate_id_value resource_id)) (\<lambda>_.
     ebind (request L S msg_type resp_proto req_proto [(id_key, resource_id)])
       (\<lambda>response.
         elift (rbind (dict_lookup response field) (\<lambda>v. rbind (expand v)
           (\<lambda>data. Inr (wrap_response data (get_metadata response PNone)))))))"

definition router_fetch_block :: "rest_lib \<Rightarrow> 'v stream \<Rightarrow> pyval \<Rightarrow> ('v, dict) ex" where
  "router_fetch_block L S block_id =
     fetch_resource L S ''CLIENT_BLOCK_GET_BY_ID_REQUEST'' ''ClientBlockGetResponse''
       ''ClientBlockGetByIdRequest'' ''block_id'' ''block'' (expand_block L) block_id"

definition router_fetch_batch :: "rest_lib \<Rightarrow> 'v stream \<Rightarrow> pyval \<Rightarrow> ('v, dict) ex" where
  "router_fetch_batch L S batch_id =
     fetch_resource L S ''CLIENT_BATCH_GET_REQUEST'' ''ClientBatchGetResponse''
       ''ClientBatchGetRequest'' ''batch_id'' ''batch'' (expand_batch L) batch_id"

definition router_fetch_transaction :: "rest_lib \<Rightarrow> 'v stream \<Rightarrow> pyval \<Rightarrow> ('v, dict) ex" where
  "router_fetch_transaction L S transaction_id =
     fetch_resource L S ''CLIENT_TRANSACTION_GET_REQUEST'' ''ClientTransactionGetResponse''
       ''ClientTransactionGetRequest'' ''transaction_id'' ''transaction'' (expand_transaction L) transaction_id"

definition router_list_receipts :: "rest_lib \<Rightarrow> 'v stream \<Rightarrow> pyval \<Rightarrow> ('v, dict) ex" where
  "router_list_receipts L S transaction_ids =
     ebind (elift (rbind (id_query transaction_ids) get_filter_ids)) (\<lambda>ids.
     ebind (request L S ''CLIENT_RECEIPT_GET_REQUEST'' ''ClientReceiptGetResponse''
              ''ClientReceiptGetRequest'' [(''transaction_ids'', filter_arg ids)])
       (\<lambda>response.
         elift (rbind (dict_lookup response ''receipts'')
           (\<lambda>v. Inr (wrap_response (drop_id_prefixes (drop_empty_props v)) (get_metadata response PNone))))))"

definition router_fetch_peers :: "rest_lib \<Rightarrow> 'v stream \<Rightarrow> ('v, dict) ex" where
  "router_fetch_peers L S =
     ebind (request L S ''CLIENT_PEERS_GET_REQUEST'' ''ClientPeersGetResponse'' ''ClientPeersGetRequest'' [])
       (\<lambda>response.
         elift (rbind (dict_lookup response ''peers'')
           (\<lambda>v. Inr (wrap_response v (get_metadata response PNone)))))"

section \<open>Batches\<close>

text \<open>The attribute of a message; messages hold all their fields.\<close>

definition attr :: "pyval \<Rightarrow> string \<Rightarrow> pyval res" where
  "attr v k =
     (case v of PDict d \<Rightarrow> (case map_of d k of Some x \<Rightarrow> Inr x | None \<Rightarrow> Inl AttributeError)
      | _ \<Rightarrow> Inl AttributeError)"

definition submit_batches :: "rest_lib \<Rightarrow> 'v stream \<Rightarrow> pyval list \<Rightarrow> ('v, dict) ex" where
  "submit_batches L S batches =
     ebind (request L S ''CLIENT_BATCH_SUBMIT_REQUEST'' ''ClientBatchSubmitResponse''
              ''ClientBatchSubmitRequest'' [(''batches'', PList batches)])
       (\<lambda>_.
         elift (rbind (rmap (\<lambda>b. rbind (attr b ''header_signature'') str_of) batches)
           (\<lambda>ids. Inr (wrap_response (PStr (join '','' ids)) []))))"

definition list_statuses :: "rest_lib \<Rightarrow> 'v stream \<Rightarrow> pyval \<Rightarrow> ('v, dict) ex" where
  "list_statuses L S batch_ids =
     ebind (elift (rbind (id_query batch_ids) get_filter_ids)) (\<lambda>ids.
     ebind (request L S ''CLIENT_BATCH_STATUS_REQUEST'' ''ClientBatchStatusResponse''
              ''ClientBatchStatusRequest'' [(''batch_ids'', filter_arg ids)])
       (\<lambda>response.
         elift (rbind (dict_lookup response ''batch_statuses'')
           (\<lambda>v. Inr (wrap_response (drop_id_prefixes (drop_empty_props v)) (get_metadata response PNone))))))"

section \<open>What a request can raise\<close>

text \<open>Whatever goes wrong on the connection or in the reply, the caller sees an error of the API.\<close>

lemma handle_response_error:
  "handle_response L S msg_type resp_proto req v = (Inl e, v') \<Longrightarrow>
     \<exists>m. e \<in> {ClientException m, KeyNotFound m, ValidatorNotReadyException m}"
  by (auto simp: handle_response_def ecatch_def stream_error_def status_error_def ebind_def
      split: sum.splits option.splits prod.splits if_splits)

text \<open>
  A class whose responses do not know the status \<open>NO_RESOURCE\<close> gets no status check at all.
\<close>

lemma status_unchecked:
  "status_attr L resp_proto ''NO_RESOURCE'' = None \<Longrightarrow> status_error L resp_proto st = None"
  by (auto simp: status_error_def split: option.split)

lemma handle_response_unchecked:
  assumes "status_attr L resp_proto ''NO_RESOURCE'' = None"
    and "S msg_type req v = (Inr content, v')" and "parse_response L resp_proto content = Inr (st, data)"
  shows "handle_response L S msg_type resp_proto req v = (Inr data, v')"
  using assms by (simp add: handle_response_def ecatch_def ebind_def status_unchecked)

lemma handle_response_ok:
  assumes "S msg_type req v = (Inr content, v')" and "parse_response L resp_proto content = Inr (Some ok, data)"
    and "status_attr L resp_proto ''OK'' = Some ok" and "status_attr L resp_proto ''NO_RESOURCE'' \<noteq> Some ok"
    and "status_attr L resp_proto ''NOT_READY'' \<noteq> Some ok"
  shows "handle_response L S msg_type resp_proto req v = (Inr data, v')"
proof -
  have "status_error L resp_proto (Some ok) = None"
    using assms(3-5) by (auto simp: status_error_def split: option.split)
  with assms(1,2) show ?thesis by (simp add: handle_response_def ecatch_def ebind_def)
qed

lemma handle_response_missing:
  assumes "S msg_type req v = (Inr content, v')" and "parse_response L resp_proto content = Inr (Some n, data)"
    and "status_attr L resp_proto ''NO_RESOURCE'' = Some n"
  shows "handle_response L S msg_type resp_proto req v = (Inl (KeyNotFound ''Resource not found''), v')"
  using assms by (simp add: handle_response_def ecatch_def ebind_def status_error_def)

text \<open>Lists of identifiers reach the validator as they were given, and only when all are well formed.\<close>

lemma rmap_str_of: "rmap str_of (map PStr xs) = Inr xs"
  by (induction xs) (auto simp: str_of_def)

lemma id_query_ids:
  assumes "xs \<noteq> []"
  shows "id_query (PList (map PStr xs)) = Inr (Some (join '','' xs))"
  using assms by (auto simp: id_query_def rmap_str_of)

lemma filter_ids_sent:
  assumes "xs \<noteq> []" and "list_all (re_fullmatch_hex 128) xs"
  shows "rbind (id_query (PList (map PStr xs))) get_filter_ids = Inr (Some xs)"
  using assms by (simp add: id_query_ids get_filter_ids_join)

text \<open>An ill-formed identifier stops a fetch before anything is sent.\<close>

lemma fetch_resource_invalid:
  assumes "\<not> re_fullmatch_hex 128 s"
  shows "\<exists>m. fetch_resource L S msg_type resp_proto req_proto id_key field expand (PStr s) v
    = (Inl (InvalidResourceId m), v)"
  using assms by (simp add: fetch_resource_def ebind_def validate_id_value_def validate_id_def)

text \<open>The outcome of a submission does not depend on the status the validator reports.\<close>

lemma submit_batches_unchecked:
  assumes "status_attr L ''ClientBatchSubmitResponse'' ''NO_RESOURCE'' = None"
    and "construct L ''ClientBatchSubmitRequest'' [(''batches'', PList batches)] = Inr req"
    and "S ''CLIENT_BATCH_SUBMIT_REQUEST'' req v = (Inr content, v')"
    and "parse_response L ''ClientBatchSubmitResponse'' content = Inr (st, data)"
    and "rmap (\<lambda>b. rbind (attr b ''header_signature'') str_of) batches = Inr ids"
  shows "submit_batches L S batches v = (Inr [(''data'', PStr (join '','' ids))], v')"
  using handle_response_unchecked [where S = S, OF assms(1,3,4)] assms(2,5)
  by (simp add: submit_batches_def request_def ebind_def wrap_response_def)

end
