(* ===== verification/Validator.thy ===== *)
theory Validator
  imports Router
begin

text \<open>
  The contract of the validator towards the clients that read the chain: asked for the newest
  block it sends one whose header names a state root, and asked for an address under that root it
  sends the bytes stored there or the status \<open>NO_RESOURCE\<close>. The interpretation discharges the
  contract for a validator that serves a given chain state, the map from addresses to bytes that
  the transaction processors read and write.
\<close>

locale validator_service =
  fixes L :: rest_lib and S :: "'v stream" and chain_state :: "'v \<Rightarrow> string \<rightharpoonup> string"
    and root :: "'v \<Rightarrow> string"
  assumes newest_block_request:
      "construct L ''ClientPagingControls'' [(''limit'', PInt 1)] = Inr (PDict [(''limit'', PInt 1)])"
      "construct L ''ClientBlockListRequest'' [(''paging'', PDict [(''limit'', PInt 1)])]
         = Inr (PDict [(''paging'', PDict [(''limit'', PInt 1)])])"
    and newest_block: "\<exists>content ok resp b bs header h.
      S ''CLIENT_BLOCK_LIST_REQUEST'' (PDict [(''paging'', PDict [(''limit'', PInt 1)])]) v = (Inr content, v) \<and>
      parse_response L ''ClientBlockListResponse'' content = Inr (Some ok, resp) \<and>
      status_attr L ''ClientBlockListResponse'' ''OK'' = Some ok \<and>
      status_attr L ''ClientBlockListResponse'' ''NO_RESOURCE'' \<noteq> Some ok \<and>
      status_attr L ''ClientBlockListResponse'' ''NOT_READY'' \<noteq> Some ok \<and>
      map_of resp ''blocks'' = Some (PList (PDict b # bs)) \<and>
      (\<exists>sig. map_of b ''header_signature'' = Some (PStr sig)) \<and>
      map_of b ''header'' = Some (PStr (b64encode header)) \<and>
      (\<exists>bts bts'. map_of b ''batches'' = Some (PList bts) \<and> rmap (expand_batch L) bts = Inr bts') \<and>
      parse_header_msg L ''BlockHeader'' header = Inr h \<and>
      map_of h ''state_root_hash'' = Some (PStr (root v))"
    and state_request:
      "construct L ''ClientStateGetRequest'' [(''state_root'', PStr r), (''address'', PStr a)]
         = Inr (PDict [(''state_root'', PStr r), (''address'', PStr a)])"
    and state_found: "chain_state v a = Some bytes \<Longrightarrow> \<exists>content ok resp.
      S ''CLIENT_STATE_GET_REQUEST'' (PDict [(''state_root'', PStr (root v)), (''address'', PStr a)]) v
        = (Inr content, v) \<and>
      parse_response L ''ClientStateGetResponse'' content = Inr (Some ok, resp) \<and>
      status_attr L ''ClientStateGetResponse'' ''OK'' = Some ok \<and>
      status_attr L ''ClientStateGetResponse'' ''NO_RESOURCE'' \<noteq> Some ok \<and>
      status_attr L ''ClientStateGetResponse'' ''NOT_READY'' \<noteq> Some ok \<and>
      map_of resp ''value'' = Some (PStr (b64encode bytes))"
    and state_missing: "chain_state v a = None \<Longrightarrow> \<exists>content n resp.
      S ''CLIENT_STATE_GET_REQUEST'' (PDict [(''state_root'', PStr (root v)), (''address'', PStr a)]) v
        = (Inr content, v) \<and>
      parse_response L ''ClientStateGetResponse'' content = Inr (Some n, resp) \<and>
      status_attr L ''ClientStateGetResponse'' ''NO_RESOURCE'' = Some n"
begin

lemma head_to_root_newest: "\<exists>sig. head_to_root L S PNone v = (Inr (PStr sig, PStr (root v)), v)"
proof -
  from newest_block [of v] obtain content ok resp b bs header h sig bts bts' where
    c: "S ''CLIENT_BLOCK_LIST_REQUEST'' (PDict [(''paging'', PDict [(''limit'', PInt 1)])]) v = (Inr content, v)"
      "parse_response L ''ClientBlockListResponse'' content = Inr (Some ok, resp)"
      "status_attr L ''ClientBlockListResponse'' ''OK'' = Some ok"
      "status_attr L ''ClientBlockListResponse'' ''NO_RESOURCE'' \<noteq> Some ok"
      "status_attr L ''ClientBlockListResponse'' ''NOT_READY'' \<noteq> Some ok"
    and b: "map_of resp ''blocks'' = Some (PList (PDict b # bs))"
      "map_of b ''header_signature'' = Some (PStr sig)" "map_of b ''header'' = Some (PStr (b64encode header))"
      "map_of b ''batches'' = Some (PList bts)" "rmap (expand_batch L) bts = Inr bts'"
    and h: "parse_header_msg L ''BlockHeader'' header = Inr h" "map_of h ''state_root_hash'' = Some (PStr (root v))"
    by blast
  have p: "parse_header L ''BlockHeader'' b = Inr (AList.update ''header'' (PDict h) b)"
    using b(3) h(1) by (rule parse_header_ok)
  show ?thesis
    using handle_response_ok [where S = S, OF c] b h p
    by (simp add: head_to_root_def request_def ebind_def newest_block_request dict_lookup_def nth_item_def
        as_list_def expand_block_def as_dict_def expand_items_def update_conv' item_def)
qed

lemma fetch_state_found:
  assumes "chain_state v a = Some bytes"
  shows "\<exists>resp. router_fetch_state L S (PStr a) PNone v = (Inr resp, v) \<and>
    map_of resp ''data'' = Some (PStr (b64encode bytes))"
proof -
  from state_found [OF assms] obtain content ok resp where
    c: "S ''CLIENT_STATE_GET_REQUEST'' (PDict [(''state_root'', PStr (root v)), (''address'', PStr a)]) v = (Inr content, v)"
      "parse_response L ''ClientStateGetResponse'' content = Inr (Some ok, resp)"
      "status_attr L ''ClientStateGetResponse'' ''OK'' = Some ok"
      "status_attr L ''ClientStateGetResponse'' ''NO_RESOURCE'' \<noteq> Some ok"
      "status_attr L ''ClientStateGetResponse'' ''NOT_READY'' \<noteq> Some ok"
    and r: "map_of resp ''value'' = Some (PStr (b64encode bytes))"
    by blast
  from head_to_root_newest [of v] handle_response_ok [where S = S, OF c] r show ?thesis
    by (auto simp: router_fetch_state_def ebind_def request_def state_request dict_lookup_def
        wrap_response_def update_conv')
qed

lemma fetch_state_missing:
  assumes "chain_state v a = None"
  shows "router_fetch_state L S (PStr a) PNone v = (Inl (KeyNotFound ''Resource not found''), v)"
proof -
  from state_missing [OF assms] obtain content n resp where
    c: "S ''CLIENT_STATE_GET_REQUEST'' (PDict [(''state_root'', PStr (root v)), (''address'', PStr a)]) v = (Inr content, v)"
      "parse_response L ''ClientStateGetResponse'' content = Inr (Some n, resp)"
      "status_attr L ''ClientStateGetResponse'' ''NO_RESOURCE'' = Some n"
    by blast
  from head_to_root_newest [of v] handle_response_missing [where S = S, OF c] show ?thesis
    by (auto simp: router_fetch_state_def ebind_def request_def state_request)
qed

end

section \<open>A validator that serves a chain state\<close>

definition mirror_lib :: rest_lib where
  "mirror_lib =
     \<lparr>construct = (\<lambda>cls kwargs. Inr (PDict kwargs)),
      parse_header_msg = (\<lambda>cls bytes.
        if cls = ''BlockHeader'' then Inr [(''state_root_hash'', PStr bytes)] else Inl DecodeError),
      parse_response = (\<lambda>cls content.
        if cls = ''ClientBlockListResponse'' then
          Inr (Some 1,
            [(''blocks'', PList [PDict
                [(''header'', PStr (b64encode content)), (''header_signature'', PStr ''head''), (''batches'', PList [])]])])
        else if cls = ''ClientStateGetResponse'' then
          (case content of [] \<Rightarrow> Inr (Some 5, [])
           | _ # bytes \<Rightarrow> Inr (Some 1, [(''value'', PStr (b64encode bytes))]))
        else if cls = ''ClientBatchSubmitResponse'' then Inr (Some 3, [])
        else Inl DecodeError),
      status_attr = (\<lambda>cls name.
        if name = ''OK'' then Some 1
        else if cls = ''ClientBatchSubmitResponse'' then None
        else map_of [(''NO_RESOURCE'', 5), (''NOT_READY'', 3)] name)\<rparr>"

definition mirror_stream :: "(string \<rightharpoonup> string) stream" where
  "mirror_stream msg_type req v =
     (if msg_type = ''CLIENT_BLOCK_LIST_REQUEST'' then (Inr ''root'', v)
      else if msg_type = ''CLIENT_STATE_GET_REQUEST'' then
        (case req of
           PDict [(_, PStr r), (_, PStr a)] \<Rightarrow>
             (Inr (case v a of None \<Rightarrow> [] | Some bytes \<Rightarrow> CHR ''+'' # bytes), v)
         | _ \<Rightarrow> (Inl DecodeError, v))
      else if msg_type = ''CLIENT_BATCH_SUBMIT_REQUEST'' then (Inr [], v)
      else (Inl (ValidatorConnectionError ''no service''), v))"

interpretation mirror: validator_service mirror_lib mirror_stream "\<lambda>v. v" "\<lambda>v. ''root''"
  by unfold_locales (auto simp: mirror_lib_def mirror_stream_def)

end
