(* ===== verification/Context.thy ===== *)
theory Context
  imports Messages
begin

text \<open>
  The transaction context. The Sawtooth SDK hands every handler a context object; it is third-party
  code, so the model takes its operations as a parameter (\<open>ctx_ops\<close>). \<open>remme/tp/context.py\<close> wraps it
  in \<open>CacheContextService\<close>, which loads the inputs of a transaction once and answers reads from a
  dictionary. The locale \<open>sawtooth_context\<close> states what the wrapper needs of the context, and its
  lemmas show that the cache is transparent: reading through it returns what the context holds.
  \<open>src/testing/mocks/stub.py\<close> implements the same interface for the tests; its model below
  interprets the locale.
\<close>

section \<open>Operations of a context\<close>

text \<open>
  A context operation returns or raises, and leaves a context behind in both cases: an operation
  that raises half-way may have written already. Reading does not change the context.
\<close>

record ('c, 'b) ctx_ops =
  op_get_state :: "'c \<Rightarrow> string list \<Rightarrow> (string \<times> 'b option) list res"
  op_set_state :: "'c \<Rightarrow> (string \<times> 'b) list \<Rightarrow> string list res \<times> 'c"
  op_delete_state :: "'c \<Rightarrow> string list \<Rightarrow> string list res \<times> 'c"
  op_add_receipt_data :: "'c \<Rightarrow> string \<Rightarrow> unit res \<times> 'c"
  op_add_event :: "'c \<Rightarrow> string \<Rightarrow> (string \<times> string) list \<Rightarrow> unit res \<times> 'c"

section \<open>CacheContextService\<close>

record ('c, 'b) cache_service =
  storage :: "string \<rightharpoonup> 'b option"
  context_of :: "'c"

definition new_cache_service :: "'c \<Rightarrow> ('c, 'b) cache_service" where
  "new_cache_service context = \<lparr>storage = Map.empty, context_of = context\<rparr>"

definition get_state :: "('c, 'b) ctx_ops \<Rightarrow> ('c, 'b) cache_service \<Rightarrow> string list \<Rightarrow> (string \<times> 'b option) list res" where
  "get_state K cs addresses = op_get_state K (context_of cs) addresses"

definition set_state ::
  "('c, 'b) ctx_ops \<Rightarrow> ('c, 'b) cache_service \<Rightarrow> (string \<times> 'b) list \<Rightarrow> string list res \<times> ('c, 'b) cache_service"
where
  "set_state K cs ents =
     (let (r, c) = op_set_state K (context_of cs) ents in (r, cs\<lparr>context_of := c\<rparr>))"

definition delete_state ::
  "('c, 'b) ctx_ops \<Rightarrow> ('c, 'b) cache_service \<Rightarrow> string list \<Rightarrow> string list res \<times> ('c, 'b) cache_service"
where
  "delete_state K cs addresses =
     (let (r, c) = op_delete_state K (context_of cs) addresses in (r, cs\<lparr>context_of := c\<rparr>))"

definition add_receipt_data ::
  "('c, 'b) ctx_ops \<Rightarrow> ('c, 'b) cache_service \<Rightarrow> string \<Rightarrow> unit res \<times> ('c, 'b) cache_service"
where
  "add_receipt_data K cs data =
     (let (r, c) = op_add_receipt_data K (context_of cs) data in (r, cs\<lparr>context_of := c\<rparr>))"

definition service_add_event ::
  "('c, 'b) ctx_ops \<Rightarrow> ('c, 'b) cache_service \<Rightarrow> string \<Rightarrow> (string \<times> string) list
     \<Rightarrow> unit res \<times> ('c, 'b) cache_service"
where
  "service_add_event K cs event_type attributes =
     (let (r, c) = op_add_event K (context_of cs) event_type attributes in (r, cs\<lparr>context_of := c\<rparr>))"

fun store_entries :: "(string \<rightharpoonup> 'b option) \<Rightarrow> (string \<times> 'b option) list \<Rightarrow> (string \<rightharpoonup> 'b option)" where
  "store_entries s [] = s"
| "store_entries s ((address, data) # es) = store_entries (s(address \<mapsto> data)) es"

definition preload_state ::
  "('c, 'b) ctx_ops \<Rightarrow> string list \<Rightarrow> (('c, 'b) cache_service, unit) sx"
where
  "preload_state K addresses cs =
     rbind (get_state K cs (filter (\<lambda>a. length a = 70) addresses))
       (\<lambda>es. Inr ((), cs\<lparr>storage := store_entries (storage cs) es\<rparr>))"

text \<open>
  One round of the loop of \<open>get_cached_data\<close>: the value the generator yields for a resolver. The
  handler for a failed parse catches \<open>google.protobuf.text_format.ParseError\<close>; every other
  exception, \<open>DecodeError\<close> among them, ends in \<open>yield None\<close>.
\<close>

definition parse_cached :: "'b pblib \<Rightarrow> pb_class \<Rightarrow> 'b option \<Rightarrow> message option res" where
  "parse_cached P pb_class data =
     (case data of
        None \<Rightarrow> Inr None
      | Some d \<Rightarrow>
          (case ParseFromString P pb_class d of
             Inr pb \<Rightarrow> Inr (Some pb)
           | Inl e \<Rightarrow> if e = ParseError then Inl (InternalError ''Failed to deserialize data'')
                      else Inr None))"

definition get_cached_one ::
  "'b pblib \<Rightarrow> ('c, 'b) ctx_ops \<Rightarrow> string \<times> pb_class \<Rightarrow> (('c, 'b) cache_service, message option) sx"
where
  "get_cached_one P K r cs =
     (let (address, pb_class) = r in
      case storage cs address of
        Some data \<Rightarrow> rbind (parse_cached P pb_class data) (\<lambda>v. Inr (v, cs))
      | None \<Rightarrow>
          (case get_state K cs [address] of
             Inl e \<Rightarrow>
               if e = IndexError then Inr (None, cs)
               else Inl (InternalError (''Address \"'' @ address @ ''\" does not have access to data''))
           | Inr [] \<Rightarrow> Inr (None, cs)
           | Inr ((_, data) # _) \<Rightarrow>
               rbind (parse_cached P pb_class data)
                 (\<lambda>v. Inr (v, cs\<lparr>storage := (storage cs)(address \<mapsto> data)\<rparr>))))"

fun get_cached_data ::
  "'b pblib \<Rightarrow> ('c, 'b) ctx_ops \<Rightarrow> (string \<times> pb_class) list
     \<Rightarrow> (('c, 'b) cache_service, message option list) sx"
where
  "get_cached_data P K [] cs = Inr ([], cs)"
| "get_cached_data P K (r # rs) cs =
     rbind (get_cached_one P K r cs)
       (\<lambda>(v, cs1). rbind (get_cached_data P K rs cs1) (\<lambda>(vs, cs2). Inr (v # vs, cs2)))"

text \<open>\<open>get_multiple_data\<close> and \<open>get_data\<close> of \<open>remme/tp/basic.py\<close>.\<close>

definition get_multiple_data ::
  "'b pblib \<Rightarrow> ('c, 'b) ctx_ops \<Rightarrow> (string \<times> pb_class) list
     \<Rightarrow> (('c, 'b) cache_service, message option list) sx"
where
  "get_multiple_data P K data = get_cached_data P K data"

definition get_data ::
  "'b pblib \<Rightarrow> ('c, 'b) ctx_ops \<Rightarrow> pb_class \<Rightarrow> string \<Rightarrow> (('c, 'b) cache_service, message option) sx"
where
  "get_data P K pb_class address =
     sbind (get_multiple_data P K [(address, pb_class)])
       (\<lambda>vs. sret (case vs of [] \<Rightarrow> None | v # _ \<Rightarrow> v))"

text \<open>
  What a reader of class \<open>k\<close> makes of the data at an address: nothing when there is no data or it
  does not parse.
\<close>

definition entry :: "'b pblib \<Rightarrow> (string \<rightharpoonup> 'b) \<Rightarrow> pb_class \<Rightarrow> string \<Rightarrow> message option" where
  "entry P v k a =
     (case v a of None \<Rightarrow> None
      | Some d \<Rightarrow> (case ParseFromString P k d of Inr m \<Rightarrow> Some m | Inl _ \<Rightarrow> None))"

lemma parse_cached_entry: "parse_cached P k (v a) = Inr m \<Longrightarrow> m = entry P v k a"
  by (auto simp: parse_cached_def entry_def split: option.splits sum.splits if_splits)

lemma parse_cached_total: "pb_decode_errors P \<Longrightarrow> parse_cached P k (v a) = Inr (entry P v k a)"
  by (auto simp: parse_cached_def entry_def pb_decode_errors_def split: option.splits sum.splits)

lemma entry_typed: "pb_typed P \<Longrightarrow> entry P v k a = Some m \<Longrightarrow> class_of m = k"
  by (auto simp: entry_def dest: pb_typedD split: option.splits sum.splits)

lemma entry_valid: "pb_typed P \<Longrightarrow> entry P v k a = Some m \<Longrightarrow> valid_message m"
  by (auto simp: entry_def dest: pb_validD split: option.splits sum.splits)

text \<open>An entry of a typed library is of its class, so a reader can project it.\<close>

lemma entry_of_class:
  assumes "pb_typed P"
  shows "\<exists>x. entry P v AccountC a = map_option AccountM x"
    and "\<exists>x. entry P v GenesisStatusC a = map_option GenesisStatusM x"
    and "\<exists>x. entry P v AtomicSwapInfoC a = map_option AtomicSwapInfoM x"
    and "\<exists>x. entry P v PubKeyStorageC a = map_option PubKeyStorageM x"
    and "\<exists>x. entry P v SettingC a = map_option SettingM x"
  unfolding ex_map_option class_of_AccountC [symmetric] class_of_GenesisStatusC [symmetric]
    class_of_AtomicSwapInfoC [symmetric] class_of_PubKeyStorageC [symmetric] class_of_SettingC [symmetric]
  by (auto dest: entry_typed [OF assms])

lemma entry_update:
  "pb_roundtrip P \<Longrightarrow> valid_message m \<Longrightarrow>
   entry P (v(a \<mapsto> SerializeToString P m)) (class_of m) a = Some m"
  by (simp add: entry_def pb_roundtripD)

lemma entry_update_other [simp]: "a \<noteq> b \<Longrightarrow> entry P (v(b \<mapsto> d)) k a = entry P v k a"
  by (simp add: entry_def)

text \<open>A generator of \<open>n\<close> values unpacks into \<open>n\<close> names.\<close>

lemma get_multiple_data_two:
  "get_multiple_data P K [r1, r2] cs = Inr (vs, cs') \<Longrightarrow> \<exists>v1 v2. vs = [v1, v2]"
  by (auto simp: get_multiple_data_def res_simps)

lemma get_multiple_data_three:
  "get_multiple_data P K [r1, r2, r3] cs = Inr (vs, cs') \<Longrightarrow> \<exists>v1 v2 v3. vs = [v1, v2, v3]"
  by (auto simp: get_multiple_data_def res_simps)

section \<open>The interface of a context\<close>

text \<open>
  \<open>view c a\<close> is the data stored at address \<open>a\<close>, \<open>None\<close> when there is none. A read returns entries
  of requested addresses only, each with the data stored there, and has an entry for every
  requested address that holds data; an absent address may be left out (as Sawtooth does) or
  returned with \<open>None\<close>. A write of a dictionary that succeeds sets exactly its addresses. Events
  and receipts do not touch the state.
\<close>

locale sawtooth_context =
  fixes K :: "('c, 'b) ctx_ops"
    and view :: "'c \<Rightarrow> string \<rightharpoonup> 'b"
  assumes get_state_sound:
      "op_get_state K c as = Inr es \<Longrightarrow> (a, d) \<in> set es \<Longrightarrow> a \<in> set as \<and> d = view c a"
    and get_state_complete:
      "op_get_state K c as = Inr es \<Longrightarrow> a \<in> set as \<Longrightarrow> view c a = Some v \<Longrightarrow> (a, Some v) \<in> set es"
    and get_state_no_index_error: "op_get_state K c as \<noteq> Inl IndexError"
    and set_state_view:
      "op_set_state K c ents = (Inr r, c') \<Longrightarrow> distinct (map fst ents) \<Longrightarrow>
       view c' = view c ++ map_of ents"
    and add_event_view: "op_add_event K c t attrs = (u, c') \<Longrightarrow> view c' = view c"
begin

text \<open>A cache is coherent when every entry is what the context holds.\<close>

definition coherent :: "('c, 'b) cache_service \<Rightarrow> bool" where
  "coherent cs \<longleftrightarrow> (\<forall>a d. storage cs a = Some d \<longrightarrow> d = view (context_of cs) a)"

lemma coherent_new: "coherent (new_cache_service c)"
  by (simp add: coherent_def new_cache_service_def)

lemma store_entries_lookup:
  "store_entries s es a = Some d \<Longrightarrow> s a = Some d \<or> (a, d) \<in> set es"
proof (induction es arbitrary: s)
  case Nil
  then show ?case by simp
next
  case (Cons e es)
  obtain b v where e: "e = (b, v)" by force
  with Cons.prems have "store_entries (s(b \<mapsto> v)) es a = Some d" by simp
  from Cons.IH [OF this] e show ?case by (cases "a = b") auto
qed

lemma preload_state_coherent:
  assumes "preload_state K addresses cs = Inr ((), cs')" and "coherent cs"
  shows "coherent cs' \<and> context_of cs' = context_of cs"
  using assms get_state_sound
  by (fastforce simp: preload_state_def get_state_def coherent_def rbind_eq_Inr
      dest!: store_entries_lookup)

text \<open>A direct read: what a reader would see without the cache.\<close>

definition read :: "'b pblib \<Rightarrow> 'c \<Rightarrow> string \<times> pb_class \<Rightarrow> message option res" where
  "read P c r = parse_cached P (snd r) (view c (fst r))"

lemma get_state_single:
  assumes "op_get_state K c [a] = Inr es"
  shows "(es = [] \<and> view c a = None) \<or> (\<exists>es'. es = (a, view c a) # es')"
proof (cases es)
  case Nil
  with get_state_complete [OF assms, of a] show ?thesis by (cases "view c a") auto
next
  case (Cons e es')
  obtain b d where "e = (b, d)" by force
  with get_state_sound [OF assms, of b d] Cons show ?thesis by auto
qed

lemma get_cached_one_read:
  assumes "get_cached_one P K r cs = Inr (v, cs')" and "coherent cs"
  shows "read P (context_of cs) r = Inr v \<and> coherent cs' \<and> context_of cs' = context_of cs"
proof -
  obtain a k where r: "r = (a, k)" by force
  show ?thesis
  proof (cases "storage cs a")
    case (Some data)
    with assms show ?thesis
      by (auto simp: get_cached_one_def r read_def coherent_def res_simps)
  next
    case None
    show ?thesis
    proof (cases "op_get_state K (context_of cs) [a]")
      case (Inl e)
      with None assms get_state_no_index_error show ?thesis
        by (auto simp: get_cached_one_def r get_state_def split: if_splits)
    next
      case (Inr es)
      from get_state_single [OF this] None Inr assms show ?thesis
        by (auto simp: get_cached_one_def r read_def coherent_def get_state_def res_simps
            parse_cached_def [of _ _ None] split: if_splits)
    qed
  qed
qed

lemma get_cached_data_read:
  assumes "get_cached_data P K rs cs = Inr (vs, cs')" and "coherent cs"
  shows "map (read P (context_of cs)) rs = map Inr vs \<and> coherent cs' \<and> context_of cs' = context_of cs"
  using assms
proof (induction rs arbitrary: cs vs)
  case Nil
  then show ?case by simp
next
  case (Cons r rs)
  then obtain v cs1 ws where
      one: "get_cached_one P K r cs = Inr (v, cs1)" and
      rest: "get_cached_data P K rs cs1 = Inr (ws, cs')" and vs: "vs = v # ws"
    by (auto simp: res_simps)
  from get_cached_one_read [OF one Cons.prems(2)] Cons.IH [OF rest] vs
  show ?case by simp
qed

lemma get_data_read:
  assumes "get_data P K k a cs = Inr (v, cs')" and "coherent cs"
  shows "read P (context_of cs) (a, k) = Inr v \<and> coherent cs' \<and> context_of cs' = context_of cs"
proof -
  obtain vs where "get_cached_data P K [(a, k)] cs = Inr (vs, cs')"
      and v: "v = (case vs of [] \<Rightarrow> None | v # _ \<Rightarrow> v)"
    using assms(1) by (auto simp: get_data_def get_multiple_data_def sbind_eq_Inr)
  from get_cached_data_read [OF this(1) assms(2)] v show ?thesis
    by (cases vs) auto
qed

text \<open>The two readers of the processors, in terms of the state alone.\<close>

lemma get_data_entry:
  assumes "get_data P K k a cs = Inr (m, cs')" and "coherent cs"
  shows "entry P (view (context_of cs)) k a = m \<and> coherent cs' \<and> context_of cs' = context_of cs"
  using get_data_read [OF assms] by (auto simp: read_def dest: parse_cached_entry)

lemma get_multiple_data_entry:
  assumes "get_multiple_data P K rs cs = Inr (vs, cs')" and "coherent cs"
  shows "vs = map (\<lambda>(a, k). entry P (view (context_of cs)) k a) rs \<and> coherent cs' \<and>
    context_of cs' = context_of cs"
proof -
  have r: "map (read P (context_of cs)) rs = map Inr vs \<and> coherent cs' \<and> context_of cs' = context_of cs"
    using get_cached_data_read assms by (simp add: get_multiple_data_def)
  then have "map (read P (context_of cs)) rs = map Inr vs" ..
  then have "vs = map (\<lambda>(a, k). entry P (view (context_of cs)) k a) rs"
    by (induction rs arbitrary: vs) (auto simp: read_def dest: parse_cached_entry)
  with r show ?thesis by blast
qed

lemma set_state_service:
  assumes "set_state K cs ents = (Inr r, cs')" and "distinct (map fst ents)"
  shows "view (context_of cs') = view (context_of cs) ++ map_of ents"
  using assms set_state_view by (auto simp: set_state_def split: prod.splits)

lemma add_event_service:
  assumes "service_add_event K cs t attrs = (r, cs')"
  shows "view (context_of cs') = view (context_of cs)"
  using assms add_event_view by (auto simp: service_add_event_def split: prod.splits)

end

text \<open>
  A context that grants access: reads of readable addresses and writes to writable ones succeed,
  and an event is always recorded. Under this contract a read through the cache cannot fail.
\<close>

locale granting_context = sawtooth_context K view
  for K :: "('c, 'b) ctx_ops" and view :: "'c \<Rightarrow> string \<rightharpoonup> 'b" +
  fixes readable :: "'c \<Rightarrow> string set" and writable :: "'c \<Rightarrow> string set"
  assumes get_state_granted: "set as \<subseteq> readable c \<Longrightarrow> \<exists>es. op_get_state K c as = Inr es"
    and set_state_granted:
      "fst ` set ents \<subseteq> writable c \<Longrightarrow> \<exists>r c'. op_set_state K c ents = (Inr r, c')"
    and add_event_granted: "\<exists>c'. op_add_event K c t attrs = (Inr (), c')"
begin

lemma preload_state_granted:
  assumes "set (filter (\<lambda>a. length a = 70) as) \<subseteq> readable (context_of cs)"
  shows "\<exists>cs'. preload_state K as cs = Inr ((), cs')"
proof -
  from get_state_granted [OF assms]
  obtain es where "op_get_state K (context_of cs) (filter (\<lambda>a. length a = 70) as) = Inr es" ..
  then show ?thesis by (simp add: preload_state_def get_state_def)
qed

lemma get_cached_one_granted:
  assumes "pb_decode_errors P" and "coherent cs" and "a \<in> readable (context_of cs)"
  shows "\<exists>v cs'. get_cached_one P K (a, k) cs = Inr (v, cs')"
proof (cases "storage cs a")
  case (Some d)
  with assms(2) have "d = view (context_of cs) a" by (simp add: coherent_def)
  with Some parse_cached_total [OF assms(1)] show ?thesis by (simp add: get_cached_one_def)
next
  case None
  from get_state_granted [of "[a]"] assms(3)
  obtain es where es: "op_get_state K (context_of cs) [a] = Inr es" by auto
  from get_state_single [OF es] None es parse_cached_total [OF assms(1)] show ?thesis
    by (auto simp: get_cached_one_def get_state_def)
qed

lemma get_multiple_data_granted:
  assumes "pb_decode_errors P" and "coherent cs" and "fst ` set rs \<subseteq> readable (context_of cs)"
  shows "\<exists>cs'. get_multiple_data P K rs cs
    = Inr (map (\<lambda>(a, k). entry P (view (context_of cs)) k a) rs, cs')"
proof -
  have "\<exists>vs cs'. get_cached_data P K rs cs = Inr (vs, cs')"
    using assms(2,3)
  proof (induction rs arbitrary: cs)
    case Nil
    then show ?case by simp
  next
    case (Cons r rs)
    obtain a k where r: "r = (a, k)" by force
    from get_cached_one_granted [OF assms(1) Cons.prems(1), of a k] Cons.prems(2) r
    obtain v cs1 where one: "get_cached_one P K r cs = Inr (v, cs1)" by auto
    from get_cached_one_read [OF one Cons.prems(1)] Cons.IH [of cs1] Cons.prems(2) one
    show ?case by auto
  qed
  with get_multiple_data_entry assms(2) show ?thesis
    by (metis get_multiple_data_def)
qed

lemma get_data_granted:
  assumes "pb_decode_errors P" and "coherent cs" and "a \<in> readable (context_of cs)"
  shows "\<exists>cs'. get_data P K k a cs = Inr (entry P (view (context_of cs)) k a, cs') \<and>
    coherent cs' \<and> context_of cs' = context_of cs"
proof -
  obtain cs' where g: "get_multiple_data P K [(a, k)] cs
      = Inr (map (\<lambda>(a, k). entry P (view (context_of cs)) k a) [(a, k)], cs')"
    using get_multiple_data_granted [OF assms(1,2), of "[(a, k)]"] assms(3) by auto
  from g get_multiple_data_entry [OF g assms(2)] show ?thesis
    by (simp add: get_data_def)
qed

end

section \<open>The stub context of the tests\<close>

text \<open>
  \<open>StubContext\<close>: the state is a dictionary whose missing keys and \<open>None\<close> values read alike. It
  checks reads against the inputs and writes against the outputs, one entry after the other.
\<close>

record 'b stub_context =
  stub_inputs :: "string list"
  stub_outputs :: "string list"
  stub_state :: "string \<rightharpoonup> 'b"
  stub_events :: "(string \<times> (string \<times> string) list) list"

definition stub_get_state :: "'b stub_context \<Rightarrow> string list \<Rightarrow> (string \<times> 'b option) list res" where
  "stub_get_state c addresses =
     (if \<exists>a \<in> set addresses. a \<notin> set (stub_inputs c) then Inl AuthorizationException
      else Inr (map (\<lambda>a. (a, stub_state c a)) addresses))"

fun stub_set_state_loop ::
  "string list \<Rightarrow> 'b stub_context \<Rightarrow> (string \<times> 'b) list \<Rightarrow> string list res \<times> 'b stub_context"
where
  "stub_set_state_loop response c [] = (Inr response, c)"
| "stub_set_state_loop response c ((address, data) # ents) =
     (if address \<notin> set (stub_outputs c) then (Inl AuthorizationException, c)
      else stub_set_state_loop (response @ [address])
             (c\<lparr>stub_state := (stub_state c)(address \<mapsto> data)\<rparr>) ents)"

definition stub_set_state :: "'b stub_context \<Rightarrow> (string \<times> 'b) list \<Rightarrow> string list res \<times> 'b stub_context" where
  "stub_set_state c ents = stub_set_state_loop [] c ents"

definition stub_add_event ::
  "'b stub_context \<Rightarrow> string \<Rightarrow> (string \<times> string) list \<Rightarrow> unit res \<times> 'b stub_context"
where
  "stub_add_event c event_type attributes =
     (Inr (), c\<lparr>stub_events := stub_events c @ [(event_type, attributes)]\<rparr>)"

text \<open>The class has neither \<open>delete_state\<close> nor \<open>add_receipt_data\<close>: calling them raises.\<close>

definition stub_ops :: "('b stub_context, 'b) ctx_ops" where
  "stub_ops = \<lparr>
     op_get_state = stub_get_state,
     op_set_state = stub_set_state,
     op_delete_state = (\<lambda>c as. (Inl AttributeError, c)),
     op_add_receipt_data = (\<lambda>c d. (Inl AttributeError, c)),
     op_add_event = stub_add_event \<rparr>"

lemma stub_ops_simps [simp]:
  "op_get_state stub_ops = stub_get_state" "op_set_state stub_ops = stub_set_state"
  "op_add_event stub_ops = stub_add_event"
  by (simp_all add: stub_ops_def)

lemma stub_set_state_loop_ok:
  assumes "stub_set_state_loop resp c ents = (Inr r, c')"
  shows "r = resp @ map fst ents \<and> set (map fst ents) \<subseteq> set (stub_outputs c) \<and>
    c' = c\<lparr>stub_state := stub_state c ++ map_of (rev ents)\<rparr>"
  using assms
proof (induction resp c ents rule: stub_set_state_loop.induct)
  case (1 resp c)
  then show ?case by simp
next
  case (2 resp c address data ents)
  then show ?case by (auto split: if_splits)
qed

lemma map_of_rev_distinct: "distinct (map fst ents) \<Longrightarrow> map_of (rev ents) = map_of ents"
  by (rule map_of_eqI) (auto simp: map_of_eq_Some_iff distinct_map rev_map [symmetric])

interpretation stub: sawtooth_context stub_ops stub_state
proof unfold_locales
  fix c :: "'b stub_context" and as es a d
  assume "op_get_state stub_ops c as = Inr es" "(a, d) \<in> set es"
  then show "a \<in> set as \<and> d = stub_state c a"
    by (auto simp: stub_ops_def stub_get_state_def split: if_splits)
next
  fix c :: "'b stub_context" and as es a d
  assume "op_get_state stub_ops c as = Inr es" "a \<in> set as" "stub_state c a = Some d"
  then show "(a, Some d) \<in> set es"
    by (auto simp: stub_ops_def stub_get_state_def image_iff split: if_splits)
next
  fix c :: "'b stub_context" and as
  show "op_get_state stub_ops c as \<noteq> Inl IndexError"
    by (simp add: stub_ops_def stub_get_state_def)
next
  fix c :: "'b stub_context" and ents r c'
  assume "op_set_state stub_ops c ents = (Inr r, c')" "distinct (map fst ents)"
  then show "stub_state c' = stub_state c ++ map_of ents"
    by (auto simp: stub_ops_def stub_set_state_def map_of_rev_distinct
        dest: stub_set_state_loop_ok)
next
  fix c :: "'b stub_context" and t attrs r c'
  assume "op_add_event stub_ops c t attrs = (r, c')"
  then show "stub_state c' = stub_state c"
    by (auto simp: stub_ops_def stub_add_event_def)
qed

lemma stub_set_state_loop_granted:
  "fst ` set ents \<subseteq> set (stub_outputs c) \<Longrightarrow>
   \<exists>r c'. stub_set_state_loop resp c ents = (Inr r, c')"
  by (induction resp c ents rule: stub_set_state_loop.induct) auto

interpretation stub: granting_context stub_ops stub_state
  "\<lambda>c. set (stub_inputs c)" "\<lambda>c. set (stub_outputs c)"
  by unfold_locales
    (auto simp: stub_ops_def stub_get_state_def stub_set_state_def stub_add_event_def
      intro!: stub_set_state_loop_granted)

end
