(* ===== verification/Sha2.thy ===== *)
theory Sha2
  imports Prelude
begin

text \<open>
  The two digests of Python's \<open>hashlib\<close> the node uses to derive every state address: SHA-512
  (\<open>hash512\<close> of \<open>remme/shared/utils.py\<close>) and SHA-256 (\<open>_to_hash\<close> of
  \<open>remme/settings/helper.py\<close>), as executable functions on byte strings. A word of \<open>w\<close> bits is an
  integer between 0 and \<open>2 ^ w\<close>, with the reduction modulo \<open>2 ^ w\<close> written out. One definition
  serves both digests: they differ in the word size, the rotation amounts, the round constants and
  the initial value. The interface the rest of the development relies on is the locale
  \<open>hex_digest\<close>: the digest is a lower-case hexadecimal string of fixed length.
\<close>

unbundle bit_operations_syntax

section \<open>Words\<close>

definition addw :: "nat \<Rightarrow> int \<Rightarrow> int \<Rightarrow> int" where
  "addw w x y = (x + y) mod 2 ^ w"

definition shr :: "nat \<Rightarrow> int \<Rightarrow> int" where
  "shr n x = x div 2 ^ n"

definition rotr :: "nat \<Rightarrow> nat \<Rightarrow> int \<Rightarrow> int" where
  "rotr w n x = x div 2 ^ n + (x mod 2 ^ n) * 2 ^ (w - n)"

definition Ch :: "nat \<Rightarrow> int \<Rightarrow> int \<Rightarrow> int \<Rightarrow> int" where
  "Ch w x y z = (x AND y) XOR ((2 ^ w - 1 - x) AND z)"

definition Maj :: "int \<Rightarrow> int \<Rightarrow> int \<Rightarrow> int" where
  "Maj x y z = (x AND y) XOR (x AND z) XOR (y AND z)"

type_synonym amounts = "nat \<times> nat \<times> nat"

fun big_sigma :: "nat \<Rightarrow> amounts \<Rightarrow> int \<Rightarrow> int" where
  "big_sigma w (i, j, k) x = rotr w i x XOR rotr w j x XOR rotr w k x"

fun small_sigma :: "nat \<Rightarrow> amounts \<Rightarrow> int \<Rightarrow> int" where
  "small_sigma w (i, j, k) x = rotr w i x XOR rotr w j x XOR shr k x"

section \<open>The compression function\<close>

type_synonym chain = "int \<times> int \<times> int \<times> int \<times> int \<times> int \<times> int \<times> int"

fun sha2_round :: "nat \<Rightarrow> amounts \<Rightarrow> amounts \<Rightarrow> int \<Rightarrow> int \<Rightarrow> chain \<Rightarrow> chain" where
  "sha2_round w A B k m (a, b, c, d, e, f, g, h) =
     (let t1 = addw w h (addw w (big_sigma w B e) (addw w (Ch w e f g) (addw w k m)));
          t2 = addw w (big_sigma w A a) (Maj a b c)
      in (addw w t1 t2, a, b, c, addw w d t1, e, f, g))"

text \<open>The next word of the message schedule, from the window of the last sixteen.\<close>

definition next_word :: "nat \<Rightarrow> amounts \<Rightarrow> amounts \<Rightarrow> int list \<Rightarrow> int" where
  "next_word w A B ws =
     addw w (small_sigma w B (ws ! 14)) (addw w (ws ! 9) (addw w (small_sigma w A (ws ! 1)) (ws ! 0)))"

fun sha2_rounds ::
  "nat \<Rightarrow> amounts \<Rightarrow> amounts \<Rightarrow> amounts \<Rightarrow> amounts \<Rightarrow> int list \<Rightarrow> int list \<Rightarrow> chain \<Rightarrow> chain"
where
  "sha2_rounds w A B a b [] ws s = s"
| "sha2_rounds w A B a b (k # ks) ws s =
     sha2_rounds w A B a b ks (tl ws @ [next_word w a b ws]) (sha2_round w A B k (hd ws) s)"

fun add_chain :: "nat \<Rightarrow> chain \<Rightarrow> chain \<Rightarrow> chain" where
  "add_chain w (a, b, c, d, e, f, g, h) (a', b', c', d', e', f', g', h') =
     (addw w a a', addw w b b', addw w c c', addw w d d',
      addw w e e', addw w f f', addw w g g', addw w h h')"

section \<open>Padding and words of a block\<close>

fun be_bytes :: "nat \<Rightarrow> int \<Rightarrow> int list" where
  "be_bytes 0 v = []"
| "be_bytes (Suc n) v = be_bytes n (v div 256) @ [v mod 256]"

definition pad :: "nat \<Rightarrow> nat \<Rightarrow> int list \<Rightarrow> int list" where
  "pad block lenbytes m =
     (let l = length m; z = (block - (l + 1 + lenbytes) mod block) mod block
      in m @ [128] @ replicate z 0 @ be_bytes lenbytes (int (8 * l)))"

function chunks :: "nat \<Rightarrow> 'a list \<Rightarrow> 'a list list" where
  "chunks n xs = (if n = 0 \<or> xs = [] then [] else take n xs # chunks n (drop n xs))"
  by pat_completeness auto
termination by (relation "measure (\<lambda>(n, xs). length xs)") auto

declare chunks.simps [simp del]

definition be_word :: "int list \<Rightarrow> int" where
  "be_word bs = foldl (\<lambda>acc b. acc * 256 + b) 0 bs"

record sha2_params =
  word_bits :: nat
  big0 :: amounts
  big1 :: amounts
  small0 :: amounts
  small1 :: amounts
  round_constants :: "int list"
  initial_value :: chain

definition sha2_block :: "sha2_params \<Rightarrow> chain \<Rightarrow> int list \<Rightarrow> chain" where
  "sha2_block p s bs =
     add_chain (word_bits p) s
       (sha2_rounds (word_bits p) (big0 p) (big1 p) (small0 p) (small1 p) (round_constants p)
          (map be_word (chunks (word_bits p div 8) bs)) s)"

definition sha2_digest :: "sha2_params \<Rightarrow> string \<Rightarrow> chain" where
  "sha2_digest p m =
     foldl (sha2_block p) (initial_value p)
       (chunks (2 * word_bits p) (pad (2 * word_bits p) (word_bits p div 4) (map of_char m)))"

section \<open>Hexadecimal digests\<close>

fun fixed_hex :: "nat \<Rightarrow> int \<Rightarrow> string" where
  "fixed_hex 0 v = []"
| "fixed_hex (Suc n) v = fixed_hex n (v div 16) @ [hex_chars ! nat (v mod 16)]"

fun chain_hex :: "nat \<Rightarrow> chain \<Rightarrow> string" where
  "chain_hex n (a, b, c, d, e, f, g, h) =
     fixed_hex n a @ fixed_hex n b @ fixed_hex n c @ fixed_hex n d @
     fixed_hex n e @ fixed_hex n f @ fixed_hex n g @ fixed_hex n h"

definition sha2_hexdigest :: "sha2_params \<Rightarrow> string \<Rightarrow> string" where
  "sha2_hexdigest p m = chain_hex (word_bits p div 4) (sha2_digest p m)"

lemma length_fixed_hex [simp]: "length (fixed_hex n v) = n"
  by (induction n arbitrary: v) auto

lemma fixed_hex_hex [simp]: "list_all is_hex (fixed_hex n v)"
  by (induction n arbitrary: v) (auto intro: is_hex_hex_chars)

lemma length_chain_hex [simp]: "length (chain_hex n s) = 8 * n"
  by (cases "(n, s)" rule: chain_hex.cases) simp

lemma chain_hex_hex [simp]: "list_all is_hex (chain_hex n s)"
  by (cases "(n, s)" rule: chain_hex.cases) simp

lemma length_sha2_hexdigest: "length (sha2_hexdigest p m) = 8 * (word_bits p div 4)"
  by (simp add: sha2_hexdigest_def)

lemma sha2_hexdigest_hex: "list_all is_hex (sha2_hexdigest p m)"
  by (simp add: sha2_hexdigest_def)

section \<open>SHA-512 and SHA-256\<close>

text \<open>
  The constants are the fractional bits of roots of the first primes: cube roots for the rounds and
  square roots for the initial value. Those of SHA-256 are the upper halves of those of SHA-512.
\<close>

definition sha512_constants :: "int list" where
  "sha512_constants = [
    4794697086780616226, 8158064640168781261, 13096744586834688815,
    16840607885511220156, 4131703408338449720, 6480981068601479193,
    10538285296894168987, 12329834152419229976, 15566598209576043074,
    1334009975649890238, 2608012711638119052, 6128411473006802146,
    8268148722764581231, 9286055187155687089, 11230858885718282805,
    13951009754708518548, 16472876342353939154, 17275323862435702243,
    1135362057144423861, 2597628984639134821, 3308224258029322869,
    5365058923640841347, 6679025012923562964, 8573033837759648693,
    10970295158949994411, 12119686244451234320, 12683024718118986047,
    13788192230050041572, 14330467153632333762, 15395433587784984357,
    489312712824947311, 1452737877330783856, 2861767655752347644,
    3322285676063803686, 5560940570517711597, 5996557281743188959,
    7280758554555802590, 8532644243296465576, 9350256976987008742,
    10552545826968843579, 11727347734174303076, 12113106623233404929,
    14000437183269869457, 14369950271660146224, 15101387698204529176,
    15463397548674623760, 17586052441742319658, 1182934255886127544,
    1847814050463011016, 2177327727835720531, 2830643537854262169,
    3796741975233480872, 4115178125766777443, 5681478168544905931,
    6601373596472566643, 7507060721942968483, 8399075790359081724,
    8693463985226723168, 9568029438360202098, 10144078919501101548,
    10430055236837252648, 11840083180663258601, 13761210420658862357,
    14299343276471374635, 14566680578165727644, 15097957966210449927,
    16922976911328602910, 17689382322260857208, 500013540394364858,
    748580250866718886, 1242879168328830382, 1977374033974150939,
    2944078676154940804, 3659926193048069267, 4368137639120453308,
    4836135668995329356, 5532061633213252278, 6448918945643986474,
    6902733635092675308, 7801388544844847127]"

definition sha512_initial :: "int list" where
  "sha512_initial = [
    7640891576956012808, 13503953896175478587, 4354685564936845355,
    11912009170470909681, 5840696475078001361, 11170449401992604703,
    2270897969802886507, 6620516959819538809]"

definition primes80 :: "int list" where
  "primes80 = [
    2, 3, 5, 7, 11, 13, 17, 19, 23, 29, 31, 37, 41, 43, 47, 53, 59, 61, 67, 71,
    73, 79, 83, 89, 97, 101, 103, 107, 109, 113, 127, 131, 137, 139, 149, 151, 157, 163, 167, 173,
    179, 181, 191, 193, 197, 199, 211, 223, 227, 229, 233, 239, 241, 251, 257, 263, 269, 271, 277, 281,
    283, 293, 307, 311, 313, 317, 331, 337, 347, 349, 353, 359, 367, 373, 379, 383, 389, 397, 401, 409]"

text \<open>\<open>v\<close> holds the bits of the \<open>n\<close>-th root of \<open>q\<close> behind the point, \<open>64\<close> of them.\<close>

definition int_root :: "nat \<Rightarrow> int \<Rightarrow> int" where
  "int_root n q = int (length (takeWhile (\<lambda>f. f ^ n \<le> q) [1..20]))"

definition root_bits :: "nat \<Rightarrow> int \<Rightarrow> int \<Rightarrow> bool" where
  "root_bits n q v \<longleftrightarrow>
     (let x = int_root n q * 2 ^ 64 + v in
      0 \<le> v \<and> v < 2 ^ 64 \<and> x ^ n \<le> q * 2 ^ (64 * n) \<and> q * 2 ^ (64 * n) < (x + 1) ^ n)"

definition chain_of :: "int list \<Rightarrow> chain" where
  "chain_of xs = (xs ! 0, xs ! 1, xs ! 2, xs ! 3, xs ! 4, xs ! 5, xs ! 6, xs ! 7)"

definition sha512_params :: sha2_params where
  "sha512_params = \<lparr>
    word_bits = 64,
    big0 = (28, 34, 39), big1 = (14, 18, 41), small0 = (1, 8, 7), small1 = (19, 61, 6),
    round_constants = sha512_constants, initial_value = chain_of sha512_initial \<rparr>"

definition sha256_params :: sha2_params where
  "sha256_params = \<lparr>
    word_bits = 32,
    big0 = (2, 13, 22), big1 = (6, 11, 25), small0 = (7, 18, 3), small1 = (17, 19, 10),
    round_constants = map (shr 32) (take 64 sha512_constants),
    initial_value = chain_of (map (shr 32) sha512_initial) \<rparr>"

lemma sha512_constants_roots: "list_all2 (root_bits 3) primes80 sha512_constants"
  by code_simp

lemma sha512_initial_roots: "list_all2 (root_bits 2) (take 8 primes80) sha512_initial"
  by code_simp

text \<open>\<open>hash512\<close> of \<open>remme/shared/utils.py\<close>: \<open>hashlib.sha512(data).hexdigest()\<close>.\<close>

definition hash512 :: "string \<Rightarrow> string" where
  "hash512 data = sha2_hexdigest sha512_params data"

text \<open>\<open>_to_hash\<close> of \<open>remme/settings/helper.py\<close>: \<open>hashlib.sha256(value.encode()).hexdigest()\<close>.\<close>

definition to_hash :: "string \<Rightarrow> string" where
  "to_hash value = sha2_hexdigest sha256_params value"

section \<open>The interface of a digest\<close>

locale hex_digest =
  fixes digest :: "string \<Rightarrow> string"
    and size :: nat
  assumes length_digest: "length (digest m) = size"
    and hex_digest_chars: "list_all is_hex (digest m)"
begin

lemma length_take_digest: "n \<le> size \<Longrightarrow> length (take n (digest m)) = n"
  by (simp add: length_digest)

lemma take_digest_hex: "list_all is_hex (take n (digest m))"
  using hex_digest_chars by (auto simp: list_all_iff dest: in_set_takeD)

end

interpretation sha512: hex_digest hash512 128
  by unfold_locales
    (simp_all add: hash512_def length_sha2_hexdigest sha2_hexdigest_hex, simp add: sha512_params_def)

interpretation sha256: hex_digest to_hash 64
  by unfold_locales
    (simp_all add: to_hash_def length_sha2_hexdigest sha2_hexdigest_hex, simp add: sha256_params_def)

end
