(* ===== verification/Json.thy ===== *)
theory Json
  imports Messages
begin

text \<open>
  \<open>json.dumps\<close> and \<open>json.loads\<close> of the Python standard library, for the values a decoded message has:
  the transaction processors write event attributes with the one, and the node's event handlers
  read them with the other. Numbers with a fraction or an exponent are outside the model and raise
  \<open>NotImplementedError\<close>; no message the node writes has any.
\<close>

section \<open>Writing\<close>

text \<open>\<open>json.dumps\<close> with its default separators, for strings of ASCII characters.\<close>

definition json_char :: "char \<Rightarrow> string" where
  "json_char c =
     (let n = (of_char c :: nat) in
      if c = CHR 0x22 then [CHR 0x5C, CHR 0x22]
      else if c = CHR 0x5C then [CHR 0x5C, CHR 0x5C]
      else if n = 10 then CHR 0x5C # ''n''
      else if n = 13 then CHR 0x5C # ''r''
      else if n = 9 then CHR 0x5C # ''t''
      else if n = 8 then CHR 0x5C # ''b''
      else if n = 12 then CHR 0x5C # ''f''
      else if n < 32 \<or> n = 127 then CHR 0x5C # ''u'' @ zfill 4 (hex_digits n)
      else [c])"

definition json_string :: "string \<Rightarrow> string" where
  "json_string s = CHR 0x22 # concat (map json_char s) @ [CHR 0x22]"

fun json_dumps :: "pyval \<Rightarrow> string" where
  "json_dumps PNone = ''null''"
| "json_dumps (PBool b) = (if b then ''true'' else ''false'')"
| "json_dumps (PInt n) = py_str n"
| "json_dumps (PFloat n) = py_str n @ ''.0''"
| "json_dumps (PStr s) = json_string s"
| "json_dumps (PList xs) = ''['' @ join '', '' (map json_dumps xs) @ '']''"
| "json_dumps (PDict xs) =
     ''{'' @ join '', '' (map (\<lambda>(k, v). json_string k @ '': '' @ json_dumps v) xs) @ ''}''"

section \<open>Reading\<close>

fun skip_ws :: "string \<Rightarrow> string" where
  "skip_ws [] = []"
| "skip_ws (c # cs) =
     (if c = CHR '' '' \<or> c = CHR 0x09 \<or> c = CHR 0x0A \<or> c = CHR 0x0D then skip_ws cs else c # cs)"

text \<open>The UTF-8 encoding of a code point.\<close>

definition utf8_encode :: "nat \<Rightarrow> string" where
  "utf8_encode n =
     (if n < 0x80 then [char_of n]
      else if n < 0x800 then [char_of (0xC0 + n div 64), char_of (0x80 + n mod 64)]
      else if n < 0x10000 then
        [char_of (0xE0 + n div 4096), char_of (0x80 + n div 64 mod 64), char_of (0x80 + n mod 64)]
      else [char_of (0xF0 + n div 262144), char_of (0x80 + n div 4096 mod 64),
            char_of (0x80 + n div 64 mod 64), char_of (0x80 + n mod 64)])"

fun hex4 :: "string \<Rightarrow> (nat \<times> string) res" where
  "hex4 (a # b # c # d # r) =
     (case (digit_value a, digit_value b, digit_value c, digit_value d) of
        (Some i, Some j, Some k, Some l) \<Rightarrow> Inr (4096 * i + 256 * j + 16 * k + l, r)
      | _ \<Rightarrow> Inl ValueError)"
| "hex4 _ = Inl ValueError"

text \<open>A four-digit escape; two of them that form a surrogate pair are one code point.\<close>

definition unicode_escape :: "string \<Rightarrow> (nat \<times> string) res" where
  "unicode_escape s =
     rbind (hex4 s) (\<lambda>(n, r).
       if 0xD800 \<le> n \<and> n \<le> 0xDBFF \<and> startswith r (CHR 0x5C # ''u'') then
         (case hex4 (drop 2 r) of
            Inr (m, r') \<Rightarrow>
              if 0xDC00 \<le> m \<and> m \<le> 0xDFFF then Inr (0x10000 + (n - 0xD800) * 1024 + (m - 0xDC00), r')
              else Inr (n, r)
          | Inl e \<Rightarrow> Inl e)
       else Inr (n, r))"

definition simple_escapes :: "(char \<times> char) list" where
  "simple_escapes =
     [(CHR 0x22, CHR 0x22), (CHR 0x5C, CHR 0x5C), (CHR ''/'', CHR ''/''), (CHR ''b'', CHR 0x08),
      (CHR ''f'', CHR 0x0C), (CHR ''n'', CHR 0x0A), (CHR ''r'', CHR 0x0D), (CHR ''t'', CHR 0x09)]"

lemma hex4_length: "hex4 s = Inr (n, r) \<Longrightarrow> length r < length s"
  by (cases s rule: hex4.cases) (auto split: option.splits)

lemma unicode_escape_length: "unicode_escape s = Inr (n, r) \<Longrightarrow> length r < length s"
  by (auto simp: unicode_escape_def rbind_eq_Inr simp del: startswith_code
      split: if_splits sum.splits prod.splits dest!: hex4_length)

function json_read_string :: "string \<Rightarrow> (string \<times> string) res" where
  "json_read_string [] = Inl ValueError"
| "json_read_string (c # t) =
     (if c = CHR 0x22 then Inr ([], t)
      else if c = CHR 0x5C then
        (case t of
           [] \<Rightarrow> Inl ValueError
         | e # u \<Rightarrow>
             if e = CHR ''u'' then
               (case unicode_escape u of
                  Inl x \<Rightarrow> Inl x
                | Inr (n, w) \<Rightarrow> rbind (json_read_string w) (\<lambda>(s, r). Inr (utf8_encode n @ s, r)))
             else (case map_of simple_escapes e of
                     None \<Rightarrow> Inl ValueError
                   | Some x \<Rightarrow> rbind (json_read_string u) (\<lambda>(s, r). Inr (x # s, r))))
      else if (of_char c :: nat) < 32 then Inl ValueError
      else rbind (json_read_string t) (\<lambda>(s, r). Inr (c # s, r)))"
  by pat_completeness auto
termination
  by (relation "measure length") (auto dest: unicode_escape_length)

fun read_digits :: "nat \<Rightarrow> string \<Rightarrow> nat \<times> string" where
  "read_digits acc [] = (acc, [])"
| "read_digits acc (c # cs) =
     (if is_digit c then read_digits (10 * acc + (of_char c - 48)) cs else (acc, c # cs))"

definition is_fraction :: "string \<Rightarrow> bool" where
  "is_fraction r =
     (case r of
        [] \<Rightarrow> False
      | e # t \<Rightarrow>
          if e = CHR ''.'' then (case t of d # _ \<Rightarrow> is_digit d | _ \<Rightarrow> False)
          else (e = CHR ''e'' \<or> e = CHR ''E'') \<and>
            (case t of
               d # u \<Rightarrow> is_digit d \<or> ((d = CHR ''+'' \<or> d = CHR ''-'') \<and> (case u of x # _ \<Rightarrow> is_digit x | _ \<Rightarrow> False))
             | _ \<Rightarrow> False))"

definition read_nat :: "string \<Rightarrow> (nat \<times> string) res" where
  "read_nat s =
     (case s of
        [] \<Rightarrow> Inl ValueError
      | c # t \<Rightarrow>
          if \<not> is_digit c then Inl ValueError
          else (let (n, r) = (if c = CHR ''0'' then (0, t) else read_digits 0 s)
                in if is_fraction r then Inl NotImplementedError else Inr (n, r)))"

definition json_read_number :: "string \<Rightarrow> (pyval \<times> string) res" where
  "json_read_number s =
     (if startswith s ''-'' then rbind (read_nat (drop 1 s)) (\<lambda>(n, r). Inr (PInt (- int n), r))
      else rbind (read_nat s) (\<lambda>(n, r). Inr (PInt (int n), r)))"

text \<open>
  The recursive descent of the scanner, on fuel: \<open>read_value\<close> for a value, \<open>read_items\<close> for the
  elements of an array up to its bracket, \<open>read_members\<close> for those of an object. Each level of the
  recursion reads at least one character in every two steps.
\<close>

fun read_value :: "nat \<Rightarrow> string \<Rightarrow> (pyval \<times> string) res"
  and read_items :: "nat \<Rightarrow> string \<Rightarrow> (pyval list \<times> string) res"
  and read_members :: "nat \<Rightarrow> string \<Rightarrow> ((string \<times> pyval) list \<times> string) res"
where
  "read_value 0 s = Inl ValueError"
| "read_value (Suc n) s =
     (case s of
        [] \<Rightarrow> Inl ValueError
      | c # t \<Rightarrow>
          if c = CHR 0x22 then rbind (json_read_string t) (\<lambda>(x, r). Inr (PStr x, r))
          else if c = CHR ''['' then
            (if startswith (skip_ws t) '']'' then Inr (PList [], drop 1 (skip_ws t))
             else rbind (read_items n (skip_ws t)) (\<lambda>(xs, r). Inr (PList xs, r)))
          else if c = CHR ''{'' then
            (if startswith (skip_ws t) ''}'' then Inr (PDict [], drop 1 (skip_ws t))
             else rbind (read_members n (skip_ws t)) (\<lambda>(xs, r). Inr (PDict (dict_literal xs), r)))
          else if startswith s ''null'' then Inr (PNone, drop 4 s)
          else if startswith s ''true'' then Inr (PBool True, drop 4 s)
          else if startswith s ''false'' then Inr (PBool False, drop 5 s)
          else if list_ex (startswith s) [''NaN'', ''Infinity'', ''-Infinity''] then Inl NotImplementedError
          else json_read_number s)"
| "read_items 0 s = Inl ValueError"
| "read_items (Suc n) s =
     rbind (read_value n s) (\<lambda>(v, r).
       case skip_ws r of
         [] \<Rightarrow> Inl ValueError
       | d # u \<Rightarrow>
           if d = CHR '','' then rbind (read_items n (skip_ws u)) (\<lambda>(vs, w). Inr (v # vs, w))
           else if d = CHR '']'' then Inr ([v], u)
           else Inl ValueError)"
| "read_members 0 s = Inl ValueError"
| "read_members (Suc n) s =
     (case s of
        [] \<Rightarrow> Inl ValueError
      | q # t \<Rightarrow>
          if q \<noteq> CHR 0x22 then Inl ValueError
          else rbind (json_read_string t) (\<lambda>(k, r).
            if \<not> startswith (skip_ws r) '':'' then Inl ValueError
            else rbind (read_value n (skip_ws (drop 1 (skip_ws r)))) (\<lambda>(v, r2).
              case skip_ws r2 of
                [] \<Rightarrow> Inl ValueError
              | d # u \<Rightarrow>
                  if d = CHR '','' then rbind (read_members n (skip_ws u)) (\<lambda>(vs, w). Inr ((k, v) # vs, w))
                  else if d = CHR ''}'' then Inr ([(k, v)], u)
                  else Inl ValueError)))"

definition json_loads :: "string \<Rightarrow> pyval res" where
  "json_loads s =
     rbind (read_value (2 * length s + 2) (skip_ws s))
       (\<lambda>(v, r). if skip_ws r = [] then Inr v else Inl ValueError)"

section \<open>The fuel of the reader\<close>

text \<open>Every part of the reader consumes what it reads.\<close>

lemma skip_ws_length: "length (skip_ws s) \<le> length s"
  by (induction s) auto

lemma json_read_string_length: "json_read_string s = Inr (x, r) \<Longrightarrow> length r < length s"
proof (induction s arbitrary: x r rule: json_read_string.induct)
  case (2 c t)
  then show ?case
    by (fastforce simp: rbind_eq_Inr split: if_splits list.splits sum.splits prod.splits option.splits
        dest!: unicode_escape_length)
qed simp

lemma read_digits_length: "length (snd (read_digits acc s)) \<le> length s"
  by (induction s arbitrary: acc) (auto simp: le_SucI)

lemma read_nat_length: "read_nat s = Inr (n, r) \<Longrightarrow> length r < length s"
  using read_digits_length [of "10 * 0 + (of_char (hd s) - 48)" "tl s"]
  by (auto simp: read_nat_def Let_def split: list.splits if_splits prod.splits)

lemma json_read_number_length: "json_read_number s = Inr (v, r) \<Longrightarrow> length r < length s"
  by (cases s) (auto simp: json_read_number_def rbind_eq_Inr split: if_splits dest!: read_nat_length)

lemma read_length:
  "(read_value n s = Inr (v, r) \<longrightarrow> length r < length s) \<and>
   (read_items n s = Inr (vs, r) \<longrightarrow> length r < length s) \<and>
   (read_members n s = Inr (ms, r) \<longrightarrow> length r < length s)"
proof (induction n arbitrary: s v vs ms r)
  case (Suc n)
  note IH = Suc.IH [THEN conjunct1, rule_format] Suc.IH [THEN conjunct2, THEN conjunct1, rule_format]
    Suc.IH [THEN conjunct2, THEN conjunct2, rule_format]
  have "length r < length s" if "read_value (Suc n) s = Inr (v, r)"
  proof (cases s)
    case (Cons c t)
    have w: "length (skip_ws t) < length s" using skip_ws_length [of t] Cons by simp
    show ?thesis
      using that w IH(2) [of "skip_ws t"] IH(3) [of "skip_ws t"] json_read_string_length [of t] json_read_number_length [of s]
      by (auto simp: Cons rbind_eq_Inr simp del: startswith_code split: if_splits)
  qed (use that in simp)
  moreover have "length r < length s" if "read_items (Suc n) s = Inr (vs, r)"
  proof -
    from that obtain v r1 where v: "read_value n s = Inr (v, r1)"
      and r: "(case skip_ws r1 of [] \<Rightarrow> Inl ValueError
         | d # u \<Rightarrow> if d = CHR '','' then rbind (read_items n (skip_ws u)) (\<lambda>(vs, w). Inr (v # vs, w))
             else if d = CHR '']'' then Inr ([v], u) else Inl ValueError) = Inr (vs, r)"
      by (auto simp: rbind_eq_Inr)
    have "length (skip_ws r1) < length s" using skip_ws_length [of r1] IH(1) [OF v] by simp
    then show ?thesis
      using r skip_ws_length [of "tl (skip_ws r1)"]
      by (auto simp: rbind_eq_Inr split: list.splits if_splits dest!: IH(2))
  qed
  moreover have "length r < length s" if "read_members (Suc n) s = Inr (ms, r)"
  proof -
    from that obtain t k r0 v r1 where s: "s = CHR 0x22 # t" and k: "json_read_string t = Inr (k, r0)"
      and v: "read_value n (skip_ws (drop 1 (skip_ws r0))) = Inr (v, r1)"
      and r: "(case skip_ws r1 of [] \<Rightarrow> Inl ValueError
         | d # u \<Rightarrow> if d = CHR '','' then rbind (read_members n (skip_ws u)) (\<lambda>(vs, w). Inr ((k, v) # vs, w))
             else if d = CHR ''}'' then Inr ([(k, v)], u) else Inl ValueError) = Inr (ms, r)"
      by (cases s) (auto simp: rbind_eq_Inr simp del: startswith_code split: if_splits)
    have "length (skip_ws (drop 1 (skip_ws r0))) < length s"
      using skip_ws_length [of "drop 1 (skip_ws r0)"] skip_ws_length [of r0] json_read_string_length [OF k] s by simp
    with IH(1) [OF v] skip_ws_length [of r1] have "length (skip_ws r1) < length s" by simp
    then show ?thesis
      using r skip_ws_length [of "tl (skip_ws r1)"]
      by (auto simp: rbind_eq_Inr split: list.splits if_splits dest!: IH(3))
  qed
  ultimately show ?case by blast
qed simp

lemmas read_value_length = read_length [THEN conjunct1, rule_format]

text \<open>More fuel than twice the length of the text changes nothing.\<close>

lemma rbind_cong_Inr: "m = m' \<Longrightarrow> (\<And>x. m' = Inr x \<Longrightarrow> f x = g x) \<Longrightarrow> rbind m f = rbind m' g"
  by (cases m') auto

lemma read_fuel:
  "(2 * length s + 1 \<le> n \<longrightarrow> n \<le> m \<longrightarrow> read_value m s = read_value n s) \<and>
   (2 * length s + 2 \<le> n \<longrightarrow> n \<le> m \<longrightarrow> read_items m s = read_items n s) \<and>
   (2 * length s + 2 \<le> n \<longrightarrow> n \<le> m \<longrightarrow> read_members m s = read_members n s)"
proof (induction n arbitrary: s m)
  case (Suc n)
  note IH = Suc.IH [THEN conjunct1, rule_format] Suc.IH [THEN conjunct2, THEN conjunct1, rule_format]
    Suc.IH [THEN conjunct2, THEN conjunct2, rule_format]
  have "read_value m s = read_value (Suc n) s" if "2 * length s + 1 \<le> Suc n" and "Suc n \<le> m"
  proof (cases s)
    case (Cons c t)
    from that(2) obtain k where m: "m = Suc k" "n \<le> k" by (cases m) auto
    have "2 * length (skip_ws t) + 2 \<le> n" using skip_ws_length [of t] that(1) Cons by simp
    from IH(2,3) [OF this m(2)] show ?thesis by (simp add: Cons m(1) del: startswith_code)
  qed (use that(2) in \<open>cases m; simp\<close>)
  moreover have "read_items m s = read_items (Suc n) s" if "2 * length s + 2 \<le> Suc n" and "Suc n \<le> m"
  proof -
    from that(2) obtain k where m: "m = Suc k" "n \<le> k" by (cases m) auto
    have v: "read_value k s = read_value n s" using that m(2) by (intro IH(1)) auto
    have i: "read_items k (skip_ws u) = read_items n (skip_ws u)"
      if "read_value n s = Inr (v, r)" and "skip_ws r = d # u" for v r d u
      using read_value_length [OF that(1)] skip_ws_length [of r] skip_ws_length [of u] that(2) \<open>2 * length s + 2 \<le> Suc n\<close> m(2)
      by (intro IH(2)) auto
    show ?thesis unfolding m(1) read_items.simps v
      by (rule rbind_cong_Inr [OF refl]) (auto simp: i split: list.split)
  qed
  moreover have "read_members m s = read_members (Suc n) s" if "2 * length s + 2 \<le> Suc n" and "Suc n \<le> m"
  proof (cases s)
    case (Cons q t)
    from that(2) obtain k where m: "m = Suc k" "n \<le> k" by (cases m) auto
    let ?x = "\<lambda>r. skip_ws (drop 1 (skip_ws r))"
    have x: "length (?x r) < length t" if "json_read_string t = Inr (key, r)" for key r
      using skip_ws_length [of "drop 1 (skip_ws r)"] skip_ws_length [of r] json_read_string_length [OF that] by simp
    have v: "read_value k (?x r) = read_value n (?x r)" if "json_read_string t = Inr (key, r)" for key r
      using x [OF that] \<open>2 * length s + 2 \<le> Suc n\<close> m(2) Cons by (intro IH(1)) auto
    have i: "read_members k (skip_ws u) = read_members n (skip_ws u)"
      if "json_read_string t = Inr (key, r)" and "read_value n (?x r) = Inr (v, r2)" and "skip_ws r2 = d # u"
      for key r v r2 d u
      using x [OF that(1)] read_value_length [OF that(2)] skip_ws_length [of r2] skip_ws_length [of u] that(3)
        \<open>2 * length s + 2 \<le> Suc n\<close> m(2) Cons by (intro IH(3)) auto
    show ?thesis
      by (auto simp: m(1) Cons v i simp del: startswith_code One_nat_def intro!: rbind_cong_Inr split: list.split)
  qed (use that(2) in \<open>cases m; simp\<close>)
  ultimately show ?case by blast
qed simp

text \<open>So the reader never stops for want of fuel: its result is that of any larger amount.\<close>

lemma json_loads_fuel:
  assumes "2 * length s + 2 \<le> n"
  shows "json_loads s = rbind (read_value n (skip_ws s)) (\<lambda>(v, r). if skip_ws r = [] then Inr v else Inl ValueError)"
proof -
  have "2 * length (skip_ws s) + 1 \<le> 2 * length s + 2" using skip_ws_length [of s] by simp
  from read_fuel [THEN conjunct1, rule_format, OF this assms] show ?thesis by (simp add: json_loads_def del: read_value.simps)
qed

section \<open>Reading back what was written\<close>

definition ascii :: "string \<Rightarrow> bool" where
  "ascii s = list_all (\<lambda>c. (of_char c :: nat) < 128) s"

fun json_ok :: "pyval \<Rightarrow> bool" where
  "json_ok (PStr s) = ascii s"
| "json_ok (PList xs) = list_all json_ok xs"
| "json_ok (PDict d) = (distinct (map fst d) \<and> list_all (\<lambda>(k, v). ascii k \<and> json_ok v) d)"
| "json_ok (PFloat n) = False"
| "json_ok v = True"

subsection \<open>Strings\<close>

lemma length_hex_chars: "length hex_chars = 16"
  by (simp add: hex_chars_def)

lemma digit_values: "map digit_value hex_chars = map Some [0..<16]"
  by (simp add: hex_chars_def digit_value_def upt_rec)

lemma digit_value_hex_chars: "n < 16 \<Longrightarrow> digit_value (hex_chars ! n) = Some n"
  using arg_cong [OF digit_values, of "\<lambda>xs. xs ! n"] by (simp add: length_hex_chars)

lemma digits_base_small: "n < b \<Longrightarrow> b \<le> 16 \<Longrightarrow> digits_base b n = [hex_chars ! n]"
  by (subst digits_base.simps) simp

lemma hex_digits_byte:
  assumes "n < 256"
  shows "zfill 4 (hex_digits n) = ''00'' @ [hex_chars ! (n div 16), hex_chars ! (n mod 16)]"
proof (cases "n < 16")
  case True
  then have "digits_base 16 n = [hex_chars ! n]" "n div 16 = 0" "n mod 16 = n"
    by (simp_all add: digits_base_small)
  moreover have "hex_chars ! 0 = CHR ''0''" by (simp add: hex_chars_def)
  ultimately show ?thesis
    by (simp add: hex_digits_def zfill_def numeral_3_eq_3)
next
  case False
  with assms have "n div 16 < 16" by (simp add: div_less_iff_less_mult)
  then have "digits_base 16 n = [hex_chars ! (n div 16), hex_chars ! (n mod 16)]"
    using False by (subst digits_base.simps) (simp add: digits_base_small)
  then show ?thesis
    by (simp add: hex_digits_def zfill_def numeral_2_eq_2)
qed

lemma hex4_byte:
  assumes "n < 256"
  shows "hex4 (zfill 4 (hex_digits n) @ r) = Inr (n, r)"
proof -
  have "n div 16 < 16" using assms by (simp add: div_less_iff_less_mult)
  then show ?thesis
    by (simp add: hex_digits_byte [OF assms] digit_value_hex_chars)
      (simp add: digit_value_def)
qed

lemma read_json_char:
  assumes "(of_char c :: nat) < 128"
  shows "json_read_string (json_char c @ t) = rbind (json_read_string t) (\<lambda>(s, r). Inr (c # s, r))"
proof -
  define n where "n = (of_char c :: nat)"
  have c: "c = char_of n" by (simp add: n_def)
  have u: "unicode_escape (zfill 4 (hex_digits n) @ t) = Inr (n, t)"
    using assms by (simp add: unicode_escape_def hex4_byte n_def)
  have e: "n = 8 \<Longrightarrow> c = CHR 0x08" "n = 9 \<Longrightarrow> c = CHR 0x09" "n = 10 \<Longrightarrow> c = CHR 0x0A"
      "n = 12 \<Longrightarrow> c = CHR 0x0C" "n = 13 \<Longrightarrow> c = CHR 0x0D"
    unfolding n_def by (rule of_char_eq_iff [where 'a = nat, THEN iffD1], simp)+
  show ?thesis
    using assms u e
    by (auto simp: json_char_def Let_def simple_escapes_def utf8_encode_def n_def [symmetric] c [symmetric]
        split: if_splits)
qed

lemma read_json_string:
  "ascii s \<Longrightarrow> json_read_string (concat (map json_char s) @ CHR 0x22 # r) = Inr (s, r)"
  by (induction s) (auto simp: ascii_def read_json_char)

subsection \<open>Numbers\<close>

definition stops :: "string \<Rightarrow> bool" where
  "stops r = (case r of [] \<Rightarrow> True | c # _ \<Rightarrow> \<not> is_digit c \<and> c \<notin> {CHR ''.'', CHR ''e'', CHR ''E''})"

lemma stops_not_fraction: "stops r \<Longrightarrow> \<not> is_fraction r"
  by (auto simp: stops_def is_fraction_def split: list.splits)

lemma digit_char:
  assumes "n < 10"
  shows "is_digit (hex_chars ! n)" "(of_char (hex_chars ! n) :: nat) = 48 + n"
    "hex_chars ! n = CHR ''0'' \<longleftrightarrow> n = 0"
proof -
  have m: "map (\<lambda>c. (is_digit c, of_char c :: nat, c = CHR ''0'')) (take 10 hex_chars)
      = map (\<lambda>n. (True, 48 + n, n = 0)) [0..<10]"
    by (simp add: hex_chars_def is_digit_def upt_rec)
  from arg_cong [OF this, of "\<lambda>xs. xs ! n"] assms
  show "is_digit (hex_chars ! n)" "(of_char (hex_chars ! n) :: nat) = 48 + n"
    "hex_chars ! n = CHR ''0'' \<longleftrightarrow> n = 0"
    by (simp_all add: length_hex_chars)
qed

lemma read_digits_base:
  "\<exists>k. read_digits acc (digits_base 10 n @ r) = read_digits (acc * 10 ^ k + n) r"
proof (induction n arbitrary: acc r rule: less_induct)
  case (less n)
  show ?case
  proof (cases "n < 10")
    case True
    then have "read_digits acc (digits_base 10 n @ r) = read_digits (acc * 10 ^ 1 + n) r"
      by (simp add: digits_base.simps digit_char mult.commute)
    then show ?thesis by blast
  next
    case False
    then have d: "digits_base 10 n = digits_base 10 (n div 10) @ [hex_chars ! (n mod 10)]"
      by (subst digits_base.simps) simp
    from less.IH [of "n div 10" acc "hex_chars ! (n mod 10) # r"] False obtain k where
      "read_digits acc (digits_base 10 (n div 10) @ hex_chars ! (n mod 10) # r)
        = read_digits (acc * 10 ^ k + n div 10) (hex_chars ! (n mod 10) # r)" by auto
    also have "\<dots> = read_digits (acc * 10 ^ Suc k + n) r"
      by (simp add: digit_char algebra_simps)
    finally show ?thesis unfolding d by (intro exI [of _ "Suc k"]) simp
  qed
qed

lemma digits_base_head:
  "\<exists>c cs. digits_base 10 n = c # cs \<and> is_digit c \<and> (c = CHR ''0'' \<longleftrightarrow> n = 0) \<and> (n = 0 \<longrightarrow> cs = [])"
proof (induction n rule: less_induct)
  case (less n)
  show ?case
  proof (cases "n < 10")
    case True
    then show ?thesis by (simp add: digits_base.simps digit_char)
  next
    case False
    then have "digits_base 10 n = digits_base 10 (n div 10) @ [hex_chars ! (n mod 10)]"
      by (subst digits_base.simps) simp
    with False less.IH [of "n div 10"] show ?thesis by auto
  qed
qed

lemma read_digits_stop: "stops r \<Longrightarrow> read_digits n r = (n, r)"
  by (cases r) (auto simp: stops_def)

lemma read_nat_digits: "stops r \<Longrightarrow> read_nat (digits_base 10 n @ r) = Inr (n, r)"
proof -
  assume r: "stops r"
  obtain c cs where d: "digits_base 10 n = c # cs" "is_digit c" "c = CHR ''0'' \<longleftrightarrow> n = 0" "n = 0 \<longrightarrow> cs = []"
    using digits_base_head by blast
  obtain k where "read_digits 0 (digits_base 10 n @ r) = read_digits (0 * 10 ^ k + n) r"
    using read_digits_base by blast
  then have "read_digits 0 (c # cs @ r) = (n, r)" using d(1) r by (simp add: read_digits_stop)
  with d stops_not_fraction [OF r] show ?thesis
    by (auto simp: read_nat_def simp del: read_digits.simps)
qed

lemma digit_not_dash: "is_digit c \<Longrightarrow> c \<noteq> CHR ''-''"
  by (auto simp: is_digit_def)

lemma read_json_number:
  assumes "stops r" shows "json_read_number (py_str n @ r) = Inr (PInt n, r)"
proof (cases "n < 0")
  case True
  with read_nat_digits [OF assms, of "nat (- n)"] show ?thesis
    by (simp add: py_str_def json_read_number_def)
next
  case False
  obtain c cs where d: "digits_base 10 (nat n) = c # cs" "is_digit c"
    using digits_base_head by blast
  with False read_nat_digits [OF assms, of "nat n"] digit_not_dash [OF d(2)] show ?thesis
    by (simp add: py_str_def json_read_number_def)
qed

subsection \<open>Values\<close>

text \<open>What a written value begins with; none of it is skipped or ends an array or object.\<close>

definition starts_value :: "string \<Rightarrow> bool" where
  "starts_value s =
     (case s of [] \<Rightarrow> False
      | c # _ \<Rightarrow> is_digit c \<or> c \<in> set ''-ntf[{'' \<or> c = CHR 0x22)"

lemma py_str_head: "\<exists>c cs. py_str n = c # cs \<and> (is_digit c \<or> c = CHR ''-'')"
  using digits_base_head [of "nat n"] by (auto simp: py_str_def)

lemma starts_value_dumps: "starts_value (json_dumps v @ r)"
proof (cases v)
  case (PInt n)
  obtain c cs where "py_str n = c # cs" "is_digit c \<or> c = CHR ''-''" using py_str_head by blast
  then show ?thesis by (auto simp: PInt starts_value_def)
next
  case (PFloat n)
  obtain c cs where "py_str n = c # cs" "is_digit c \<or> c = CHR ''-''" using py_str_head by blast
  then show ?thesis by (auto simp: PFloat starts_value_def)
qed (auto simp: starts_value_def json_string_def)

lemma starts_value_skip:
  assumes "starts_value s"
  shows "skip_ws s = s" "take 1 s \<noteq> '']''" "take 1 s \<noteq> ''}''"
  using assms by (cases s; auto simp: starts_value_def is_digit_def)+

lemma length_dumps: "0 < length (json_dumps v)"
  using starts_value_dumps [of v "[]"] by (auto simp: starts_value_def)

lemma read_value_number:
  assumes "stops r" shows "read_value (Suc n) (py_str i @ r) = Inr (PInt i, r)"
proof -
  obtain c cs where p: "py_str i = c # cs" "is_digit c \<or> c = CHR ''-''"
    using py_str_head by blast
  have n: "\<not> startswith (py_str i @ r) x" if "x \<in> {''null'', ''true'', ''false'', ''NaN'', ''Infinity''}" for x
    using p that by (auto simp: is_digit_def)
  obtain d ds where d: "digits_base 10 (nat (- i)) = d # ds" "is_digit d"
    using digits_base_head by blast
  have m: "\<not> startswith (py_str i @ r) ''-Infinity''"
  proof (cases "i < 0")
    case True
    then have "py_str i = CHR ''-'' # d # ds" using d by (simp add: py_str_def)
    then show ?thesis using d(2) by (auto simp: is_digit_def)
  next
    case False
    then have "is_digit c" using p digits_base_head [of "nat i"] by (auto simp: py_str_def)
    then show ?thesis using p(1) by (auto simp: is_digit_def)
  qed
  have c: "c \<noteq> CHR 0x22" "c \<noteq> CHR ''[''" "c \<noteq> CHR ''{''"
    using p(2) by (auto simp: is_digit_def)
  show ?thesis
    using n m c read_json_number [OF assms, of i] p(1) by (simp del: startswith_code)
qed

abbreviation dumps_member :: "string \<times> pyval \<Rightarrow> string" where
  "dumps_member \<equiv> \<lambda>(k, v). json_string k @ '': '' @ json_dumps v"

lemma starts_value_join:
  assumes "\<And>x r. starts_value (f x @ r)" and "xs \<noteq> []"
  shows "starts_value (join sep (map f xs) @ r)"
proof -
  from assms(2) obtain y ys where "xs = y # ys" by (cases xs) auto
  then show ?thesis using assms(1) by (cases ys) auto
qed

lemma starts_value_member: "starts_value (dumps_member x @ r)"
  by (cases x) (simp add: json_string_def starts_value_def)

definition reads_back :: "pyval \<Rightarrow> bool" where
  "reads_back v \<longleftrightarrow> (\<forall>n r. 2 * length (json_dumps v) \<le> n \<longrightarrow> stops r \<longrightarrow>
     read_value n (json_dumps v @ r) = Inr (v, r))"

lemma reads_backI:
  assumes "\<And>m r. 2 * length (json_dumps v) \<le> Suc m \<Longrightarrow> stops r \<Longrightarrow>
    read_value (Suc m) (json_dumps v @ r) = Inr (v, r)"
  shows "reads_back v"
  unfolding reads_back_def
proof (intro allI impI)
  fix n r assume n: "2 * length (json_dumps v) \<le> n" and r: "stops r"
  from n length_dumps [of v] obtain m where "n = Suc m" by (cases n) auto
  with assms n r show "read_value n (json_dumps v @ r) = Inr (v, r)" by blast
qed

lemma reads_backD: "reads_back v \<Longrightarrow> 2 * length (json_dumps v) \<le> n \<Longrightarrow> stops r \<Longrightarrow>
    read_value n (json_dumps v @ r) = Inr (v, r)"
  by (simp add: reads_back_def)

lemma stops_delim [simp]: "stops (CHR '','' # r)" "stops (CHR '']'' # r)" "stops (CHR ''}'' # r)"
  by (simp_all add: stops_def is_digit_def)

lemma read_items_dumps:
  assumes "xs \<noteq> []" and "\<forall>x\<in>set xs. reads_back x" and "2 * length (join '', '' (map json_dumps xs)) < n"
  shows "read_items n (join '', '' (map json_dumps xs) @ CHR '']'' # r) = Inr (xs, r)"
  using assms
proof (induction xs arbitrary: n rule: induct_list012)
  case (2 x)
  then obtain m where "n = Suc m" by (cases n) auto
  with 2 show ?case by (simp add: reads_backD)
next
  case (3 x y ys)
  then obtain m where n: "n = Suc m" by (cases n) auto
  let ?J = "join '', '' (map json_dumps (y # ys))"
  have "starts_value (?J @ CHR '']'' # r)"
    using starts_value_dumps by (rule starts_value_join) simp
  then have s: "skip_ws (?J @ CHR '']'' # r) = ?J @ CHR '']'' # r" by (rule starts_value_skip)
  have "read_items m (?J @ CHR '']'' # r) = Inr (y # ys, r)"
    using "3.IH"(2) "3.prems" n by simp
  moreover have "read_value m (json_dumps x @ CHR '','' # CHR '' '' # ?J @ CHR '']'' # r)
      = Inr (x, CHR '','' # CHR '' '' # ?J @ CHR '']'' # r)"
    using "3.prems" n by (intro reads_backD) auto
  ultimately show ?case using n s by simp
qed simp

lemma read_member:
  assumes "ascii k" and "reads_back v" and "2 * length (dumps_member (k, v)) \<le> n" and "stops r"
  shows "\<exists>t. dumps_member (k, v) @ r = CHR 0x22 # t \<and>
    json_read_string t = Inr (k, '': '' @ json_dumps v @ r) \<and>
    read_value n (skip_ws (drop 1 (skip_ws ('': '' @ json_dumps v @ r)))) = Inr (v, r)"
proof -
  have "skip_ws (json_dumps v @ r) = json_dumps v @ r"
    using starts_value_dumps by (rule starts_value_skip)
  with assms show ?thesis
    using read_json_string [of k "'': '' @ json_dumps v @ r"] by (auto simp: json_string_def reads_backD)
qed

lemma read_members_dumps:
  assumes "xs \<noteq> []" and "\<forall>(k, v)\<in>set xs. ascii k \<and> reads_back v"
    and "2 * length (join '', '' (map dumps_member xs)) < n"
  shows "read_members n (join '', '' (map dumps_member xs) @ CHR ''}'' # r) = Inr (xs, r)"
  using assms
proof (induction xs arbitrary: n rule: induct_list012)
  case (2 x)
  then obtain m where n: "n = Suc m" by (cases n) auto
  obtain k v where x: "x = (k, v)" by force
  from read_member [of k v m "CHR ''}'' # r"] 2 n x show ?case by auto
next
  case (3 x y ys)
  then obtain m where n: "n = Suc m" by (cases n) auto
  obtain k v where x: "x = (k, v)" by force
  let ?J = "join '', '' (map dumps_member (y # ys))"
  have "starts_value (?J @ CHR ''}'' # r)"
    using starts_value_member by (rule starts_value_join) simp
  then have s: "skip_ws (?J @ CHR ''}'' # r) = ?J @ CHR ''}'' # r" by (rule starts_value_skip)
  have "read_members m (?J @ CHR ''}'' # r) = Inr (y # ys, r)"
    using "3.IH"(2) "3.prems" n by simp
  with read_member [of k v m "CHR '','' # CHR '' '' # ?J @ CHR ''}'' # r"] "3.prems" n x s show ?case
    by auto
qed simp

lemma update_new: "k \<notin> fst ` set d \<Longrightarrow> AList.update k v d = d @ [(k, v)]"
  by (induction d) auto

lemma dict_literal_distinct: "distinct (map fst d) \<Longrightarrow> dict_literal d = d"
proof -
  have "dict_update acc d = acc @ d" if "distinct (map fst (acc @ d))" for acc
    using that
  proof (induction d arbitrary: acc)
    case (Cons p d)
    obtain k v where p: "p = (k, v)" by force
    with Cons.prems have "AList.update k v acc = acc @ [p]" by (simp add: update_new)
    with Cons p show ?case by simp
  qed simp
  then show "distinct (map fst d) \<Longrightarrow> dict_literal d = d" by (simp add: dict_literal_def)
qed

lemma reads_back_list:
  assumes "\<forall>x\<in>set xs. reads_back x" shows "reads_back (PList xs)"
proof (rule reads_backI)
  fix m r assume l: "2 * length (json_dumps (PList xs)) \<le> Suc m"
  show "read_value (Suc m) (json_dumps (PList xs) @ r) = Inr (PList xs, r)"
  proof (cases "xs = []")
    case False
    let ?J = "join '', '' (map json_dumps xs)"
    have "starts_value (?J @ CHR '']'' # r)" using starts_value_dumps False by (rule starts_value_join)
    note s = starts_value_skip [OF this]
    have "read_items m (?J @ CHR '']'' # r) = Inr (xs, r)"
      using False assms l by (intro read_items_dumps) auto
    with s show ?thesis by simp
  qed simp
qed

lemma reads_back_dict:
  assumes "\<forall>(k, v)\<in>set d. ascii k \<and> reads_back v" and "distinct (map fst d)"
  shows "reads_back (PDict d)"
proof (rule reads_backI)
  fix m r assume l: "2 * length (json_dumps (PDict d)) \<le> Suc m"
  show "read_value (Suc m) (json_dumps (PDict d) @ r) = Inr (PDict d, r)"
  proof (cases "d = []")
    case False
    let ?J = "join '', '' (map dumps_member d)"
    have "starts_value (?J @ CHR ''}'' # r)" using starts_value_member False by (rule starts_value_join)
    note s = starts_value_skip [OF this]
    have "read_members m (?J @ CHR ''}'' # r) = Inr (d, r)"
      using False assms(1) l by (intro read_members_dumps) auto
    with s assms(2) show ?thesis by (simp add: dict_literal_distinct)
  qed simp
qed

lemma json_ok_reads_back: "json_ok v \<Longrightarrow> reads_back v"
proof (induction v rule: json_ok.induct)
  case (1 s)
  then show ?case
    using read_json_string by (intro reads_backI) (simp add: json_string_def)
next
  case (2 xs)
  then show ?case by (intro reads_back_list) (auto simp: list_all_iff)
next
  case (3 d)
  then show ?case by (intro reads_back_dict) (auto simp: list_all_iff)
qed (auto simp: read_value_number simp del: read_value.simps intro!: reads_backI, simp_all)

lemma json_loads_dumps:
  assumes "json_ok v"
  shows "json_loads (json_dumps v) = Inr v"
proof -
  have "skip_ws (json_dumps v) = json_dumps v"
    using starts_value_skip(1) [OF starts_value_dumps [of v "[]"]] by simp
  with reads_backD [OF json_ok_reads_back [OF assms], of _ "[]"] show ?thesis
    by (simp add: json_loads_def stops_def del: read_value.simps)
qed

end
