(* ===== verification/Basic.thy ===== *)
theory Basic
  imports Context Sha2 Forms Json
begin

text \<open>
  \<open>remme/tp/basic.py\<close>: address checks, the derivation of state addresses from data, and
  \<open>BasicHandler.apply\<close>, which every transaction passes through: decode the envelope, look the
  method up, decode and validate its payload, load the inputs, run the processor of the method,
  write its result and emit the event. The processors of a family are a parameter of \<open>apply\<close> (the
  dictionary \<open>get_state_processor\<close> returns); the locale \<open>tp_processor\<close> is the contract they share.
\<close>

section \<open>Addresses\<close>

definition is_address :: "string \<Rightarrow> bool" where
  "is_address address =
     (length address = 70 \<and> (case py_int 16 address of Inr _ \<Rightarrow> True | Inl _ \<Rightarrow> False))"

record handler =
  family_name :: string
  family_versions :: "string list"
  prefix_of :: string

definition BasicHandler :: "string \<Rightarrow> string list \<Rightarrow> handler" where
  "BasicHandler name versions =
     \<lparr>family_name = name, family_versions = versions, prefix_of = take 6 (hash512 name)\<rparr>"

definition namespaces :: "handler \<Rightarrow> string list" where
  "namespaces h = [prefix_of h]"

definition is_handler_address :: "handler \<Rightarrow> string \<Rightarrow> bool" where
  "is_handler_address h address = (is_address address \<and> startswith address (prefix_of h))"

definition make_address :: "handler \<Rightarrow> string \<Rightarrow> string res" where
  "make_address h appendix =
     (let address = prefix_of h @ appendix in
      if is_address address then Inr address
      else Inl (InternalError (address @ '' is not a valid address'')))"

definition make_address_from_data :: "handler \<Rightarrow> string \<Rightarrow> string res" where
  "make_address_from_data h data = make_address h (take 64 (hash512 data))"

lemma is_address_hex: "length a = 70 \<Longrightarrow> list_all is_hex a \<Longrightarrow> is_address a"
  using py_int_hex [of a] by (cases "a = []") (auto simp: is_address_def)

definition valid_handler :: "handler \<Rightarrow> bool" where
  "valid_handler h \<longleftrightarrow> length (prefix_of h) = 6 \<and> list_all is_hex (prefix_of h)"

lemma valid_BasicHandler [simp]: "valid_handler (BasicHandler name versions)"
  by (simp add: valid_handler_def BasicHandler_def sha512.length_digest sha512.take_digest_hex)

lemma make_address_hex:
  "valid_handler h \<Longrightarrow> length s = 64 \<Longrightarrow> list_all is_hex s \<Longrightarrow> make_address h s = Inr (prefix_of h @ s)"
  by (auto simp: make_address_def valid_handler_def Let_def intro!: is_address_hex)

lemma make_address_from_data_eq:
  "valid_handler h \<Longrightarrow>
   make_address_from_data h data = Inr (prefix_of h @ take 64 (hash512 data))"
  by (simp add: make_address_from_data_def make_address_hex sha512.length_digest sha512.take_digest_hex)

lemma startswith_append [simp]: "startswith (p @ s) p"
  by simp

text \<open>A string starts with at most one prefix of a given length.\<close>

lemma startswith_unique:
  "startswith a p \<Longrightarrow> startswith a q \<Longrightarrow> length p = length q \<Longrightarrow> p = q"
  by simp

section \<open>Events\<close>

text \<open>\<open>Events\<close> of \<open>remme/shared/constants.py\<close>.\<close>

datatype Events =
    SWAP_INIT | SWAP_CLOSE | SWAP_APPROVE | SWAP_EXPIRE | SWAP_SET_SECRET_LOCK
  | ACCOUNT_TRANSFER | SAWTOOTH_BLOCK_COMMIT | REMME_BATCH_DELTA

fun event_value :: "Events \<Rightarrow> string" where
  "event_value SWAP_INIT = ''atomic-swap/init''"
| "event_value SWAP_CLOSE = ''atomic-swap/close''"
| "event_value SWAP_APPROVE = ''atomic-swap/approve''"
| "event_value SWAP_EXPIRE = ''atomic-swap/expire''"
| "event_value SWAP_SET_SECRET_LOCK = ''atomic-swap/set-secret-lock''"
| "event_value ACCOUNT_TRANSFER = ''account/transfer''"
| "event_value SAWTOOTH_BLOCK_COMMIT = ''sawtooth/block-commit''"
| "event_value REMME_BATCH_DELTA = ''remme/batch-status''"

section \<open>Event attributes\<close>

type_synonym updated_state = "(string \<times> message) list"

definition entity_changed :: "'b pblib \<Rightarrow> string \<times> message \<Rightarrow> pyval" where
  "entity_changed P kv =
     (let (key, value) = kv in
      PDict (dict_update [(''address'', PStr key), (''type'', PStr (class_name (class_of value)))]
               (MessageToDict P value)))"

definition get_event_attributes ::
  "'b pblib \<Rightarrow> updated_state \<Rightarrow> string \<Rightarrow> (string \<times> string) list"
where
  "get_event_attributes P updated sig =
     [(''entities_changed'', json_dumps (PList (map (entity_changed P) updated))),
      (''header_signature'', sig)]"

section \<open>apply\<close>

record ('c, 'b) method_entry =
  pb_class_of :: pb_class
  processor_of :: "string \<Rightarrow> message \<Rightarrow> (('c, 'b) cache_service, updated_state) sx"
  emit_event :: "string option"
  validator_of :: form_class

type_synonym ('c, 'b) state_processor = "(int \<times> ('c, 'b) method_entry) list"

record 'b tp_request =
  inputs :: "string list"
  signer :: string        \<comment> \<open>\<open>header.signer_public_key\<close>\<close>
  req_payload :: 'b
  signature :: string

definition decode_request ::
  "'b pblib \<Rightarrow> wtforms \<Rightarrow> ('c, 'b) state_processor \<Rightarrow> 'b tp_request
     \<Rightarrow> (('c, 'b) method_entry \<times> message) res"
where
  "decode_request P wt sp tr =
     (case Parse_TransactionPayload P (req_payload tr) of
        Inl e \<Rightarrow> Inl (if e = DecodeError
                     then InvalidTransaction ''Cannot decode transaction payload.'' else e)
      | Inr (method, data) \<Rightarrow>
          (let unknown_method = InvalidTransaction
                 (''Invalid account method value ('' @ py_str method @ '') has been set.'') in
           case map_of sp method of
             None \<Rightarrow> Inl unknown_method
           | Some en \<Rightarrow>
               (case ParseFromString P (pb_class_of en) data of
                  Inl e \<Rightarrow> Inl (if e = KeyError then unknown_method else e)
                | Inr data_pb \<Rightarrow>
                    rbind (load_proto P (validator_of en) data_pb)
                      (\<lambda>form. rbind (validate wt form [])
                        (\<lambda>(ok, errors).
                          if ok then Inr (en, data_pb)
                          else Inl (InvalidFormData (class_name (class_of data_pb)) errors))))))"

definition write_and_emit ::
  "'b pblib \<Rightarrow> ('c, 'b) ctx_ops \<Rightarrow> string option \<Rightarrow> string \<Rightarrow> updated_state
     \<Rightarrow> ('c, 'b) cache_service \<Rightarrow> unit res \<times> 'c"
where
  "write_and_emit P K event_name sig updated cs =
     (case set_state K cs (map (\<lambda>(k, v). (k, SerializeToString P v)) updated) of
        (Inl e, cs1) \<Rightarrow> (Inl e, context_of cs1)
      | (Inr _, cs1) \<Rightarrow>
          (case event_name of
             None \<Rightarrow> (Inr (), context_of cs1)
           | Some name \<Rightarrow>
               (if name = [] then (Inr (), context_of cs1)
                else (let (r, cs2) = service_add_event K cs1 name (get_event_attributes P updated sig)
                      in (r, context_of cs2)))))"

definition handler_apply ::
  "'b pblib \<Rightarrow> ('c, 'b) ctx_ops \<Rightarrow> wtforms \<Rightarrow> ('c, 'b) state_processor \<Rightarrow> 'b tp_request \<Rightarrow> 'c
     \<Rightarrow> unit res \<times> 'c"
where
  "handler_apply P K wt sp tr c =
     (case decode_request P wt sp tr of
        Inl e \<Rightarrow> (Inl e, c)
      | Inr (en, data_pb) \<Rightarrow>
          (case preload_state K (inputs tr) (new_cache_service c) of
             Inl e \<Rightarrow> (Inl e, c)
           | Inr (_, cs) \<Rightarrow>
               (case processor_of en (signer tr) data_pb cs of
                  Inl e \<Rightarrow> (Inl e, c)
                | Inr (updated, cs') \<Rightarrow>
                    write_and_emit P K (emit_event en) (signature tr) updated cs')))"

text \<open>Nothing is written when the request does not decode or the processor raises.\<close>

lemma handler_apply_decode_error: "decode_request P wt sp tr = Inl e \<Longrightarrow> handler_apply P K wt sp tr c = (Inl e, c)"
  by (simp add: handler_apply_def)

lemma handler_apply_run:
  assumes "decode_request P wt sp tr = Inr (en, m)"
    and "preload_state K (inputs tr) (new_cache_service c) = Inr ((), cs)"
    and "processor_of en (signer tr) m cs = Inr (upd, cs')"
  shows "handler_apply P K wt sp tr c = write_and_emit P K (emit_event en) (signature tr) upd cs'"
  using assms by (simp add: handler_apply_def)

text \<open>A request that decodes names a method of the table, and its payload is of the method's class.\<close>

lemma decode_request_Inr:
  assumes "decode_request P wt sp tr = Inr (en, m)"
  shows "(\<exists>method. map_of sp method = Some en) \<and> (\<exists>d. ParseFromString P (pb_class_of en) d = Inr m)"
  using assms
  by (auto simp: decode_request_def Let_def res_simps split: sum.splits option.splits if_splits)

text \<open>The state after a dictionary of messages was serialised and written.\<close>

definition put :: "'b pblib \<Rightarrow> (string \<rightharpoonup> 'b) \<Rightarrow> (string \<rightharpoonup> message) \<Rightarrow> (string \<rightharpoonup> 'b)" where
  "put P v u = v ++ (map_option (SerializeToString P) \<circ> u)"

lemma put_empty [simp]: "put P v Map.empty = v"
  by (simp add: put_def fun_eq_iff map_add_def)

lemma put_upd [simp]: "put P v (u(a \<mapsto> m)) = (put P v u)(a \<mapsto> SerializeToString P m)"
  by (auto simp: put_def fun_eq_iff map_add_def)

lemma entry_put_other: "u a = None \<Longrightarrow> entry P (put P v u) k a = entry P v k a"
  by (simp add: entry_def put_def map_add_def)

section \<open>The contract of a processor\<close>

text \<open>
  A processor reads through the cache and returns a dictionary of entries: no key twice, the
  context untouched and the cache still coherent.
\<close>

locale tp_processor = sawtooth_context K view
  for K :: "('c, 'b) ctx_ops" and view :: "'c \<Rightarrow> string \<rightharpoonup> 'b" +
  fixes proc :: "string \<Rightarrow> message \<Rightarrow> (('c, 'b) cache_service, updated_state) sx"
  assumes proc_distinct: "proc pk m cs = Inr (upd, cs') \<Longrightarrow> distinct (map fst upd)"
    and proc_coherent:
      "proc pk m cs = Inr (upd, cs') \<Longrightarrow> coherent cs \<Longrightarrow> coherent cs' \<and> context_of cs' = context_of cs"
begin

lemma write_and_emit_view:
  assumes "write_and_emit P K ev sg upd cs = (Inr (), c')" and "distinct (map fst upd)"
  shows "view c' = put P (view (context_of cs)) (map_of upd)"
proof -
  let ?ents = "map (\<lambda>(k, v). (k, SerializeToString P v)) upd"
  have keys: "map fst ?ents = map fst upd" by auto
  have d: "distinct (map fst ?ents)" using assms(2) by (simp only: keys)
  have m: "map_of ?ents = map_option (SerializeToString P) \<circ> map_of upd"
    by (simp add: map_of_map)
  obtain r cs1 where s: "set_state K cs ?ents = (Inr r, cs1)"
      and c': "view c' = view (context_of cs1)"
    using assms(1) add_event_service
    by (auto simp: write_and_emit_def split: prod.splits sum.splits option.splits if_splits)
  from set_state_service [OF s d] c' m show ?thesis by (simp add: put_def)
qed

lemma handler_apply_view:
  assumes "handler_apply P K wt sp tr c = (Inr (), c')"
    and "decode_request P wt sp tr = Inr (en, data_pb)" and "processor_of en = proc"
  shows "\<exists>cs upd cs'. coherent cs \<and> context_of cs = c \<and> proc (signer tr) data_pb cs = Inr (upd, cs') \<and>
    view c' = put P (view c) (map_of upd)"
proof -
  obtain u cs upd cs' where
      pre: "preload_state K (inputs tr) (new_cache_service c) = Inr (u, cs)" and
      run: "proc (signer tr) data_pb cs = Inr (upd, cs')" and
      wr: "write_and_emit P K (emit_event en) (signature tr) upd cs' = (Inr (), c')"
    using assms by (auto simp: handler_apply_def split: sum.splits)
  have cs: "coherent cs" "context_of cs = c"
    using preload_state_coherent [of "inputs tr" "new_cache_service c" cs] pre coherent_new
    by (auto simp: new_cache_service_def)
  from proc_coherent [OF run cs(1)] cs(2) have "context_of cs' = c" by simp
  with write_and_emit_view [OF wr proc_distinct [OF run]]
  have "view c' = put P (view c) (map_of upd)" by simp
  with run cs show ?thesis by blast
qed

end

end
