(* ===== verification/Settings.thy ===== *)
theory Settings
  imports Context Sha2
begin

text \<open>
  \<open>remme/settings\<close>: the reserved addresses and setting names, the derivation of the address of a
  setting and the lookup of its value through the transaction context (\<open>helper.py\<close>), and the merge
  of a configuration file into the defaults (\<open>default.py\<close>).
\<close>

section \<open>Constants\<close>

definition ZERO_ADDRESS :: string where
  "ZERO_ADDRESS = replicate 70 (CHR ''0'')"

definition GENESIS_ADDRESS :: string where
  "GENESIS_ADDRESS = replicate 69 (CHR ''0'') @ ''1''"

definition SETTINGS_PUB_KEY_ENCRYPTION :: string where
  "SETTINGS_PUB_KEY_ENCRYPTION = ''remme.settings.pub_key_encryption''"

definition SETTINGS_KEY_ZERO_ADDRESS_OWNERS :: string where
  "SETTINGS_KEY_ZERO_ADDRESS_OWNERS = ''remme.settings.zero_address_owners''"

definition SETTINGS_SWAP_COMMISSION :: string where
  "SETTINGS_SWAP_COMMISSION = ''remme.settings.swap_comission''"

definition SETTINGS_NAMESPACE :: string where
  "SETTINGS_NAMESPACE = ''000000''"

section \<open>Setting addresses\<close>

definition MAX_KEY_PARTS :: nat where
  "MAX_KEY_PARTS = 4"

definition ADDRESS_PART_SIZE :: nat where
  "ADDRESS_PART_SIZE = 16"

definition EMPTY_PART :: string where
  "EMPTY_PART = take ADDRESS_PART_SIZE (to_hash [])"

definition make_settings_key :: "string \<Rightarrow> string" where
  "make_settings_key key =
     (let key_parts = split_max (CHR ''.'') (MAX_KEY_PARTS - 1) key;
          addr_parts = map (\<lambda>x. take ADDRESS_PART_SIZE (to_hash x)) key_parts;
          padded = addr_parts @ replicate (MAX_KEY_PARTS - length addr_parts) EMPTY_PART
      in SETTINGS_NAMESPACE @ concat padded)"

lemma length_concat_parts:
  "list_all (\<lambda>p. length p = n) ps \<Longrightarrow> length (concat ps) = n * length ps"
  by (induction ps) auto

lemma part_size: "length (take ADDRESS_PART_SIZE (to_hash x)) = ADDRESS_PART_SIZE"
  by (simp add: ADDRESS_PART_SIZE_def sha256.length_digest)

lemma make_settings_key_parts:
  "\<exists>ps. length ps = 4 \<and> list_all (\<lambda>p. length p = 16 \<and> list_all is_hex p) ps \<and>
        make_settings_key key = SETTINGS_NAMESPACE @ concat ps"
proof -
  let ?ap = "map (\<lambda>x. take ADDRESS_PART_SIZE (to_hash x)) (split_max (CHR ''.'') (MAX_KEY_PARTS - 1) key)"
  let ?ps = "?ap @ replicate (MAX_KEY_PARTS - length ?ap) EMPTY_PART"
  have "length ?ap \<le> MAX_KEY_PARTS"
    using length_split_max [of "CHR ''.''" "MAX_KEY_PARTS - 1" key] by (simp add: MAX_KEY_PARTS_def)
  then have "length ?ps = 4" by (simp add: MAX_KEY_PARTS_def)
  moreover have "list_all (\<lambda>p. length p = 16 \<and> list_all is_hex p) ?ps"
    using part_size sha256.take_digest_hex
    by (auto simp: list_all_iff EMPTY_PART_def ADDRESS_PART_SIZE_def)
  moreover have "make_settings_key key = SETTINGS_NAMESPACE @ concat ?ps"
    by (simp add: make_settings_key_def Let_def)
  ultimately show ?thesis by blast
qed

section \<open>Setting values\<close>

definition get_setting_entry ::
  "'b pblib \<Rightarrow> ('c, 'b) ctx_ops \<Rightarrow> string \<Rightarrow> (('c, 'b) cache_service, Setting) sx"
where
  "get_setting_entry P K address cs =
     (case get_data P K SettingC address cs of
        Inl (OtherException e) \<Rightarrow>
          if e = ''FutureTimeoutError'' then Inl (InternalError (''Unable to get '' @ address))
          else Inl (OtherException e)
      | Inl e \<Rightarrow> Inl e
      | Inr (m, cs') \<Rightarrow>
          rbind (as_setting m)
            (\<lambda>entry. Inr (case entry of Some s \<Rightarrow> s | None \<Rightarrow> \<lparr>entries = []\<rparr>, cs')))"

fun find_entry :: "string \<Rightarrow> (string \<times> string) list \<Rightarrow> string option" where
  "find_entry key [] = None"
| "find_entry key ((k, v) # es) = (if key = k then Some v else find_entry key es)"

definition get_setting_value ::
  "'b pblib \<Rightarrow> ('c, 'b) ctx_ops \<Rightarrow> string \<Rightarrow> string option \<Rightarrow> (('c, 'b) cache_service, string option) sx"
where
  "get_setting_value P K key default_value =
     sbind (get_setting_entry P K (make_settings_key key))
       (\<lambda>setting. sret (case find_entry key (entries setting) of
           Some v \<Rightarrow> Some v | None \<Rightarrow> default_value))"

definition get_setting_from_key_value :: "string \<Rightarrow> string \<Rightarrow> Setting" where
  "get_setting_from_key_value key value = \<lparr>entries = [(key, value)]\<rparr>"

lemma find_entry_map_of: "find_entry key es = map_of es key"
  by (induction es) auto

fun first :: "'a list \<Rightarrow> ('a \<Rightarrow> bool) \<Rightarrow> 'a option" where
  "first [] pred = None"
| "first (x # xs) pred = (if pred x then Some x else first xs pred)"

fun index_from :: "int \<Rightarrow> 'a list \<Rightarrow> 'a \<Rightarrow> int" where
  "index_from i [] obj = - 1"
| "index_from i (x # xs) obj = (if x = obj then i else index_from (i + 1) xs obj)"

definition index_of :: "'a list \<Rightarrow> 'a \<Rightarrow> int" where
  "index_of iterable obj = index_from 0 iterable obj"

text \<open>The value of a setting in a state.\<close>

definition setting_at :: "'b pblib \<Rightarrow> (string \<rightharpoonup> 'b) \<Rightarrow> string \<Rightarrow> string option \<Rightarrow> string option" where
  "setting_at P v key dflt =
     (case entry P v SettingC (make_settings_key key) of
        Some (SettingM s) \<Rightarrow>
          (case find_entry key (entries s) of Some x \<Rightarrow> Some x | None \<Rightarrow> dflt)
      | _ \<Rightarrow> dflt)"

lemma setting_at_default: "\<exists>x. setting_at P v key (Some d) = Some x"
  by (auto simp: setting_at_def split: option.split message.split)

context sawtooth_context
begin

lemma get_setting_value_view:
  assumes "get_setting_value P K key dflt cs = Inr (r, cs')" and "coherent cs"
  shows "setting_at P (view (context_of cs)) key dflt = r \<and> coherent cs' \<and>
    context_of cs' = context_of cs"
proof -
  from assms(1) obtain x where
      g: "get_data P K SettingC (make_settings_key key) cs = Inr (map_option SettingM x, cs')" and
      r: "r = (case find_entry key (entries (case x of Some s \<Rightarrow> s | None \<Rightarrow> \<lparr>entries = []\<rparr>)) of
             Some v \<Rightarrow> Some v | None \<Rightarrow> dflt)"
    by (auto simp: get_setting_value_def get_setting_entry_def res_simps
        split: sum.splits exc.splits if_splits)
  from get_data_entry [OF g assms(2)] r show ?thesis
    by (cases x) (auto simp: setting_at_def)
qed

end

section \<open>Configuration\<close>

text \<open>
  \<open>_merge_deep\<close>: entries of the second dictionary win, except that two dictionaries under one key
  are merged. The result keeps the order of \<open>{**a, **b}\<close>.
\<close>

abbreviation dict_size :: "(string \<times> pyval) list \<Rightarrow> nat" where
  "dict_size \<equiv> size_list (size_prod (\<lambda>_. 0) size)"

lemma dict_size_value: "map_of a k = Some v \<Longrightarrow> size v < dict_size a"
  by (induction a) (fastforce split: if_splits)+

lemma dict_size_sub: "map_of a k = Some (PDict x) \<Longrightarrow> dict_size x < dict_size a"
  using dict_size_value [of a k "PDict x"] by simp

function merge_deep :: "(string \<times> pyval) list \<Rightarrow> (string \<times> pyval) list \<Rightarrow> (string \<times> pyval) list" where
  "merge_deep a b =
     map (\<lambda>(k, v).
       (k, case (map_of a k, map_of b k) of
             (Some (PDict x), Some (PDict y)) \<Rightarrow> PDict (merge_deep x y)
           | _ \<Rightarrow> v)) (dict_update a b)"
  by pat_completeness auto
termination
  by (relation "measure (\<lambda>(a, b). dict_size a)") (auto intro: dict_size_sub)

declare merge_deep.simps [simp del]

definition load_toml_with_defaults ::
  "(string \<times> pyval) list \<Rightarrow> (string \<times> pyval) list option \<Rightarrow> (string \<times> pyval) list"
where
  "load_toml_with_defaults defaults file =
     (case file of Some value \<Rightarrow> merge_deep defaults value | None \<Rightarrow> defaults)"


text \<open>A dictionary of the TOML parser has every key once, on every level.\<close>

fun keys_ok :: "pyval \<Rightarrow> bool" where
  "keys_ok (PDict d) \<longleftrightarrow> distinct (map fst d) \<and> list_all (\<lambda>(k, v). keys_ok v) d"
| "keys_ok (PList xs) \<longleftrightarrow> list_all keys_ok xs"
| "keys_ok _ \<longleftrightarrow> True"

lemma keys_ok_value: "keys_ok (PDict d) \<Longrightarrow> map_of d k = Some v \<Longrightarrow> keys_ok v"
  by (auto simp: list_all_iff dest!: map_of_SomeD)

lemma map_of_map_value: "map_of (map (\<lambda>(k, v). (k, f k v)) d) k = map_option (f k) (map_of d k)"
  by (induction d) auto

lemma merge_deep_lookup:
  assumes "distinct (map fst b)"
  shows "map_of (merge_deep a b) k =
    (case (map_of a k, map_of b k) of
       (Some (PDict x), Some (PDict y)) \<Rightarrow> Some (PDict (merge_deep x y))
     | (_, Some w) \<Rightarrow> Some w
     | (r, None) \<Rightarrow> r)"
  using map_of_rev_distinct [OF assms]
  by (subst merge_deep.simps)
    (auto simp: map_of_map_value map_of_dict_update map_add_def split: option.split pyval.split)

text \<open>The value at a path of keys, and the paths on which a configuration says nothing.\<close>

fun config_at :: "(string \<times> pyval) list \<Rightarrow> string list \<Rightarrow> pyval option" where
  "config_at d [] = Some (PDict d)"
| "config_at d (k # ks) =
     (case map_of d k of
        None \<Rightarrow> None
      | Some v \<Rightarrow> if ks = [] then Some v else (case v of PDict e \<Rightarrow> config_at e ks | _ \<Rightarrow> None))"

fun untouched :: "(string \<times> pyval) list \<Rightarrow> string list \<Rightarrow> bool" where
  "untouched d [] = False"
| "untouched d (k # ks) =
     (case map_of d k of
        None \<Rightarrow> True
      | Some v \<Rightarrow> (case v of PDict e \<Rightarrow> untouched e ks | _ \<Rightarrow> False))"

lemma merge_deep_user_wins:
  assumes "keys_ok (PDict b)" and "config_at b ks = Some v" and "\<And>d. v \<noteq> PDict d"
  shows "config_at (merge_deep a b) ks = Some v"
  using assms
proof (induction ks arbitrary: a b)
  case (Cons k ks)
  then obtain w where w: "map_of b k = Some w" by (auto split: option.splits)
  note ok = keys_ok_value [OF Cons.prems(1) w]
  from Cons.prems(1) have "distinct (map fst b)" by simp
  note l = merge_deep_lookup [OF this, of a k]
  show ?case
  proof (cases "\<exists>x y. map_of a k = Some (PDict x) \<and> w = PDict y")
    case True
    then obtain x y where "map_of a k = Some (PDict x)" "w = PDict y" by blast
    with Cons.prems(2,3) w l ok Cons.IH [of y x] show ?thesis by (cases "ks = []") auto
  next
    case False
    with l w have "map_of (merge_deep a b) k = Some w" by (auto split: option.splits pyval.splits)
    with Cons.prems(2) w show ?thesis by simp
  qed
qed (metis config_at.simps(1) option.inject)

lemma merge_deep_default_kept:
  assumes "keys_ok (PDict b)" and "config_at a ks = Some v" and "untouched b ks"
  shows "config_at (merge_deep a b) ks = Some v"
  using assms
proof (induction ks arbitrary: a b)
  case (Cons k ks)
  from Cons.prems(1) have "distinct (map fst b)" by simp
  note l = merge_deep_lookup [OF this, of a k]
  show ?case
  proof (cases "map_of b k")
    case None
    with l have "map_of (merge_deep a b) k = map_of a k" by (auto split: option.splits pyval.splits)
    with Cons.prems(2) show ?thesis by simp
  next
    case (Some w)
    with Cons.prems(3) obtain y where y: "w = PDict y" "untouched y ks" by (auto split: pyval.splits)
    then have "ks \<noteq> []" by auto
    with Cons.prems(2) obtain x where x: "map_of a k = Some (PDict x)" "config_at x ks = Some v"
      by (auto split: option.splits pyval.splits)
    from keys_ok_value [OF Cons.prems(1) Some] y(1) have "keys_ok (PDict y)" by simp
    from Cons.IH [OF this x(2) y(2)] x(1) y(1) Some l \<open>ks \<noteq> []\<close> show ?thesis by simp
  qed
qed simp

end
