(* ===== verification/Digests.thy ===== *)
theory Digests
  imports Sha2
begin

text \<open>
  Digests of the constants the node hashes: the family names, whose first six digits are the
  address prefixes of the families, and the parts of the setting keys. Each is evaluated by the
  kernel from the definitions of \<^verbatim>\<open>Sha2\<close>.
\<close>

lemma hash512_account:
  "hash512 ''account'' =
   ''1120073317f32dc4fa805e721c2b760fc379bdb7ea3b8d1943402d1f51b183a2ac3ef86cdaede190dd36c95b578b1b2ff5dd9ebeff41eb3e11846d6a389fe5f5''"
  by code_simp

lemma hash512_pub_key:
  "hash512 ''pub_key'' =
   ''a23be1541b39740db12dfcc6bfdff5f01bffc4d495ffcca900815b202a0197f145641b3cb2e57291411c498fcf8dc6812164a8368d4ab1ca8badb8d9643b1645''"
  by code_simp

lemma hash512_AtomicSwap:
  "hash512 ''AtomicSwap'' =
   ''78173bc3ca0a215be2018de8fd38ff0cd47df5fbecd096cd00a6d83ec470ca2debe240084074795ab6906930bee0903be6bd69aff68369b4ea572f121058b591''"
  by code_simp

lemma to_hash_remme:
  "to_hash ''remme'' = ''7ca83d6bbb759da9cf622024f25137fa85124c88286051b54ceebfa59918bcc4''"
  by code_simp

lemma to_hash_settings:
  "to_hash ''settings'' = ''cde0fb0dec1400c54a0f7e7eafa73624c53e4da258bbd34b3380a0defeba95c1''"
  by code_simp

lemma to_hash_swap_comission:
  "to_hash ''swap_comission'' = ''5cc3bbcd6b1243b26513eccf790be4436e2b55dd7583fd9d8af8725a1a8e7fcb''"
  by code_simp

lemma to_hash_economy_enabled:
  "to_hash ''economy_enabled'' = ''ebbaccb7f40378852a50ca8d33ff60f22d9e3b3be2ca95ed0e074ca10398228b''"
  by code_simp

lemma to_hash_empty:
  "to_hash [] = ''e3b0c44298fc1c149afbf4c8996fb92427ae41e4649b934ca495991b7852b855''"
  by code_simp

text \<open>Two public keys and a swap identifier of the test suite.\<close>

lemma hash512_alice_key:
  "hash512 ''02feb988591c78e58e57cdce5a314bd04798971227fcc2316907355392a2c99c25'' =
   ''db8a00c010402e2e3a7d03491323e761e0ea612481c518605648ceeb5ed454f7ecfb64f09d50fb93e4ec68802df22ab207c1f730bc919cbb99050121e66d0169''"
  by code_simp

lemma hash512_bot_key:
  "hash512 ''03ecc5cb4094eb05319be6c7a63ebf17133d4ffaea48cdcfd1d5fc79dac7db7b6b'' =
   ''b9433e1da5c624ff926477141abedfd57585a36590b0a8edc4104ef28093ee3050703d7c5f29e410fcddd39e227d9bd626c4a5ebc719298ab338c0d56446765b''"
  by code_simp

end
