(* ===== verification/AccountTP.thy ===== *)
theory AccountTP
  imports Basic Settings Digests
begin

text \<open>
  \<open>remme/tp/account.py\<close>: the account family. \<open>_genesis\<close> issues the token supply once, \<open>_transfer\<close>
  moves tokens from the account of the signer, and \<open>_transfer_from_address\<close> is the shared core that
  the public key and atomic swap families call for fees and commissions.
\<close>

section \<open>The handler\<close>

definition FAMILY_NAME :: string where
  "FAMILY_NAME = ''account''"

definition FAMILY_VERSIONS :: "string list" where
  "FAMILY_VERSIONS = [''0.1'']"

definition AccountHandler :: handler where
  "AccountHandler = BasicHandler FAMILY_NAME FAMILY_VERSIONS"

lemma valid_AccountHandler [simp]: "valid_handler AccountHandler"
  by (simp add: AccountHandler_def)

definition account_address :: "string \<Rightarrow> string" where
  "account_address data = prefix_of AccountHandler @ take 64 (hash512 data)"

lemma make_account_address [simp]:
  "make_address_from_data AccountHandler data = Inr (account_address data)"
  by (simp add: make_address_from_data_eq account_address_def)

lemma account_address_prefix [simp]: "startswith (account_address d) (prefix_of AccountHandler)"
  by (simp add: account_address_def)

lemma length_account_address [simp]: "length (account_address d) = 70"
  using valid_AccountHandler by (simp add: account_address_def valid_handler_def sha512.length_digest)

definition account_or_default :: "Account option \<Rightarrow> Account" where
  "account_or_default a = (case a of None \<Rightarrow> Account_default | Some x \<Rightarrow> x)"

definition get_account_by_address ::
  "'b pblib \<Rightarrow> ('c, 'b) ctx_ops \<Rightarrow> string \<Rightarrow> (('c, 'b) cache_service, Account) sx"
where
  "get_account_by_address P K address =
     sbind (get_data P K AccountC address)
       (\<lambda>m. sbind (slift (as_account m)) (\<lambda>account. sret (account_or_default account)))"

section \<open>Genesis\<close>

definition genesis_init ::
  "'b pblib \<Rightarrow> ('c, 'b) ctx_ops \<Rightarrow> string \<Rightarrow> GenesisPayload \<Rightarrow> (('c, 'b) cache_service, updated_state) sx"
where
  "genesis_init P K pub_key genesis_payload =
     sbind (slift (make_address_from_data AccountHandler pub_key))
       (\<lambda>signer_key.
         sbind (get_data P K GenesisStatusC GENESIS_ADDRESS)
           (\<lambda>m. sbind (slift (as_genesis_status m))
             (\<lambda>gs.
               let issue = (\<lambda>genesis_status.
                     sbind (slift (set_uint64 (total_supply genesis_payload)))
                       (\<lambda>b. sret (dict_literal
                          [(signer_key, AccountM (Account_default\<lparr>balance := b\<rparr>)),
                           (GENESIS_ADDRESS, GenesisStatusM genesis_status)])))
               in case gs of
                    None \<Rightarrow> issue \<lparr>status = True\<rparr>
                  | Some g \<Rightarrow>
                      if status g then sraise (InvalidTransaction ''Genesis is already initialized.'')
                      else issue g)))"

section \<open>Transfers\<close>

definition transfer_from_address ::
  "'b pblib \<Rightarrow> ('c, 'b) ctx_ops \<Rightarrow> string \<Rightarrow> TransferPayload \<Rightarrow> (('c, 'b) cache_service, updated_state) sx"
where
  "transfer_from_address P K address_from p =
     (if tp_value p = 0 then
        sraise (InvalidTransaction ''Could not transfer with zero amount.'')
      else if \<not> startswith (address_to p) (prefix_of AccountHandler) \<and> address_to p \<noteq> ZERO_ADDRESS then
        sraise (InvalidTransaction ''Receiver address has to be of an account type.'')
      else if address_from = address_to p then
        sraise (InvalidTransaction ''Account cannot send tokens to itself.'')
      else
        sbind (get_multiple_data P K [(address_from, AccountC), (address_to p, AccountC)])
          (\<lambda>vs. case vs of
             [v1, v2] \<Rightarrow>
               sbind (slift (as_account v1)) (\<lambda>a1.
               sbind (slift (as_account v2)) (\<lambda>a2.
                 let signer_account = account_or_default a1;
                     receiver_account = account_or_default a2
                 in
                 if balance signer_account < tp_value p then
                   sraise (InvalidTransaction
                     (''Not enough transferable balance. Sender's current balance: ''
                      @ py_str (balance signer_account) @ ''.''))
                 else
                   sbind (slift (set_uint64 (balance receiver_account + tp_value p))) (\<lambda>rb.
                   sbind (slift (set_uint64 (balance signer_account - tp_value p))) (\<lambda>sb.
                     sret (dict_literal
                       [(address_from, AccountM (signer_account\<lparr>balance := sb\<rparr>)),
                        (address_to p, AccountM (receiver_account\<lparr>balance := rb\<rparr>))])))))
           | _ \<Rightarrow> sraise ValueError))"

definition transfer ::
  "'b pblib \<Rightarrow> ('c, 'b) ctx_ops \<Rightarrow> string \<Rightarrow> TransferPayload \<Rightarrow> (('c, 'b) cache_service, updated_state) sx"
where
  "transfer P K public_key transfer_payload =
     sbind (slift (make_address_from_data AccountHandler public_key))
       (\<lambda>address. transfer_from_address P K address transfer_payload)"

section \<open>The method table\<close>

fun transfer_proc ::
  "'b pblib \<Rightarrow> ('c, 'b) ctx_ops \<Rightarrow> string \<Rightarrow> message \<Rightarrow> (('c, 'b) cache_service, updated_state) sx"
where
  "transfer_proc P K pk (TransferPayloadM p) = transfer P K pk p"
| "transfer_proc P K pk _ = sraise AttributeError"

fun genesis_proc ::
  "'b pblib \<Rightarrow> ('c, 'b) ctx_ops \<Rightarrow> string \<Rightarrow> message \<Rightarrow> (('c, 'b) cache_service, updated_state) sx"
where
  "genesis_proc P K pk (GenesisPayloadM p) = genesis_init P K pk p"
| "genesis_proc P K pk _ = sraise AttributeError"

definition transfer_entry :: "'b pblib \<Rightarrow> ('c, 'b) ctx_ops \<Rightarrow> ('c, 'b) method_entry" where
  "transfer_entry P K = \<lparr>
     pb_class_of = TransferPayloadC,
     processor_of = transfer_proc P K,
     emit_event = Some (event_value ACCOUNT_TRANSFER),
     validator_of = TransferPayloadForm \<rparr>"

definition genesis_entry :: "'b pblib \<Rightarrow> ('c, 'b) ctx_ops \<Rightarrow> ('c, 'b) method_entry" where
  "genesis_entry P K = \<lparr>
     pb_class_of = GenesisPayloadC,
     processor_of = genesis_proc P K,
     emit_event = None,
     validator_of = GenesisPayloadForm \<rparr>"

definition account_state_processor :: "'b pblib \<Rightarrow> ('c, 'b) ctx_ops \<Rightarrow> ('c, 'b) state_processor" where
  "account_state_processor P K = dict_literal
     [(EnumValue P ''AccountMethod'' ''TRANSFER'', transfer_entry P K),
      (EnumValue P ''AccountMethod'' ''GENESIS'', genesis_entry P K)]"

section \<open>What the processors do\<close>

lemma dict_literal_pair [simp]:
  "a \<noteq> b \<Longrightarrow> dict_literal [(a, x), (b, y)] = [(a, x), (b, y)]"
  by (simp add: dict_literal_def)

lemma length_get_cached_data:
  "get_cached_data P K rs cs = Inr (vs, cs') \<Longrightarrow> length vs = length rs"
  by (induction rs arbitrary: cs vs) (auto simp: res_simps)

text \<open>The conditions under which a transfer succeeds, and what it returns.\<close>

lemma transfer_from_address_Inr:
  "transfer_from_address P K a p cs = Inr (upd, cs') \<longleftrightarrow>
     tp_value p \<noteq> 0 \<and> a \<noteq> address_to p \<and>
     (startswith (address_to p) (prefix_of AccountHandler) \<or> address_to p = ZERO_ADDRESS) \<and>
     (\<exists>s r. get_multiple_data P K [(a, AccountC), (address_to p, AccountC)] cs
              = Inr ([map_option AccountM s, map_option AccountM r], cs') \<and>
        tp_value p \<le> balance (account_or_default s) \<and>
        0 \<le> balance (account_or_default r) + tp_value p \<and>
        balance (account_or_default r) + tp_value p < 2 ^ 64 \<and>
        balance (account_or_default s) - tp_value p < 2 ^ 64 \<and>
        upd = [(a, AccountM ((account_or_default s)\<lparr>balance := balance (account_or_default s) - tp_value p\<rparr>)),
               (address_to p, AccountM ((account_or_default r)\<lparr>balance := balance (account_or_default r) + tp_value p\<rparr>))])"
  (is "?l \<longleftrightarrow> ?r")
proof
  assume ?l
  then obtain vs cs1 where
      g: "get_multiple_data P K [(a, AccountC), (address_to p, AccountC)] cs = Inr (vs, cs1)" and
      c: "tp_value p \<noteq> 0" "a \<noteq> address_to p"
         "startswith (address_to p) (prefix_of AccountHandler) \<or> address_to p = ZERO_ADDRESS"
    by (auto simp: transfer_from_address_def sbind_eq_Inr split: if_splits simp del: startswith_code)
  from length_get_cached_data [OF g [unfolded get_multiple_data_def]]
  obtain v1 v2 where vs: "vs = [v1, v2]" by (auto simp: length_Suc_conv)
  show ?r
    using \<open>?l\<close> c g
    by (auto simp: transfer_from_address_def res_simps vs Let_def split: if_splits
        simp del: startswith_code)
next
  assume ?r
  then show ?l
    by (auto simp: transfer_from_address_def res_simps Let_def simp del: startswith_code)
qed

lemma transfer_from_address_run:
  assumes "get_multiple_data P K [(a, AccountC), (address_to p, AccountC)] cs
      = Inr ([map_option AccountM s, map_option AccountM r], cs')"
    and "0 < tp_value p" and "a \<noteq> address_to p"
    and "startswith (address_to p) (prefix_of AccountHandler) \<or> address_to p = ZERO_ADDRESS"
    and "tp_value p \<le> balance (account_or_default s)" and "uint 64 (balance (account_or_default s))"
    and "0 \<le> balance (account_or_default r)" and "balance (account_or_default r) + tp_value p < 2 ^ 64"
  shows "transfer_from_address P K a p cs = Inr
    ([(a, AccountM ((account_or_default s)\<lparr>balance := balance (account_or_default s) - tp_value p\<rparr>)),
      (address_to p, AccountM ((account_or_default r)\<lparr>balance := balance (account_or_default r) + tp_value p\<rparr>))],
     cs')"
  unfolding transfer_from_address_Inr using assms
  by (intro conjI exI [of _ s] exI [of _ r]) (auto simp del: startswith_code)

lemma transfer_Inr: "transfer P K pk p cs = transfer_from_address P K (account_address pk) p cs"
  by (simp add: transfer_def sbind_def)

lemma genesis_init_Inr:
  "genesis_init P K pk p cs = Inr (upd, cs') \<longleftrightarrow>
     0 \<le> total_supply p \<and> total_supply p < 2 ^ 64 \<and>
     (\<exists>g. get_data P K GenesisStatusC GENESIS_ADDRESS cs = Inr (map_option GenesisStatusM g, cs') \<and>
        (case g of None \<Rightarrow> True | Some x \<Rightarrow> \<not> status x) \<and>
        upd = dict_literal
          [(account_address pk, AccountM (Account_default\<lparr>balance := total_supply p\<rparr>)),
           (GENESIS_ADDRESS, GenesisStatusM (case g of None \<Rightarrow> \<lparr>status = True\<rparr> | Some x \<Rightarrow> x))])"
  by (auto simp: genesis_init_def res_simps Let_def sbind_run split: option.splits if_splits)

section \<open>The processors against the state\<close>

text \<open>The account stored at an address; an address without one counts as an empty account.\<close>

definition account_at :: "'b pblib \<Rightarrow> (string \<rightharpoonup> 'b) \<Rightarrow> string \<Rightarrow> Account" where
  "account_at P v a = (case entry P v AccountC a of Some (AccountM x) \<Rightarrow> x | _ \<Rightarrow> Account_default)"

definition is_account_addr :: "string \<Rightarrow> bool" where
  "is_account_addr a \<longleftrightarrow> startswith a (prefix_of AccountHandler) \<or> a = ZERO_ADDRESS"

lemma is_account_addr_account_address [simp]: "is_account_addr (account_address d)"
  by (simp add: is_account_addr_def del: startswith_code)

lemma is_account_addr_ZERO [simp]: "is_account_addr ZERO_ADDRESS"
  by (simp add: is_account_addr_def)

text \<open>The reserved addresses lie outside the family's address space, except the zero address.\<close>

lemma prefix_AccountHandler: "prefix_of AccountHandler = ''112007''"
  by (simp add: AccountHandler_def BasicHandler_def FAMILY_NAME_def hash512_account)

lemma take_ZERO_ADDRESS: "take 6 ZERO_ADDRESS = ''000000''"
  by (simp add: ZERO_ADDRESS_def eval_nat_numeral)

lemma take_GENESIS_ADDRESS: "take 6 GENESIS_ADDRESS = ''000000''"
  by (simp add: GENESIS_ADDRESS_def eval_nat_numeral)

lemma take_account_address: "take 6 (account_address d) = ''112007''"
  by (simp add: account_address_def prefix_AccountHandler)

lemma is_account_addr_take: "is_account_addr a \<longleftrightarrow> take 6 a = ''112007'' \<or> a = ZERO_ADDRESS"
  by (simp add: is_account_addr_def prefix_AccountHandler eval_nat_numeral)

lemma account_address_not_ZERO [simp]:
  "account_address d \<noteq> ZERO_ADDRESS" "ZERO_ADDRESS \<noteq> account_address d"
  using take_ZERO_ADDRESS take_account_address [of d] by force+

lemma ZERO_not_GENESIS [simp]: "ZERO_ADDRESS \<noteq> GENESIS_ADDRESS"
  by (simp add: ZERO_ADDRESS_def GENESIS_ADDRESS_def eval_nat_numeral)

lemma GENESIS_not_account_addr [simp]: "\<not> is_account_addr GENESIS_ADDRESS"
  using ZERO_not_GENESIS [symmetric] by (simp add: is_account_addr_take take_GENESIS_ADDRESS)

lemma account_address_not_GENESIS [simp]: "account_address d \<noteq> GENESIS_ADDRESS"
  using GENESIS_not_account_addr is_account_addr_account_address by metis

lemma account_at_entry:
  "entry P v AccountC a = map_option AccountM x \<Longrightarrow> account_at P v a = account_or_default x"
  by (cases x) (auto simp: account_at_def account_or_default_def)

lemma account_at_range: "pb_typed P \<Longrightarrow> uint 64 (balance (account_at P v a))"
  by (auto simp: account_at_def Account_default_def dest: entry_valid split: option.split message.split)

lemma account_at_update:
  "pb_roundtrip P \<Longrightarrow> uint 64 (balance x) \<Longrightarrow>
   account_at P (v(a \<mapsto> SerializeToString P (AccountM x))) a = x"
  using entry_update [of P "AccountM x" v a] by (simp add: account_at_def)

lemma account_at_update_other [simp]: "a \<noteq> b \<Longrightarrow> account_at P (v(b \<mapsto> d)) a = account_at P v a"
  by (simp add: account_at_def)

context sawtooth_context
begin

lemma transfer_from_address_view:
  assumes "transfer_from_address P K a p cs = Inr (upd, cs')" and "coherent cs"
  shows "tp_value p \<noteq> 0 \<and> a \<noteq> address_to p \<and> is_account_addr (address_to p) \<and>
    tp_value p \<le> balance (account_at P (view (context_of cs)) a) \<and>
    balance (account_at P (view (context_of cs)) (address_to p)) + tp_value p < 2 ^ 64 \<and>
    upd = [(a, AccountM ((account_at P (view (context_of cs)) a)
                 \<lparr>balance := balance (account_at P (view (context_of cs)) a) - tp_value p\<rparr>)),
           (address_to p, AccountM ((account_at P (view (context_of cs)) (address_to p))
                 \<lparr>balance := balance (account_at P (view (context_of cs)) (address_to p)) + tp_value p\<rparr>))] \<and>
    coherent cs' \<and> context_of cs' = context_of cs"
proof -
  from assms(1) obtain s r where
      g: "get_multiple_data P K [(a, AccountC), (address_to p, AccountC)] cs
           = Inr ([map_option AccountM s, map_option AccountM r], cs')" and
      c: "tp_value p \<noteq> 0" "a \<noteq> address_to p"
         "startswith (address_to p) (prefix_of AccountHandler) \<or> address_to p = ZERO_ADDRESS"
         "tp_value p \<le> balance (account_or_default s)"
         "balance (account_or_default r) + tp_value p < 2 ^ 64" and
      u: "upd = [(a, AccountM ((account_or_default s)\<lparr>balance := balance (account_or_default s) - tp_value p\<rparr>)),
               (address_to p, AccountM ((account_or_default r)\<lparr>balance := balance (account_or_default r) + tp_value p\<rparr>))]"
    by (auto simp: transfer_from_address_Inr simp del: startswith_code)
  from get_multiple_data_entry [OF g assms(2)]
  have e: "coherent cs'" "context_of cs' = context_of cs"
      "account_at P (view (context_of cs)) a = account_or_default s"
      "account_at P (view (context_of cs)) (address_to p) = account_or_default r"
    by (auto intro: account_at_entry)
  from c(3) have "is_account_addr (address_to p)" by (simp only: is_account_addr_def)
  with c e u show ?thesis by simp
qed

lemma genesis_init_view:
  assumes "genesis_init P K pk p cs = Inr (upd, cs')" and "coherent cs"
  shows "uint 64 (total_supply p) \<and>
    (\<exists>g. entry P (view (context_of cs)) GenesisStatusC GENESIS_ADDRESS = map_option GenesisStatusM g \<and>
       (case g of None \<Rightarrow> True | Some x \<Rightarrow> \<not> status x) \<and>
       upd = dict_literal
         [(account_address pk, AccountM (Account_default\<lparr>balance := total_supply p\<rparr>)),
          (GENESIS_ADDRESS, GenesisStatusM (case g of None \<Rightarrow> \<lparr>status = True\<rparr> | Some x \<Rightarrow> x))]) \<and>
    coherent cs' \<and> context_of cs' = context_of cs"
  using assms(1) get_data_entry [OF _ assms(2)] unfolding genesis_init_Inr by metis

end

sublocale sawtooth_context \<subseteq> transfer: tp_processor K view "transfer_proc P K" for P
proof unfold_locales
  fix pk m cs upd cs'
  assume r: "transfer_proc P K pk m cs = Inr (upd, cs')"
  then obtain p where t: "transfer_from_address P K (account_address pk) p cs = Inr (upd, cs')"
    by (cases "(P, K, pk, m)" rule: transfer_proc.cases) (auto simp: transfer_Inr)
  then show "distinct (map fst upd)"
    by (auto simp: transfer_from_address_Inr)
  assume "coherent cs"
  from transfer_from_address_view [OF t this]
  show "coherent cs' \<and> context_of cs' = context_of cs" by blast
qed

sublocale sawtooth_context \<subseteq> genesis: tp_processor K view "genesis_proc P K" for P
proof unfold_locales
  fix pk m cs upd cs'
  assume r: "genesis_proc P K pk m cs = Inr (upd, cs')"
  then obtain p where g: "genesis_init P K pk p cs = Inr (upd, cs')"
    by (cases "(P, K, pk, m)" rule: genesis_proc.cases) auto
  then show "distinct (map fst upd)"
    by (auto simp: genesis_init_Inr)
  assume "coherent cs"
  from genesis_init_view [OF g this]
  show "coherent cs' \<and> context_of cs' = context_of cs" by blast
qed

end
