(* ===== verification/PubKeyTP.thy ===== *)
theory PubKeyTP
  imports AccountTP
begin

text \<open>
  \<open>remme/tp/pub_key.py\<close>: the public key family. A key is stored after its owner proved possession
  by a signature, for at most a year, against a fee that goes to the zero address; \<open>STORE_AND_PAY\<close>
  lets one account pay for the key of another; the owner can revoke a key once.

  The signature schemes are libraries (\<open>cryptography\<close>, \<open>secp256k1\<close>, \<open>ed25519\<close>,
  \<open>sawtooth_signing\<close>); their functions are the parameter \<open>crypto\<close>. Keys, signatures and digests
  are byte strings. \<open>utcoffset\<close> is the offset of the node's local time at a timestamp, which
  \<open>datetime.fromtimestamp\<close> adds.
\<close>

section \<open>Libraries\<close>

record 'b crypto =
  load_der_public_key :: "string \<Rightarrow> string res"
  rsa_hashes :: "string \<Rightarrow> string res"
    \<comment> \<open>\<open>getattr(hashes, name)()\<close>\<close>
  rsa_verify :: "string \<Rightarrow> string \<Rightarrow> string \<Rightarrow> string \<Rightarrow> string \<Rightarrow> unit res"
    \<comment> \<open>key, signature, data, padding, algorithm\<close>
  hashlib_digest :: "string \<Rightarrow> string \<Rightarrow> string res"
    \<comment> \<open>\<open>getattr(hashlib, name)(data).digest()\<close>\<close>
  secp_deserialize :: "string \<Rightarrow> (bool \<times> int) res"
    \<comment> \<open>whether \<open>pub_key.public_key\<close> is set, and \<open>pub_key.flags\<close>\<close>
  secp_context_verify :: int
  secp_deserialize_compact :: "string \<Rightarrow> string res"
  secp_ecdsa_verify :: "string \<Rightarrow> string \<Rightarrow> string \<Rightarrow> int"
    \<comment> \<open>raw signature, digest, key\<close>
  ed25519_verify :: "string \<Rightarrow> string \<Rightarrow> string \<Rightarrow> unit res"
    \<comment> \<open>key, signature, digest\<close>
  Secp256k1PublicKey_from_hex :: "string \<Rightarrow> string res"
  Secp256k1Context_verify :: "string \<Rightarrow> 'b \<Rightarrow> string \<Rightarrow> bool res"
    \<comment> \<open>signature in hex, message, key\<close>
  utcoffset :: "int \<Rightarrow> int"

definition bytes_hex :: "string \<Rightarrow> string" where
  "bytes_hex b = concat (map (\<lambda>c. fixed_hex 2 (of_char c)) b)"

definition succeeds :: "'a res \<Rightarrow> bool" where
  "succeeds r = (case r of Inr _ \<Rightarrow> True | Inl _ \<Rightarrow> False)"

section \<open>Key processors\<close>

text \<open>\<open>BasePubKeyProcessor\<close>: the subclasses differ in the configuration they are chosen by.\<close>

record key_processor =
  kp_entity_hash :: string
  kp_entity_hash_signature :: string
  kp_valid_from :: int
  kp_valid_to :: int
  kp_hashing_algorithm :: int
  kp_config :: configuration

definition get_public_key :: "key_processor \<Rightarrow> string" where
  "get_public_key kp = config_key (kp_config kp)"

definition rsa_get_hashing_algorithm :: "'b pblib \<Rightarrow> 'b crypto \<Rightarrow> key_processor \<Rightarrow> string res" where
  "rsa_get_hashing_algorithm P Y kp =
     rbind (EnumName P ''HashingAlgorithm'' (kp_hashing_algorithm kp)) (rsa_hashes Y)"

definition rsa_get_padding :: "'b pblib \<Rightarrow> 'b crypto \<Rightarrow> key_processor \<Rightarrow> int \<Rightarrow> string res" where
  "rsa_get_padding P Y kp padding =
     (if padding = EnumValue P ''Padding'' ''PSS'' then
        rbind (rsa_get_hashing_algorithm P Y kp) (\<lambda>alg. Inr (''PSS/MGF1/'' @ alg))
      else if padding = EnumValue P ''Padding'' ''PKCS1v15'' then Inr ''PKCS1v15''
      else Inl NotImplementedError)"

definition rsa_processor_verify :: "'b pblib \<Rightarrow> 'b crypto \<Rightarrow> key_processor \<Rightarrow> int \<Rightarrow> bool res" where
  "rsa_processor_verify P Y kp padding =
     (case load_der_public_key Y (get_public_key kp) of
        Inl e \<Rightarrow> Inl (if e = ValueError then InvalidTransaction
            ''Cannot deserialize the provided public key. Check if it is in DER format.'' else e)
      | Inr verifier \<Rightarrow>
          Inr (succeeds
            (rbind (rsa_get_padding P Y kp padding) (\<lambda>pad.
             rbind (rsa_get_hashing_algorithm P Y kp) (\<lambda>alg.
               rsa_verify Y verifier (kp_entity_hash_signature kp) (kp_entity_hash kp) pad alg)))))"

definition hashlib_algorithm :: "'b pblib \<Rightarrow> 'b crypto \<Rightarrow> key_processor \<Rightarrow> string res" where
  "hashlib_algorithm P Y kp =
     rbind (EnumName P ''HashingAlgorithm'' (kp_hashing_algorithm kp)) (\<lambda>n. Inr (lower n))"

unbundle bit_operations_syntax

definition ecdsa_processor_verify :: "'b pblib \<Rightarrow> 'b crypto \<Rightarrow> key_processor \<Rightarrow> bool" where
  "ecdsa_processor_verify P Y kp =
     (case rbind (secp_deserialize Y (get_public_key kp)) (\<lambda>(has_key, flags).
            if \<not> has_key then Inl AssertionError
            else if flags AND secp_context_verify Y \<noteq> secp_context_verify Y then
              Inl (OtherException ''instance not configured for sig verification'')
            else
              rbind (hashlib_algorithm P Y kp) (\<lambda>alg.
              rbind (hashlib_digest Y alg (kp_entity_hash kp)) (\<lambda>msg_digest.
              rbind (secp_deserialize_compact Y (kp_entity_hash_signature kp)) (\<lambda>raw_sig.
                Inr (secp_ecdsa_verify Y raw_sig msg_digest (get_public_key kp)))))) of
        Inl _ \<Rightarrow> False
      | Inr verified \<Rightarrow> verified \<noteq> 0)"

definition ed25519_processor_verify :: "'b pblib \<Rightarrow> 'b crypto \<Rightarrow> key_processor \<Rightarrow> bool" where
  "ed25519_processor_verify P Y kp =
     succeeds
       (rbind (hashlib_algorithm P Y kp) (\<lambda>alg.
        rbind (hashlib_digest Y alg (kp_entity_hash kp)) (\<lambda>msg_digest.
          ed25519_verify Y (get_public_key kp) (kp_entity_hash_signature kp) msg_digest)))"

text \<open>\<open>detect_processor_cls\<close> and the method \<open>verify\<close> of the class it returns.\<close>

fun processor_verify :: "'b pblib \<Rightarrow> 'b crypto \<Rightarrow> key_processor \<Rightarrow> bool res" where
  "processor_verify P Y kp =
     (case kp_config kp of
        RSAConfiguration key padding \<Rightarrow> rsa_processor_verify P Y kp padding
      | ECDSAConfiguration key ec \<Rightarrow> Inr (ecdsa_processor_verify P Y kp)
      | Ed25519Configuration key \<Rightarrow> Inr (ed25519_processor_verify P Y kp))"

declare processor_verify.simps [simp del]

section \<open>The handler\<close>

definition PubKeyHandler :: handler where
  "PubKeyHandler = BasicHandler ''pub_key'' [''0.1'']"

lemma valid_PubKeyHandler [simp]: "valid_handler PubKeyHandler"
  by (simp add: PubKeyHandler_def)

definition pub_key_address :: "string \<Rightarrow> string" where
  "pub_key_address data = prefix_of PubKeyHandler @ take 64 (hash512 data)"

lemma make_pub_key_address [simp]:
  "make_address_from_data PubKeyHandler data = Inr (pub_key_address data)"
  by (simp add: make_address_from_data_eq pub_key_address_def)

definition PUB_KEY_MAX_VALIDITY :: int where
  "PUB_KEY_MAX_VALIDITY = 365 * 86400"

definition PUB_KEY_STORE_PRICE :: int where
  "PUB_KEY_STORE_PRICE = 10"

definition is_public_key_validity_exceeded :: "'b crypto \<Rightarrow> int \<Rightarrow> int \<Rightarrow> bool" where
  "is_public_key_validity_exceeded Y vfrom vto =
     (let from_local = vfrom + utcoffset Y vfrom;
          to_local = vto + utcoffset Y vto
      in if to_local - from_local > PUB_KEY_MAX_VALIDITY then False else True)"

definition charge_tokens_for_storing ::
  "'b pblib \<Rightarrow> ('c, 'b) ctx_ops \<Rightarrow> string \<Rightarrow> string \<Rightarrow> (('c, 'b) cache_service, updated_state) sx"
where
  "charge_tokens_for_storing P K address_from to_address =
     (if ZERO_ADDRESS = address_from then
        sraise (InvalidTransaction ''Transactions from zero address is used only for internal purposes.'')
      else
        transfer_from_address P K address_from
          \<lparr>address_to = to_address, tp_value = PUB_KEY_STORE_PRICE\<rparr>)"

definition charge_for_storing ::
  "'b pblib \<Rightarrow> ('c, 'b) ctx_ops \<Rightarrow> string \<Rightarrow> (('c, 'b) cache_service, updated_state option) sx"
where
  "charge_for_storing P K address_from =
     sbind (get_setting_value P K ''remme.economy_enabled'' (Some ''true''))
       (\<lambda>v. case v of
          None \<Rightarrow> sraise AttributeError
        | Some is_economy_enabled \<Rightarrow>
            if lower is_economy_enabled = ''true'' then
              sbind (charge_tokens_for_storing P K address_from ZERO_ADDRESS) (\<lambda>st. sret (Some st))
            else sret None)"

definition store_public_key_to_account :: "string \<Rightarrow> Account \<Rightarrow> Account" where
  "store_public_key_to_account address account =
     (if address \<notin> set (pub_keys account)
      then account\<lparr>pub_keys := pub_keys account @ [address]\<rparr> else account)"

definition get_public_key_processor :: "NewPubKeyPayload \<Rightarrow> key_processor res" where
  "get_public_key_processor tx =
     (case which_configuration tx of
        None \<Rightarrow> Inl (InvalidTransaction ''Configuration for public key not set'')
      | Some conf_payload \<Rightarrow> Inr \<lparr>
          kp_entity_hash = entity_hash tx,
          kp_entity_hash_signature = entity_hash_signature tx,
          kp_valid_from = valid_from tx,
          kp_valid_to = valid_to tx,
          kp_hashing_algorithm = hashing_algorithm tx,
          kp_config = conf_payload \<rparr>)"

section \<open>Storing a key\<close>

text \<open>\<open>state.get(sender_account_address)\<close>: the account an earlier step put into the dictionary.\<close>

definition account_in :: "updated_state \<Rightarrow> string \<Rightarrow> Account res" where
  "account_in st address =
     (case map_of st address of Some (AccountM a) \<Rightarrow> Inr a | _ \<Rightarrow> Inl AttributeError)"

definition store_pub_key ::
  "'b pblib \<Rightarrow> ('c, 'b) ctx_ops \<Rightarrow> 'b crypto \<Rightarrow> string \<Rightarrow> NewPubKeyPayload
     \<Rightarrow> (('c, 'b) cache_service, updated_state) sx"
where
  "store_pub_key P K Y signer_pubkey tx =
     sbind (slift (get_public_key_processor tx)) (\<lambda>processor.
     sbind (slift (processor_verify P Y processor)) (\<lambda>verified.
     if \<not> verified then sraise (InvalidTransaction ''Invalid signature'')
     else
     sbind (slift (make_address_from_data PubKeyHandler (get_public_key processor))) (\<lambda>key_address.
     sbind (slift (make_address_from_data AccountHandler signer_pubkey)) (\<lambda>sender_account_address.
     sbind (get_multiple_data P K [(key_address, PubKeyStorageC), (sender_account_address, AccountC)])
       (\<lambda>vs. case vs of
          [v1, v2] \<Rightarrow>
            sbind (slift (as_pub_key_storage v1)) (\<lambda>public_key_information.
            sbind (slift (as_account v2)) (\<lambda>a.
            if public_key_information \<noteq> None then
              sraise (InvalidTransaction ''This public key is already registered.'')
            else
            let sender_account = account_or_default a in
            if \<not> is_public_key_validity_exceeded Y (valid_from tx) (valid_to tx) then
              sraise (InvalidTransaction ''The public key validity exceeds the maximum value.'')
            else
            let information = \<lparr>owner = signer_pubkey, payload = tx, is_revoked = False\<rparr>;
                st = dict_literal [(sender_account_address, AccountM sender_account),
                                   (key_address, PubKeyStorageM information)]
            in
            sbind (charge_for_storing P K sender_account_address) (\<lambda>charging_state.
            sbind (slift (case charging_state of
                     None \<Rightarrow> Inr (st, sender_account)
                   | Some ch \<Rightarrow>
                       (let st' = dict_update st ch in
                        rbind (account_in st' sender_account_address) (\<lambda>acc. Inr (st', acc)))))
              (\<lambda>(st', sender_account').
                sret (dict_update st'
                  [(sender_account_address,
                    AccountM (store_public_key_to_account key_address sender_account'))])))))
        | _ \<Rightarrow> sraise ValueError)))))"

definition store_public_key_for_other ::
  "'b pblib \<Rightarrow> ('c, 'b) ctx_ops \<Rightarrow> 'b crypto \<Rightarrow> string \<Rightarrow> NewPubKeyStoreAndPayPayload
     \<Rightarrow> (('c, 'b) cache_service, updated_state) sx"
where
  "store_public_key_for_other P K Y signer_pubkey tp =
     (let tx = pub_key_payload tp;
          owner_hex = bytes_hex (owner_public_key tp)
      in
     sbind (slift (Secp256k1PublicKey_from_hex Y owner_hex)) (\<lambda>owner_key.
     sbind (slift (Secp256k1Context_verify Y (bytes_hex (signature_by_owner tp))
                     (SerializeToString P (NewPubKeyPayloadM tx)) owner_key)) (\<lambda>owner_ok.
     if \<not> owner_ok then sraise (InvalidTransaction ''Public key owner's signature is invalid.'')
     else
     sbind (slift (get_public_key_processor tx)) (\<lambda>processor.
     sbind (slift (processor_verify P Y processor)) (\<lambda>verified.
     if \<not> verified then sraise (InvalidTransaction ''Payed public key has invalid signature.'')
     else
     sbind (slift (make_address_from_data PubKeyHandler (get_public_key processor))) (\<lambda>key_address.
     sbind (slift (make_address_from_data AccountHandler owner_hex)) (\<lambda>owner_address.
     sbind (slift (make_address_from_data AccountHandler signer_pubkey)) (\<lambda>payer_address.
     sbind (get_multiple_data P K
              [(key_address, PubKeyStorageC), (owner_address, AccountC), (payer_address, AccountC)])
       (\<lambda>vs. case vs of
          [v1, v2, v3] \<Rightarrow>
            sbind (slift (as_pub_key_storage v1)) (\<lambda>public_key_information.
            sbind (slift (as_account v2)) (\<lambda>a2.
            sbind (slift (as_account v3)) (\<lambda>a3.
            if public_key_information \<noteq> None then
              sraise (InvalidTransaction ''This public key is already registered.'')
            else
            let owner_account = account_or_default a2;
                payer_account = account_or_default a3
            in
            if \<not> is_public_key_validity_exceeded Y (valid_from tx) (valid_to tx) then
              sraise (InvalidTransaction ''The public key validity exceeds the maximum value.'')
            else
            let information = \<lparr>owner = owner_hex, payload = tx, is_revoked = False\<rparr>;
                st = dict_literal [(owner_address, AccountM owner_account),
                                   (payer_address, AccountM payer_account),
                                   (key_address, PubKeyStorageM information)]
            in
            sbind (charge_for_storing P K payer_address) (\<lambda>charging_state.
              let st' = (case charging_state of None \<Rightarrow> st | Some ch \<Rightarrow> dict_update st ch) in
              sret (dict_update st'
                [(owner_address, AccountM (store_public_key_to_account key_address owner_account))])))))
        | _ \<Rightarrow> sraise ValueError)))))))))"

section \<open>Revoking a key\<close>

definition revoke_pub_key ::
  "'b pblib \<Rightarrow> ('c, 'b) ctx_ops \<Rightarrow> string \<Rightarrow> RevokePubKeyPayload \<Rightarrow> (('c, 'b) cache_service, updated_state) sx"
where
  "revoke_pub_key P K signer_pubkey rp =
     sbind (get_data P K PubKeyStorageC (revoke_address rp)) (\<lambda>m.
     sbind (slift (as_pub_key_storage m)) (\<lambda>public_key_information.
       case public_key_information of
         None \<Rightarrow> sraise (InvalidTransaction ''No public key is presented in chain.'')
       | Some info \<Rightarrow>
           if signer_pubkey \<noteq> owner info then
             sraise (InvalidTransaction ''Only owner can revoke the public key.'')
           else if is_revoked info then
             sraise (InvalidTransaction ''The public key is already revoked.'')
           else sret (dict_literal [(revoke_address rp, PubKeyStorageM (info\<lparr>is_revoked := True\<rparr>))])))"

section \<open>The method table\<close>

fun store_proc ::
  "'b pblib \<Rightarrow> ('c, 'b) ctx_ops \<Rightarrow> 'b crypto \<Rightarrow> string \<Rightarrow> message \<Rightarrow> (('c, 'b) cache_service, updated_state) sx"
where
  "store_proc P K Y pk (NewPubKeyPayloadM p) = store_pub_key P K Y pk p"
| "store_proc P K Y pk _ = sraise AttributeError"

fun revoke_proc ::
  "'b pblib \<Rightarrow> ('c, 'b) ctx_ops \<Rightarrow> string \<Rightarrow> message \<Rightarrow> (('c, 'b) cache_service, updated_state) sx"
where
  "revoke_proc P K pk (RevokePubKeyPayloadM p) = revoke_pub_key P K pk p"
| "revoke_proc P K pk _ = sraise AttributeError"

fun store_and_pay_proc ::
  "'b pblib \<Rightarrow> ('c, 'b) ctx_ops \<Rightarrow> 'b crypto \<Rightarrow> string \<Rightarrow> message
     \<Rightarrow> (('c, 'b) cache_service, updated_state) sx"
where
  "store_and_pay_proc P K Y pk (NewPubKeyStoreAndPayPayloadM p) =
     store_public_key_for_other P K Y pk p"
| "store_and_pay_proc P K Y pk _ = sraise AttributeError"

definition pub_key_state_processor ::
  "'b pblib \<Rightarrow> ('c, 'b) ctx_ops \<Rightarrow> 'b crypto \<Rightarrow> ('c, 'b) state_processor"
where
  "pub_key_state_processor P K Y = dict_literal
     [(EnumValue P ''PubKeyMethod'' ''STORE'',
       \<lparr>pb_class_of = NewPubKeyPayloadC, processor_of = store_proc P K Y,
        emit_event = None, validator_of = NewPublicKeyPayloadForm\<rparr>),
      (EnumValue P ''PubKeyMethod'' ''REVOKE'',
       \<lparr>pb_class_of = RevokePubKeyPayloadC, processor_of = revoke_proc P K,
        emit_event = None, validator_of = RevokePubKeyPayloadForm\<rparr>),
      (EnumValue P ''PubKeyMethod'' ''STORE_AND_PAY'',
       \<lparr>pb_class_of = NewPubKeyStoreAndPayPayloadC, processor_of = store_and_pay_proc P K Y,
        emit_event = None, validator_of = NewPubKeyStoreAndPayPayloadForm\<rparr>)]"

section \<open>What the processors do\<close>

lemma prefix_PubKeyHandler: "prefix_of PubKeyHandler = ''a23be1''"
  by (simp add: PubKeyHandler_def BasicHandler_def hash512_pub_key)

lemma take_pub_key_address: "take 6 (pub_key_address d) = ''a23be1''"
  by (simp add: pub_key_address_def prefix_PubKeyHandler)

lemma pub_key_address_not_account_addr [simp]: "\<not> is_account_addr (pub_key_address d)"
  using take_ZERO_ADDRESS take_pub_key_address [of d] by (auto simp: is_account_addr_take)

lemma pub_key_address_neq [simp]:
  "is_account_addr a \<Longrightarrow> pub_key_address d \<noteq> a" "is_account_addr a \<Longrightarrow> a \<noteq> pub_key_address d"
  using pub_key_address_not_account_addr by metis+

definition economy_enabled :: "'b pblib \<Rightarrow> (string \<rightharpoonup> 'b) \<Rightarrow> bool" where
  "economy_enabled P v \<longleftrightarrow>
     map_option lower (setting_at P v ''remme.economy_enabled'' (Some ''true'')) = Some ''true''"

text \<open>The fee for storing a key, taken from the payer when the economy is enabled.\<close>

definition charge_ok :: "'b pblib \<Rightarrow> (string \<rightharpoonup> 'b) \<Rightarrow> string \<Rightarrow> bool" where
  "charge_ok P v a \<longleftrightarrow>
     (economy_enabled P v \<longrightarrow>
        PUB_KEY_STORE_PRICE \<le> balance (account_at P v a) \<and>
        balance (account_at P v ZERO_ADDRESS) + PUB_KEY_STORE_PRICE < 2 ^ 64)"

definition charged :: "'b pblib \<Rightarrow> (string \<rightharpoonup> 'b) \<Rightarrow> Account \<Rightarrow> Account" where
  "charged P v acc =
     (if economy_enabled P v then acc\<lparr>balance := balance acc - PUB_KEY_STORE_PRICE\<rparr> else acc)"

definition fee_update :: "'b pblib \<Rightarrow> (string \<rightharpoonup> 'b) \<Rightarrow> (string \<rightharpoonup> message)" where
  "fee_update P v =
     (if economy_enabled P v then
        [ZERO_ADDRESS \<mapsto> AccountM ((account_at P v ZERO_ADDRESS)
           \<lparr>balance := balance (account_at P v ZERO_ADDRESS) + PUB_KEY_STORE_PRICE\<rparr>)]
      else Map.empty)"

context sawtooth_context
begin

lemma charge_for_storing_view:
  assumes "charge_for_storing P K a cs = Inr (r, cs')" and "coherent cs"
  shows "(case r of
      None \<Rightarrow> \<not> economy_enabled P (view (context_of cs))
    | Some ch \<Rightarrow> economy_enabled P (view (context_of cs)) \<and> a \<noteq> ZERO_ADDRESS \<and>
        PUB_KEY_STORE_PRICE \<le> balance (account_at P (view (context_of cs)) a) \<and>
        balance (account_at P (view (context_of cs)) ZERO_ADDRESS) + PUB_KEY_STORE_PRICE < 2 ^ 64 \<and>
        ch = [(a, AccountM ((account_at P (view (context_of cs)) a)
                 \<lparr>balance := balance (account_at P (view (context_of cs)) a) - PUB_KEY_STORE_PRICE\<rparr>)),
              (ZERO_ADDRESS, AccountM ((account_at P (view (context_of cs)) ZERO_ADDRESS)
                 \<lparr>balance := balance (account_at P (view (context_of cs)) ZERO_ADDRESS)
                   + PUB_KEY_STORE_PRICE\<rparr>))]) \<and>
    coherent cs' \<and> context_of cs' = context_of cs"
proof -
  from assms(1) obtain s cs1 where
      g: "get_setting_value P K ''remme.economy_enabled'' (Some ''true'') cs = Inr (Some s, cs1)" and
      rest: "(if lower s = ''true'' then
                sbind (charge_tokens_for_storing P K a ZERO_ADDRESS) (\<lambda>st. sret (Some st))
              else sret None) cs1 = Inr (r, cs')"
    by (auto simp: charge_for_storing_def sbind_eq_Inr split: option.splits)
  from get_setting_value_view [OF g assms(2)]
  have e: "economy_enabled P (view (context_of cs)) \<longleftrightarrow> lower s = ''true''"
      and c1: "coherent cs1" "context_of cs1 = context_of cs"
    by (auto simp: economy_enabled_def)
  show ?thesis
  proof (cases "lower s = ''true''")
    case False
    with rest e c1 show ?thesis by auto
  next
    case True
    with rest obtain ch where r: "r = Some ch" and z: "a \<noteq> ZERO_ADDRESS"
        and t: "transfer_from_address P K a \<lparr>address_to = ZERO_ADDRESS, tp_value = PUB_KEY_STORE_PRICE\<rparr> cs1
                = Inr (ch, cs')"
      by (auto simp: sbind_eq_Inr charge_tokens_for_storing_def split: if_splits)
    from transfer_from_address_view [OF t c1(1)] c1(2) True e r z show ?thesis by simp
  qed
qed

lemma store_pub_key_steps:
  assumes "store_pub_key P K Y pk tx cs = Inr (upd, cs')"
  obtains processor a cs1 charging st st' acc where
    "get_public_key_processor tx = Inr processor" and
    "processor_verify P Y processor = Inr True" and
    "get_multiple_data P K [(pub_key_address (get_public_key processor), PubKeyStorageC),
       (account_address pk, AccountC)] cs = Inr ([None, map_option AccountM a], cs1)" and
    "is_public_key_validity_exceeded Y (valid_from tx) (valid_to tx)" and
    "st = dict_literal [(account_address pk, AccountM (account_or_default a)),
       (pub_key_address (get_public_key processor),
        PubKeyStorageM \<lparr>owner = pk, payload = tx, is_revoked = False\<rparr>)]" and
    "charge_for_storing P K (account_address pk) cs1 = Inr (charging, cs')" and
    "(case charging of
       None \<Rightarrow> Inr (st, account_or_default a)
     | Some ch \<Rightarrow> (let st' = dict_update st ch in
         rbind (account_in st' (account_address pk)) (\<lambda>acc. Inr (st', acc)))) = Inr (st', acc)" and
    "upd = dict_update st' [(account_address pk, AccountM (store_public_key_to_account
             (pub_key_address (get_public_key processor)) acc))]"
proof -
  from assms obtain processor where
    p: "get_public_key_processor tx = Inr processor" "processor_verify P Y processor = Inr True"
    by (auto simp: store_pub_key_def res_simps split: if_splits)
  from assms p obtain vs cs1 where
    g: "get_multiple_data P K [(pub_key_address (get_public_key processor), PubKeyStorageC),
       (account_address pk, AccountC)] cs = Inr (vs, cs1)"
    by (auto simp: store_pub_key_def res_simps)
  from get_multiple_data_two [OF g] obtain v1 v2 where vs: "vs = [v1, v2]" by blast
  let ?ka = "pub_key_address (get_public_key processor)" and ?sa = "account_address pk"
  let ?st = "\<lambda>a. dict_literal [(?sa, AccountM (account_or_default a)),
       (?ka, PubKeyStorageM \<lparr>owner = pk, payload = tx, is_revoked = False\<rparr>)]"
  from assms obtain a charging st' acc where
    "v1 = None" "v2 = map_option AccountM a"
    "is_public_key_validity_exceeded Y (valid_from tx) (valid_to tx)"
    "charge_for_storing P K ?sa cs1 = Inr (charging, cs')"
    "(case charging of
       None \<Rightarrow> Inr (?st a, account_or_default a)
     | Some ch \<Rightarrow> (let st' = dict_update (?st a) ch in
         rbind (account_in st' ?sa) (\<lambda>acc. Inr (st', acc)))) = Inr (st', acc)"
    "upd = dict_update st' [(?sa, AccountM (store_public_key_to_account ?ka acc))]"
    by (auto simp: store_pub_key_def p g vs sbind_eq_Inr slift_eq_Inr as_pub_key_storage_Inr
        as_account_Inr Let_def simp del: dict_literal_pair dict_update_Cons split: if_splits)
  with p g vs that [of processor a cs1 "?st a" charging st' acc] show thesis by blast
qed

lemma store_pub_key_distinct:
  assumes "store_pub_key P K Y pk tx cs = Inr (upd, cs')"
  shows "distinct (map fst upd)"
  using assms
proof (rule store_pub_key_steps)
  fix processor a cs1 charging st st' acc
  assume st: "st = dict_literal [(account_address pk, AccountM (account_or_default a)),
       (pub_key_address (get_public_key processor),
        PubKeyStorageM \<lparr>owner = pk, payload = tx, is_revoked = False\<rparr>)]" and
    st': "(case charging of
       None \<Rightarrow> Inr (st, account_or_default a)
     | Some ch \<Rightarrow> (let st' = dict_update st ch in
         rbind (account_in st' (account_address pk)) (\<lambda>acc. Inr (st', acc)))) = Inr (st', acc)" and
    upd: "upd = dict_update st' [(account_address pk, AccountM (store_public_key_to_account
             (pub_key_address (get_public_key processor)) acc))]"
  have "distinct (map fst st)" unfolding st by (rule distinct_dict_literal)
  with st' have "distinct (map fst st')"
    by (auto simp: res_simps Let_def intro!: distinct_dict_update split: option.splits)
  then show "distinct (map fst upd)"
    unfolding upd by (rule distinct_dict_update)
qed

text \<open>
  What a successful store writes: the key entry, the sender's account with the key linked and the
  fee taken off, and, when the economy is enabled, the fee on the zero address.
\<close>

lemma store_pub_key_view:
  assumes run: "store_pub_key P K Y pk tx cs = Inr (upd, cs')" and coh: "coherent cs"
  defines "v \<equiv> view (context_of cs)"
  shows "\<exists>processor. get_public_key_processor tx = Inr processor \<and>
    processor_verify P Y processor = Inr True \<and>
    entry P v PubKeyStorageC (pub_key_address (get_public_key processor)) = None \<and>
    is_public_key_validity_exceeded Y (valid_from tx) (valid_to tx) \<and>
    charge_ok P v (account_address pk) \<and>
    map_of upd = (fee_update P v)
      (pub_key_address (get_public_key processor) \<mapsto>
         PubKeyStorageM \<lparr>owner = pk, payload = tx, is_revoked = False\<rparr>,
       account_address pk \<mapsto> AccountM (store_public_key_to_account
         (pub_key_address (get_public_key processor))
         (charged P v (account_at P v (account_address pk))))) \<and>
    distinct (map fst upd) \<and> coherent cs' \<and> context_of cs' = context_of cs"
proof -
  obtain processor a cs1 charging st st' acc where
    p: "get_public_key_processor tx = Inr processor" "processor_verify P Y processor = Inr True"
       "is_public_key_validity_exceeded Y (valid_from tx) (valid_to tx)" and
    g: "get_multiple_data P K [(pub_key_address (get_public_key processor), PubKeyStorageC),
       (account_address pk, AccountC)] cs = Inr ([None, map_option AccountM a], cs1)" and
    st: "st = dict_literal [(account_address pk, AccountM (account_or_default a)),
       (pub_key_address (get_public_key processor),
        PubKeyStorageM \<lparr>owner = pk, payload = tx, is_revoked = False\<rparr>)]" and
    ch: "charge_for_storing P K (account_address pk) cs1 = Inr (charging, cs')" and
    st': "(case charging of
       None \<Rightarrow> Inr (st, account_or_default a)
     | Some ch \<Rightarrow> (let st' = dict_update st ch in
         rbind (account_in st' (account_address pk)) (\<lambda>acc. Inr (st', acc)))) = Inr (st', acc)" and
    upd: "upd = dict_update st' [(account_address pk, AccountM (store_public_key_to_account
             (pub_key_address (get_public_key processor)) acc))]"
    using run by (rule store_pub_key_steps)
  from get_multiple_data_entry [OF g coh]
  have e: "entry P v PubKeyStorageC (pub_key_address (get_public_key processor)) = None"
      "account_at P v (account_address pk) = account_or_default a"
      and c1: "coherent cs1" "context_of cs1 = context_of cs"
    by (auto simp: v_def intro: account_at_entry)
  note c2 = charge_for_storing_view [OF ch c1(1)]
  have "charge_ok P v (account_address pk) \<and>
    map_of upd = (fee_update P v)
      (pub_key_address (get_public_key processor) \<mapsto>
         PubKeyStorageM \<lparr>owner = pk, payload = tx, is_revoked = False\<rparr>,
       account_address pk \<mapsto> AccountM (store_public_key_to_account
         (pub_key_address (get_public_key processor))
         (charged P v (account_at P v (account_address pk)))))"
  proof (cases charging)
    case None
    with st' c2 c1 e upd st show ?thesis
      by (auto simp: charge_ok_def fee_update_def charged_def v_def update_conv' fun_eq_iff)
  next
    case (Some x)
    with st' c2 c1 e upd st show ?thesis
      by (auto simp: charge_ok_def fee_update_def charged_def v_def update_conv' account_in_def fun_eq_iff)
  qed
  with p e c1 c2 store_pub_key_distinct [OF run] show ?thesis by auto
qed

text \<open>
  Storing for another account writes the owner's account last, from the copy that was read before
  the fee was taken.
\<close>

lemma store_public_key_for_other_steps:
  assumes "store_public_key_for_other P K Y pk tp cs = Inr (upd, cs')"
  obtains owner_key processor a2 a3 cs1 charging where
    "Secp256k1PublicKey_from_hex Y (bytes_hex (owner_public_key tp)) = Inr owner_key" and
    "Secp256k1Context_verify Y (bytes_hex (signature_by_owner tp))
       (SerializeToString P (NewPubKeyPayloadM (pub_key_payload tp))) owner_key = Inr True" and
    "get_public_key_processor (pub_key_payload tp) = Inr processor" and
    "processor_verify P Y processor = Inr True" and
    "get_multiple_data P K [(pub_key_address (get_public_key processor), PubKeyStorageC),
       (account_address (bytes_hex (owner_public_key tp)), AccountC), (account_address pk, AccountC)] cs
       = Inr ([None, map_option AccountM a2, map_option AccountM a3], cs1)" and
    "is_public_key_validity_exceeded Y (valid_from (pub_key_payload tp)) (valid_to (pub_key_payload tp))" and
    "charge_for_storing P K (account_address pk) cs1 = Inr (charging, cs')" and
    "upd = dict_update (dict_update
       (dict_literal [(account_address (bytes_hex (owner_public_key tp)), AccountM (account_or_default a2)),
          (account_address pk, AccountM (account_or_default a3)),
          (pub_key_address (get_public_key processor), PubKeyStorageM
             \<lparr>owner = bytes_hex (owner_public_key tp), payload = pub_key_payload tp, is_revoked = False\<rparr>)])
       (case charging of None \<Rightarrow> [] | Some ch \<Rightarrow> ch))
       [(account_address (bytes_hex (owner_public_key tp)), AccountM (store_public_key_to_account
          (pub_key_address (get_public_key processor)) (account_or_default a2)))]"
proof -
  from assms obtain owner_key processor where
    p: "Secp256k1PublicKey_from_hex Y (bytes_hex (owner_public_key tp)) = Inr owner_key"
       "Secp256k1Context_verify Y (bytes_hex (signature_by_owner tp))
         (SerializeToString P (NewPubKeyPayloadM (pub_key_payload tp))) owner_key = Inr True"
       "get_public_key_processor (pub_key_payload tp) = Inr processor"
       "processor_verify P Y processor = Inr True"
    by (auto simp: store_public_key_for_other_def res_simps Let_def split: if_splits)
  let ?ka = "pub_key_address (get_public_key processor)" and ?pa = "account_address pk"
    and ?oa = "account_address (bytes_hex (owner_public_key tp))"
  from assms p obtain vs cs1 where
    g: "get_multiple_data P K [(?ka, PubKeyStorageC), (?oa, AccountC), (?pa, AccountC)] cs
          = Inr (vs, cs1)"
    by (auto simp: store_public_key_for_other_def res_simps Let_def)
  from get_multiple_data_three [OF g] obtain v1 v2 v3 where vs: "vs = [v1, v2, v3]" by blast
  from assms obtain a2 a3 charging where
    "v1 = None" "v2 = map_option AccountM a2" "v3 = map_option AccountM a3"
    "is_public_key_validity_exceeded Y (valid_from (pub_key_payload tp)) (valid_to (pub_key_payload tp))"
    "charge_for_storing P K ?pa cs1 = Inr (charging, cs')"
    "upd = dict_update (dict_update
       (dict_literal [(?oa, AccountM (account_or_default a2)), (?pa, AccountM (account_or_default a3)),
          (?ka, PubKeyStorageM
             \<lparr>owner = bytes_hex (owner_public_key tp), payload = pub_key_payload tp, is_revoked = False\<rparr>)])
       (case charging of None \<Rightarrow> [] | Some ch \<Rightarrow> ch))
       [(?oa, AccountM (store_public_key_to_account ?ka (account_or_default a2)))]"
    by (auto simp: store_public_key_for_other_def p g vs sbind_eq_Inr slift_eq_Inr
        as_pub_key_storage_Inr as_account_Inr Let_def
        simp del: dict_literal_pair dict_update_Cons split: if_splits option.splits)
  with p g vs that [of owner_key processor a2 a3 cs1 charging] show thesis by blast
qed

lemma store_public_key_for_other_view:
  assumes run: "store_public_key_for_other P K Y pk tp cs = Inr (upd, cs')" and coh: "coherent cs"
  defines "v \<equiv> view (context_of cs)" and "owner_hex \<equiv> bytes_hex (owner_public_key tp)"
  shows "\<exists>owner_key processor.
    Secp256k1PublicKey_from_hex Y owner_hex = Inr owner_key \<and>
    Secp256k1Context_verify Y (bytes_hex (signature_by_owner tp))
       (SerializeToString P (NewPubKeyPayloadM (pub_key_payload tp))) owner_key = Inr True \<and>
    get_public_key_processor (pub_key_payload tp) = Inr processor \<and>
    processor_verify P Y processor = Inr True \<and>
    entry P v PubKeyStorageC (pub_key_address (get_public_key processor)) = None \<and>
    is_public_key_validity_exceeded Y (valid_from (pub_key_payload tp)) (valid_to (pub_key_payload tp)) \<and>
    charge_ok P v (account_address pk) \<and>
    map_of upd = (fee_update P v)
      (pub_key_address (get_public_key processor) \<mapsto> PubKeyStorageM
         \<lparr>owner = owner_hex, payload = pub_key_payload tp, is_revoked = False\<rparr>,
       account_address pk \<mapsto> AccountM (charged P v (account_at P v (account_address pk))),
       account_address owner_hex \<mapsto> AccountM (store_public_key_to_account
         (pub_key_address (get_public_key processor)) (account_at P v (account_address owner_hex)))) \<and>
    distinct (map fst upd) \<and> coherent cs' \<and> context_of cs' = context_of cs"
proof -
  obtain owner_key processor a2 a3 cs1 charging where
    p: "Secp256k1PublicKey_from_hex Y owner_hex = Inr owner_key"
       "Secp256k1Context_verify Y (bytes_hex (signature_by_owner tp))
         (SerializeToString P (NewPubKeyPayloadM (pub_key_payload tp))) owner_key = Inr True"
       "get_public_key_processor (pub_key_payload tp) = Inr processor"
       "processor_verify P Y processor = Inr True"
       "is_public_key_validity_exceeded Y (valid_from (pub_key_payload tp)) (valid_to (pub_key_payload tp))" and
    g: "get_multiple_data P K [(pub_key_address (get_public_key processor), PubKeyStorageC),
       (account_address owner_hex, AccountC), (account_address pk, AccountC)] cs
       = Inr ([None, map_option AccountM a2, map_option AccountM a3], cs1)" and
    ch: "charge_for_storing P K (account_address pk) cs1 = Inr (charging, cs')" and
    upd: "upd = dict_update (dict_update
       (dict_literal [(account_address owner_hex, AccountM (account_or_default a2)),
          (account_address pk, AccountM (account_or_default a3)),
          (pub_key_address (get_public_key processor), PubKeyStorageM
             \<lparr>owner = owner_hex, payload = pub_key_payload tp, is_revoked = False\<rparr>)])
       (case charging of None \<Rightarrow> [] | Some ch \<Rightarrow> ch))
       [(account_address owner_hex, AccountM (store_public_key_to_account
          (pub_key_address (get_public_key processor)) (account_or_default a2)))]"
    using run unfolding owner_hex_def by (rule store_public_key_for_other_steps)
  from get_multiple_data_entry [OF g coh]
  have e: "entry P v PubKeyStorageC (pub_key_address (get_public_key processor)) = None"
      "account_at P v (account_address owner_hex) = account_or_default a2"
      "account_at P v (account_address pk) = account_or_default a3"
      and c1: "coherent cs1" "context_of cs1 = context_of cs"
    by (auto simp: v_def intro: account_at_entry)
  note c2 = charge_for_storing_view [OF ch c1(1)]
  have "charge_ok P v (account_address pk) \<and>
    map_of upd = (fee_update P v)
      (pub_key_address (get_public_key processor) \<mapsto> PubKeyStorageM
         \<lparr>owner = owner_hex, payload = pub_key_payload tp, is_revoked = False\<rparr>,
       account_address pk \<mapsto> AccountM (charged P v (account_at P v (account_address pk))),
       account_address owner_hex \<mapsto> AccountM (store_public_key_to_account
         (pub_key_address (get_public_key processor)) (account_at P v (account_address owner_hex))))"
  proof (cases charging)
    case None
    with c2 c1 e show ?thesis
      by (auto simp: upd charge_ok_def fee_update_def charged_def v_def map_of_dict_update
          map_of_dict_literal fun_eq_iff map_add_def simp del: dict_update_Cons dict_literal_pair)
  next
    case (Some x)
    with c2 c1 e show ?thesis
      by (auto simp: upd charge_ok_def fee_update_def charged_def v_def map_of_dict_update
          map_of_dict_literal fun_eq_iff map_add_def simp del: dict_update_Cons dict_literal_pair)
  qed
  moreover have "distinct (map fst upd)"
    unfolding upd by (intro distinct_dict_update distinct_dict_literal)
  ultimately show ?thesis using p e c1 c2 by auto
qed

lemma revoke_pub_key_steps:
  assumes "revoke_pub_key P K pk rp cs = Inr (upd, cs')"
  obtains info where
    "get_data P K PubKeyStorageC (revoke_address rp) cs = Inr (Some (PubKeyStorageM info), cs')" and
    "owner info = pk" and "\<not> is_revoked info" and
    "upd = [(revoke_address rp, PubKeyStorageM (info\<lparr>is_revoked := True\<rparr>))]"
proof -
  from assms obtain x cs1 where
    g: "get_data P K PubKeyStorageC (revoke_address rp) cs = Inr (map_option PubKeyStorageM x, cs1)"
    by (auto simp: revoke_pub_key_def res_simps)
  with assms show thesis
    by (cases x) (auto simp: revoke_pub_key_def dict_literal_def split: if_splits intro: that)
qed

lemma revoke_pub_key_view:
  assumes "revoke_pub_key P K pk rp cs = Inr (upd, cs')" and "coherent cs"
  shows "\<exists>info. entry P (view (context_of cs)) PubKeyStorageC (revoke_address rp)
      = Some (PubKeyStorageM info) \<and> owner info = pk \<and> \<not> is_revoked info \<and>
    upd = [(revoke_address rp, PubKeyStorageM (info\<lparr>is_revoked := True\<rparr>))] \<and>
    coherent cs' \<and> context_of cs' = context_of cs"
  using assms(1) by (rule revoke_pub_key_steps) (blast dest: get_data_entry [OF _ assms(2)])

end

sublocale sawtooth_context \<subseteq> store: tp_processor K view "store_proc P K Y" for P Y
proof unfold_locales
  fix pk m cs upd cs'
  assume r: "store_proc P K Y pk m cs = Inr (upd, cs')"
  then obtain p where s: "store_pub_key P K Y pk p cs = Inr (upd, cs')"
    by (cases "(P, K, Y, pk, m)" rule: store_proc.cases) auto
  show "distinct (map fst upd)"
    by (rule store_pub_key_distinct [OF s])
  assume "coherent cs"
  from store_pub_key_view [OF s this]
  show "coherent cs' \<and> context_of cs' = context_of cs" by blast
qed

sublocale sawtooth_context \<subseteq> store_and_pay: tp_processor K view "store_and_pay_proc P K Y" for P Y
proof unfold_locales
  fix pk m cs upd cs'
  assume r: "store_and_pay_proc P K Y pk m cs = Inr (upd, cs')"
  then obtain p where s: "store_public_key_for_other P K Y pk p cs = Inr (upd, cs')"
    by (cases "(P, K, Y, pk, m)" rule: store_and_pay_proc.cases) auto
  show "distinct (map fst upd)"
    using s by (rule store_public_key_for_other_steps)
      (simp only: distinct_dict_update distinct_dict_literal)
  assume "coherent cs"
  from store_public_key_for_other_view [OF s this]
  show "coherent cs' \<and> context_of cs' = context_of cs" by blast
qed

sublocale sawtooth_context \<subseteq> revoke: tp_processor K view "revoke_proc P K" for P
proof unfold_locales
  fix pk m cs upd cs'
  assume r: "revoke_proc P K pk m cs = Inr (upd, cs')"
  then obtain p where s: "revoke_pub_key P K pk p cs = Inr (upd, cs')"
    by (cases "(P, K, pk, m)" rule: revoke_proc.cases) auto
  then show "distinct (map fst upd)"
    by (rule revoke_pub_key_steps) simp
  assume "coherent cs"
  from revoke_pub_key_view [OF s this]
  show "coherent cs' \<and> context_of cs' = context_of cs" by blast
qed

end
