(* ===== verification/AtomicSwapTP.thy ===== *)
theory AtomicSwapTP
  imports AccountTP
begin

text \<open>
  \<open>remme/tp/atomic_swap.py\<close>: the atomic swap family. A swap locks tokens of its sender in the swap
  entry (there is no escrow account) and pays a commission to the zero address; it is closed with
  the preimage of its secret lock, which releases the tokens to the receiver, or expired by its
  sender after a time lock, which returns them. Block times come from the block info entries whose
  addresses \<open>remme/clients/block_info.py\<close> computes.

  \<open>keccak_256\<close> of the library \<open>sha3\<close> and the offset of local time are the parameter \<open>swap_env\<close>.
\<close>

record swap_env =
  keccak_256 :: "string \<Rightarrow> string"
  local_offset :: "int \<Rightarrow> int"

section \<open>Secret locks\<close>

definition remove_0x_prefix :: "string \<Rightarrow> string" where
  "remove_0x_prefix value = (if startswith value ''0x'' then drop 2 value else value)"

text \<open>\<open>codecs.decode(data, 'hex')\<close>: pairs of hexadecimal digits, upper or lower case.\<close>

fun hex_decode :: "string \<Rightarrow> string res" where
  "hex_decode [] = Inr []"
| "hex_decode [c] = Inl BinasciiError"
| "hex_decode (c # d # cs) =
     (case (digit_value c, digit_value d) of
        (Some i, Some j) \<Rightarrow> rbind (hex_decode cs) (\<lambda>bs. Inr (char_of (16 * i + j) # bs))
      | _ \<Rightarrow> Inl BinasciiError)"

definition web3_hash :: "swap_env \<Rightarrow> string \<Rightarrow> string res" where
  "web3_hash E data0 =
     (let data = (if length data0 mod 2 \<noteq> 0 then ''0x0'' @ remove_0x_prefix data0 else data0)
      in rbind (hex_decode (remove_0x_prefix data)) (\<lambda>bs. Inr (keccak_256 E bs)))"

section \<open>Block information\<close>

definition BLOCK_INFO_NAMESPACE_PREFIX :: string where
  "BLOCK_INFO_NAMESPACE_PREFIX = ''00b10c''"

definition CONFIG_ADDRESS :: string where
  "CONFIG_ADDRESS = BLOCK_INFO_NAMESPACE_PREFIX @ ''01'' @ replicate 62 (CHR ''0'')"

definition BLOCK_INFO_NAMESPACE :: string where
  "BLOCK_INFO_NAMESPACE = BLOCK_INFO_NAMESPACE_PREFIX @ ''00''"

text \<open>\<open>hex(n)[2:]\<close> drops the sign and the zero of a negative number, not its \<open>x\<close>.\<close>

definition hex_tail :: "int \<Rightarrow> string" where
  "hex_tail n = (if n < 0 then CHR ''x'' # hex_digits (nat (- n)) else hex_digits (nat n))"

definition create_block_address :: "int \<Rightarrow> string" where
  "create_block_address n = BLOCK_INFO_NAMESPACE @ zfill 62 (hex_tail n)"

definition get_latest_block_info ::
  "'b pblib \<Rightarrow> ('c, 'b) ctx_ops \<Rightarrow> (('c, 'b) cache_service, BlockInfo) sx"
where
  "get_latest_block_info P K =
     sbind (get_data P K BlockInfoConfigC CONFIG_ADDRESS) (\<lambda>m.
     sbind (slift (as_block_info_config m)) (\<lambda>block_info_config.
     case block_info_config of
       None \<Rightarrow> sraise (InvalidTransaction ''Block config not found.'')
     | Some cfg \<Rightarrow>
         sbind (get_data P K BlockInfoC (create_block_address (latest_block cfg))) (\<lambda>m2.
         sbind (slift (as_block_info m2)) (\<lambda>block_info.
         case block_info of
           None \<Rightarrow> sraise (InvalidTransaction
                     (''Block '' @ py_str (latest_block cfg + 1) @ '' not found.''))
         | Some bi \<Rightarrow> sret bi))))"

text \<open>The entries of the block information family are outside the families of the node.\<close>

lemma take_CONFIG_ADDRESS: "take 8 CONFIG_ADDRESS = ''00b10c01''"
  by (simp add: CONFIG_ADDRESS_def BLOCK_INFO_NAMESPACE_PREFIX_def)

lemma take_create_block_address: "take 8 (create_block_address n) = ''00b10c00''"
  by (simp add: create_block_address_def BLOCK_INFO_NAMESPACE_def BLOCK_INFO_NAMESPACE_PREFIX_def)

lemma take6_block_addresses:
  "take 6 CONFIG_ADDRESS = ''00b10c''" "take 6 (create_block_address n) = ''00b10c''"
  by (simp_all add: CONFIG_ADDRESS_def create_block_address_def BLOCK_INFO_NAMESPACE_def
      BLOCK_INFO_NAMESPACE_PREFIX_def)

lemma block_address_neq [simp]:
  "create_block_address n \<noteq> CONFIG_ADDRESS" "CONFIG_ADDRESS \<noteq> create_block_address n"
  using take_CONFIG_ADDRESS take_create_block_address [of n] by force+

section \<open>The handler\<close>

definition AtomicSwapHandler :: handler where
  "AtomicSwapHandler = BasicHandler ''AtomicSwap'' [''0.1'']"

lemma valid_AtomicSwapHandler [simp]: "valid_handler AtomicSwapHandler"
  by (simp add: AtomicSwapHandler_def)

definition swap_address :: "string \<Rightarrow> string" where
  "swap_address data = prefix_of AtomicSwapHandler @ take 64 (hash512 data)"

lemma make_swap_address [simp]:
  "make_address_from_data AtomicSwapHandler data = Inr (swap_address data)"
  by (simp add: make_address_from_data_eq swap_address_def)

definition INTIATOR_TIME_LOCK :: int where
  "INTIATOR_TIME_LOCK = 24"

definition NON_INTIATOR_TIME_LOCK :: int where
  "NON_INTIATOR_TIME_LOCK = 48"

definition INITIATOR_TIME_DELTA_LOCK :: int where
  "INITIATOR_TIME_DELTA_LOCK = INTIATOR_TIME_LOCK * 3600"

definition NON_INITIATOR_TIME_DELTA_LOCK :: int where
  "NON_INITIATOR_TIME_DELTA_LOCK = NON_INTIATOR_TIME_LOCK * 3600"

definition not_permitted :: "swap_status \<Rightarrow> bool" where
  "not_permitted s = (s = CLOSED \<or> s = EXPIRED)"

definition get_datetime_from_timestamp :: "swap_env \<Rightarrow> int \<Rightarrow> int" where
  "get_datetime_from_timestamp E t = t + local_offset E t"

definition not_initiated :: "string \<Rightarrow> exc" where
  "not_initiated sid = InvalidTransaction (''Atomic swap was not initiated for identifier '' @ sid @ ''!'')"

definition no_operations :: "string \<Rightarrow> exc" where
  "no_operations sid = InvalidTransaction
     (''No operations can be done upon the swap: '' @ sid @ '' as it is already closed or expired.'')"

text \<open>
  The four operations on an existing swap start alike: load the entry of the swap, refuse an
  unknown or a finished one.
\<close>

definition load_swap ::
  "'b pblib \<Rightarrow> ('c, 'b) ctx_ops \<Rightarrow> string \<Rightarrow> (('c, 'b) cache_service, string \<times> AtomicSwapInfo) sx"
where
  "load_swap P K swap_identifier =
     sbind (slift (make_address_from_data AtomicSwapHandler swap_identifier)) (\<lambda>address.
     sbind (get_data P K AtomicSwapInfoC address) (\<lambda>m.
     sbind (slift (as_swap_info m)) (\<lambda>swap_information.
     case swap_information of
       None \<Rightarrow> sraise (not_initiated swap_identifier)
     | Some si \<Rightarrow> if not_permitted (state si) then sraise (no_operations swap_identifier)
                  else sret (address, si))))"

section \<open>Opening a swap\<close>

definition get_transfer_payload :: "string \<Rightarrow> int \<Rightarrow> TransferPayload res" where
  "get_transfer_payload to_address v =
     rbind (set_uint64 v) (\<lambda>n. Inr \<lparr>address_to = to_address, tp_value = n\<rparr>)"

definition swap_commission :: "string option \<Rightarrow> int res" where
  "swap_commission v = (case v of None \<Rightarrow> Inl TypeError | Some s \<Rightarrow> py_int 10 s)"

definition swap_init ::
  "'b pblib \<Rightarrow> ('c, 'b) ctx_ops \<Rightarrow> string \<Rightarrow> AtomicSwapInitPayload \<Rightarrow> (('c, 'b) cache_service, updated_state) sx"
where
  "swap_init P K signer_pubkey p =
     sbind (slift (make_address_from_data AtomicSwapHandler (init_swap_id p))) (\<lambda>address.
     sbind (get_data P K AtomicSwapInfoC address) (\<lambda>m.
     sbind (slift (as_swap_info m)) (\<lambda>existing.
     if existing \<noteq> None then
       sraise (InvalidTransaction ''Atomic swap ID has already been taken, please use a different one.'')
     else
     sbind (get_latest_block_info P K) (\<lambda>block_info.
     sbind (slift (set_uint32 (timestamp block_info))) (\<lambda>block_time.
     sbind (slift (make_address_from_data AccountHandler signer_pubkey)) (\<lambda>sender.
     let swap_information = \<lparr>
           swap_id = init_swap_id p,
           state = OPENED,
           amount = init_amount p,
           created_at = block_time,
           secret_lock = init_secret_lock_by_solicitor p,
           secret_key = [],
           email_address_encrypted_optional = init_email_address_encrypted_by_initiator p,
           sender_address = sender,
           sender_address_non_local = init_sender_address_non_local p,
           receiver_address = init_receiver_address p,
           is_initiator = (init_secret_lock_by_solicitor p = []) \<rparr>
     in
     sbind (get_setting_value P K SETTINGS_SWAP_COMMISSION None) (\<lambda>setting.
     sbind (slift (swap_commission setting)) (\<lambda>commission_amount.
     if commission_amount < 0 then sraise (InvalidTransaction ''Wrong commission address.'')
     else
     let swap_total_amount = amount swap_information + commission_amount in
     sbind (get_data P K AccountC sender) (\<lambda>m2.
     sbind (slift (as_account m2)) (\<lambda>a.
     if balance (account_or_default a) < swap_total_amount then
       sraise (InvalidTransaction
         (''Not enough balance to perform the transaction in the amount (with a commission) ''
          @ py_str swap_total_amount @ ''.''))
     else
     sbind (slift (get_transfer_payload ZERO_ADDRESS commission_amount)) (\<lambda>transfer_payload.
     sbind (transfer_from_address P K sender transfer_payload) (\<lambda>transfer_state.
     sbind (slift (case map_of transfer_state sender of
                     Some (AccountM x) \<Rightarrow>
                       rbind (set_uint64 (balance x - amount swap_information))
                         (\<lambda>b. Inr (x\<lparr>balance := b\<rparr>))
                   | _ \<Rightarrow> Inl AttributeError)) (\<lambda>sender_account.
       sret (dict_literal
         ((address, AtomicSwapInfoM swap_information)
          # AList.update sender (AccountM sender_account) transfer_state)))))))))))))))"

section \<open>Secret lock and approval\<close>

definition swap_set_lock ::
  "'b pblib \<Rightarrow> ('c, 'b) ctx_ops \<Rightarrow> string \<Rightarrow> AtomicSwapSetSecretLockPayload
     \<Rightarrow> (('c, 'b) cache_service, updated_state) sx"
where
  "swap_set_lock P K signer_pubkey p =
     sbind (load_swap P K (lock_swap_id p)) (\<lambda>(address, si).
     if secret_lock si \<noteq> [] then
       sraise (InvalidTransaction (''Secret lock is already added for '' @ swap_id si @ ''.''))
     else
       sret (dict_literal
         [(address, AtomicSwapInfoM
             (si\<lparr>secret_lock := lock_secret_lock p, state := SECRET_LOCK_PROVIDED\<rparr>))]))"

definition swap_approve ::
  "'b pblib \<Rightarrow> ('c, 'b) ctx_ops \<Rightarrow> string \<Rightarrow> AtomicSwapApprovePayload
     \<Rightarrow> (('c, 'b) cache_service, updated_state) sx"
where
  "swap_approve P K signer_pubkey p =
     sbind (slift (make_address_from_data AccountHandler signer_pubkey)) (\<lambda>signer_address.
     sbind (load_swap P K (approve_swap_id p)) (\<lambda>(address, si).
     if \<not> is_initiator si \<or> sender_address si \<noteq> signer_address then
       sraise (InvalidTransaction
         ''Only transaction initiator (Alice) may approve the swap, once Bob provided a secret lock.'')
     else if secret_lock si = [] then
       sraise (InvalidTransaction ''Secret lock is needed for Bob to provide a secret key.'')
     else if state si \<noteq> SECRET_LOCK_PROVIDED then
       sraise (InvalidTransaction (''Swap identifier '' @ swap_id si @ '' is already closed.''))
     else sret (dict_literal [(address, AtomicSwapInfoM (si\<lparr>state := APPROVED\<rparr>))])))"

section \<open>Expiry\<close>

definition swap_expire ::
  "'b pblib \<Rightarrow> ('c, 'b) ctx_ops \<Rightarrow> swap_env \<Rightarrow> string \<Rightarrow> AtomicSwapExpirePayload
     \<Rightarrow> (('c, 'b) cache_service, updated_state) sx"
where
  "swap_expire P K E signer_pubkey p =
     sbind (load_swap P K (expire_swap_id p)) (\<lambda>(address, si).
     sbind (slift (make_address_from_data AccountHandler signer_pubkey)) (\<lambda>signer_address.
     if signer_address \<noteq> sender_address si then
       sraise (InvalidTransaction ''Signer is not the one who opened the swap.'')
     else
     sbind (get_latest_block_info P K) (\<lambda>block.
     let block_time = get_datetime_from_timestamp E (timestamp block);
         created = get_datetime_from_timestamp E (created_at si);
         time_delta = (if is_initiator si then INITIATOR_TIME_DELTA_LOCK
                       else NON_INITIATOR_TIME_DELTA_LOCK)
     in
     if created + time_delta > block_time then
       sraise (InvalidTransaction
         (''Swap '' @ (if is_initiator si then ''initiator'' else ''non initiator'')
          @ '' needs to wait ''
          @ py_str (if is_initiator si then INTIATOR_TIME_LOCK else NON_INTIATOR_TIME_LOCK)
          @ '' hours since timestamp '' @ py_str (created_at si) @ '' to withdraw.''))
     else
     sbind (get_data P K AccountC (sender_address si)) (\<lambda>m.
     sbind (slift (as_account m)) (\<lambda>a.
     let account = account_or_default a in
     sbind (slift (set_uint64 (balance account + amount si))) (\<lambda>b.
       sret (dict_literal
         [(address, AtomicSwapInfoM (si\<lparr>state := EXPIRED\<rparr>)),
          (sender_address si, AccountM (account\<lparr>balance := b\<rparr>))])))))))"

section \<open>Closing\<close>

definition swap_close ::
  "'b pblib \<Rightarrow> ('c, 'b) ctx_ops \<Rightarrow> swap_env \<Rightarrow> string \<Rightarrow> AtomicSwapClosePayload
     \<Rightarrow> (('c, 'b) cache_service, updated_state) sx"
where
  "swap_close P K E signer_pubkey p =
     sbind (load_swap P K (close_swap_id p)) (\<lambda>(address, si).
     if secret_lock si = [] then
       sraise (InvalidTransaction ''Secret lock is required to close the swap.'')
     else
     sbind (slift (web3_hash E (close_secret_key p))) (\<lambda>hashed.
     if hashed \<noteq> secret_lock si then
       sraise (InvalidTransaction ''Secret key doesn't match specified secret lock.'')
     else if is_initiator si \<and> state si \<noteq> APPROVED then
       sraise (InvalidTransaction ''Transaction cannot be closed before it's approved.'')
     else
     sbind (get_data P K AccountC (receiver_address si)) (\<lambda>m.
     sbind (slift (as_account m)) (\<lambda>a.
     let account = account_or_default a in
     sbind (slift (set_uint64 (balance account + amount si))) (\<lambda>b.
       sret (dict_literal
         [(address, AtomicSwapInfoM (si\<lparr>secret_key := close_secret_key p, state := CLOSED\<rparr>)),
          (receiver_address si, AccountM (account\<lparr>balance := b\<rparr>))]))))))"

section \<open>The method table\<close>

fun swap_init_proc ::
  "'b pblib \<Rightarrow> ('c, 'b) ctx_ops \<Rightarrow> string \<Rightarrow> message \<Rightarrow> (('c, 'b) cache_service, updated_state) sx"
where
  "swap_init_proc P K pk (AtomicSwapInitPayloadM p) = swap_init P K pk p"
| "swap_init_proc P K pk _ = sraise AttributeError"

fun swap_approve_proc ::
  "'b pblib \<Rightarrow> ('c, 'b) ctx_ops \<Rightarrow> string \<Rightarrow> message \<Rightarrow> (('c, 'b) cache_service, updated_state) sx"
where
  "swap_approve_proc P K pk (AtomicSwapApprovePayloadM p) = swap_approve P K pk p"
| "swap_approve_proc P K pk _ = sraise AttributeError"

fun swap_expire_proc ::
  "'b pblib \<Rightarrow> ('c, 'b) ctx_ops \<Rightarrow> swap_env \<Rightarrow> string \<Rightarrow> message \<Rightarrow> (('c, 'b) cache_service, updated_state) sx"
where
  "swap_expire_proc P K E pk (AtomicSwapExpirePayloadM p) = swap_expire P K E pk p"
| "swap_expire_proc P K E pk _ = sraise AttributeError"

fun swap_set_lock_proc ::
  "'b pblib \<Rightarrow> ('c, 'b) ctx_ops \<Rightarrow> string \<Rightarrow> message \<Rightarrow> (('c, 'b) cache_service, updated_state) sx"
where
  "swap_set_lock_proc P K pk (AtomicSwapSetSecretLockPayloadM p) = swap_set_lock P K pk p"
| "swap_set_lock_proc P K pk _ = sraise AttributeError"

fun swap_close_proc ::
  "'b pblib \<Rightarrow> ('c, 'b) ctx_ops \<Rightarrow> swap_env \<Rightarrow> string \<Rightarrow> message \<Rightarrow> (('c, 'b) cache_service, updated_state) sx"
where
  "swap_close_proc P K E pk (AtomicSwapClosePayloadM p) = swap_close P K E pk p"
| "swap_close_proc P K E pk _ = sraise AttributeError"

definition swap_state_processor ::
  "'b pblib \<Rightarrow> ('c, 'b) ctx_ops \<Rightarrow> swap_env \<Rightarrow> ('c, 'b) state_processor"
where
  "swap_state_processor P K E = dict_literal
     [(EnumValue P ''AtomicSwapMethod'' ''INIT'',
       \<lparr>pb_class_of = AtomicSwapInitPayloadC, processor_of = swap_init_proc P K,
        emit_event = Some (event_value SWAP_INIT), validator_of = AtomicSwapInitPayloadForm\<rparr>),
      (EnumValue P ''AtomicSwapMethod'' ''APPROVE'',
       \<lparr>pb_class_of = AtomicSwapApprovePayloadC, processor_of = swap_approve_proc P K,
        emit_event = Some (event_value SWAP_APPROVE), validator_of = AtomicSwapApprovePayloadForm\<rparr>),
      (EnumValue P ''AtomicSwapMethod'' ''EXPIRE'',
       \<lparr>pb_class_of = AtomicSwapExpirePayloadC, processor_of = swap_expire_proc P K E,
        emit_event = Some (event_value SWAP_EXPIRE), validator_of = AtomicSwapExpirePayloadForm\<rparr>),
      (EnumValue P ''AtomicSwapMethod'' ''SET_SECRET_LOCK'',
       \<lparr>pb_class_of = AtomicSwapSetSecretLockPayloadC, processor_of = swap_set_lock_proc P K,
        emit_event = Some (event_value SWAP_SET_SECRET_LOCK),
        validator_of = AtomicSwapSetSecretLockPayloadForm\<rparr>),
      (EnumValue P ''AtomicSwapMethod'' ''CLOSE'',
       \<lparr>pb_class_of = AtomicSwapClosePayloadC, processor_of = swap_close_proc P K E,
        emit_event = Some (event_value SWAP_CLOSE), validator_of = AtomicSwapClosePayloadForm\<rparr>)]"

section \<open>What the processors do\<close>

lemma prefix_AtomicSwapHandler: "prefix_of AtomicSwapHandler = ''78173b''"
  by (simp add: AtomicSwapHandler_def BasicHandler_def hash512_AtomicSwap)

lemma take_swap_address: "take 6 (swap_address d) = ''78173b''"
  by (simp add: swap_address_def prefix_AtomicSwapHandler)

lemma swap_address_not_account_addr [simp]: "\<not> is_account_addr (swap_address d)"
  using take_ZERO_ADDRESS take_swap_address [of d] by (auto simp: is_account_addr_take)

lemma swap_address_neq [simp]:
  "is_account_addr a \<Longrightarrow> swap_address d \<noteq> a" "is_account_addr a \<Longrightarrow> a \<noteq> swap_address d"
  using swap_address_not_account_addr by metis+

lemma block_address_not_account_addr [simp]:
  "\<not> is_account_addr CONFIG_ADDRESS" "\<not> is_account_addr (create_block_address n)"
  using take_ZERO_ADDRESS take6_block_addresses(1) take6_block_addresses(2) [of n] by (auto simp: is_account_addr_take)

lemma block_address_not_swap_address [simp]:
  "CONFIG_ADDRESS \<noteq> swap_address d" "create_block_address n \<noteq> swap_address d"
  "swap_address d \<noteq> CONFIG_ADDRESS" "swap_address d \<noteq> create_block_address n"
  using take_swap_address [of d] take6_block_addresses(1) take6_block_addresses(2) [of n] by force+

text \<open>The swap stored at an address, and the time of the latest block.\<close>

definition swap_at :: "'b pblib \<Rightarrow> (string \<rightharpoonup> 'b) \<Rightarrow> string \<Rightarrow> AtomicSwapInfo option" where
  "swap_at P v a = (case entry P v AtomicSwapInfoC a of Some (AtomicSwapInfoM x) \<Rightarrow> Some x | _ \<Rightarrow> None)"

definition latest_block_at :: "'b pblib \<Rightarrow> (string \<rightharpoonup> 'b) \<Rightarrow> BlockInfo option" where
  "latest_block_at P v =
     (case entry P v BlockInfoConfigC CONFIG_ADDRESS of
        Some (BlockInfoConfigM cfg) \<Rightarrow>
          (case entry P v BlockInfoC (create_block_address (latest_block cfg)) of
             Some (BlockInfoM bi) \<Rightarrow> Some bi | _ \<Rightarrow> None)
      | _ \<Rightarrow> None)"

lemma swap_at_entry: "entry P v AtomicSwapInfoC a = map_option AtomicSwapInfoM x \<Longrightarrow> swap_at P v a = x"
  by (cases x) (auto simp: swap_at_def)

lemma swap_at_update:
  "pb_roundtrip P \<Longrightarrow> valid_message (AtomicSwapInfoM x) \<Longrightarrow>
   swap_at P (v(a \<mapsto> SerializeToString P (AtomicSwapInfoM x))) a = Some x"
  using entry_update [of P "AtomicSwapInfoM x" v a] by (simp add: swap_at_def)

lemma swap_at_update_other [simp]: "a \<noteq> b \<Longrightarrow> swap_at P (v(b \<mapsto> d)) a = swap_at P v a"
  by (simp add: swap_at_def)

lemma swap_at_valid: "pb_typed P \<Longrightarrow> swap_at P v a = Some x \<Longrightarrow> uint 64 (amount x) \<and> uint 32 (created_at x)"
  by (auto simp: swap_at_def dest: entry_valid split: option.splits message.splits)

text \<open>The waiting time before the sender of a swap may withdraw, 24 or 48 hours.\<close>

definition time_lock :: "AtomicSwapInfo \<Rightarrow> int" where
  "time_lock si = (if is_initiator si then INITIATOR_TIME_DELTA_LOCK else NON_INITIATOR_TIME_DELTA_LOCK)"

definition time_lock_passed :: "swap_env \<Rightarrow> AtomicSwapInfo \<Rightarrow> BlockInfo \<Rightarrow> bool" where
  "time_lock_passed E si bi \<longleftrightarrow>
     get_datetime_from_timestamp E (created_at si) + time_lock si
       \<le> get_datetime_from_timestamp E (timestamp bi)"

text \<open>The entry a new swap gets.\<close>

definition opened_swap :: "string \<Rightarrow> AtomicSwapInitPayload \<Rightarrow> int \<Rightarrow> AtomicSwapInfo" where
  "opened_swap pk p block_time = \<lparr>
     swap_id = init_swap_id p,
     state = OPENED,
     amount = init_amount p,
     created_at = block_time,
     secret_lock = init_secret_lock_by_solicitor p,
     secret_key = [],
     email_address_encrypted_optional = init_email_address_encrypted_by_initiator p,
     sender_address = account_address pk,
     sender_address_non_local = init_sender_address_non_local p,
     receiver_address = init_receiver_address p,
     is_initiator = (init_secret_lock_by_solicitor p = []) \<rparr>"

context sawtooth_context
begin

lemma get_latest_block_info_view:
  assumes "get_latest_block_info P K cs = Inr (bi, cs')" and "coherent cs"
  shows "latest_block_at P (view (context_of cs)) = Some bi \<and> coherent cs' \<and>
    context_of cs' = context_of cs"
proof -
  from assms(1) obtain x cs1 where
      g: "get_data P K BlockInfoConfigC CONFIG_ADDRESS cs = Inr (map_option BlockInfoConfigM x, cs1)"
    by (auto simp: get_latest_block_info_def res_simps)
  with assms(1) obtain cfg where x: "x = Some cfg"
    by (cases x) (auto simp: get_latest_block_info_def)
  with assms(1) g obtain y where
      h: "get_data P K BlockInfoC (create_block_address (latest_block cfg)) cs1
            = Inr (map_option BlockInfoM y, cs')" and y: "y = Some bi"
    by (auto simp: get_latest_block_info_def res_simps split: option.splits)
  note c1 = get_data_entry [OF g assms(2)]
  then have "coherent cs1" by simp
  from get_data_entry [OF h this] c1 x y show ?thesis
    by (simp add: latest_block_at_def)
qed

lemma load_swap_view:
  assumes "load_swap P K sid cs = Inr ((addr, si), cs')" and "coherent cs"
  shows "addr = swap_address sid \<and> swap_at P (view (context_of cs)) (swap_address sid) = Some si \<and>
    \<not> not_permitted (state si) \<and> coherent cs' \<and> context_of cs' = context_of cs"
proof -
  from assms(1) obtain x cs1 where
      g: "get_data P K AtomicSwapInfoC (swap_address sid) cs = Inr (map_option AtomicSwapInfoM x, cs1)"
    by (auto simp: load_swap_def res_simps)
  from get_data_entry [OF g assms(2)] g assms(1) show ?thesis
    by (cases x) (auto simp: load_swap_def swap_at_def split: if_splits)
qed

lemma swap_set_lock_view:
  assumes "swap_set_lock P K pk p cs = Inr (upd, cs')" and "coherent cs"
  shows "\<exists>si. swap_at P (view (context_of cs)) (swap_address (lock_swap_id p)) = Some si \<and>
    \<not> not_permitted (state si) \<and> secret_lock si = [] \<and>
    upd = [(swap_address (lock_swap_id p), AtomicSwapInfoM
             (si\<lparr>secret_lock := lock_secret_lock p, state := SECRET_LOCK_PROVIDED\<rparr>))] \<and>
    coherent cs' \<and> context_of cs' = context_of cs"
proof -
  from assms(1) obtain addr si cs1 where
      l: "load_swap P K (lock_swap_id p) cs = Inr ((addr, si), cs1)"
    by (auto simp: swap_set_lock_def res_simps)
  from load_swap_view [OF l assms(2)] l assms(1) show ?thesis
    by (auto simp: swap_set_lock_def dict_literal_def split: if_splits)
qed

lemma swap_approve_view:
  assumes "swap_approve P K pk p cs = Inr (upd, cs')" and "coherent cs"
  shows "\<exists>si. swap_at P (view (context_of cs)) (swap_address (approve_swap_id p)) = Some si \<and>
    state si = SECRET_LOCK_PROVIDED \<and> is_initiator si \<and> sender_address si = account_address pk \<and>
    secret_lock si \<noteq> [] \<and>
    upd = [(swap_address (approve_swap_id p), AtomicSwapInfoM (si\<lparr>state := APPROVED\<rparr>))] \<and>
    coherent cs' \<and> context_of cs' = context_of cs"
proof -
  from assms(1) obtain addr si cs1 where
      l: "load_swap P K (approve_swap_id p) cs = Inr ((addr, si), cs1)"
    by (auto simp: swap_approve_def res_simps)
  from load_swap_view [OF l assms(2)] l assms(1) show ?thesis
    by (auto simp: swap_approve_def dict_literal_def split: if_splits)
qed

lemma swap_expire_view:
  assumes run: "swap_expire P K E pk p cs = Inr (upd, cs')" and coh: "coherent cs"
  defines "v \<equiv> view (context_of cs)"
  shows "\<exists>si bi. swap_at P v (swap_address (expire_swap_id p)) = Some si \<and>
    \<not> not_permitted (state si) \<and> sender_address si = account_address pk \<and>
    latest_block_at P v = Some bi \<and> time_lock_passed E si bi \<and>
    uint 64 (balance (account_at P v (account_address pk)) + amount si) \<and>
    upd = [(swap_address (expire_swap_id p), AtomicSwapInfoM (si\<lparr>state := EXPIRED\<rparr>)),
           (account_address pk, AccountM ((account_at P v (account_address pk))
             \<lparr>balance := balance (account_at P v (account_address pk)) + amount si\<rparr>))] \<and>
    coherent cs' \<and> context_of cs' = context_of cs"
proof -
  from run obtain addr si cs1 where
      l: "load_swap P K (expire_swap_id p) cs = Inr ((addr, si), cs1)"
    by (auto simp: swap_expire_def res_simps)
  note c1 = load_swap_view [OF l coh]
  from run l obtain bi cs2 where s: "sender_address si = account_address pk" and
      b: "get_latest_block_info P K cs1 = Inr (bi, cs2)"
    by (auto simp: swap_expire_def res_simps split: if_splits)
  from c1 have "coherent cs1" by simp
  note c2 = get_latest_block_info_view [OF b this]
  from run l b obtain a where t: "time_lock_passed E si bi" and
      g: "get_data P K AccountC (account_address pk) cs2 = Inr (map_option AccountM a, cs')" and
      u: "uint 64 (balance (account_or_default a) + amount si)"
         "upd = dict_literal [(addr, AtomicSwapInfoM (si\<lparr>state := EXPIRED\<rparr>)),
            (account_address pk, AccountM ((account_or_default a)
               \<lparr>balance := balance (account_or_default a) + amount si\<rparr>))]"
    by (auto simp: swap_expire_def res_simps Let_def s time_lock_passed_def time_lock_def
        split: if_splits)
  from c2 have "coherent cs2" by simp
  note c3 = get_data_entry [OF g this]
  with c1 c2 have "account_at P v (account_address pk) = account_or_default a"
    by (auto simp: v_def intro: account_at_entry)
  with c1 c2 c3 t u s show ?thesis by (auto simp: v_def)
qed

lemma swap_close_view:
  assumes run: "swap_close P K E pk p cs = Inr (upd, cs')" and coh: "coherent cs"
  defines "v \<equiv> view (context_of cs)"
  shows "\<exists>si. swap_at P v (swap_address (close_swap_id p)) = Some si \<and>
    \<not> not_permitted (state si) \<and> secret_lock si \<noteq> [] \<and>
    web3_hash E (close_secret_key p) = Inr (secret_lock si) \<and>
    (is_initiator si \<longrightarrow> state si = APPROVED) \<and>
    uint 64 (balance (account_at P v (receiver_address si)) + amount si) \<and>
    upd = dict_literal
      [(swap_address (close_swap_id p),
        AtomicSwapInfoM (si\<lparr>secret_key := close_secret_key p, state := CLOSED\<rparr>)),
       (receiver_address si, AccountM ((account_at P v (receiver_address si))
          \<lparr>balance := balance (account_at P v (receiver_address si)) + amount si\<rparr>))] \<and>
    coherent cs' \<and> context_of cs' = context_of cs"
proof -
  from run obtain addr si cs1 where
      l: "load_swap P K (close_swap_id p) cs = Inr ((addr, si), cs1)"
    by (auto simp: swap_close_def res_simps)
  note c1 = load_swap_view [OF l coh]
  from run l obtain a where
      h: "secret_lock si \<noteq> []" "web3_hash E (close_secret_key p) = Inr (secret_lock si)"
         "is_initiator si \<longrightarrow> state si = APPROVED" and
      g: "get_data P K AccountC (receiver_address si) cs1 = Inr (map_option AccountM a, cs')" and
      u: "uint 64 (balance (account_or_default a) + amount si)"
         "upd = dict_literal
           [(addr, AtomicSwapInfoM (si\<lparr>secret_key := close_secret_key p, state := CLOSED\<rparr>)),
            (receiver_address si, AccountM ((account_or_default a)
               \<lparr>balance := balance (account_or_default a) + amount si\<rparr>))]"
    by (auto simp: swap_close_def res_simps Let_def simp del: dict_literal_pair split: if_splits)
  from c1 have "coherent cs1" by simp
  note c2 = get_data_entry [OF g this]
  with c1 have "account_at P v (receiver_address si) = account_or_default a"
    by (auto simp: v_def intro: account_at_entry)
  with c1 c2 h u show ?thesis by (auto simp: v_def)
qed

lemma swap_init_steps:
  assumes "swap_init P K pk p cs = Inr (upd, cs')"
  obtains cs1 bi cs2 setting cs3 com a cs4 ts x where
    "get_data P K AtomicSwapInfoC (swap_address (init_swap_id p)) cs = Inr (None, cs1)" and
    "get_latest_block_info P K cs1 = Inr (bi, cs2)" and "uint 32 (timestamp bi)" and
    "get_setting_value P K SETTINGS_SWAP_COMMISSION None cs2 = Inr (setting, cs3)" and
    "swap_commission setting = Inr com" and "uint 64 com" and
    "get_data P K AccountC (account_address pk) cs3 = Inr (map_option AccountM a, cs4)" and
    "init_amount p + com \<le> balance (account_or_default a)" and
    "transfer_from_address P K (account_address pk) \<lparr>address_to = ZERO_ADDRESS, tp_value = com\<rparr> cs4
       = Inr (ts, cs')" and
    "map_of ts (account_address pk) = Some (AccountM x)" and "uint 64 (balance x - init_amount p)" and
    "upd = dict_literal ((swap_address (init_swap_id p), AtomicSwapInfoM (opened_swap pk p (timestamp bi)))
       # AList.update (account_address pk) (AccountM (x\<lparr>balance := balance x - init_amount p\<rparr>)) ts)"
proof -
  from assms obtain e cs1 where
    g: "get_data P K AtomicSwapInfoC (swap_address (init_swap_id p)) cs
          = Inr (map_option AtomicSwapInfoM e, cs1)"
    by (auto simp: swap_init_def res_simps)
  with assms have e: "e = None" by (cases e) (auto simp: swap_init_def)
  from assms g e obtain bi cs2 setting cs3 com a cs4 ts y where
    h: "get_latest_block_info P K cs1 = Inr (bi, cs2)" "uint 32 (timestamp bi)"
    "get_setting_value P K SETTINGS_SWAP_COMMISSION None cs2 = Inr (setting, cs3)"
    "swap_commission setting = Inr com" "uint 64 com"
    "get_data P K AccountC (account_address pk) cs3 = Inr (map_option AccountM a, cs4)"
    "init_amount p + com \<le> balance (account_or_default a)"
    "transfer_from_address P K (account_address pk) \<lparr>address_to = ZERO_ADDRESS, tp_value = com\<rparr> cs4
       = Inr (ts, cs')" and
    y: "(case map_of ts (account_address pk) of
        Some (AccountM x) \<Rightarrow> rbind (set_uint64 (balance x - init_amount p)) (\<lambda>b. Inr (x\<lparr>balance := b\<rparr>))
      | _ \<Rightarrow> Inl AttributeError) = Inr y"
    "upd = dict_literal ((swap_address (init_swap_id p), AtomicSwapInfoM (opened_swap pk p (timestamp bi)))
       # AList.update (account_address pk) (AccountM y) ts)"
    by (auto simp: swap_init_def sbind_eq_Inr slift_eq_Inr as_account_Inr set_uint_eq_Inr rbind_eq_Inr
        Let_def get_transfer_payload_def opened_swap_def split: if_splits
        cong: option.case_cong message.case_cong)
  from y(1) obtain x where
    "map_of ts (account_address pk) = Some (AccountM x)" "uint 64 (balance x - init_amount p)"
    "y = x\<lparr>balance := balance x - init_amount p\<rparr>"
    by (auto simp: rbind_eq_Inr set_uint_eq_Inr split: option.splits message.splits)
  with g e h y(2) that show thesis by simp
qed

lemma swap_init_view:
  assumes run: "swap_init P K pk p cs = Inr (upd, cs')" and coh: "coherent cs"
  defines "v \<equiv> view (context_of cs)"
  shows "\<exists>bi com. entry P v AtomicSwapInfoC (swap_address (init_swap_id p)) = None \<and>
    latest_block_at P v = Some bi \<and> uint 32 (timestamp bi) \<and>
    swap_commission (setting_at P v SETTINGS_SWAP_COMMISSION None) = Inr com \<and> 0 < com \<and>
    init_amount p + com \<le> balance (account_at P v (account_address pk)) \<and>
    balance (account_at P v (account_address pk)) - com - init_amount p < 2 ^ 64 \<and>
    balance (account_at P v ZERO_ADDRESS) + com < 2 ^ 64 \<and>
    upd = [(swap_address (init_swap_id p), AtomicSwapInfoM (opened_swap pk p (timestamp bi))),
      (account_address pk, AccountM ((account_at P v (account_address pk))
         \<lparr>balance := balance (account_at P v (account_address pk)) - com - init_amount p\<rparr>)),
      (ZERO_ADDRESS, AccountM ((account_at P v ZERO_ADDRESS)
         \<lparr>balance := balance (account_at P v ZERO_ADDRESS) + com\<rparr>))] \<and>
    coherent cs' \<and> context_of cs' = context_of cs"
  using run
proof (rule swap_init_steps)
  fix cs1 bi cs2 setting cs3 com a cs4 ts x
  assume g: "get_data P K AtomicSwapInfoC (swap_address (init_swap_id p)) cs = Inr (None, cs1)" and
    b: "get_latest_block_info P K cs1 = Inr (bi, cs2)" "uint 32 (timestamp bi)" and
    st: "get_setting_value P K SETTINGS_SWAP_COMMISSION None cs2 = Inr (setting, cs3)"
       "swap_commission setting = Inr com" "uint 64 com" and
    acc: "get_data P K AccountC (account_address pk) cs3 = Inr (map_option AccountM a, cs4)"
       "init_amount p + com \<le> balance (account_or_default a)" and
    t: "transfer_from_address P K (account_address pk) \<lparr>address_to = ZERO_ADDRESS, tp_value = com\<rparr> cs4
       = Inr (ts, cs')" and
    x: "map_of ts (account_address pk) = Some (AccountM x)" "uint 64 (balance x - init_amount p)" and
    u: "upd = dict_literal ((swap_address (init_swap_id p), AtomicSwapInfoM (opened_swap pk p (timestamp bi)))
       # AList.update (account_address pk) (AccountM (x\<lparr>balance := balance x - init_amount p\<rparr>)) ts)"
  from get_data_entry [OF g coh]
  have e1: "entry P v AtomicSwapInfoC (swap_address (init_swap_id p)) = None"
      "coherent cs1" "view (context_of cs1) = v" by (auto simp: v_def)
  from get_latest_block_info_view [OF b(1) e1(2)] e1(3)
  have e2: "latest_block_at P v = Some bi" "coherent cs2" "view (context_of cs2) = v" by auto
  from get_setting_value_view [OF st(1) e2(2)] e2(3)
  have e3: "setting_at P v SETTINGS_SWAP_COMMISSION None = setting" "coherent cs3"
      "view (context_of cs3) = v" by auto
  from get_data_entry [OF acc(1) e3(2)] e3(3)
  have e4: "account_at P v (account_address pk) = account_or_default a" "coherent cs4"
      "view (context_of cs4) = v" by (auto intro: account_at_entry)
  from get_data_entry [OF acc(1) e3(2)] get_setting_value_view [OF st(1) e2(2)]
      get_latest_block_info_view [OF b(1) e1(2)] get_data_entry [OF g coh]
  have same: "context_of cs4 = context_of cs" by simp
  from transfer_from_address_view [OF t e4(2)] e4(3) x u same
  have "com \<noteq> 0" "balance (account_at P v ZERO_ADDRESS) + com < 2 ^ 64"
    "balance (account_at P v (account_address pk)) - com - init_amount p < 2 ^ 64"
    "upd = [(swap_address (init_swap_id p), AtomicSwapInfoM (opened_swap pk p (timestamp bi))),
      (account_address pk, AccountM ((account_at P v (account_address pk))
         \<lparr>balance := balance (account_at P v (account_address pk)) - com - init_amount p\<rparr>)),
      (ZERO_ADDRESS, AccountM ((account_at P v ZERO_ADDRESS)
         \<lparr>balance := balance (account_at P v ZERO_ADDRESS) + com\<rparr>))]"
    "coherent cs'" "context_of cs' = context_of cs"
    by (auto simp: dict_literal_def)
  with e1 e2 e3 e4 b st acc show ?thesis by auto
qed

end

sublocale sawtooth_context \<subseteq> swap_init: tp_processor K view "swap_init_proc P K" for P
proof unfold_locales
  fix pk m cs upd cs'
  assume r: "swap_init_proc P K pk m cs = Inr (upd, cs')"
  then obtain p where s: "swap_init P K pk p cs = Inr (upd, cs')"
    by (cases "(P, K, pk, m)" rule: swap_init_proc.cases) auto
  from s show "distinct (map fst upd)"
    by (rule swap_init_steps) simp
  assume "coherent cs"
  from swap_init_view [OF s this]
  show "coherent cs' \<and> context_of cs' = context_of cs" by blast
qed

sublocale sawtooth_context \<subseteq> swap_approve: tp_processor K view "swap_approve_proc P K" for P
proof unfold_locales
  fix pk m cs upd cs'
  assume r: "swap_approve_proc P K pk m cs = Inr (upd, cs')"
  then obtain p where s: "swap_approve P K pk p cs = Inr (upd, cs')"
    by (cases "(P, K, pk, m)" rule: swap_approve_proc.cases) auto
  from s show "distinct (map fst upd)"
    by (auto simp: swap_approve_def res_simps Let_def split: if_splits)
  assume "coherent cs"
  from swap_approve_view [OF s this]
  show "coherent cs' \<and> context_of cs' = context_of cs" by blast
qed

sublocale sawtooth_context \<subseteq> swap_expire: tp_processor K view "swap_expire_proc P K E" for P E
proof unfold_locales
  fix pk m cs upd cs'
  assume r: "swap_expire_proc P K E pk m cs = Inr (upd, cs')"
  then obtain p where s: "swap_expire P K E pk p cs = Inr (upd, cs')"
    by (cases "(P, K, E, pk, m)" rule: swap_expire_proc.cases) auto
  from s show "distinct (map fst upd)"
    by (auto simp: swap_expire_def res_simps Let_def split: if_splits)
  assume "coherent cs"
  from swap_expire_view [OF s this]
  show "coherent cs' \<and> context_of cs' = context_of cs" by blast
qed

sublocale sawtooth_context \<subseteq> swap_set_lock: tp_processor K view "swap_set_lock_proc P K" for P
proof unfold_locales
  fix pk m cs upd cs'
  assume r: "swap_set_lock_proc P K pk m cs = Inr (upd, cs')"
  then obtain p where s: "swap_set_lock P K pk p cs = Inr (upd, cs')"
    by (cases "(P, K, pk, m)" rule: swap_set_lock_proc.cases) auto
  from s show "distinct (map fst upd)"
    by (auto simp: swap_set_lock_def res_simps Let_def split: if_splits)
  assume "coherent cs"
  from swap_set_lock_view [OF s this]
  show "coherent cs' \<and> context_of cs' = context_of cs" by blast
qed

sublocale sawtooth_context \<subseteq> swap_close: tp_processor K view "swap_close_proc P K E" for P E
proof unfold_locales
  fix pk m cs upd cs'
  assume r: "swap_close_proc P K E pk m cs = Inr (upd, cs')"
  then obtain p where s: "swap_close P K E pk p cs = Inr (upd, cs')"
    by (cases "(P, K, E, pk, m)" rule: swap_close_proc.cases) auto
  from s show "distinct (map fst upd)"
    by (auto simp: swap_close_def res_simps Let_def split: if_splits)
  assume "coherent cs"
  from swap_close_view [OF s this]
  show "coherent cs' \<and> context_of cs' = context_of cs" by blast
qed

end
