(* ===== verification/Chain.thy ===== *)
theory Chain
  imports PubKeyTP AtomicSwapTP
begin

text \<open>
  The transaction rules of the node as a step relation on the state alone: one rule per method of
  the three transaction families, with the conditions under which a transaction is accepted and the
  entries it writes. The relation knows neither caches nor contexts nor encodings of requests; the
  theorems of this theory show that \<open>BasicHandler.apply\<close> with the method tables of the families
  only ever takes these steps.
\<close>

section \<open>The rules\<close>

inductive state_step ::
  "'b pblib \<Rightarrow> 'b crypto \<Rightarrow> swap_env \<Rightarrow> string \<Rightarrow> message \<Rightarrow> (string \<rightharpoonup> 'b) \<Rightarrow> (string \<rightharpoonup> 'b) \<Rightarrow> bool"
  for P Y E
where
  transfer:
    "\<lbrakk>0 < tp_value p; account_address pk \<noteq> address_to p; is_account_addr (address_to p);
      s = account_at P v (account_address pk); r = account_at P v (address_to p);
      tp_value p \<le> balance s; balance r + tp_value p < 2 ^ 64;
      v' = put P v [account_address pk \<mapsto> AccountM (s\<lparr>balance := balance s - tp_value p\<rparr>),
                 address_to p \<mapsto> AccountM (r\<lparr>balance := balance r + tp_value p\<rparr>)]\<rbrakk> \<Longrightarrow>
     state_step P Y E pk (TransferPayloadM p) v v'"
| genesis:
    "\<lbrakk>uint 64 (total_supply p);
      entry P v GenesisStatusC GENESIS_ADDRESS = map_option GenesisStatusM g;
      case g of None \<Rightarrow> True | Some x \<Rightarrow> \<not> status x;
      v' = put P v [account_address pk \<mapsto> AccountM (Account_default\<lparr>balance := total_supply p\<rparr>),
                 GENESIS_ADDRESS \<mapsto> GenesisStatusM (case g of None \<Rightarrow> \<lparr>status = True\<rparr> | Some x \<Rightarrow> x)]\<rbrakk> \<Longrightarrow>
     state_step P Y E pk (GenesisPayloadM p) v v'"
| store:
    "\<lbrakk>get_public_key_processor tx = Inr kp; processor_verify P Y kp = Inr True;
      ka = pub_key_address (get_public_key kp); entry P v PubKeyStorageC ka = None;
      is_public_key_validity_exceeded Y (valid_from tx) (valid_to tx); valid_pub_key tx;
      charge_ok P v (account_address pk);
      v' = put P v ((fee_update P v)
          (ka \<mapsto> PubKeyStorageM \<lparr>owner = pk, payload = tx, is_revoked = False\<rparr>,
           account_address pk \<mapsto> AccountM (store_public_key_to_account ka
             (charged P v (account_at P v (account_address pk))))))\<rbrakk> \<Longrightarrow>
     state_step P Y E pk (NewPubKeyPayloadM tx) v v'"
| store_and_pay:
    "\<lbrakk>oh = bytes_hex (owner_public_key sp); tx = pub_key_payload sp;
      Secp256k1PublicKey_from_hex Y oh = Inr owner_key;
      Secp256k1Context_verify Y (bytes_hex (signature_by_owner sp))
        (SerializeToString P (NewPubKeyPayloadM tx)) owner_key = Inr True;
      get_public_key_processor tx = Inr kp; processor_verify P Y kp = Inr True;
      ka = pub_key_address (get_public_key kp); entry P v PubKeyStorageC ka = None;
      is_public_key_validity_exceeded Y (valid_from tx) (valid_to tx); valid_pub_key tx;
      charge_ok P v (account_address pk);
      v' = put P v ((fee_update P v)
          (ka \<mapsto> PubKeyStorageM \<lparr>owner = oh, payload = tx, is_revoked = False\<rparr>,
           account_address pk \<mapsto> AccountM (charged P v (account_at P v (account_address pk))),
           account_address oh \<mapsto> AccountM (store_public_key_to_account ka
             (account_at P v (account_address oh)))))\<rbrakk> \<Longrightarrow>
     state_step P Y E pk (NewPubKeyStoreAndPayPayloadM sp) v v'"
| revoke:
    "\<lbrakk>entry P v PubKeyStorageC (revoke_address rp) = Some (PubKeyStorageM info);
      owner info = pk; \<not> is_revoked info;
      v' = put P v [revoke_address rp \<mapsto> PubKeyStorageM (info\<lparr>is_revoked := True\<rparr>)]\<rbrakk> \<Longrightarrow>
     state_step P Y E pk (RevokePubKeyPayloadM rp) v v'"
| swap_init:
    "\<lbrakk>a = swap_address (init_swap_id ip); entry P v AtomicSwapInfoC a = None;
      latest_block_at P v = Some bi; uint 32 (timestamp bi); uint 64 (init_amount ip);
      swap_commission (setting_at P v SETTINGS_SWAP_COMMISSION None) = Inr com; 0 < com;
      s = account_at P v (account_address pk); z = account_at P v ZERO_ADDRESS;
      init_amount ip + com \<le> balance s; balance z + com < 2 ^ 64;
      v' = put P v [a \<mapsto> AtomicSwapInfoM (opened_swap pk ip (timestamp bi)),
                 account_address pk \<mapsto> AccountM (s\<lparr>balance := balance s - com - init_amount ip\<rparr>),
                 ZERO_ADDRESS \<mapsto> AccountM (z\<lparr>balance := balance z + com\<rparr>)]\<rbrakk> \<Longrightarrow>
     state_step P Y E pk (AtomicSwapInitPayloadM ip) v v'"
| swap_set_lock:
    "\<lbrakk>a = swap_address (lock_swap_id lp); swap_at P v a = Some si; \<not> not_permitted (state si);
      secret_lock si = [];
      v' = put P v [a \<mapsto> AtomicSwapInfoM
          (si\<lparr>secret_lock := lock_secret_lock lp, state := SECRET_LOCK_PROVIDED\<rparr>)]\<rbrakk> \<Longrightarrow>
     state_step P Y E pk (AtomicSwapSetSecretLockPayloadM lp) v v'"
| swap_approve:
    "\<lbrakk>a = swap_address (approve_swap_id ap); swap_at P v a = Some si;
      state si = SECRET_LOCK_PROVIDED; is_initiator si; sender_address si = account_address pk;
      secret_lock si \<noteq> [];
      v' = put P v [a \<mapsto> AtomicSwapInfoM (si\<lparr>state := APPROVED\<rparr>)]\<rbrakk> \<Longrightarrow>
     state_step P Y E pk (AtomicSwapApprovePayloadM ap) v v'"
| swap_expire:
    "\<lbrakk>a = swap_address (expire_swap_id ep); swap_at P v a = Some si; \<not> not_permitted (state si);
      sender_address si = account_address pk; latest_block_at P v = Some bi;
      time_lock_passed E si bi; s = account_at P v (account_address pk);
      uint 64 (balance s + amount si);
      v' = put P v [a \<mapsto> AtomicSwapInfoM (si\<lparr>state := EXPIRED\<rparr>),
                 account_address pk \<mapsto> AccountM (s\<lparr>balance := balance s + amount si\<rparr>)]\<rbrakk> \<Longrightarrow>
     state_step P Y E pk (AtomicSwapExpirePayloadM ep) v v'"
| swap_close:
    "\<lbrakk>a = swap_address (close_swap_id cp); swap_at P v a = Some si; \<not> not_permitted (state si);
      secret_lock si \<noteq> []; web3_hash E (close_secret_key cp) = Inr (secret_lock si);
      is_initiator si \<longrightarrow> state si = APPROVED; r = account_at P v (receiver_address si);
      uint 64 (balance r + amount si);
      v' = put P v [a \<mapsto> AtomicSwapInfoM (si\<lparr>secret_key := close_secret_key cp, state := CLOSED\<rparr>),
                 receiver_address si \<mapsto> AccountM (r\<lparr>balance := balance r + amount si\<rparr>)]\<rbrakk> \<Longrightarrow>
     state_step P Y E pk (AtomicSwapClosePayloadM cp) v v'"

inductive_cases transfer_stepE: "state_step P Y E pk (TransferPayloadM p) v v'"
inductive_cases genesis_stepE: "state_step P Y E pk (GenesisPayloadM p) v v'"
inductive_cases revoke_stepE: "state_step P Y E pk (RevokePubKeyPayloadM p) v v'"
inductive_cases close_stepE: "state_step P Y E pk (AtomicSwapClosePayloadM p) v v'"
inductive_cases expire_stepE: "state_step P Y E pk (AtomicSwapExpirePayloadM p) v v'"

section \<open>apply takes only these steps\<close>

context sawtooth_context
begin

lemma transfer_apply_step:
  assumes "handler_apply P K wt sp tr c = (Inr (), c')" and "decode_request P wt sp tr = Inr (en, m)"
    and "processor_of en = transfer_proc P K" and "valid_message m"
  shows "state_step P Y E (signer tr) m (view c) (view c')"
proof -
  obtain cs upd cs' where cs: "coherent cs" "context_of cs = c" and
      r: "transfer_proc P K (signer tr) m cs = Inr (upd, cs')" and v': "view c' = put P (view c) (map_of upd)"
    using transfer.handler_apply_view [OF assms(1-3)] by blast
  from r obtain p where m: "m = TransferPayloadM p" and o: "transfer_from_address P K (account_address (signer tr)) p cs = Inr (upd, cs')"
    by (cases "(P, K, signer tr, m)" rule: transfer_proc.cases) (auto simp: transfer_Inr)
  from transfer_from_address_view [OF o cs(1)] cs(2) v' m assms(4) show ?thesis
    by (auto simp: fun_upd_twist map_of_dict_literal intro!: state_step.transfer)
qed

lemma genesis_apply_step:
  assumes "handler_apply P K wt sp tr c = (Inr (), c')" and "decode_request P wt sp tr = Inr (en, m)"
    and "processor_of en = genesis_proc P K" and "valid_message m"
  shows "state_step P Y E (signer tr) m (view c) (view c')"
proof -
  obtain cs upd cs' where cs: "coherent cs" "context_of cs = c" and
      r: "genesis_proc P K (signer tr) m cs = Inr (upd, cs')" and v': "view c' = put P (view c) (map_of upd)"
    using genesis.handler_apply_view [OF assms(1-3)] by blast
  from r obtain p where m: "m = GenesisPayloadM p" and o: "genesis_init P K (signer tr) p cs = Inr (upd, cs')"
    by (cases "(P, K, signer tr, m)" rule: genesis_proc.cases) (auto)
  from genesis_init_view [OF o cs(1)] cs(2) v' m assms(4) show ?thesis
    by (auto simp: fun_upd_twist map_of_dict_literal intro!: state_step.genesis)
qed

lemma store_apply_step:
  assumes "handler_apply P K wt sp tr c = (Inr (), c')" and "decode_request P wt sp tr = Inr (en, m)"
    and "processor_of en = store_proc P K Y" and "valid_message m"
  shows "state_step P Y E (signer tr) m (view c) (view c')"
proof -
  obtain cs upd cs' where cs: "coherent cs" "context_of cs = c" and
      r: "store_proc P K Y (signer tr) m cs = Inr (upd, cs')" and v': "view c' = put P (view c) (map_of upd)"
    using store.handler_apply_view [OF assms(1-3)] by blast
  from r obtain p where m: "m = NewPubKeyPayloadM p" and o: "store_pub_key P K Y (signer tr) p cs = Inr (upd, cs')"
    by (cases "(P, K, Y, signer tr, m)" rule: store_proc.cases) (auto)
  from store_pub_key_view [OF o cs(1)] cs(2) v' m assms(4) show ?thesis
    by (auto simp: fun_upd_twist map_of_dict_literal intro!: state_step.store)
qed

lemma store_and_pay_apply_step:
  assumes "handler_apply P K wt sp tr c = (Inr (), c')" and "decode_request P wt sp tr = Inr (en, m)"
    and "processor_of en = store_and_pay_proc P K Y" and "valid_message m"
  shows "state_step P Y E (signer tr) m (view c) (view c')"
proof -
  obtain cs upd cs' where cs: "coherent cs" "context_of cs = c" and
      r: "store_and_pay_proc P K Y (signer tr) m cs = Inr (upd, cs')" and v': "view c' = put P (view c) (map_of upd)"
    using store_and_pay.handler_apply_view [OF assms(1-3)] by blast
  from r obtain p where m: "m = NewPubKeyStoreAndPayPayloadM p" and o: "store_public_key_for_other P K Y (signer tr) p cs = Inr (upd, cs')"
    by (cases "(P, K, Y, signer tr, m)" rule: store_and_pay_proc.cases) (auto)
  from store_public_key_for_other_view [OF o cs(1)] cs(2) v' m assms(4) show ?thesis
    by (auto simp: fun_upd_twist map_of_dict_literal intro!: state_step.store_and_pay)
qed

lemma revoke_apply_step:
  assumes "handler_apply P K wt sp tr c = (Inr (), c')" and "decode_request P wt sp tr = Inr (en, m)"
    and "processor_of en = revoke_proc P K" and "valid_message m"
  shows "state_step P Y E (signer tr) m (view c) (view c')"
proof -
  obtain cs upd cs' where cs: "coherent cs" "context_of cs = c" and
      r: "revoke_proc P K (signer tr) m cs = Inr (upd, cs')" and v': "view c' = put P (view c) (map_of upd)"
    using revoke.handler_apply_view [OF assms(1-3)] by blast
  from r obtain p where m: "m = RevokePubKeyPayloadM p" and o: "revoke_pub_key P K (signer tr) p cs = Inr (upd, cs')"
    by (cases "(P, K, signer tr, m)" rule: revoke_proc.cases) (auto)
  from revoke_pub_key_view [OF o cs(1)] cs(2) v' m assms(4) show ?thesis
    by (auto simp: fun_upd_twist map_of_dict_literal intro!: state_step.revoke)
qed

lemma swap_init_apply_step:
  assumes "handler_apply P K wt sp tr c = (Inr (), c')" and "decode_request P wt sp tr = Inr (en, m)"
    and "processor_of en = swap_init_proc P K" and "valid_message m"
  shows "state_step P Y E (signer tr) m (view c) (view c')"
proof -
  obtain cs upd cs' where cs: "coherent cs" "context_of cs = c" and
      r: "swap_init_proc P K (signer tr) m cs = Inr (upd, cs')" and v': "view c' = put P (view c) (map_of upd)"
    using swap_init.handler_apply_view [OF assms(1-3)] by blast
  from r obtain p where m: "m = AtomicSwapInitPayloadM p" and o: "swap_init P K (signer tr) p cs = Inr (upd, cs')"
    by (cases "(P, K, signer tr, m)" rule: swap_init_proc.cases) (auto)
  from swap_init_view [OF o cs(1)] cs(2) v' m assms(4) show ?thesis
    by (auto simp: fun_upd_twist map_of_dict_literal intro!: state_step.swap_init)
qed

lemma swap_set_lock_apply_step:
  assumes "handler_apply P K wt sp tr c = (Inr (), c')" and "decode_request P wt sp tr = Inr (en, m)"
    and "processor_of en = swap_set_lock_proc P K" and "valid_message m"
  shows "state_step P Y E (signer tr) m (view c) (view c')"
proof -
  obtain cs upd cs' where cs: "coherent cs" "context_of cs = c" and
      r: "swap_set_lock_proc P K (signer tr) m cs = Inr (upd, cs')" and v': "view c' = put P (view c) (map_of upd)"
    using swap_set_lock.handler_apply_view [OF assms(1-3)] by blast
  from r obtain p where m: "m = AtomicSwapSetSecretLockPayloadM p" and o: "swap_set_lock P K (signer tr) p cs = Inr (upd, cs')"
    by (cases "(P, K, signer tr, m)" rule: swap_set_lock_proc.cases) (auto)
  from swap_set_lock_view [OF o cs(1)] cs(2) v' m assms(4) show ?thesis
    by (auto simp: fun_upd_twist map_of_dict_literal intro!: state_step.swap_set_lock)
qed

lemma swap_approve_apply_step:
  assumes "handler_apply P K wt sp tr c = (Inr (), c')" and "decode_request P wt sp tr = Inr (en, m)"
    and "processor_of en = swap_approve_proc P K" and "valid_message m"
  shows "state_step P Y E (signer tr) m (view c) (view c')"
proof -
  obtain cs upd cs' where cs: "coherent cs" "context_of cs = c" and
      r: "swap_approve_proc P K (signer tr) m cs = Inr (upd, cs')" and v': "view c' = put P (view c) (map_of upd)"
    using swap_approve.handler_apply_view [OF assms(1-3)] by blast
  from r obtain p where m: "m = AtomicSwapApprovePayloadM p" and o: "swap_approve P K (signer tr) p cs = Inr (upd, cs')"
    by (cases "(P, K, signer tr, m)" rule: swap_approve_proc.cases) (auto)
  from swap_approve_view [OF o cs(1)] cs(2) v' m assms(4) show ?thesis
    by (auto simp: fun_upd_twist map_of_dict_literal intro!: state_step.swap_approve)
qed

lemma swap_expire_apply_step:
  assumes "handler_apply P K wt sp tr c = (Inr (), c')" and "decode_request P wt sp tr = Inr (en, m)"
    and "processor_of en = swap_expire_proc P K E" and "valid_message m"
  shows "state_step P Y E (signer tr) m (view c) (view c')"
proof -
  obtain cs upd cs' where cs: "coherent cs" "context_of cs = c" and
      r: "swap_expire_proc P K E (signer tr) m cs = Inr (upd, cs')" and v': "view c' = put P (view c) (map_of upd)"
    using swap_expire.handler_apply_view [OF assms(1-3)] by blast
  from r obtain p where m: "m = AtomicSwapExpirePayloadM p" and o: "swap_expire P K E (signer tr) p cs = Inr (upd, cs')"
    by (cases "(P, K, E, signer tr, m)" rule: swap_expire_proc.cases) (auto)
  from swap_expire_view [OF o cs(1)] cs(2) v' m assms(4) show ?thesis
    by (auto simp: fun_upd_twist map_of_dict_literal intro!: state_step.swap_expire)
qed

lemma swap_close_apply_step:
  assumes "handler_apply P K wt sp tr c = (Inr (), c')" and "decode_request P wt sp tr = Inr (en, m)"
    and "processor_of en = swap_close_proc P K E" and "valid_message m"
  shows "state_step P Y E (signer tr) m (view c) (view c')"
proof -
  obtain cs upd cs' where cs: "coherent cs" "context_of cs = c" and
      r: "swap_close_proc P K E (signer tr) m cs = Inr (upd, cs')" and v': "view c' = put P (view c) (map_of upd)"
    using swap_close.handler_apply_view [OF assms(1-3)] by blast
  from r obtain p where m: "m = AtomicSwapClosePayloadM p" and o: "swap_close P K E (signer tr) p cs = Inr (upd, cs')"
    by (cases "(P, K, E, signer tr, m)" rule: swap_close_proc.cases) (auto)
  from swap_close_view [OF o cs(1)] cs(2) v' m assms(4) show ?thesis
    by (auto simp: fun_upd_twist map_of_dict_literal intro!: state_step.swap_close)
qed

lemma account_apply_step:
  assumes typed: "pb_typed P" and run: "handler_apply P K wt (account_state_processor P K) tr c = (Inr (), c')"
  shows "\<exists>en m. decode_request P wt (account_state_processor P K) tr = Inr (en, m) \<and>
    state_step P Y E (signer tr) m (view c) (view c')"
proof -
  obtain en m where d: "decode_request P wt (account_state_processor P K) tr = Inr (en, m)"
    using run by (auto simp: handler_apply_def split: sum.splits)
  from decode_request_Inr [OF d] obtain n bs where
      n: "map_of (account_state_processor P K) n = Some en" and
      m: "ParseFromString P (pb_class_of en) bs = Inr m" by blast
  from dict_literal_SomeD [OF n [unfolded account_state_processor_def]]
  consider "processor_of en = transfer_proc P K" | "processor_of en = genesis_proc P K"
    by (auto simp: transfer_entry_def genesis_entry_def)
  then have "state_step P Y E (signer tr) m (view c) (view c')"
    using pb_validD [OF typed m] run d
    by cases (rule transfer_apply_step genesis_apply_step; assumption)+
  with d show ?thesis by blast
qed

lemma pub_key_apply_step:
  assumes typed: "pb_typed P" and run: "handler_apply P K wt (pub_key_state_processor P K Y) tr c = (Inr (), c')"
  shows "\<exists>en m. decode_request P wt (pub_key_state_processor P K Y) tr = Inr (en, m) \<and>
    state_step P Y E (signer tr) m (view c) (view c')"
proof -
  obtain en m where d: "decode_request P wt (pub_key_state_processor P K Y) tr = Inr (en, m)"
    using run by (auto simp: handler_apply_def split: sum.splits)
  from decode_request_Inr [OF d] obtain n bs where
      n: "map_of (pub_key_state_processor P K Y) n = Some en" and
      m: "ParseFromString P (pb_class_of en) bs = Inr m" by blast
  from dict_literal_SomeD [OF n [unfolded pub_key_state_processor_def]]
  consider "processor_of en = store_proc P K Y" | "processor_of en = revoke_proc P K" |
      "processor_of en = store_and_pay_proc P K Y"
    by auto
  then have "state_step P Y E (signer tr) m (view c) (view c')"
    using pb_validD [OF typed m] run d
    by cases (rule store_apply_step revoke_apply_step store_and_pay_apply_step; assumption)+
  with d show ?thesis by blast
qed

lemma swap_apply_step:
  assumes typed: "pb_typed P" and run: "handler_apply P K wt (swap_state_processor P K E) tr c = (Inr (), c')"
  shows "\<exists>en m. decode_request P wt (swap_state_processor P K E) tr = Inr (en, m) \<and>
    state_step P Y E (signer tr) m (view c) (view c')"
proof -
  obtain en m where d: "decode_request P wt (swap_state_processor P K E) tr = Inr (en, m)"
    using run by (auto simp: handler_apply_def split: sum.splits)
  from decode_request_Inr [OF d] obtain n bs where
      n: "map_of (swap_state_processor P K E) n = Some en" and
      m: "ParseFromString P (pb_class_of en) bs = Inr m" by blast
  from dict_literal_SomeD [OF n [unfolded swap_state_processor_def]]
  consider "processor_of en = swap_init_proc P K" | "processor_of en = swap_approve_proc P K" |
      "processor_of en = swap_expire_proc P K E" | "processor_of en = swap_set_lock_proc P K" |
      "processor_of en = swap_close_proc P K E"
    by auto
  then have "state_step P Y E (signer tr) m (view c) (view c')"
    using pb_validD [OF typed m] run d
    by cases (rule swap_init_apply_step swap_approve_apply_step swap_expire_apply_step
        swap_set_lock_apply_step swap_close_apply_step; assumption)+
  with d show ?thesis by blast
qed

end

section \<open>The transaction processor\<close>

text \<open>
  \<open>remme/tp/__main__.py\<close> registers one handler per family with the SDK's transaction processor,
  which routes a request to the handler of its family.
\<close>

datatype family = AccountFamily | PubKeyFamily | AtomicSwapFamily

fun family_handler :: "family \<Rightarrow> handler" where
  "family_handler AccountFamily = AccountHandler"
| "family_handler PubKeyFamily = PubKeyHandler"
| "family_handler AtomicSwapFamily = AtomicSwapHandler"

fun get_state_processor ::
  "'b pblib \<Rightarrow> ('c, 'b) ctx_ops \<Rightarrow> 'b crypto \<Rightarrow> swap_env \<Rightarrow> family \<Rightarrow> ('c, 'b) state_processor"
where
  "get_state_processor P K Y E AccountFamily = account_state_processor P K"
| "get_state_processor P K Y E PubKeyFamily = pub_key_state_processor P K Y"
| "get_state_processor P K Y E AtomicSwapFamily = swap_state_processor P K E"

definition process_request ::
  "'b pblib \<Rightarrow> ('c, 'b) ctx_ops \<Rightarrow> wtforms \<Rightarrow> 'b crypto \<Rightarrow> swap_env \<Rightarrow> family \<Rightarrow> 'b tp_request
     \<Rightarrow> 'c \<Rightarrow> unit res \<times> 'c"
where
  "process_request P K wt Y E fam tr c = handler_apply P K wt (get_state_processor P K Y E fam) tr c"

text \<open>
  The chain of states: the validator keeps the context of a transaction that succeeded and drops
  the context of one that did not.
\<close>

inductive chain_step ::
  "'b pblib \<Rightarrow> ('c, 'b) ctx_ops \<Rightarrow> ('c \<Rightarrow> string \<rightharpoonup> 'b) \<Rightarrow> wtforms \<Rightarrow> 'b crypto \<Rightarrow> swap_env
     \<Rightarrow> (string \<Rightarrow> message \<Rightarrow> bool) \<Rightarrow> (string \<rightharpoonup> 'b) \<Rightarrow> (string \<rightharpoonup> 'b) \<Rightarrow> bool"
  for P K view wt Y E ok
where
  applied:
    "\<lbrakk>process_request P K wt Y E fam tr c = (Inr (), c');
      decode_request P wt (get_state_processor P K Y E fam) tr = Inr (en, m); ok (signer tr) m\<rbrakk> \<Longrightarrow>
     chain_step P K view wt Y E ok (view c) (view c')"

lemma process_request_step:
  assumes "sawtooth_context K view" and "pb_typed P"
    and "process_request P K wt Y E fam tr c = (Inr (), c')"
  shows "\<exists>en m. decode_request P wt (get_state_processor P K Y E fam) tr = Inr (en, m) \<and>
    state_step P Y E (signer tr) m (view c) (view c')"
proof -
  note steps = sawtooth_context.account_apply_step [OF assms(1,2)]
    sawtooth_context.pub_key_apply_step [OF assms(1,2)]
    sawtooth_context.swap_apply_step [OF assms(1,2)]
  show ?thesis
    using assms(3) by (cases fam) (auto simp: process_request_def intro: steps)
qed

lemma process_request_payload:
  assumes "sawtooth_context K view" and "pb_typed P"
    and "process_request P K wt Y E fam tr c = (Inr (), c')"
    and "decode_request P wt (get_state_processor P K Y E fam) tr = Inr (en, m)"
  shows "state_step P Y E (signer tr) m (view c) (view c')"
  using process_request_step [OF assms(1-3)] assms(4) by auto

lemma chain_step_state_step:
  assumes "sawtooth_context K view" and "pb_typed P" and "chain_step P K view wt Y E ok v v'"
  shows "\<exists>pk m. ok pk m \<and> state_step P Y E pk m v v'"
  using assms(3)
proof cases
  case (applied fam tr c c' en m)
  with process_request_step [OF assms(1,2) applied(3)] show ?thesis by auto
qed

end
