(* ===== verification/Clients.thy ===== *)
theory Clients
  imports Validator Chain
begin

text \<open>
  \<open>remme/clients\<close>: the node's own clients. They read the chain through the router and decode what
  they find, and they build signed transactions and submit them. A client object is its family
  handler, if it has one, and its signer; the crypto library's signer is a parameter, as are the
  serialisation of the SDK's messages (\<open>Z cls msg\<close>) and the message classes of the node (\<open>P\<close>, whose
  serialised form here is the byte string itself).
\<close>

record signer =
  public_key_hex :: string
  private_key_hex :: string
  sign :: "string \<Rightarrow> string"

record client =
  client_handler :: "handler option"
  client_signer :: signer

type_synonym serializer = "string \<Rightarrow> pyval \<Rightarrow> string"

section \<open>The base client\<close>

text \<open>Without a family handler, calling one of its methods is an attribute access on \<open>None\<close>.\<close>

definition with_handler :: "client \<Rightarrow> (handler \<Rightarrow> 'a res) \<Rightarrow> 'a res" where
  "with_handler c f = (case client_handler c of None \<Rightarrow> Inl AttributeError | Some h \<Rightarrow> f h)"

definition client_make_address :: "client \<Rightarrow> string \<Rightarrow> string res" where
  "client_make_address c sfx = with_handler c (\<lambda>h. make_address h sfx)"

definition client_make_address_from_data :: "client \<Rightarrow> string \<Rightarrow> string res" where
  "client_make_address_from_data c data = with_handler c (\<lambda>h. make_address_from_data h data)"

text \<open>A handler has no method \<open>is_address\<close>, so the call raises for every client.\<close>

definition client_is_address :: "client \<Rightarrow> string \<Rightarrow> bool res" where
  "client_is_address c address = with_handler c (\<lambda>h. Inl AttributeError)"

definition get_value :: "rest_lib \<Rightarrow> 'v stream \<Rightarrow> string \<Rightarrow> ('v, string) ex" where
  "get_value L S address =
     ebind (router_fetch_state L S (PStr address) PNone)
       (\<lambda>result. elift (rbind (dict_lookup result ''data'') py_b64decode))"

definition first_entry :: "Setting \<Rightarrow> string res" where
  "first_entry s = (case entries s of [] \<Rightarrow> Inl IndexError | e # _ \<Rightarrow> Inr (snd e))"

fun setting_of :: "message \<Rightarrow> Setting res" where
  "setting_of (SettingM s) = Inr s"
| "setting_of _ = Inl AttributeError"

definition client_get_setting_value :: "rest_lib \<Rightarrow> 'v stream \<Rightarrow> string pblib \<Rightarrow> string \<Rightarrow> ('v, string) ex" where
  "client_get_setting_value L S P key =
     ebind (get_value L S (make_settings_key key))
       (\<lambda>value. elift (rbind (ParseFromString P SettingC value) (\<lambda>m. rbind (setting_of m) first_entry)))"

definition get_batch_status :: "rest_lib \<Rightarrow> 'v stream \<Rightarrow> pyval \<Rightarrow> ('v, pyval) ex" where
  "get_batch_status L S batch_id =
     ebind (list_statuses L S (PList [batch_id]))
       (\<lambda>result. elift (rbind (dict_lookup result ''data'') (\<lambda>d. rbind (nth_item d 0) (\<lambda>s. item s ''status''))))"

definition get_public_key_of :: "client \<Rightarrow> string" where
  "get_public_key_of c = public_key_hex (client_signer c)"

definition get_private_key_of :: "client \<Rightarrow> string" where
  "get_private_key_of c = private_key_hex (client_signer c)"

definition get_signer_address :: "client \<Rightarrow> string res" where
  "get_signer_address c = client_make_address_from_data c (get_public_key_of c)"

definition get_address :: "client \<Rightarrow> string \<Rightarrow> string res" where
  "get_address c pub_key =
     (if length pub_key > 64 then Inl (ClientException (''Wrong pub_key size: '' @ pub_key))
      else with_handler c (\<lambda>h. Inr (last (namespaces h) @ pub_key)))"

definition get_user_address :: "client \<Rightarrow> string res" where
  "get_user_address c = make_address_from_data AccountHandler (public_key_hex (client_signer c))"

definition set_signer :: "client \<Rightarrow> signer \<Rightarrow> client" where
  "set_signer c new_signer = c\<lparr>client_signer := new_signer\<rparr>"

section \<open>Signed batches\<close>

definition sign_batch_list :: "rest_lib \<Rightarrow> serializer \<Rightarrow> signer \<Rightarrow> pyval list \<Rightarrow> pyval res" where
  "sign_batch_list L Z sg transactions =
     rbind (rmap (\<lambda>t. attr t ''header_signature'') transactions) (\<lambda>transaction_signatures.
     rbind (construct L ''BatchHeader''
              [(''signer_public_key'', PStr (public_key_hex sg)), (''transaction_ids'', PList transaction_signatures)])
       (\<lambda>h.
         let header = Z ''BatchHeader'' h; sg_sig = sign sg header in
         rbind (construct L ''Batch''
                  [(''header'', PStr header), (''transactions'', PList transactions), (''header_signature'', PStr sg_sig)])
           (\<lambda>batch. construct L ''BatchList'' [(''batches'', PList [batch])])))"

definition transaction_header :: "handler \<Rightarrow> signer \<Rightarrow> string \<Rightarrow> string \<Rightarrow> string list \<Rightarrow> string list \<Rightarrow> dict" where
  "transaction_header h sg nonce pl addresses_input addresses_output =
     [(''signer_public_key'', PStr (public_key_hex sg)),
      (''family_name'', PStr (family_name h)),
      (''family_version'', PStr (last (family_versions h))),
      (''inputs'', PList (map PStr addresses_input)),
      (''outputs'', PList (map PStr addresses_output)),
      (''dependencies'', PList []),
      (''payload_sha512'', PStr (hash512 pl)),
      (''batcher_public_key'', PStr (public_key_hex sg)),
      (''nonce'', PStr nonce)]"

definition make_batch_list ::
  "rest_lib \<Rightarrow> serializer \<Rightarrow> client \<Rightarrow> string \<Rightarrow> pyval \<Rightarrow> string list \<Rightarrow> string list \<Rightarrow> pyval res"
where
  "make_batch_list L Z c nonce payload_pb addresses_input addresses_output =
     with_handler c (\<lambda>h.
       let pl = Z ''TransactionPayload'' payload_pb; sg = client_signer c in
       rbind (construct L ''TransactionHeader''
                (transaction_header h sg nonce pl addresses_input addresses_output)) (\<lambda>hdr.
       let header = Z ''TransactionHeader'' hdr; sg_sig = sign sg header in
       rbind (construct L ''Transaction''
                [(''header'', PStr header), (''payload'', PStr pl), (''header_signature'', PStr sg_sig)])
         (\<lambda>transaction. sign_batch_list L Z sg [transaction])))"

definition transaction_payload :: "rest_lib \<Rightarrow> string pblib \<Rightarrow> int \<Rightarrow> message \<Rightarrow> pyval res" where
  "transaction_payload L P meth data_pb =
     construct L ''TransactionPayload'' [(''method'', PInt meth), (''data'', PStr (SerializeToString P data_pb))]"

definition send_batch_list :: "rest_lib \<Rightarrow> 'v stream \<Rightarrow> pyval \<Rightarrow> ('v, dict) ex" where
  "send_batch_list L S batch_list =
     ebind (elift (rbind (attr batch_list ''batches'') as_list)) (submit_batches L S)"

definition send_transaction ::
  "rest_lib \<Rightarrow> 'v stream \<Rightarrow> serializer \<Rightarrow> string pblib \<Rightarrow> client \<Rightarrow> string \<Rightarrow> int \<Rightarrow> message \<Rightarrow> string list \<Rightarrow> string list
     \<Rightarrow> ('v, dict) ex"
where
  "send_transaction L S Z P c nonce meth data_pb addresses_input addresses_output =
     ebind (elift (transaction_payload L P meth data_pb)) (\<lambda>pl.
     ebind (elift (make_batch_list L Z c nonce pl addresses_input addresses_output))
       (send_batch_list L S))"

definition client_send_raw_transaction ::
  "rest_lib \<Rightarrow> 'v stream \<Rightarrow> serializer \<Rightarrow> client \<Rightarrow> pyval \<Rightarrow> ('v, dict) ex"
where
  "client_send_raw_transaction L S Z c transaction_pb =
     ebind (elift (sign_batch_list L Z (client_signer c) [transaction_pb])) (send_batch_list L S)"

section \<open>Accounts\<close>

definition get_genesis_payload :: "pyval \<Rightarrow> GenesisPayload res" where
  "get_genesis_payload supply0 =
     rbind (py_int_value supply0) (\<lambda>n. rbind (set_uint64 n) (\<lambda>n. Inr \<lparr>total_supply = n\<rparr>))"

definition get_account_model :: "pyval \<Rightarrow> Account res" where
  "get_account_model balance0 =
     rbind (py_int_value balance0) (\<lambda>n. rbind (set_uint64 n) (\<lambda>n. Inr (Account_default\<lparr>balance := n\<rparr>)))"

definition AccountClient :: "signer \<Rightarrow> client" where
  "AccountClient sg = \<lparr>client_handler = Some AccountHandler, client_signer = sg\<rparr>"

definition transfer_addresses :: "client \<Rightarrow> string \<Rightarrow> (string list \<times> string list) res" where
  "transfer_addresses c to_address =
     rbind (get_user_address c) (\<lambda>user.
       let addresses_input = [to_address, user] in Inr (addresses_input, addresses_input))"

definition client_transfer ::
  "rest_lib \<Rightarrow> 'v stream \<Rightarrow> serializer \<Rightarrow> string pblib \<Rightarrow> client \<Rightarrow> string \<Rightarrow> string \<Rightarrow> int \<Rightarrow> ('v, dict) ex"
where
  "client_transfer L S Z P c nonce to_address v =
     ebind (elift (transfer_addresses c to_address)) (\<lambda>(addresses_input, addresses_output).
     ebind (elift (get_transfer_payload to_address v)) (\<lambda>p.
       send_transaction L S Z P c nonce (EnumValue P ''AccountMethod'' ''TRANSFER'') (TransferPayloadM p)
         addresses_input addresses_output))"

fun account_of :: "message \<Rightarrow> Account res" where
  "account_of (AccountM a) = Inr a"
| "account_of _ = Inl AttributeError"

definition get_account :: "rest_lib \<Rightarrow> 'v stream \<Rightarrow> string pblib \<Rightarrow> string \<Rightarrow> ('v, Account) ex" where
  "get_account L S P address =
     ebind (get_value L S address)
       (\<lambda>raw_account. elift (rbind (ParseFromString P AccountC raw_account) account_of))"

text \<open>\<open>except KeyNotFound: return d\<close>\<close>

definition or_not_found :: "('v, 'a) ex \<Rightarrow> 'a \<Rightarrow> ('v, 'a) ex" where
  "or_not_found m d = ecatch m (\<lambda>e. case e of KeyNotFound _ \<Rightarrow> eret d | _ \<Rightarrow> eraise e)"

definition get_pub_keys :: "rest_lib \<Rightarrow> 'v stream \<Rightarrow> string pblib \<Rightarrow> string \<Rightarrow> ('v, string list) ex" where
  "get_pub_keys L S P address =
     or_not_found (ebind (get_account L S P address) (\<lambda>a. eret (pub_keys a))) []"

definition get_balance :: "rest_lib \<Rightarrow> 'v stream \<Rightarrow> string pblib \<Rightarrow> string \<Rightarrow> ('v, int) ex" where
  "get_balance L S P address =
     or_not_found (ebind (get_account L S P address) (\<lambda>a. eret (balance a))) 0"

section \<open>Block information\<close>

fun block_info_of :: "message \<Rightarrow> BlockInfo res" where
  "block_info_of (BlockInfoM b) = Inr b"
| "block_info_of _ = Inl AttributeError"

fun block_config_of :: "message \<Rightarrow> BlockInfoConfig res" where
  "block_config_of (BlockInfoConfigM b) = Inr b"
| "block_config_of _ = Inl AttributeError"

definition get_block_info :: "rest_lib \<Rightarrow> 'v stream \<Rightarrow> string pblib \<Rightarrow> int \<Rightarrow> ('v, BlockInfo) ex" where
  "get_block_info L S P n =
     ebind (get_value L S (create_block_address n))
       (\<lambda>bi_state. elift (rbind (ParseFromString P BlockInfoC bi_state) block_info_of))"

definition get_block_info_config :: "rest_lib \<Rightarrow> 'v stream \<Rightarrow> string pblib \<Rightarrow> ('v, BlockInfoConfig) ex" where
  "get_block_info_config L S P =
     ebind (get_value L S CONFIG_ADDRESS)
       (\<lambda>raw_bic. elift (rbind (ParseFromString P BlockInfoConfigC raw_bic) block_config_of))"

definition interpret_block_info :: "BlockInfo \<Rightarrow> dict" where
  "interpret_block_info bi =
     [(''block_number'', PInt (block_num bi + 1)),
      (''timestamp'', PInt (timestamp bi)),
      (''previous_header_signature'', PStr (previous_block_id bi)),
      (''signer_public_key'', PStr (signer_public_key bi)),
      (''header_signature'', PStr (header_signature bi))]"

text \<open>The loop of \<open>get_blocks_info\<close>: numbers without an entry are skipped, other errors raised.\<close>

fun collect_blocks ::
  "rest_lib \<Rightarrow> 'v stream \<Rightarrow> string pblib \<Rightarrow> int list \<Rightarrow> dict list \<Rightarrow> ('v, dict list) ex"
where
  "collect_blocks L S P [] blocks = eret blocks"
| "collect_blocks L S P (i # is) blocks =
     ebind (or_not_found (ebind (get_block_info L S P i) (\<lambda>bi. eret (Some bi))) None)
       (\<lambda>r. collect_blocks L S P is
              (case r of None \<Rightarrow> blocks | Some bi \<Rightarrow> blocks @ [interpret_block_info bi]))"

definition collect_range :: "rest_lib \<Rightarrow> 'v stream \<Rightarrow> string pblib \<Rightarrow> int \<Rightarrow> int \<Rightarrow> ('v, dict list) ex" where
  "collect_range L S P start limit =
     (let limit = (if limit - start > 0 then start else limit) in
      ebind (collect_blocks L S P [start - limit..start - 1] []) (\<lambda>blocks. eret (rev blocks)))"

definition get_blocks_info :: "rest_lib \<Rightarrow> 'v stream \<Rightarrow> string pblib \<Rightarrow> int \<Rightarrow> int \<Rightarrow> ('v, dict list) ex" where
  "get_blocks_info L S P start limit =
     (if start \<noteq> 0 \<and> limit \<noteq> 0 then collect_range L S P start limit
      else ebind (ecatch (ebind (get_block_info_config L S P) (\<lambda>cfg. eret (Some cfg))) (\<lambda>e. eret None))
        (\<lambda>r. case r of
           None \<Rightarrow> eret []
         | Some cfg \<Rightarrow>
             (let start = (if start = 0 then latest_block cfg + 1 else start);
                  limit = (if limit = 0 then start - oldest_block cfg + 1 else limit)
              in collect_range L S P start limit)))"

section \<open>Atomic swaps\<close>

definition get_swap_init_payload ::
  "string \<Rightarrow> string \<Rightarrow> int \<Rightarrow> string \<Rightarrow> int \<Rightarrow> string \<Rightarrow> string \<Rightarrow> AtomicSwapInitPayload res"
where
  "get_swap_init_payload receiver non_local amt sid created lock_by_solicitor email =
     rbind (set_uint64 amt) (\<lambda>amt. rbind (set_uint32 created) (\<lambda>created.
       Inr \<lparr>init_receiver_address = receiver, init_sender_address_non_local = non_local, init_amount = amt,
            init_swap_id = sid, init_secret_lock_by_solicitor = lock_by_solicitor,
            init_email_address_encrypted_by_initiator = email, init_created_at = created\<rparr>))"

definition get_swap_approve_payload :: "string \<Rightarrow> AtomicSwapApprovePayload" where
  "get_swap_approve_payload sid = \<lparr>approve_swap_id = sid\<rparr>"

definition get_swap_expire_payload :: "string \<Rightarrow> AtomicSwapExpirePayload" where
  "get_swap_expire_payload sid = \<lparr>expire_swap_id = sid\<rparr>"

definition get_swap_set_secret_lock_payload :: "string \<Rightarrow> string \<Rightarrow> AtomicSwapSetSecretLockPayload" where
  "get_swap_set_secret_lock_payload sid lk = \<lparr>lock_swap_id = sid, lock_secret_lock = lk\<rparr>"

definition get_swap_close_payload :: "string \<Rightarrow> string \<Rightarrow> AtomicSwapClosePayload" where
  "get_swap_close_payload sid key = \<lparr>close_swap_id = sid, close_secret_key = key\<rparr>"

definition AtomicSwapClient :: "signer \<Rightarrow> client" where
  "AtomicSwapClient sg = \<lparr>client_handler = Some AtomicSwapHandler, client_signer = sg\<rparr>"

text \<open>The inputs and outputs the client declares for each kind of swap transaction.\<close>

definition swap_init_addresses :: "client \<Rightarrow> AtomicSwapInitPayload \<Rightarrow> (string list \<times> string list) res" where
  "swap_init_addresses c p =
     rbind (client_make_address_from_data c (init_swap_id p)) (\<lambda>a.
     rbind (get_user_address c) (\<lambda>user.
       Inr ([a, user, make_settings_key SETTINGS_SWAP_COMMISSION, ZERO_ADDRESS, CONFIG_ADDRESS, BLOCK_INFO_NAMESPACE],
            [a, user, ZERO_ADDRESS])))"

definition swap_approve_addresses :: "client \<Rightarrow> AtomicSwapApprovePayload \<Rightarrow> (string list \<times> string list) res" where
  "swap_approve_addresses c p =
     rbind (client_make_address_from_data c (approve_swap_id p)) (\<lambda>a.
     rbind (get_user_address c) (\<lambda>user. Inr ([a, user], [a])))"

definition swap_expire_addresses :: "client \<Rightarrow> AtomicSwapExpirePayload \<Rightarrow> (string list \<times> string list) res" where
  "swap_expire_addresses c p =
     rbind (client_make_address_from_data c (expire_swap_id p)) (\<lambda>a.
     rbind (get_user_address c) (\<lambda>user.
       Inr ([a, user, CONFIG_ADDRESS, BLOCK_INFO_NAMESPACE], [a, user])))"

definition swap_set_secret_lock_addresses ::
  "client \<Rightarrow> AtomicSwapSetSecretLockPayload \<Rightarrow> (string list \<times> string list) res"
where
  "swap_set_secret_lock_addresses c p =
     rbind (client_make_address_from_data c (lock_swap_id p)) (\<lambda>a.
     rbind (get_user_address c) (\<lambda>user. Inr ([a, user], [a])))"

definition swap_close_addresses :: "client \<Rightarrow> AtomicSwapClosePayload \<Rightarrow> string \<Rightarrow> (string list \<times> string list) res" where
  "swap_close_addresses c p receiver =
     rbind (client_make_address_from_data c (close_swap_id p)) (\<lambda>a.
     rbind (get_user_address c) (\<lambda>user.
       let addresses_input = [a, ZERO_ADDRESS, receiver, user] in Inr (addresses_input, addresses_input)))"

definition send_swap ::
  "rest_lib \<Rightarrow> 'v stream \<Rightarrow> serializer \<Rightarrow> string pblib \<Rightarrow> client \<Rightarrow> string \<Rightarrow> string \<Rightarrow> message
     \<Rightarrow> (string list \<times> string list) res \<Rightarrow> ('v, dict) ex"
where
  "send_swap L S Z P c nonce meth m addresses =
     ebind (elift addresses) (\<lambda>(addresses_input, addresses_output).
       send_transaction L S Z P c nonce (EnumValue P ''AtomicSwapMethod'' meth) m
         addresses_input addresses_output)"

definition client_swap_init ::
  "rest_lib \<Rightarrow> 'v stream \<Rightarrow> serializer \<Rightarrow> string pblib \<Rightarrow> client \<Rightarrow> string \<Rightarrow> AtomicSwapInitPayload \<Rightarrow> ('v, dict) ex"
where
  "client_swap_init L S Z P c nonce p =
     send_swap L S Z P c nonce ''INIT'' (AtomicSwapInitPayloadM p) (swap_init_addresses c p)"

definition client_swap_approve ::
  "rest_lib \<Rightarrow> 'v stream \<Rightarrow> serializer \<Rightarrow> string pblib \<Rightarrow> client \<Rightarrow> string \<Rightarrow> AtomicSwapApprovePayload \<Rightarrow> ('v, dict) ex"
where
  "client_swap_approve L S Z P c nonce p =
     send_swap L S Z P c nonce ''APPROVE'' (AtomicSwapApprovePayloadM p) (swap_approve_addresses c p)"

definition client_swap_expire ::
  "rest_lib \<Rightarrow> 'v stream \<Rightarrow> serializer \<Rightarrow> string pblib \<Rightarrow> client \<Rightarrow> string \<Rightarrow> AtomicSwapExpirePayload \<Rightarrow> ('v, dict) ex"
where
  "client_swap_expire L S Z P c nonce p =
     send_swap L S Z P c nonce ''EXPIRE'' (AtomicSwapExpirePayloadM p) (swap_expire_addresses c p)"

definition client_swap_set_secret_lock ::
  "rest_lib \<Rightarrow> 'v stream \<Rightarrow> serializer \<Rightarrow> string pblib \<Rightarrow> client \<Rightarrow> string \<Rightarrow> AtomicSwapSetSecretLockPayload \<Rightarrow> ('v, dict) ex"
where
  "client_swap_set_secret_lock L S Z P c nonce p =
     send_swap L S Z P c nonce ''SET_SECRET_LOCK'' (AtomicSwapSetSecretLockPayloadM p)
       (swap_set_secret_lock_addresses c p)"

definition client_swap_close ::
  "rest_lib \<Rightarrow> 'v stream \<Rightarrow> serializer \<Rightarrow> string pblib \<Rightarrow> client \<Rightarrow> string \<Rightarrow> AtomicSwapClosePayload \<Rightarrow> string \<Rightarrow> ('v, dict) ex"
where
  "client_swap_close L S Z P c nonce p receiver =
     send_swap L S Z P c nonce ''CLOSE'' (AtomicSwapClosePayloadM p) (swap_close_addresses c p receiver)"

fun swap_info_of :: "message \<Rightarrow> AtomicSwapInfo res" where
  "swap_info_of (AtomicSwapInfoM s) = Inr s"
| "swap_info_of _ = Inl AttributeError"

definition swap_get :: "rest_lib \<Rightarrow> 'v stream \<Rightarrow> string pblib \<Rightarrow> client \<Rightarrow> string \<Rightarrow> ('v, AtomicSwapInfo) ex" where
  "swap_get L S P c sid =
     ebind (elift (client_make_address_from_data c sid)) (\<lambda>a.
     ebind (get_value L S a)
       (\<lambda>raw_swap. elift (rbind (ParseFromString P AtomicSwapInfoC raw_swap) swap_info_of)))"

definition get_pub_key_encryption :: "rest_lib \<Rightarrow> 'v stream \<Rightarrow> string pblib \<Rightarrow> ('v, string) ex" where
  "get_pub_key_encryption L S P = client_get_setting_value L S P SETTINGS_PUB_KEY_ENCRYPTION"

section \<open>Public keys\<close>

definition PubKeyClient :: "signer \<Rightarrow> client" where
  "PubKeyClient sg = \<lparr>client_handler = Some PubKeyHandler, client_signer = sg\<rparr>"

definition get_revoke_payload :: "string \<Rightarrow> RevokePubKeyPayload" where
  "get_revoke_payload crt_address = \<lparr>revoke_address = crt_address\<rparr>"

fun key_storage_of :: "message \<Rightarrow> PubKeyStorage res" where
  "key_storage_of (PubKeyStorageM k) = Inr k"
| "key_storage_of _ = Inl AttributeError"

definition get_status :: "rest_lib \<Rightarrow> 'v stream \<Rightarrow> string pblib \<Rightarrow> string \<Rightarrow> ('v, PubKeyStorage) ex" where
  "get_status L S P address =
     ebind (get_value L S address)
       (\<lambda>data. elift (rbind (ParseFromString P PubKeyStorageC data) key_storage_of))"

end
