(* ===== verification/Completeness.thy ===== *)
theory Completeness
  imports Chain
begin

text \<open>
  The converse of the refinement: in a context that grants access to the addresses a transaction
  touches, every step of the transaction rules is taken by the code. Together with the refinement
  this makes the rules an exact description of the handlers.
\<close>

section \<open>The addresses a transaction touches\<close>

definition block_addresses :: "'b pblib \<Rightarrow> (string \<rightharpoonup> 'b) \<Rightarrow> string list" where
  "block_addresses P v =
     (case entry P v BlockInfoConfigC CONFIG_ADDRESS of
        Some (BlockInfoConfigM cfg) \<Rightarrow> [CONFIG_ADDRESS, create_block_address (latest_block cfg)]
      | _ \<Rightarrow> [CONFIG_ADDRESS])"

definition key_addresses :: "NewPubKeyPayload \<Rightarrow> string list" where
  "key_addresses tx =
     (case which_configuration tx of None \<Rightarrow> [] | Some cf \<Rightarrow> [pub_key_address (config_key cf)])"

fun footprint :: "'b pblib \<Rightarrow> (string \<rightharpoonup> 'b) \<Rightarrow> string \<Rightarrow> message \<Rightarrow> string list" where
  "footprint P v pk (TransferPayloadM p) = [account_address pk, address_to p]"
| "footprint P v pk (GenesisPayloadM p) = [account_address pk, GENESIS_ADDRESS]"
| "footprint P v pk (NewPubKeyPayloadM tx) =
     key_addresses tx @ [account_address pk, make_settings_key ''remme.economy_enabled'', ZERO_ADDRESS]"
| "footprint P v pk (NewPubKeyStoreAndPayPayloadM sp) =
     key_addresses (pub_key_payload sp) @ [account_address (bytes_hex (owner_public_key sp)),
       account_address pk, make_settings_key ''remme.economy_enabled'', ZERO_ADDRESS]"
| "footprint P v pk (RevokePubKeyPayloadM rp) = [revoke_address rp]"
| "footprint P v pk (AtomicSwapInitPayloadM ip) =
     swap_address (init_swap_id ip) # block_addresses P v
       @ [make_settings_key SETTINGS_SWAP_COMMISSION, account_address pk, ZERO_ADDRESS]"
| "footprint P v pk (AtomicSwapSetSecretLockPayloadM lp) = [swap_address (lock_swap_id lp)]"
| "footprint P v pk (AtomicSwapApprovePayloadM ap) = [swap_address (approve_swap_id ap)]"
| "footprint P v pk (AtomicSwapExpirePayloadM ep) =
     swap_address (expire_swap_id ep) # block_addresses P v @ [account_address pk]"
| "footprint P v pk (AtomicSwapClosePayloadM cp) =
     swap_address (close_swap_id cp) #
       (case swap_at P v (swap_address (close_swap_id cp)) of
          None \<Rightarrow> [] | Some si \<Rightarrow> [receiver_address si])"
| "footprint P v pk _ = []"

text \<open>The addresses it writes.\<close>

fun written :: "'b pblib \<Rightarrow> (string \<rightharpoonup> 'b) \<Rightarrow> string \<Rightarrow> message \<Rightarrow> string list" where
  "written P v pk (TransferPayloadM p) = [account_address pk, address_to p]"
| "written P v pk (GenesisPayloadM p) = [account_address pk, GENESIS_ADDRESS]"
| "written P v pk (NewPubKeyPayloadM tx) = key_addresses tx @ [account_address pk, ZERO_ADDRESS]"
| "written P v pk (NewPubKeyStoreAndPayPayloadM sp) =
     key_addresses (pub_key_payload sp) @ [account_address (bytes_hex (owner_public_key sp)), account_address pk, ZERO_ADDRESS]"
| "written P v pk (RevokePubKeyPayloadM rp) = [revoke_address rp]"
| "written P v pk (AtomicSwapInitPayloadM ip) = [swap_address (init_swap_id ip), account_address pk, ZERO_ADDRESS]"
| "written P v pk (AtomicSwapSetSecretLockPayloadM lp) = [swap_address (lock_swap_id lp)]"
| "written P v pk (AtomicSwapApprovePayloadM ap) = [swap_address (approve_swap_id ap)]"
| "written P v pk (AtomicSwapExpirePayloadM ep) = [swap_address (expire_swap_id ep), account_address pk]"
| "written P v pk (AtomicSwapClosePayloadM cp) =
     swap_address (close_swap_id cp) #
       (case swap_at P v (swap_address (close_swap_id cp)) of
          None \<Rightarrow> [] | Some si \<Rightarrow> [receiver_address si])"
| "written P v pk _ = []"

lemma written_footprint: "set (written P v pk m) \<subseteq> set (footprint P v pk m)"
  by (cases m) auto

section \<open>Processors succeed\<close>

text \<open>An account entry read through the cache, in the form the processors project it.\<close>

lemma account_entry:
  assumes "pb_typed P"
  obtains x where "entry P v AccountC a = map_option AccountM x" and "account_or_default x = account_at P v a"
  using entry_of_class(1) [OF assms, of v a] account_at_entry by metis

lemma entry_swap_at:
  "pb_typed P \<Longrightarrow> entry P v AtomicSwapInfoC a = map_option AtomicSwapInfoM (swap_at P v a)"
  using entry_of_class(3) [of P v a] by (auto simp: swap_at_entry)

context granting_context
begin

lemma transfer_granted:
  assumes pb: "pb_typed P" "pb_decode_errors P" and coh: "coherent cs" and v: "v = view (context_of cs)"
    and rd: "{a, address_to p} \<subseteq> readable (context_of cs)"
    and "0 < tp_value p" and "a \<noteq> address_to p" and "is_account_addr (address_to p)"
    and "tp_value p \<le> balance (account_at P v a)"
    and "balance (account_at P v (address_to p)) + tp_value p < 2 ^ 64"
  shows "\<exists>upd cs'. transfer_from_address P K a p cs = Inr (upd, cs')"
proof -
  obtain s where s: "entry P v AccountC a = map_option AccountM s" "account_or_default s = account_at P v a"
    by (rule account_entry [OF pb(1)])
  obtain r where r: "entry P v AccountC (address_to p) = map_option AccountM r"
      "account_or_default r = account_at P v (address_to p)"
    by (rule account_entry [OF pb(1)])
  obtain cs' where "get_multiple_data P K [(a, AccountC), (address_to p, AccountC)] cs
      = Inr ([map_option AccountM s, map_option AccountM r], cs')"
    using get_multiple_data_granted [OF pb(2) coh, of "[(a, AccountC), (address_to p, AccountC)]"] rd s r v
    by auto
  from transfer_from_address_run [OF this] assms s r account_at_range [OF pb(1)]
  show ?thesis by (auto simp: is_account_addr_def simp del: startswith_code)
qed

lemma genesis_granted:
  assumes pb: "pb_typed P" "pb_decode_errors P" and coh: "coherent cs" and v: "v = view (context_of cs)"
    and "GENESIS_ADDRESS \<in> readable (context_of cs)"
    and "uint 64 (total_supply p)"
    and "entry P v GenesisStatusC GENESIS_ADDRESS = map_option GenesisStatusM g"
    and "case g of None \<Rightarrow> True | Some x \<Rightarrow> \<not> status x"
  shows "\<exists>upd cs'. genesis_init P K pk p cs = Inr (upd, cs')"
  using get_data_granted [OF pb(2) coh assms(5), of GenesisStatusC] assms(6-) v
  unfolding genesis_init_Inr by metis

lemma revoke_granted:
  assumes pb: "pb_decode_errors P" and coh: "coherent cs" and v: "v = view (context_of cs)"
    and rd: "revoke_address rp \<in> readable (context_of cs)"
    and e: "entry P v PubKeyStorageC (revoke_address rp) = Some (PubKeyStorageM info)"
    and o: "owner info = pk" "\<not> is_revoked info"
  shows "\<exists>upd cs'. revoke_pub_key P K pk rp cs = Inr (upd, cs')"
proof -
  obtain cs' where "get_data P K PubKeyStorageC (revoke_address rp) cs = Inr (Some (PubKeyStorageM info), cs')"
    using get_data_granted [OF pb coh rd, of PubKeyStorageC] e v by auto
  with o show ?thesis by (simp add: revoke_pub_key_def)
qed

lemma load_swap_granted:
  assumes pb: "pb_typed P" "pb_decode_errors P" and coh: "coherent cs" and v: "v = view (context_of cs)"
    and rd: "swap_address sid \<in> readable (context_of cs)"
    and s: "swap_at P v (swap_address sid) = Some si" "\<not> not_permitted (state si)"
  obtains cs' where "load_swap P K sid cs = Inr ((swap_address sid, si), cs')" and "coherent cs'"
    and "context_of cs' = context_of cs"
proof -
  obtain cs' where "get_data P K AtomicSwapInfoC (swap_address sid) cs
      = Inr (map_option AtomicSwapInfoM (Some si), cs')" "coherent cs'" "context_of cs' = context_of cs"
    using get_data_granted [OF pb(2) coh rd, of AtomicSwapInfoC] s v entry_swap_at [OF pb(1), of v "swap_address sid"]
    by auto
  with s that show thesis by (simp add: load_swap_def)
qed

lemma latest_block_granted:
  assumes pb: "pb_decode_errors P" and coh: "coherent cs" and v: "v = view (context_of cs)"
    and rd: "set (block_addresses P v) \<subseteq> readable (context_of cs)"
    and b: "latest_block_at P v = Some bi"
  obtains cs' where "get_latest_block_info P K cs = Inr (bi, cs')" and "coherent cs'"
    and "context_of cs' = context_of cs"
proof -
  obtain cfg where c: "entry P v BlockInfoConfigC CONFIG_ADDRESS = Some (BlockInfoConfigM cfg)"
      and e: "entry P v BlockInfoC (create_block_address (latest_block cfg)) = Some (BlockInfoM bi)"
    using b by (auto simp: latest_block_at_def split: option.splits message.splits)
  with rd have r: "CONFIG_ADDRESS \<in> readable (context_of cs)"
      "create_block_address (latest_block cfg) \<in> readable (context_of cs)"
    by (auto simp: block_addresses_def)
  obtain cs1 where g: "get_data P K BlockInfoConfigC CONFIG_ADDRESS cs = Inr (Some (BlockInfoConfigM cfg), cs1)"
      and c1: "coherent cs1" "context_of cs1 = context_of cs"
    using get_data_granted [OF pb coh r(1), of BlockInfoConfigC] c v by auto
  obtain cs2 where "get_data P K BlockInfoC (create_block_address (latest_block cfg)) cs1
      = Inr (Some (BlockInfoM bi), cs2)" "coherent cs2" "context_of cs2 = context_of cs"
    using get_data_granted [OF pb c1(1), of "create_block_address (latest_block cfg)" BlockInfoC] e v r(2) c1(2)
    by auto
  with g that show thesis by (simp add: get_latest_block_info_def)
qed

lemma get_setting_value_granted:
  assumes pb: "pb_typed P" "pb_decode_errors P" and coh: "coherent cs" and v: "v = view (context_of cs)"
    and rd: "make_settings_key key \<in> readable (context_of cs)"
  obtains cs' where "get_setting_value P K key dflt cs = Inr (setting_at P v key dflt, cs')"
    and "coherent cs'" and "context_of cs' = context_of cs"
proof -
  obtain x where x: "entry P v SettingC (make_settings_key key) = map_option SettingM x"
    using entry_of_class(5) [OF pb(1)] by blast
  obtain cs' where "get_data P K SettingC (make_settings_key key) cs = Inr (map_option SettingM x, cs')"
      and c: "coherent cs'" "context_of cs' = context_of cs"
    using get_data_granted [OF pb(2) coh rd, of SettingC] x v by auto
  then have "\<exists>r. get_setting_value P K key dflt cs = Inr (r, cs')"
    by (simp add: get_setting_value_def get_setting_entry_def sbind_def)
  then obtain r where "get_setting_value P K key dflt cs = Inr (r, cs')" ..
  with get_setting_value_view [OF this coh] v c that show thesis by auto
qed

lemma charge_granted:
  assumes pb: "pb_typed P" "pb_decode_errors P" and coh: "coherent cs" and v: "v = view (context_of cs)"
    and rd: "{make_settings_key ''remme.economy_enabled'', account_address pk, ZERO_ADDRESS}
       \<subseteq> readable (context_of cs)"
    and ok: "charge_ok P v (account_address pk)"
  shows "\<exists>r cs'. charge_for_storing P K (account_address pk) cs = Inr (r, cs')"
proof -
  obtain cs1 where g: "get_setting_value P K ''remme.economy_enabled'' (Some ''true'') cs
      = Inr (setting_at P v ''remme.economy_enabled'' (Some ''true''), cs1)"
      and c1: "coherent cs1" "context_of cs1 = context_of cs"
    using get_setting_value_granted [OF pb coh v, of "''remme.economy_enabled''"] rd by auto
  obtain x where x: "setting_at P v ''remme.economy_enabled'' (Some ''true'') = Some x"
    using setting_at_default by blast
  show ?thesis
  proof (cases "lower x = ''true''")
    case False
    with g x show ?thesis by (simp add: charge_for_storing_def)
  next
    case True
    with x have "economy_enabled P v" by (simp add: economy_enabled_def)
    with ok obtain ch cs' where "transfer_from_address P K (account_address pk)
        \<lparr>address_to = ZERO_ADDRESS, tp_value = PUB_KEY_STORE_PRICE\<rparr> cs1 = Inr (ch, cs')"
      using transfer_granted [OF pb c1(1), of v "account_address pk"
          "\<lparr>address_to = ZERO_ADDRESS, tp_value = PUB_KEY_STORE_PRICE\<rparr>"] v c1(2) rd
      by (auto simp: charge_ok_def PUB_KEY_STORE_PRICE_def)
    with g x True show ?thesis
      by (simp add: charge_for_storing_def charge_tokens_for_storing_def)
  qed
qed

lemma store_granted:
  assumes pb: "pb_typed P" "pb_decode_errors P" and coh: "coherent cs" and v: "v = view (context_of cs)"
    and kp: "get_public_key_processor tx = Inr kp" "processor_verify P Y kp = Inr True"
    and ka: "ka = pub_key_address (get_public_key kp)" "entry P v PubKeyStorageC ka = None"
    and rd: "{ka, make_settings_key ''remme.economy_enabled'', account_address pk, ZERO_ADDRESS}
       \<subseteq> readable (context_of cs)"
    and vl: "is_public_key_validity_exceeded Y (valid_from tx) (valid_to tx)"
    and ok: "charge_ok P v (account_address pk)"
  shows "\<exists>upd cs'. store_pub_key P K Y pk tx cs = Inr (upd, cs')"
proof -
  obtain a where a: "entry P v AccountC (account_address pk) = map_option AccountM a"
    using entry_of_class(1) [OF pb(1)] by blast
  obtain cs1 where g: "get_multiple_data P K [(ka, PubKeyStorageC), (account_address pk, AccountC)] cs
      = Inr ([None, map_option AccountM a], cs1)"
    using get_multiple_data_granted [OF pb(2) coh,
        of "[(ka, PubKeyStorageC), (account_address pk, AccountC)]"] rd a ka v by auto
  from get_multiple_data_entry [OF g coh] have c1: "coherent cs1" "context_of cs1 = context_of cs" by auto
  obtain r cs2 where ch: "charge_for_storing P K (account_address pk) cs1 = Inr (r, cs2)"
    using charge_granted [OF pb c1(1), of v pk] v c1(2) rd ok by auto
  show ?thesis
  proof (cases r)
    case None
    with kp ka g vl ch show ?thesis by (simp add: store_pub_key_def Let_def)
  next
    case (Some x)
    then obtain acc where "map_of (rev x) (account_address pk) = Some (AccountM acc)"
      using charge_for_storing_view [OF ch c1(1)] by auto
    then have "account_in (dict_update st x) (account_address pk) = Inr acc" for st
      by (simp add: account_in_def map_of_dict_update)
    with Some kp ka g vl ch show ?thesis
      by (simp add: store_pub_key_def Let_def)
  qed
qed

lemma store_and_pay_granted:
  assumes pb: "pb_typed P" "pb_decode_errors P" and coh: "coherent cs" and v: "v = view (context_of cs)"
    and tx: "oh = bytes_hex (owner_public_key sp)" "tx = pub_key_payload sp"
    and ow: "Secp256k1PublicKey_from_hex Y oh = Inr owner_key"
      "Secp256k1Context_verify Y (bytes_hex (signature_by_owner sp))
         (SerializeToString P (NewPubKeyPayloadM tx)) owner_key = Inr True"
    and kp: "get_public_key_processor tx = Inr kp" "processor_verify P Y kp = Inr True"
    and ka: "ka = pub_key_address (get_public_key kp)" "entry P v PubKeyStorageC ka = None"
    and rd: "{ka, account_address oh, make_settings_key ''remme.economy_enabled'', account_address pk, ZERO_ADDRESS}
       \<subseteq> readable (context_of cs)"
    and vl: "is_public_key_validity_exceeded Y (valid_from tx) (valid_to tx)"
    and ok: "charge_ok P v (account_address pk)"
  shows "\<exists>upd cs'. store_public_key_for_other P K Y pk sp cs = Inr (upd, cs')"
proof -
  obtain a2 where a2: "entry P v AccountC (account_address oh) = map_option AccountM a2"
    using entry_of_class(1) [OF pb(1)] by blast
  obtain a3 where a3: "entry P v AccountC (account_address pk) = map_option AccountM a3"
    using entry_of_class(1) [OF pb(1)] by blast
  obtain cs1 where g: "get_multiple_data P K [(ka, PubKeyStorageC), (account_address oh, AccountC),
      (account_address pk, AccountC)] cs = Inr ([None, map_option AccountM a2, map_option AccountM a3], cs1)"
    using get_multiple_data_granted [OF pb(2) coh, of "[(ka, PubKeyStorageC),
        (account_address oh, AccountC), (account_address pk, AccountC)]"] rd a2 a3 ka v by auto
  from get_multiple_data_entry [OF g coh] have c1: "coherent cs1" "context_of cs1 = context_of cs" by auto
  obtain r cs2 where ch: "charge_for_storing P K (account_address pk) cs1 = Inr (r, cs2)"
    using charge_granted [OF pb c1(1), of v pk] v c1(2) rd ok by auto
  with tx ow kp ka g vl show ?thesis
    by (simp add: store_public_key_for_other_def Let_def)
qed

lemma swap_set_lock_granted:
  assumes pb: "pb_typed P" "pb_decode_errors P" and coh: "coherent cs" and v: "v = view (context_of cs)"
    and rd: "swap_address (lock_swap_id lp) \<in> readable (context_of cs)"
    and s: "swap_at P v (swap_address (lock_swap_id lp)) = Some si" "\<not> not_permitted (state si)"
      "secret_lock si = []"
  shows "\<exists>upd cs'. swap_set_lock P K pk lp cs = Inr (upd, cs')"
  using pb coh v rd s(1,2) by (rule load_swap_granted) (simp add: swap_set_lock_def s)

lemma swap_approve_granted:
  assumes pb: "pb_typed P" "pb_decode_errors P" and coh: "coherent cs" and v: "v = view (context_of cs)"
    and rd: "swap_address (approve_swap_id ap) \<in> readable (context_of cs)"
    and s: "swap_at P v (swap_address (approve_swap_id ap)) = Some si" "state si = SECRET_LOCK_PROVIDED"
      "is_initiator si" "sender_address si = account_address pk" "secret_lock si \<noteq> []"
  shows "\<exists>upd cs'. swap_approve P K pk ap cs = Inr (upd, cs')"
proof -
  have "\<not> not_permitted (state si)" using s(2) by (simp add: not_permitted_def)
  with pb coh v rd s(1) show ?thesis
    by (rule load_swap_granted) (simp add: swap_approve_def s)
qed

lemma swap_expire_granted:
  assumes pb: "pb_typed P" "pb_decode_errors P" and coh: "coherent cs" and v: "v = view (context_of cs)"
    and rd: "{swap_address (expire_swap_id ep), account_address pk} \<union> set (block_addresses P v)
       \<subseteq> readable (context_of cs)"
    and s: "swap_at P v (swap_address (expire_swap_id ep)) = Some si" "\<not> not_permitted (state si)"
      "sender_address si = account_address pk"
    and b: "latest_block_at P v = Some bi" "time_lock_passed E si bi"
    and u: "uint 64 (balance (account_at P v (account_address pk)) + amount si)"
  shows "\<exists>upd cs'. swap_expire P K E pk ep cs = Inr (upd, cs')"
proof -
  obtain cs1 where l: "load_swap P K (expire_swap_id ep) cs = Inr ((swap_address (expire_swap_id ep), si), cs1)"
      and c1: "coherent cs1" "context_of cs1 = context_of cs"
    using load_swap_granted [OF pb coh v _ s(1,2)] rd by auto
  obtain cs2 where bl: "get_latest_block_info P K cs1 = Inr (bi, cs2)"
      and c2: "coherent cs2" "context_of cs2 = context_of cs"
    using latest_block_granted [OF pb(2) c1(1), of v bi] v c1(2) rd b(1) by auto
  obtain a where a: "entry P v AccountC (account_address pk) = map_option AccountM a"
      "account_or_default a = account_at P v (account_address pk)"
    by (rule account_entry [OF pb(1)])
  obtain cs3 where "get_data P K AccountC (account_address pk) cs2 = Inr (map_option AccountM a, cs3)"
    using get_data_granted [OF pb(2) c2(1), of "account_address pk" AccountC] a v rd c2(2) by auto
  with l bl b(2) u a s(3) show ?thesis
    by (simp add: swap_expire_def Let_def time_lock_passed_def time_lock_def)
qed

lemma swap_close_granted:
  assumes pb: "pb_typed P" "pb_decode_errors P" and coh: "coherent cs" and v: "v = view (context_of cs)"
    and rd: "{swap_address (close_swap_id cp), receiver_address si} \<subseteq> readable (context_of cs)"
    and s: "swap_at P v (swap_address (close_swap_id cp)) = Some si" "\<not> not_permitted (state si)"
      "secret_lock si \<noteq> []" "web3_hash E (close_secret_key cp) = Inr (secret_lock si)"
      "is_initiator si \<longrightarrow> state si = APPROVED"
    and u: "uint 64 (balance (account_at P v (receiver_address si)) + amount si)"
  shows "\<exists>upd cs'. swap_close P K E pk cp cs = Inr (upd, cs')"
proof -
  obtain cs1 where l: "load_swap P K (close_swap_id cp) cs = Inr ((swap_address (close_swap_id cp), si), cs1)"
      and c1: "coherent cs1" "context_of cs1 = context_of cs"
    using load_swap_granted [OF pb coh v _ s(1,2)] rd by auto
  obtain a where a: "entry P v AccountC (receiver_address si) = map_option AccountM a"
      "account_or_default a = account_at P v (receiver_address si)"
    by (rule account_entry [OF pb(1)])
  obtain cs2 where "get_data P K AccountC (receiver_address si) cs1 = Inr (map_option AccountM a, cs2)"
    using get_data_granted [OF pb(2) c1(1), of "receiver_address si" AccountC] a v rd c1(2) by auto
  with l u a s show ?thesis
    by (simp add: swap_close_def Let_def)
qed

lemma swap_init_granted:
  assumes pb: "pb_typed P" "pb_decode_errors P" and coh: "coherent cs" and v: "v = view (context_of cs)"
    and rd: "{swap_address (init_swap_id ip), make_settings_key SETTINGS_SWAP_COMMISSION,
        account_address pk, ZERO_ADDRESS} \<union> set (block_addresses P v) \<subseteq> readable (context_of cs)"
    and e: "entry P v AtomicSwapInfoC (swap_address (init_swap_id ip)) = None"
    and b: "latest_block_at P v = Some bi" "uint 32 (timestamp bi)" "uint 64 (init_amount ip)"
    and com: "swap_commission (setting_at P v SETTINGS_SWAP_COMMISSION None) = Inr com" "0 < com"
    and bal: "init_amount ip + com \<le> balance (account_at P v (account_address pk))"
      "balance (account_at P v ZERO_ADDRESS) + com < 2 ^ 64"
  shows "\<exists>upd cs'. swap_init P K pk ip cs = Inr (upd, cs')"
proof -
  obtain cs1 where g: "get_data P K AtomicSwapInfoC (swap_address (init_swap_id ip)) cs = Inr (None, cs1)"
      and c1: "coherent cs1" "context_of cs1 = context_of cs"
    using get_data_granted [OF pb(2) coh, of "swap_address (init_swap_id ip)" AtomicSwapInfoC] rd e v by auto
  obtain cs2 where bl: "get_latest_block_info P K cs1 = Inr (bi, cs2)"
      and c2: "coherent cs2" "context_of cs2 = context_of cs"
    using latest_block_granted [OF pb(2) c1(1), of v bi] v c1(2) rd b(1) by auto
  obtain cs3 where st: "get_setting_value P K SETTINGS_SWAP_COMMISSION None cs2
      = Inr (setting_at P v SETTINGS_SWAP_COMMISSION None, cs3)"
      and c3: "coherent cs3" "context_of cs3 = context_of cs"
    using get_setting_value_granted [OF pb c2(1), of v SETTINGS_SWAP_COMMISSION] v c2(2) rd by auto
  obtain a where a: "entry P v AccountC (account_address pk) = map_option AccountM a"
      "account_or_default a = account_at P v (account_address pk)"
    by (rule account_entry [OF pb(1)])
  obtain cs4 where ac: "get_data P K AccountC (account_address pk) cs3 = Inr (map_option AccountM a, cs4)"
      and c4: "coherent cs4" "context_of cs4 = context_of cs"
    using get_data_granted [OF pb(2) c3(1), of "account_address pk" AccountC] a v rd c3(2) by auto
  have com64: "set_uint64 com = Inr com"
    using com(2) bal b(3) account_at_range [OF pb(1), of v "account_address pk"] by (intro set_uint_in_range) auto
  obtain ts cs5 where t: "transfer_from_address P K (account_address pk)
      \<lparr>address_to = ZERO_ADDRESS, tp_value = com\<rparr> cs4 = Inr (ts, cs5)"
    using transfer_granted [OF pb c4(1), of v "account_address pk" "\<lparr>address_to = ZERO_ADDRESS, tp_value = com\<rparr>"]
      v c4(2) rd com(2) bal b(3) by auto
  from transfer_from_address_view [OF t c4(1)] v c4(2)
  have ts: "map_of ts (account_address pk) = Some (AccountM ((account_at P v (account_address pk))
      \<lparr>balance := balance (account_at P v (account_address pk)) - com\<rparr>))" by auto
  have left: "set_uint64 (balance (account_at P v (account_address pk)) - com - init_amount ip)
      = Inr (balance (account_at P v (account_address pk)) - com - init_amount ip)"
    using com(2) bal b(3) account_at_range [OF pb(1), of v "account_address pk"] by (intro set_uint_in_range) auto
  have tm: "set_uint32 (timestamp bi) = Inr (timestamp bi)"
    using b(2) by (intro set_uint_in_range) auto
  from g bl st ac t ts com bal left com64 tm a(2) show ?thesis
    by (simp add: swap_init_def Let_def get_transfer_payload_def)
qed

end

section \<open>The method of a payload\<close>

text \<open>The processor method a decoded payload is handed to, by the payload's class.\<close>

fun run_tx ::
  "'b pblib \<Rightarrow> ('c, 'b) ctx_ops \<Rightarrow> 'b crypto \<Rightarrow> swap_env \<Rightarrow> string \<Rightarrow> message
     \<Rightarrow> (('c, 'b) cache_service, updated_state) sx"
where
  "run_tx P K Y E pk (TransferPayloadM p) = transfer P K pk p"
| "run_tx P K Y E pk (GenesisPayloadM p) = genesis_init P K pk p"
| "run_tx P K Y E pk (NewPubKeyPayloadM p) = store_pub_key P K Y pk p"
| "run_tx P K Y E pk (NewPubKeyStoreAndPayPayloadM p) = store_public_key_for_other P K Y pk p"
| "run_tx P K Y E pk (RevokePubKeyPayloadM p) = revoke_pub_key P K pk p"
| "run_tx P K Y E pk (AtomicSwapInitPayloadM p) = swap_init P K pk p"
| "run_tx P K Y E pk (AtomicSwapSetSecretLockPayloadM p) = swap_set_lock P K pk p"
| "run_tx P K Y E pk (AtomicSwapApprovePayloadM p) = swap_approve P K pk p"
| "run_tx P K Y E pk (AtomicSwapExpirePayloadM p) = swap_expire P K E pk p"
| "run_tx P K Y E pk (AtomicSwapClosePayloadM p) = swap_close P K E pk p"
| "run_tx P K Y E pk _ = sraise AttributeError"

lemma decode_run_tx:
  assumes "pb_typed P" and "decode_request P wt (get_state_processor P K Y E fam) tr = Inr (en, m)"
  shows "processor_of en pk m = run_tx P K Y E pk m"
proof -
  from decode_request_Inr [OF assms(2)] obtain n bs where
      n: "map_of (get_state_processor P K Y E fam) n = Some en" and
      m: "ParseFromString P (pb_class_of en) bs = Inr m" by blast
  from pb_typedD [OF assms(1) m] have c: "class_of m = pb_class_of en" .
  show ?thesis
  proof (cases fam)
    case AccountFamily
    from dict_literal_SomeD [OF n [unfolded AccountFamily get_state_processor.simps account_state_processor_def]]
    show ?thesis using c by (cases m) (auto simp: transfer_entry_def genesis_entry_def)
  next
    case PubKeyFamily
    from dict_literal_SomeD [OF n [unfolded PubKeyFamily get_state_processor.simps pub_key_state_processor_def]]
    show ?thesis using c by (cases m) auto
  next
    case AtomicSwapFamily
    from dict_literal_SomeD [OF n [unfolded AtomicSwapFamily get_state_processor.simps swap_state_processor_def]]
    show ?thesis using c by (cases m) auto
  qed
qed

lemma key_addresses_processor:
  "get_public_key_processor tx = Inr kp \<Longrightarrow> key_addresses tx = [pub_key_address (get_public_key kp)]"
  by (auto simp: get_public_key_processor_def key_addresses_def get_public_key_def split: option.splits)

lemma keys_map_of: "fst ` set upd = dom (map_of upd)"
  by (simp add: dom_map_of_conv_image_fst)

lemma fee_update_SomeD: "fee_update P v x = Some y \<Longrightarrow> x = ZERO_ADDRESS"
  by (auto simp: fee_update_def split: if_splits)

context sawtooth_context
begin

lemma run_tx_keys:
  assumes "run_tx P K Y E pk m cs = Inr (upd, cs')" and "coherent cs"
  shows "fst ` set upd \<subseteq> set (written P (view (context_of cs)) pk m) \<and> coherent cs' \<and>
    context_of cs' = context_of cs"
proof (cases m)
  case (TransferPayloadM p)
  with assms transfer_from_address_view [OF _ assms(2), of P "account_address pk" p upd cs'] show ?thesis
    by (auto simp: transfer_Inr)
next
  case (GenesisPayloadM p)
  with assms genesis_init_view [OF _ assms(2), of P pk p upd cs'] show ?thesis
    by auto
next
  case (NewPubKeyPayloadM tx)
  with assms have "store_pub_key P K Y pk tx cs = Inr (upd, cs')" by simp
  from store_pub_key_view [OF this assms(2)] NewPubKeyPayloadM show ?thesis
    by (auto simp: keys_map_of key_addresses_processor split: if_splits dest: fee_update_SomeD)
next
  case (NewPubKeyStoreAndPayPayloadM sp)
  with assms have "store_public_key_for_other P K Y pk sp cs = Inr (upd, cs')" by simp
  from store_public_key_for_other_view [OF this assms(2)] NewPubKeyStoreAndPayPayloadM show ?thesis
    by (auto simp: keys_map_of key_addresses_processor split: if_splits dest: fee_update_SomeD)
next
  case (RevokePubKeyPayloadM rp)
  with assms revoke_pub_key_view [OF _ assms(2), of P pk rp upd cs'] show ?thesis by auto
next
  case (AtomicSwapInitPayloadM ip)
  with assms swap_init_view [OF _ assms(2), of P pk ip upd cs'] show ?thesis by auto
next
  case (AtomicSwapSetSecretLockPayloadM lp)
  with assms swap_set_lock_view [OF _ assms(2), of P pk lp upd cs'] show ?thesis by auto
next
  case (AtomicSwapApprovePayloadM ap)
  with assms swap_approve_view [OF _ assms(2), of P pk ap upd cs'] show ?thesis by auto
next
  case (AtomicSwapExpirePayloadM ep)
  with assms swap_expire_view [OF _ assms(2), of P E pk ep upd cs'] show ?thesis by auto
next
  case (AtomicSwapClosePayloadM cp)
  with assms have "swap_close P K E pk cp cs = Inr (upd, cs')" by simp
  from swap_close_view [OF this assms(2)] AtomicSwapClosePayloadM show ?thesis
    by (auto simp: keys_map_of map_of_dict_literal split: if_splits)
qed (use assms in auto)

end

text \<open>The rules determine the next state.\<close>

lemma map_GenesisStatusM_inject: "map_option GenesisStatusM g = map_option GenesisStatusM h \<longleftrightarrow> g = h"
  by (cases g; cases h) auto

lemma state_step_deterministic:
  assumes "state_step P Y E pk m v v1" and "state_step P Y E pk m v v2"
  shows "v1 = v2"
  using assms(1)
proof cases
  case (genesis p g)
  with assms(2) show ?thesis
    by (auto elim!: genesis_stepE simp: map_GenesisStatusM_inject)
qed (use assms(2) in \<open>auto elim: state_step.cases\<close>)

section \<open>Every step is taken\<close>

context granting_context
begin

lemma run_tx_granted:
  assumes pb: "pb_typed P" "pb_decode_errors P" and coh: "coherent cs" and v: "v = view (context_of cs)"
    and rd: "set (footprint P v pk m) \<subseteq> readable (context_of cs)" and step: "state_step P Y E pk m v v'"
  shows "\<exists>upd cs'. run_tx P K Y E pk m cs = Inr (upd, cs')"
  using step
proof cases
  case (transfer p s r)
  with transfer_granted [OF pb coh v] rd show ?thesis by (simp add: transfer_Inr)
next
  case (genesis p g)
  with genesis_granted [OF pb coh v] rd show ?thesis by simp
next
  case (store tx kp ka)
  with store_granted [OF pb coh v] rd show ?thesis by (simp add: key_addresses_processor)
next
  case (store_and_pay oh sp tx owner_key kp ka)
  with store_and_pay_granted [OF pb coh v, of oh sp tx Y owner_key kp ka pk] rd show ?thesis
    by (simp add: key_addresses_processor)
next
  case (revoke rp info)
  with revoke_granted [OF pb(2) coh v] rd show ?thesis by simp
next
  case (swap_init a ip bi com s z)
  with swap_init_granted [OF pb coh v, of ip pk bi com] rd show ?thesis by simp
next
  case (swap_set_lock a lp si)
  with swap_set_lock_granted [OF pb coh v] rd show ?thesis by simp
next
  case (swap_approve a ap si)
  with swap_approve_granted [OF pb coh v] rd show ?thesis by simp
next
  case (swap_expire a ep si bi s)
  with swap_expire_granted [OF pb coh v, of ep pk si bi E] rd show ?thesis by simp
next
  case (swap_close a cp si r)
  with swap_close_granted [OF pb coh v, of cp si E pk] rd show ?thesis by simp
qed

lemma write_and_emit_granted:
  assumes "fst ` set upd \<subseteq> writable (context_of cs)"
  shows "\<exists>c'. write_and_emit P K ev sg upd cs = (Inr (), c')"
proof -
  let ?ents = "map (\<lambda>(k, d). (k, SerializeToString P d)) upd"
  have "fst ` set ?ents = fst ` set upd" by force
  with assms set_state_granted [of ?ents "context_of cs"] obtain r c1 where
    "op_set_state K (context_of cs) ?ents = (Inr r, c1)" by auto
  then have w: "set_state K cs ?ents = (Inr r, cs\<lparr>context_of := c1\<rparr>)"
    by (simp add: set_state_def)
  show ?thesis
  proof (cases ev)
    case None
    with w show ?thesis by (simp add: write_and_emit_def)
  next
    case (Some name)
    obtain c2 where "op_add_event K c1 name (get_event_attributes P upd sg) = (Inr (), c2)"
      using add_event_granted by blast
    with w Some show ?thesis by (simp add: write_and_emit_def service_add_event_def)
  qed
qed

text \<open>
  A request that decodes and whose payload the rules accept is applied, and leads to the state the
  rules give.
\<close>

lemma process_request_granted:
  assumes pb: "pb_typed P" "pb_decode_errors P"
    and dec: "decode_request P wt (get_state_processor P K Y E fam) tr = Inr (en, m)"
    and step: "state_step P Y E (signer tr) m (view c) v'"
    and inp: "set (filter (\<lambda>a. length a = 70) (inputs tr)) \<subseteq> readable c"
    and rd: "set (footprint P (view c) (signer tr) m) \<subseteq> readable c"
    and wr: "set (written P (view c) (signer tr) m) \<subseteq> writable c"
  shows "\<exists>c'. process_request P K wt Y E fam tr c = (Inr (), c') \<and> view c' = v'"
proof -
  obtain cs where pre: "preload_state K (inputs tr) (new_cache_service c) = Inr ((), cs)"
    using preload_state_granted [of "inputs tr" "new_cache_service c"] inp
    by (auto simp: new_cache_service_def)
  have cs: "coherent cs" "context_of cs = c"
    using preload_state_coherent [OF pre coherent_new] by (auto simp: new_cache_service_def)
  obtain upd cs' where run: "run_tx P K Y E (signer tr) m cs = Inr (upd, cs')"
    using run_tx_granted [OF pb cs(1), of "view c" "signer tr" m Y E v'] cs(2) rd step by auto
  from run_tx_keys [OF run cs(1)] cs(2) wr have w: "fst ` set upd \<subseteq> writable (context_of cs')" by auto
  obtain c' where "write_and_emit P K (emit_event en) (signature tr) upd cs' = (Inr (), c')"
    using write_and_emit_granted [OF w] by blast
  then have "process_request P K wt Y E fam tr c = (Inr (), c')"
    using handler_apply_run [OF dec pre] decode_run_tx [OF pb(1) dec] run
    by (simp add: process_request_def)
  with process_request_step [OF sawtooth_context_axioms pb(1) this] dec step
  show ?thesis by (auto dest: state_step_deterministic)
qed

end

end
