(* ===== verification/ClientViews.thy ===== *)
theory ClientViews
  imports Clients Completeness
begin

text \<open>
  What the clients see and what they ask for. Against a validator that keeps its contract, the reads
  of the clients return what the transaction processors have stored; and the addresses a client
  declares as inputs and outputs of a transaction cover what its processor reads and writes.
\<close>

section \<open>Reading the chain\<close>

definition block_at :: "string pblib \<Rightarrow> (string \<rightharpoonup> string) \<Rightarrow> int \<Rightarrow> BlockInfo option" where
  "block_at P v n = (case entry P v BlockInfoC (create_block_address n) of Some (BlockInfoM b) \<Rightarrow> Some b | _ \<Rightarrow> None)"

definition blocks_in :: "string pblib \<Rightarrow> (string \<rightharpoonup> string) \<Rightarrow> int list \<Rightarrow> dict list" where
  "blocks_in P v ns = map interpret_block_info (List.map_filter (block_at P v) ns)"

text \<open>Every entry at the given addresses decodes as a message of the class stored there.\<close>

definition decodes :: "string pblib \<Rightarrow> (string \<rightharpoonup> string) \<Rightarrow> pb_class \<Rightarrow> string \<Rightarrow> bool" where
  "decodes P v cls a \<longleftrightarrow> (\<forall>d. v a = Some d \<longrightarrow> (\<exists>m. ParseFromString P cls d = Inr m \<and> class_of m = cls))"

lemma class_of_cases:
  "class_of m = AccountC \<Longrightarrow> \<exists>x. m = AccountM x" "class_of m = BlockInfoC \<Longrightarrow> \<exists>b. m = BlockInfoM b"
  "class_of m = BlockInfoConfigC \<Longrightarrow> \<exists>c. m = BlockInfoConfigM c"
  "class_of m = AtomicSwapInfoC \<Longrightarrow> \<exists>s. m = AtomicSwapInfoM s"
  "class_of m = PubKeyStorageC \<Longrightarrow> \<exists>k. m = PubKeyStorageM k"
  by (cases m; simp)+

context validator_service
begin

lemma get_value_found: "chain_state v a = Some bytes \<Longrightarrow> get_value L S a v = (Inr bytes, v)"
  using fetch_state_found [of v a bytes]
  by (auto simp: get_value_def ebind_def dict_lookup_def)

lemma get_value_missing:
  "chain_state v a = None \<Longrightarrow> get_value L S a v = (Inl (KeyNotFound ''Resource not found''), v)"
  by (simp add: get_value_def ebind_def fetch_state_missing)

lemma get_account_view:
  assumes "decodes P (chain_state v) AccountC a"
  shows "get_account L S P a v =
    (if chain_state v a = None then Inl (KeyNotFound ''Resource not found'')
     else Inr (account_at P (chain_state v) a), v)"
proof (cases "chain_state v a")
  case None
  then show ?thesis by (simp add: get_account_def ebind_def get_value_missing)
next
  case (Some d)
  with assms obtain x where "ParseFromString P AccountC d = Inr (AccountM x)"
    using class_of_cases(1) by (auto simp: decodes_def)
  with Some show ?thesis
    by (simp add: get_account_def ebind_def get_value_found account_at_def entry_def)
qed

lemma get_balance_view:
  assumes "decodes P (chain_state v) AccountC a"
  shows "get_balance L S P a v = (Inr (balance (account_at P (chain_state v) a)), v)"
  using get_account_view [OF assms]
  by (auto simp: get_balance_def or_not_found_def ecatch_def ebind_def account_at_def entry_def
      Account_default_def)

lemma get_pub_keys_view:
  assumes "decodes P (chain_state v) AccountC a"
  shows "get_pub_keys L S P a v = (Inr (pub_keys (account_at P (chain_state v) a)), v)"
  using get_account_view [OF assms]
  by (auto simp: get_pub_keys_def or_not_found_def ecatch_def ebind_def account_at_def entry_def
      Account_default_def)

lemma get_block_info_view:
  assumes "decodes P (chain_state v) BlockInfoC (create_block_address n)"
  shows "get_block_info L S P n v =
    (case block_at P (chain_state v) n of None \<Rightarrow> Inl (KeyNotFound ''Resource not found'') | Some b \<Rightarrow> Inr b, v)"
proof (cases "chain_state v (create_block_address n)")
  case None
  then show ?thesis by (simp add: get_block_info_def ebind_def get_value_missing block_at_def entry_def)
next
  case (Some d)
  with assms obtain b where "ParseFromString P BlockInfoC d = Inr (BlockInfoM b)"
    using class_of_cases(2) by (auto simp: decodes_def)
  with Some show ?thesis
    by (simp add: get_block_info_def ebind_def get_value_found block_at_def entry_def)
qed

lemma collect_blocks_view:
  assumes "\<And>n. decodes P (chain_state v) BlockInfoC (create_block_address n)"
  shows "collect_blocks L S P ns blocks v = (Inr (blocks @ blocks_in P (chain_state v) ns), v)"
proof (induction ns arbitrary: blocks)
  case Nil
  then show ?case by (simp add: blocks_in_def map_filter_simps)
next
  case (Cons n ns)
  have "or_not_found (ebind (get_block_info L S P n) (\<lambda>bi. eret (Some bi))) None v
      = (Inr (block_at P (chain_state v) n), v)"
    by (cases "block_at P (chain_state v) n")
      (simp_all add: or_not_found_def ecatch_def ebind_def get_block_info_view [OF assms])
  with Cons show ?case
    by (cases "block_at P (chain_state v) n") (simp_all add: blocks_in_def map_filter_simps)
qed

lemma collect_range_view:
  assumes "\<And>n. decodes P (chain_state v) BlockInfoC (create_block_address n)" and "0 < limit" and "0 < start"
  shows "collect_range L S P start limit v
    = (Inr (rev (blocks_in P (chain_state v) [max 0 (start - limit)..start - 1])), v)"
proof -
  have "start - (if limit - start > 0 then start else limit) = max 0 (start - limit)" by auto
  then show ?thesis
    by (simp add: collect_range_def Let_def ebind_def collect_blocks_view [OF assms(1)] cong: if_cong)
qed

lemma get_block_info_config_view:
  assumes "entry P (chain_state v) BlockInfoConfigC CONFIG_ADDRESS = Some (BlockInfoConfigM cfg)"
  shows "get_block_info_config L S P v = (Inr cfg, v)"
proof -
  from assms obtain d where "chain_state v CONFIG_ADDRESS = Some d" "ParseFromString P BlockInfoConfigC d = Inr (BlockInfoConfigM cfg)"
    by (auto simp: entry_def split: option.splits sum.splits)
  then show ?thesis by (simp add: get_block_info_config_def ebind_def get_value_found)
qed

lemma get_blocks_info_default:
  assumes "\<And>n. decodes P (chain_state v) BlockInfoC (create_block_address n)"
    and "entry P (chain_state v) BlockInfoConfigC CONFIG_ADDRESS = Some (BlockInfoConfigM cfg)"
    and "0 \<le> oldest_block cfg" and "oldest_block cfg \<le> latest_block cfg"
  shows "get_blocks_info L S P 0 0 v
    = (Inr (rev (blocks_in P (chain_state v) [max 0 (oldest_block cfg - 1)..latest_block cfg])), v)"
proof -
  have "collect_range L S P (latest_block cfg + 1) (latest_block cfg + 1 - oldest_block cfg + 1) v
    = (Inr (rev (blocks_in P (chain_state v) [max 0 (oldest_block cfg - 1)..latest_block cfg])), v)"
    using collect_range_view [OF assms(1), of "latest_block cfg + 1 - oldest_block cfg + 1" "latest_block cfg + 1"]
      assms(3,4) by (simp add: algebra_simps)
  with get_block_info_config_view [OF assms(2)] show ?thesis
    by (simp add: get_blocks_info_def ebind_def ecatch_def Let_def)
qed

lemma swap_get_view:
  assumes "swap_at P (chain_state v) (swap_address sid) = Some si"
  shows "swap_get L S P (AtomicSwapClient sg) sid v = (Inr si, v)"
proof -
  from assms obtain d where
    "chain_state v (swap_address sid) = Some d" "ParseFromString P AtomicSwapInfoC d = Inr (AtomicSwapInfoM si)"
    by (auto simp: swap_at_def entry_def split: option.splits sum.splits message.splits)
  then show ?thesis
    by (simp add: swap_get_def ebind_def client_make_address_from_data_def with_handler_def AtomicSwapClient_def
        make_swap_address get_value_found)
qed

end

section \<open>Declared addresses\<close>

fun declared_addresses :: "signer \<Rightarrow> string \<Rightarrow> message \<Rightarrow> (string list \<times> string list) res" where
  "declared_addresses sg r (TransferPayloadM p) = transfer_addresses (AccountClient sg) (address_to p)"
| "declared_addresses sg r (AtomicSwapInitPayloadM p) = swap_init_addresses (AtomicSwapClient sg) p"
| "declared_addresses sg r (AtomicSwapApprovePayloadM p) = swap_approve_addresses (AtomicSwapClient sg) p"
| "declared_addresses sg r (AtomicSwapExpirePayloadM p) = swap_expire_addresses (AtomicSwapClient sg) p"
| "declared_addresses sg r (AtomicSwapSetSecretLockPayloadM p) = swap_set_secret_lock_addresses (AtomicSwapClient sg) p"
| "declared_addresses sg r (AtomicSwapClosePayloadM p) = swap_close_addresses (AtomicSwapClient sg) p r"
| "declared_addresses sg r _ = Inl NotImplementedError"

text \<open>Sawtooth grants access to the declared addresses and to those below a declared namespace.\<close>

definition covered :: "string list \<Rightarrow> string \<Rightarrow> bool" where
  "covered as a = list_ex (\<lambda>p. a = p \<or> (length p < 70 \<and> startswith a p)) as"

lemma covered_self: "a \<in> set as \<Longrightarrow> covered as a"
  by (auto simp: covered_def list_ex_iff simp del: startswith_code)

lemma covered_block:
  assumes "BLOCK_INFO_NAMESPACE \<in> set as" shows "covered as (create_block_address n)"
proof -
  have "startswith (create_block_address n) BLOCK_INFO_NAMESPACE" "length BLOCK_INFO_NAMESPACE < 70"
    by (simp_all add: create_block_address_def BLOCK_INFO_NAMESPACE_def BLOCK_INFO_NAMESPACE_PREFIX_def)
  with assms show ?thesis unfolding covered_def list_ex_iff by blast
qed

lemma covered_block_addresses:
  assumes "CONFIG_ADDRESS \<in> set as" and "BLOCK_INFO_NAMESPACE \<in> set as" and "a \<in> set (block_addresses P v)"
  shows "covered as a"
  using assms
  by (auto simp: block_addresses_def covered_self covered_block split: option.splits message.splits)

lemmas declared_defs =
  transfer_addresses_def swap_init_addresses_def swap_approve_addresses_def swap_expire_addresses_def
  swap_set_secret_lock_addresses_def swap_close_addresses_def get_user_address_def
  client_make_address_from_data_def with_handler_def AccountClient_def AtomicSwapClient_def

text \<open>The caller of the close transaction names the receiver of the swap.\<close>

definition names_receiver :: "'b pblib \<Rightarrow> (string \<rightharpoonup> 'b) \<Rightarrow> string \<Rightarrow> message \<Rightarrow> bool" where
  "names_receiver P v r m =
     (case m of
        AtomicSwapClosePayloadM cp \<Rightarrow>
          (case swap_at P v (swap_address (close_swap_id cp)) of
             None \<Rightarrow> True | Some si \<Rightarrow> receiver_address si = r)
      | _ \<Rightarrow> True)"

lemma declared_covers_footprint:
  assumes "declared_addresses sg r m = Inr (ins, outs)" and "names_receiver P v r m"
    and "a \<in> set (footprint P v (public_key_hex sg) m)"
  shows "covered ins a"
  using assms
  by (cases m) (auto simp: declared_defs names_receiver_def Let_def covered_self
      intro: covered_block_addresses split: option.splits)

end
