(* ===== verification/KeyFiles.thy ===== *)
theory KeyFiles
  imports Clients
begin

text \<open>
  The key files of the node (\<open>remme/clients/basic.py\<close>): loading the signer, replacing the private key
  and generating a new pair when there is none. A file system maps paths to contents and knows which
  paths cannot be written; \<open>from_hex\<close> is \<open>Secp256k1PrivateKey.from_hex\<close> followed by \<open>new_signer\<close>, with
  the message of a parse error, and \<open>fresh\<close> is the signer of a new random key.
\<close>

record file_system =
  contents :: "string \<rightharpoonup> string"
  read_error :: "string \<Rightarrow> string"  \<comment> \<open>the message of the \<open>OSError\<close> of a read that fails\<close>
  write_error :: "string \<Rightarrow> string option"  \<comment> \<open>the message of the \<open>OSError\<close> of a write\<close>

type_synonym key_loader = "string \<Rightarrow> string + signer"

definition KEY_DIR :: string where
  "KEY_DIR = ''/etc/sawtooth/keys''"

definition PRIV_KEY_FILE :: string where
  "PRIV_KEY_FILE = KEY_DIR @ ''/validator.priv''"

definition PUB_KEY_FILE :: string where
  "PUB_KEY_FILE = KEY_DIR @ ''/validator.pub''"

definition write_file :: "string \<Rightarrow> string \<Rightarrow> file_system \<Rightarrow> (string + file_system)" where
  "write_file path text fs =
     (case write_error fs path of Some m \<Rightarrow> Inl m | None \<Rightarrow> Inr (fs\<lparr>contents := (contents fs)(path \<mapsto> text)\<rparr>))"

definition get_signer_priv_key_from_file :: "key_loader \<Rightarrow> string \<Rightarrow> file_system \<Rightarrow> signer res" where
  "get_signer_priv_key_from_file from_hex keyfile fs =
     (case contents fs keyfile of
        None \<Rightarrow> Inl (ClientException (''Failed to read private key: '' @ read_error fs keyfile))
      | Some text \<Rightarrow>
          (case from_hex (strip text) of
             Inl m \<Rightarrow> Inl (ClientException (''Unable to load private key: '' @ m))
           | Inr sg \<Rightarrow> Inr sg))"

definition set_priv_key_to_file :: "string \<Rightarrow> string option \<Rightarrow> (file_system, unit) ex" where
  "set_priv_key_to_file private_key keyfile fs =
     (case write_file (case keyfile of None \<Rightarrow> PRIV_KEY_FILE | Some f \<Rightarrow> f) private_key fs of
        Inl m \<Rightarrow> (Inl (OtherException m), fs)
      | Inr fs' \<Rightarrow> (Inr (), fs'))"

definition generate_signer :: "signer \<Rightarrow> string \<Rightarrow> string \<Rightarrow> (file_system, signer) ex" where
  "generate_signer fresh keyfile pubkey_file fs =
     (if keyfile = [] then (Inr fresh, fs)
      else (case write_file keyfile (private_key_hex fresh) fs of
              Inl m \<Rightarrow> (Inl (ClientException (''Failed to write private key: '' @ m)), fs)
            | Inr fs1 \<Rightarrow>
                (case write_file pubkey_file (public_key_hex fresh) fs1 of
                   Inl m \<Rightarrow> (Inl (ClientException (''Failed to write private key: '' @ m)), fs1)
                 | Inr fs2 \<Rightarrow> (Inr fresh, fs2))))"

text \<open>\<open>BasicClient.__init__\<close>: the signer of the key file, or else a new one.\<close>

definition load_signer :: "key_loader \<Rightarrow> signer \<Rightarrow> (file_system, signer) ex" where
  "load_signer from_hex fresh fs =
     (case get_signer_priv_key_from_file from_hex PRIV_KEY_FILE fs of
        Inr sg \<Rightarrow> (Inr sg, fs)
      | Inl _ \<Rightarrow> generate_signer fresh PRIV_KEY_FILE PUB_KEY_FILE fs)"

definition BasicClient ::
  "key_loader \<Rightarrow> signer \<Rightarrow> handler option \<Rightarrow> (file_system, client) ex"
where
  "BasicClient from_hex fresh h =
     ebind (load_signer from_hex fresh) (\<lambda>sg. eret \<lparr>client_handler = h, client_signer = sg\<rparr>)"

lemma key_files_differ [simp]: "PRIV_KEY_FILE \<noteq> PUB_KEY_FILE" "PRIV_KEY_FILE \<noteq> []"
  by (simp_all add: PRIV_KEY_FILE_def PUB_KEY_FILE_def KEY_DIR_def)

text \<open>A signer that was generated is the one the next client loads.\<close>

lemma load_after_generate:
  assumes "load_signer from_hex fresh fs = (Inr sg, fs')"
    and "list_all is_hex (private_key_hex fresh)" and "from_hex (private_key_hex fresh) = Inr fresh"
  shows "load_signer from_hex other fs' = (Inr sg, fs')"
  using assms strip_hex [OF assms(2)]
  by (auto simp: load_signer_def generate_signer_def get_signer_priv_key_from_file_def write_file_def
      split: sum.splits option.splits if_splits)

text \<open>A key that was set is the one the next client loads.\<close>

lemma load_after_set:
  assumes "set_priv_key_to_file key None fs = (Inr (), fs')"
    and "list_all is_hex key" and "from_hex key = Inr sg"
  shows "load_signer from_hex fresh fs' = (Inr sg, fs')"
  using assms strip_hex [OF assms(2)]
  by (auto simp: set_priv_key_to_file_def load_signer_def get_signer_priv_key_from_file_def write_file_def
      split: sum.splits option.splits)

end
