(* ===== verification/RpcApi.thy ===== *)
theory RpcApi
  imports KeyFiles
begin

text \<open>
  \<open>remme/rpc_api\<close>: the JSON-RPC methods of the node. A method first validates its parameters against
  a form (\<open>validate_params\<close>) and then calls a client. \<open>api\<close> collects what the methods are run with:
  the parameters of the clients and forms, the parser of the SDK's messages (\<open>api_parse cls bytes\<close>,
  a message being the dictionary of its fields), the node's signer and the clock in microseconds.
\<close>

record 'v api =
  api_lib :: rest_lib
  api_stream :: "'v stream"
  api_pb :: "string pblib"
  api_ser :: serializer
  api_wt :: wtforms
  api_odd_form :: "form_class \<Rightarrow> string list \<Rightarrow> dict \<Rightarrow> (bool \<times> form_errors) res"
  api_parse :: "string \<Rightarrow> string \<Rightarrow> pyval res"
  api_signer :: signer
  api_nonce :: string
  api_now :: int

section \<open>Parameters\<close>

text \<open>
  The parameters are keyword arguments of the form's constructor. Those named like the constructor's
  own arguments are not fields: \<open>data\<close> gives default values of the fields when it is a dictionary and
  is dropped otherwise; \<open>formdata\<close>, \<open>obj\<close>, \<open>prefix\<close> and \<open>meta\<close> change how \<open>wtforms\<close> reads its input and
  are left to the parameter \<open>api_odd_form\<close>; a second \<open>ignore_fields\<close> is a \<open>TypeError\<close>.
\<close>

definition form_values :: "dict \<Rightarrow> dict" where
  "form_values d =
     (let rest = filter (\<lambda>(k, v). k \<noteq> ''data'') d in
      case map_of d ''data'' of Some (PDict dd) \<Rightarrow> dict_update dd rest | _ \<Rightarrow> rest)"

definition validate_kwargs :: "'v api \<Rightarrow> form_class \<Rightarrow> string list \<Rightarrow> dict \<Rightarrow> (bool \<times> form_errors) res" where
  "validate_kwargs A cls ignore d =
     (if ''ignore_fields'' \<in> fst ` set d then Inl TypeError
      else if list_ex (\<lambda>k. k \<in> fst ` set d) [''formdata'', ''obj'', ''prefix'', ''meta''] then api_odd_form A cls ignore d
      else validate_form (api_wt A) cls (form_values d)
             (filter (\<lambda>k. k \<notin> set ignore \<and> k \<noteq> ''data'') (unknown_keys cls d)))"

definition first_error :: "form_errors \<Rightarrow> string res" where
  "first_error errors =
     (case errors of
        [] \<Rightarrow> Inr ''Validation failed''
      | (k, ErrList []) # _ \<Rightarrow> Inr ''Validation failed''
      | (k, ErrList (m # _)) # _ \<Rightarrow> Inr m
      | (k, ErrDict _) # _ \<Rightarrow> Inl KeyError)"

definition validate_params :: "'v api \<Rightarrow> form_class \<Rightarrow> string list \<Rightarrow> pyval \<Rightarrow> dict res" where
  "validate_params A cls ignore params =
     (case params of
        PDict d \<Rightarrow>
          rbind (validate_kwargs A cls ignore d)
            (\<lambda>(ok, errors).
              if ok then Inr d
              else rbind (first_error errors) (\<lambda>m. Inl (RpcInvalidParamsError m)))
      | _ \<Rightarrow> Inl TypeError)"

definition rpc_method ::
  "'v api \<Rightarrow> form_class \<Rightarrow> string list \<Rightarrow> (dict \<Rightarrow> ('s, pyval) ex) \<Rightarrow> pyval \<Rightarrow> ('s, pyval) ex"
where
  "rpc_method A cls ignore body params = ebind (elift (validate_params A cls ignore params)) body"

definition param :: "dict \<Rightarrow> string \<Rightarrow> string res" where
  "param d k = rbind (dict_lookup d k) str_of"

text \<open>\<open>except KeyNotFound: raise KeyNotFound(m)\<close>\<close>

definition rename_not_found :: "('v, 'a) ex \<Rightarrow> string \<Rightarrow> ('v, 'a) ex" where
  "rename_not_found m text = ecatch m (\<lambda>e. case e of KeyNotFound _ \<Rightarrow> eraise (KeyNotFound text) | _ \<Rightarrow> eraise e)"

definition quoted :: "string \<Rightarrow> string" where
  "quoted s = [CHR 0x22] @ s @ [CHR 0x22]"

section \<open>Accounts and swaps\<close>

definition rpc_get_balance :: "'v api \<Rightarrow> pyval \<Rightarrow> ('v, pyval) ex" where
  "rpc_get_balance A =
     rpc_method A (AddressForm ''public_key_address'') [] (\<lambda>d.
       ebind (elift (param d ''public_key_address'')) (\<lambda>address.
       ebind (get_balance (api_lib A) (api_stream A) (api_pb A) address) (\<lambda>n. eret (PInt n))))"

definition rpc_get_public_keys_list :: "'v api \<Rightarrow> pyval \<Rightarrow> ('v, pyval) ex" where
  "rpc_get_public_keys_list A =
     rpc_method A (AddressForm ''public_key_address'') [] (\<lambda>d.
       ebind (elift (param d ''public_key_address'')) (\<lambda>address.
       ebind (get_pub_keys (api_lib A) (api_stream A) (api_pb A) address) (\<lambda>ks. eret (PList (map PStr ks)))))"

definition rpc_get_atomic_swap_info :: "'v api \<Rightarrow> pyval \<Rightarrow> ('v, pyval) ex" where
  "rpc_get_atomic_swap_info A =
     rpc_method A AtomicSwapForm [] (\<lambda>d.
       ebind (elift (param d ''swap_id'')) (\<lambda>sid.
       ebind (rename_not_found
                (swap_get (api_lib A) (api_stream A) (api_pb A) (AtomicSwapClient (api_signer A)) sid)
                (''Atomic swap with id '' @ quoted sid @ '' not found''))
         (\<lambda>si. eret (PDict (MessageToDict (api_pb A) (AtomicSwapInfoM si))))))"

definition rpc_get_atomic_swap_public_key :: "'v api \<Rightarrow> pyval \<Rightarrow> ('v, pyval) ex" where
  "rpc_get_atomic_swap_public_key A =
     rpc_method A ProtoForm [] (\<lambda>d.
       ebind (rename_not_found (get_pub_key_encryption (api_lib A) (api_stream A) (api_pb A))
                ''Public key for atomic swap not set'')
         (\<lambda>k. eret (PStr k)))"

section \<open>Blocks and state\<close>

definition rpc_get_block_number :: "'v api \<Rightarrow> pyval \<Rightarrow> ('v, pyval) ex" where
  "rpc_get_block_number A =
     rpc_method A ProtoForm [] (\<lambda>d.
       or_not_found
         (ebind (get_block_info_config (api_lib A) (api_stream A) (api_pb A)) (\<lambda>cfg. eret (PInt (latest_block cfg + 1))))
         (PInt 0))"

definition int_param :: "dict \<Rightarrow> string \<Rightarrow> int res" where
  "int_param d k =
     (case map_of d k of
        None \<Rightarrow> Inr 0
      | Some v \<Rightarrow> if \<not> truthy v then Inr 0
                  else (case v of PInt n \<Rightarrow> Inr n | PBool b \<Rightarrow> Inr 1 | _ \<Rightarrow> Inl TypeError))"

definition rpc_get_blocks :: "'v api \<Rightarrow> pyval \<Rightarrow> ('v, pyval) ex" where
  "rpc_get_blocks A =
     rpc_method A ProtoForm [''start'', ''limit''] (\<lambda>d.
       ebind (elift (int_param d ''start'')) (\<lambda>start.
       ebind (elift (int_param d ''limit'')) (\<lambda>limit.
       ebind (rename_not_found (get_blocks_info (api_lib A) (api_stream A) (api_pb A) start limit) ''Blocks not found'')
         (\<lambda>bs. eret (PList (map PDict bs))))))"

definition rpc_list_blocks :: "'v api \<Rightarrow> pyval \<Rightarrow> ('v, pyval) ex" where
  "rpc_list_blocks A =
     rpc_method A ProtoForm [''address'', ''start'', ''limit'', ''head'', ''reverse''] (\<lambda>d.
       ebind (router_list_blocks (api_lib A) (api_stream A) (dict_get d ''ids'') (dict_get d ''start'')
                (dict_get d ''limit'') (dict_get d ''head'') (dict_get d ''reverse''))
         (\<lambda>r. eret (PDict r)))"

definition rpc_fetch_block :: "'v api \<Rightarrow> pyval \<Rightarrow> ('v, pyval) ex" where
  "rpc_fetch_block A =
     rpc_method A IdentifierForm [] (\<lambda>d.
       ebind (elift (param d ''id'')) (\<lambda>ident.
       ebind (rename_not_found (router_fetch_block (api_lib A) (api_stream A) (PStr ident))
                (''Block with id '' @ quoted ident @ '' not found''))
         (\<lambda>r. eret (PDict r))))"

definition rpc_list_state :: "'v api \<Rightarrow> pyval \<Rightarrow> ('v, pyval) ex" where
  "rpc_list_state A =
     rpc_method A ProtoForm [''address'', ''start'', ''limit'', ''head'', ''reverse''] (\<lambda>d.
       ebind (router_list_state (api_lib A) (api_stream A) (dict_get d ''address'') (dict_get d ''start'')
                (dict_get d ''limit'') (dict_get d ''head'') (dict_get d ''reverse''))
         (\<lambda>r. eret (PDict r)))"

text \<open>The message of this method prints the built-in function \<open>id\<close>, not an identifier.\<close>

definition rpc_fetch_state :: "'v api \<Rightarrow> pyval \<Rightarrow> ('v, pyval) ex" where
  "rpc_fetch_state A =
     rpc_method A (AddressForm ''address'') [''head''] (\<lambda>d.
       ebind (elift (dict_lookup d ''address'')) (\<lambda>address.
       ebind (rename_not_found (router_fetch_state (api_lib A) (api_stream A) address (dict_get d ''head''))
                (''Block with id '' @ quoted ''<built-in function id>'' @ '' not found''))
         (\<lambda>r. eret (PDict r))))"

section \<open>Public keys, the node and its key\<close>

text \<open>\<open>bytes.decode('utf-8')\<close> raises on byte sequences that are not well-formed UTF-8.\<close>

abbreviation byte :: "char \<Rightarrow> nat" where
  "byte c \<equiv> of_char c"

definition tail_byte :: "nat \<Rightarrow> nat \<Rightarrow> char \<Rightarrow> bool" where
  "tail_byte lo hi c \<longleftrightarrow> lo \<le> byte c \<and> byte c \<le> hi"

fun utf8_valid :: "string \<Rightarrow> bool" where
  "utf8_valid [] = True"
| "utf8_valid (a # s) =
     (let n = byte a in
      if n < 128 then utf8_valid s
      else if 0xC2 \<le> n \<and> n \<le> 0xDF then
        (case s of b # t \<Rightarrow> tail_byte 0x80 0xBF b \<and> utf8_valid t | _ \<Rightarrow> False)
      else if 0xE0 \<le> n \<and> n \<le> 0xEF then
        (case s of b # c # t \<Rightarrow>
             tail_byte (if n = 0xE0 then 0xA0 else 0x80) (if n = 0xED then 0x9F else 0xBF) b
             \<and> tail_byte 0x80 0xBF c \<and> utf8_valid t | _ \<Rightarrow> False)
      else if 0xF0 \<le> n \<and> n \<le> 0xF4 then
        (case s of b # c # d # t \<Rightarrow>
             tail_byte (if n = 0xF0 then 0x90 else 0x80) (if n = 0xF4 then 0x8F else 0xBF) b
             \<and> tail_byte 0x80 0xBF c \<and> tail_byte 0x80 0xBF d \<and> utf8_valid t | _ \<Rightarrow> False)
      else False)"

definition utf8_decode :: "string \<Rightarrow> string res" where
  "utf8_decode s = (if utf8_valid s then Inr s else Inl (OtherException ''UnicodeDecodeError''))"

text \<open>\<open>payload.ByteSize() == 0\<close>: every field has its default value.\<close>

definition empty_payload :: "NewPubKeyPayload \<Rightarrow> bool" where
  "empty_payload p \<longleftrightarrow> hashing_algorithm p = 0 \<and> entity_hash p = [] \<and> entity_hash_signature p = [] \<and>
     valid_from p = 0 \<and> valid_to p = 0 \<and> which_configuration p = None"

fun conf_name :: "configuration \<Rightarrow> string" where
  "conf_name (RSAConfiguration k p) = ''rsa''"
| "conf_name (ECDSAConfiguration k e) = ''ecdsa''"
| "conf_name (Ed25519Configuration k) = ''ed25519''"

definition is_valid_at :: "PubKeyStorage \<Rightarrow> int \<Rightarrow> bool" where
  "is_valid_at info now_us \<longleftrightarrow> \<not> is_revoked info \<and> valid_from (payload info) * 1000000 < now_us \<and>
     now_us < valid_to (payload info) * 1000000"

definition public_key_info :: "int \<Rightarrow> PubKeyStorage \<Rightarrow> pyval res" where
  "public_key_info now_us info =
     (if empty_payload (payload info) then Inl (KeyNotFound [])
      else (case which_configuration (payload info) of
              None \<Rightarrow> Inl TypeError
            | Some cf \<Rightarrow>
                rbind (utf8_decode (entity_hash (payload info))) (\<lambda>eh.
                Inr (PDict
                  [(''is_revoked'', PBool (is_revoked info)),
                   (''owner_public_key'', PStr (owner info)),
                   (''type'', PStr (conf_name cf)),
                   (''is_valid'', PBool (is_valid_at info now_us)),
                   (''valid_from'', PInt (valid_from (payload info))),
                   (''valid_to'', PInt (valid_to (payload info))),
                   (''public_key'', PStr (bytes_hex (config_key cf))),
                   (''entity_hash'', PStr eh),
                   (''entity_hash_signature'', PStr (bytes_hex (entity_hash_signature (payload info))))]))))"

definition rpc_get_public_key_info :: "'v api \<Rightarrow> pyval \<Rightarrow> ('v, pyval) ex" where
  "rpc_get_public_key_info A =
     rpc_method A (AddressForm ''public_key_address'') [] (\<lambda>d.
       ebind (elift (param d ''public_key_address'')) (\<lambda>address.
         rename_not_found
           (ebind (get_status (api_lib A) (api_stream A) (api_pb A) address)
             (\<lambda>info. elift (public_key_info (api_now A) info)))
           ''Public key info not found''))"

definition rpc_get_node_config :: "'v api \<Rightarrow> pyval \<Rightarrow> ('v, pyval) ex" where
  "rpc_get_node_config A =
     rpc_method A ProtoForm [] (\<lambda>d.
       eret (PDict [(''node_public_key'', PStr (get_public_key_of (PubKeyClient (api_signer A))))]))"

definition rpc_get_node_info :: "'v api \<Rightarrow> pyval \<Rightarrow> ('v, pyval) ex" where
  "rpc_get_node_info A =
     rpc_method A ProtoForm [] (\<lambda>d.
       ebind (router_fetch_peers (api_lib A) (api_stream A)) (\<lambda>data.
         elift (rbind (dict_lookup data ''data'') (\<lambda>v. rbind (as_list v) (\<lambda>peers.
           Inr (PDict [(''is_synced'', PBool True), (''peer_count'', PInt (int (length peers)))]))))))"

definition rpc_fetch_peers :: "'v api \<Rightarrow> pyval \<Rightarrow> ('v, pyval) ex" where
  "rpc_fetch_peers A =
     rpc_method A ProtoForm [] (\<lambda>d.
       ebind (router_fetch_peers (api_lib A) (api_stream A)) (\<lambda>r. eret (PDict r)))"

definition rpc_set_node_key :: "'v api \<Rightarrow> pyval \<Rightarrow> (file_system, pyval) ex" where
  "rpc_set_node_key A =
     rpc_method A NodePKForm [] (\<lambda>d.
       ebind (elift (param d ''private_key'')) (\<lambda>private_key.
       ebind (set_priv_key_to_file private_key None) (\<lambda>_. eret (PBool True))))"

definition rpc_export_node_key :: "'v api \<Rightarrow> pyval \<Rightarrow> ('v, pyval) ex" where
  "rpc_export_node_key A =
     rpc_method A ProtoForm [] (\<lambda>d. eret (PStr (get_private_key_of (PubKeyClient (api_signer A)))))"

section \<open>Transactions\<close>

definition server_error :: "string \<Rightarrow> exc" where
  "server_error m = RpcGenericServerDefinedError (-32050) m"

definition rpc_send_tokens :: "'v api \<Rightarrow> pyval \<Rightarrow> ('v, pyval) ex" where
  "rpc_send_tokens A =
     rpc_method A ProtoForm [] (\<lambda>d.
       let c = AccountClient (api_signer A) in
       ebind (elift (case map_of d ''amount'' of None \<Rightarrow> Inl (RpcInvalidParamsError ''Missed amount'') | Some v \<Rightarrow> Inr v)) (\<lambda>amt.
       ebind (elift (case map_of d ''public_key_to'' of
                       None \<Rightarrow> Inl (RpcInvalidParamsError ''Missed public_key_to'') | Some v \<Rightarrow> Inr v)) (\<lambda>key_to.
       ebind (elift (get_signer_address c)) (\<lambda>sa.
       ebind (get_account (api_lib A) (api_stream A) (api_pb A) sa) (\<lambda>signer_account.
       if \<not> truthy amt then eraise (server_error ''Could not transfer with zero amount'')
       else ebind (elift (case amt of PInt n \<Rightarrow> Inr n | PBool b \<Rightarrow> Inr 1 | _ \<Rightarrow> Inl TypeError)) (\<lambda>n.
       if balance signer_account < n then eraise (server_error ''Not enough transferable balance of sender'')
       else
       ebind (elift (rbind (str_of key_to) (client_make_address_from_data c))) (\<lambda>to_address.
       ebind (client_transfer (api_lib A) (api_stream A) (api_ser A) (api_pb A) c (api_nonce A) to_address n)
         (\<lambda>result. elift (dict_lookup result ''data'')))))))))"

text \<open>
  \<open>_get_proto_validator\<close>: the loaded form of the payload, or \<open>None\<close> when the method is unknown or its
  payload does not parse.
\<close>

definition get_proto_validator ::
  "'b pblib \<Rightarrow> ('c, 'b) state_processor \<Rightarrow> int \<times> 'b \<Rightarrow> (pb_class \<times> form) option res"
where
  "get_proto_validator P sp tr_payload =
     (case map_of sp (fst tr_payload) of
        None \<Rightarrow> Inr None
      | Some en \<Rightarrow>
          (case ParseFromString P (pb_class_of en) (snd tr_payload) of
             Inl e \<Rightarrow> if e = DecodeError then Inr None else Inl e
           | Inr data_pb \<Rightarrow>
               rbind (load_proto P (validator_of en) data_pb) (\<lambda>f. Inr (Some (class_of data_pb, f)))))"

definition check_payload ::
  "'b pblib \<Rightarrow> wtforms \<Rightarrow> ('c, 'b) state_processor \<Rightarrow> int \<times> 'b \<Rightarrow> unit res"
where
  "check_payload P wt sp tr_payload =
     rbind (get_proto_validator P sp tr_payload) (\<lambda>v.
       case v of
         None \<Rightarrow> Inr ()
       | Some (cls, f) \<Rightarrow>
           rbind (validate wt f []) (\<lambda>(ok, errors).
             if ok then Inr () else Inl (server_error (''Invalid '' @ quoted (class_name cls) @ '' structure''))))"

text \<open>\<open>TP_HANDLERS\<close>\<close>

definition TP_HANDLERS :: "(string \<times> family) list" where
  "TP_HANDLERS = map (\<lambda>f. (family_name (family_handler f), f)) [AccountFamily, PubKeyFamily, AtomicSwapFamily]"

definition signer_key_ok :: "string \<Rightarrow> bool" where
  "signer_key_ok k \<longleftrightarrow> \<not> (take 2 k \<in> {''02'', ''03''} \<and> length (drop 2 k) \<noteq> 64)"

definition on_error :: "'a res \<Rightarrow> (exc \<Rightarrow> bool) \<Rightarrow> exc \<Rightarrow> 'a res" where
  "on_error r catches e' = (case r of Inl e \<Rightarrow> Inl (if catches e then e' else e) | Inr x \<Rightarrow> Inr x)"

definition decode_raw_transaction ::
  "'v api \<Rightarrow> (family \<Rightarrow> ('c, string) state_processor) \<Rightarrow> dict \<Rightarrow> pyval res"
where
  "decode_raw_transaction A tables d =
     rbind (on_error (dict_lookup d ''data'') (\<lambda>e. True) (RpcInvalidParamsError ''Missed data'')) (\<lambda>data.
     rbind (on_error (rbind (str_of data) b64decode) (\<lambda>e. True) (server_error ''Decode payload of tranasaction failed'')) (\<lambda>bytes.
     rbind (on_error (api_parse A ''Transaction'' bytes) (\<lambda>e. e = DecodeError) (server_error ''Failed to parse transaction proto'')) (\<lambda>tr_pb.
     rbind (rbind (attr tr_pb ''header'') str_of) (\<lambda>header.
     rbind (on_error (api_parse A ''TransactionHeader'' header) (\<lambda>e. e = DecodeError)
              (server_error ''Failed to parse transaction head proto'')) (\<lambda>tr_head_pb.
     rbind (rbind (attr tr_pb ''payload'') str_of) (\<lambda>pl.
     rbind (on_error (Parse_TransactionPayload (api_pb A) pl) (\<lambda>e. e = DecodeError)
              (server_error ''Failed to parse transaction payload proto'')) (\<lambda>tr_payload_pb.
     rbind (rbind (attr tr_head_pb ''signer_public_key'') str_of) (\<lambda>key.
     if \<not> signer_key_ok key then Inl (server_error ''Signer public key format is not valid'')
     else
     rbind (rbind (attr tr_head_pb ''family_name'') str_of) (\<lambda>fam.
     case map_of TP_HANDLERS fam of
       None \<Rightarrow> Inl (server_error ''Validation handler not set for this method'')
     | Some f \<Rightarrow>
         rbind (check_payload (api_pb A) (api_wt A) (tables f) tr_payload_pb) (\<lambda>_. Inr tr_pb))))))))))"

definition rpc_send_raw_transaction ::
  "'v api \<Rightarrow> (family \<Rightarrow> ('c, string) state_processor) \<Rightarrow> pyval \<Rightarrow> ('v, pyval) ex"
where
  "rpc_send_raw_transaction A tables =
     rpc_method A ProtoForm [] (\<lambda>d.
       ebind (elift (decode_raw_transaction A tables d)) (\<lambda>tr_pb.
       ebind (client_send_raw_transaction (api_lib A) (api_stream A) (api_ser A) (PubKeyClient (api_signer A)) tr_pb)
         (\<lambda>response. elift (dict_lookup response ''data''))))"

definition rpc_list_receipts :: "'v api \<Rightarrow> pyval \<Rightarrow> ('v, pyval) ex" where
  "rpc_list_receipts A =
     rpc_method A IdentifiersForm [] (\<lambda>d.
       ebind (elift (dict_lookup d ''ids'')) (\<lambda>ids.
       ebind (ecatch (router_list_receipts (api_lib A) (api_stream A) ids)
                (\<lambda>e. case e of KeyNotFound _ \<Rightarrow>
                       eraise (KeyNotFound (''Transactions with ids '' @ quoted (py_str_of ids) @ '' not found'')) | _ \<Rightarrow> eraise e))
         (\<lambda>r. eret (PDict r))))"

definition rpc_list_batches :: "'v api \<Rightarrow> pyval \<Rightarrow> ('v, pyval) ex" where
  "rpc_list_batches A =
     rpc_method A ProtoForm [''ids'', ''start'', ''limit'', ''head'', ''reverse''] (\<lambda>d.
       ebind (router_list_batches (api_lib A) (api_stream A) (dict_get d ''ids'') (dict_get d ''start'')
                (dict_get d ''limit'') (dict_get d ''head'') (dict_get d ''reverse''))
         (\<lambda>r. eret (PDict r)))"

definition rpc_fetch_batch :: "'v api \<Rightarrow> pyval \<Rightarrow> ('v, pyval) ex" where
  "rpc_fetch_batch A =
     rpc_method A IdentifierForm [] (\<lambda>d.
       ebind (elift (param d ''id'')) (\<lambda>ident.
       ebind (rename_not_found (router_fetch_batch (api_lib A) (api_stream A) (PStr ident))
                (''Batch with id '' @ quoted ident @ '' not found''))
         (\<lambda>r. eret (PDict r))))"

definition rpc_get_batch_status :: "'v api \<Rightarrow> pyval \<Rightarrow> ('v, pyval) ex" where
  "rpc_get_batch_status A =
     rpc_method A IdentifierForm [] (\<lambda>d.
       ebind (elift (dict_lookup d ''id'')) (get_batch_status (api_lib A) (api_stream A)))"

definition rpc_list_transactions :: "'v api \<Rightarrow> pyval \<Rightarrow> ('v, pyval) ex" where
  "rpc_list_transactions A =
     rpc_method A ProtoForm [''ids'', ''start'', ''limit'', ''head'', ''reverse'', ''family_name''] (\<lambda>d.
       ebind (router_list_transactions (api_lib A) (api_stream A) (dict_get d ''ids'') (dict_get d ''start'')
                (dict_get d ''limit'') (dict_get d ''head'') (dict_get d ''reverse'') (dict_get d ''family_name''))
         (\<lambda>r. eret (PDict r)))"

definition rpc_fetch_transaction :: "'v api \<Rightarrow> pyval \<Rightarrow> ('v, pyval) ex" where
  "rpc_fetch_transaction A =
     rpc_method A IdentifierForm [] (\<lambda>d.
       ebind (elift (param d ''id'')) (\<lambda>ident.
       ebind (rename_not_found (router_fetch_transaction (api_lib A) (api_stream A) (PStr ident))
                (''Transaction with id '' @ quoted ident @ '' not found''))
         (\<lambda>r. eret (PDict r))))"

section \<open>Parameters that are not fields\<close>

lemma form_values_no_data: "''data'' \<notin> fst ` set d \<Longrightarrow> form_values d = d"
  by (force simp: form_values_def map_of_eq_None_iff [THEN iffD2] intro!: filter_True)

text \<open>A method whose form has no fields accepts exactly the parameters it ignores, and \<open>data\<close>.\<close>

lemma rpc_unknown_parameter:
  assumes "k \<in> fst ` set d" and "k \<notin> set ignore" and "k \<noteq> ''data''"
    and "fst ` set d \<inter> {''ignore_fields'', ''formdata'', ''obj'', ''prefix'', ''meta''} = {}"
  shows "\<exists>m. rpc_method A ProtoForm ignore body (PDict d) v = (Inl (RpcInvalidParamsError m), v)"
proof -
  let ?wrong = "filter (\<lambda>k. k \<notin> set ignore \<and> k \<noteq> ''data'') (unknown_keys ProtoForm d)"
  from assms(1-3) have w: "?wrong \<noteq> []" by (force simp: unknown_keys_def filter_empty_conv)
  have "validate_kwargs A ProtoForm ignore d = Inr (False, wrong_keys_error ?wrong)"
    using assms(4) w by (auto simp: validate_kwargs_def validate_form.simps post_validate_def list_ex_iff)
  then show ?thesis
    by (simp add: rpc_method_def validate_params_def wrong_keys_error_def first_error_def ebind_def)
qed

section \<open>Agreement with the transaction processor\<close>

text \<open>
  The check before a submission against the decoding in the transaction processor: a transaction
  that decodes passes the check, and the check is as strict as the decoding for known methods
  whose payload parses.
\<close>

lemma check_payload_decode:
  assumes "Parse_TransactionPayload P (req_payload tr) = Inr pl"
    and "decode_request P wt sp tr = Inr x"
  shows "check_payload P wt sp pl = Inr ()"
  using assms
  by (cases pl) (auto simp: decode_request_def check_payload_def get_proto_validator_def Let_def res_simps
      split: option.splits sum.splits if_splits)

lemma check_payload_strict:
  assumes "Parse_TransactionPayload P (req_payload tr) = Inr (meth, data)"
    and "check_payload P wt sp (meth, data) = Inr ()"
    and "map_of sp meth = Some en" and "ParseFromString P (pb_class_of en) data = Inr m"
  shows "decode_request P wt sp tr = Inr (en, m)"
  using assms
  by (auto simp: decode_request_def check_payload_def get_proto_validator_def Let_def res_simps
      split: if_splits)

section \<open>Addresses as parameters\<close>

lemma is_hex_not_space: "is_hex c \<Longrightarrow> \<not> is_space c"
  using is_hex_not_special by blast

lemma re_match_hex_present:
  assumes "re_match_hex n s" and "0 < n" shows "strip s \<noteq> []"
proof
  assume e: "strip s = []"
  from assms obtain c cs where s: "s = c # cs" "is_hex c"
    by (cases s) (auto simp: re_match_hex_def take_Cons split: nat.splits)
  then have "rev (dropWhile is_space s) = rev cs @ [c]" by (simp add: is_hex_not_space)
  with e have "dropWhile is_space (rev cs @ [c]) = []" by (simp add: strip_def)
  then show False using s(2) is_hex_not_space by (auto simp: dropWhile_eq_Nil_conv)
qed

lemma address_form:
  assumes "wt_documented wt"
  shows "validate_form wt (AddressForm k) [(k, PStr a)] [] =
    Inr (if re_match_hex 70 a then (True, [])
         else (False, [(k, ErrList [if strip a = [] then ''Missed address''
                                    else ''Address is not of a blockchain token type.''])]))"
  using assms re_match_hex_present [of 70 a]
  by (auto simp: validate_form.simps form_fields_defs AddressField_def wt_documented_def field_data_def
      collect_errors_def post_validate_def)

lemma address_params:
  assumes "wt_documented (api_wt A)" and "k \<notin> {''ignore_fields'', ''formdata'', ''obj'', ''prefix'', ''meta'', ''data''}"
  shows "validate_params A (AddressForm k) [] (PDict [(k, PStr a)]) =
    (if re_match_hex 70 a then Inr [(k, PStr a)]
     else Inl (RpcInvalidParamsError (if strip a = [] then ''Missed address''
                                      else ''Address is not of a blockchain token type.'')))"
proof -
  have "validate_kwargs A (AddressForm k) [] [(k, PStr a)] = validate_form (api_wt A) (AddressForm k) [(k, PStr a)] []"
    using assms(2) by (auto simp: validate_kwargs_def form_values_no_data unknown_keys_def form_fields_defs)
  with address_form [OF assms(1), of k a] show ?thesis
    by (simp add: validate_params_def first_error_def)
qed

end
