(* ===== verification/EventHandlers.thy ===== *)
theory EventHandlers
  imports Clients
begin

text \<open>
  \<open>remme/rpc_api/event/_handlers.py\<close>: the four kinds of events a websocket client can subscribe to.
  A handler checks the parameters of a subscription, extracts the state an event of the validator
  carries, turns it into the response for a subscriber, or nothing when it does not concern them,
  and names the part of the response that tells two notifications apart.
\<close>

datatype event_handler = BlockEventHandler | BatchEventHandler | TransferEventHandler | AtomicSwapEventHandler

fun NAME :: "event_handler \<Rightarrow> string" where
  "NAME BlockEventHandler = ''blocks''"
| "NAME BatchEventHandler = ''batch''"
| "NAME TransferEventHandler = ''transfer''"
| "NAME AtomicSwapEventHandler = ''atomic_swap''"

fun EVENTS :: "event_handler \<Rightarrow> string list" where
  "EVENTS BlockEventHandler = [event_value SAWTOOTH_BLOCK_COMMIT]"
| "EVENTS BatchEventHandler = [event_value REMME_BATCH_DELTA]"
| "EVENTS TransferEventHandler = [event_value ACCOUNT_TRANSFER]"
| "EVENTS AtomicSwapEventHandler =
     [event_value SWAP_INIT, event_value SWAP_CLOSE, event_value SWAP_APPROVE, event_value SWAP_EXPIRE,
      event_value SWAP_SET_SECRET_LOCK, event_value SAWTOOTH_BLOCK_COMMIT]"

text \<open>\<open>EVENT_HANDLERS\<close> in the order in which the classes register themselves.\<close>

definition EVENT_HANDLERS :: "(string \<times> event_handler) list" where
  "EVENT_HANDLERS =
     map (\<lambda>h. (NAME h, h)) [BlockEventHandler, BatchEventHandler, TransferEventHandler, AtomicSwapEventHandler]"

text \<open>
  \<open>SAWTOOTH_TO_REMME_EVENT\<close>: the handlers of each event of the validator. The sets of names are
  lists here, in the order in which the names are added.
\<close>

definition add_event_name :: "string \<Rightarrow> (string \<times> string list) list \<Rightarrow> string \<Rightarrow> (string \<times> string list) list" where
  "add_event_name name table evt_type =
     (case map_of table evt_type of
        Some names \<Rightarrow> AList.update evt_type (if name \<in> set names then names else names @ [name]) table
      | None \<Rightarrow> AList.update evt_type [name] table)"

definition SAWTOOTH_TO_REMME_EVENT :: "(string \<times> string list) list" where
  "SAWTOOTH_TO_REMME_EVENT =
     foldl (\<lambda>table (name, h). foldl (add_event_name name) table (EVENTS h)) [] EVENT_HANDLERS"

section \<open>Subscriptions\<close>

fun hash_keys :: "event_handler \<Rightarrow> string list" where
  "hash_keys BlockEventHandler = [''id'']"
| "hash_keys BatchEventHandler = [''id'', ''status'']"
| "hash_keys TransferEventHandler = [''from'', ''to'']"
| "hash_keys AtomicSwapEventHandler = [''swap_id'', ''state'']"

text \<open>\<open>regexp.match(v)\<close> of a value\<close>

definition match_hex :: "nat \<Rightarrow> pyval \<Rightarrow> bool res" where
  "match_hex n v = (case v of PStr s \<Rightarrow> Inr (re_match_hex n s) | _ \<Rightarrow> Inl TypeError)"

definition required_id :: "string \<Rightarrow> string \<Rightarrow> nat \<Rightarrow> string \<Rightarrow> dict \<Rightarrow> dict res" where
  "required_id key missed n incorrect params =
     (case map_of params key of
        None \<Rightarrow> Inl (RpcInvalidParamsError missed)
      | Some v \<Rightarrow>
          rbind (match_hex n v)
            (\<lambda>ok. if ok then Inr [(key, v)] else Inl (RpcInvalidParamsError incorrect)))"

definition is_str :: "pyval \<Rightarrow> bool" where
  "is_str v = (case v of PStr _ \<Rightarrow> True | _ \<Rightarrow> False)"

definition validate_swap_params :: "dict \<Rightarrow> dict res" where
  "validate_swap_params params =
     (let from_block = dict_get params ''from_block''; sid = dict_get params ''id'' in
      if truthy from_block \<and> \<not> is_str from_block then
        Inl (ClientException (''Invalid '' @ [CHR 0x22] @ ''from_block'' @ [CHR 0x22] @ '' type''))
      else rbind (if truthy from_block then match_hex 128 from_block else Inr True) (\<lambda>ok1.
        if \<not> ok1 then Inl (RpcInvalidParamsError ''Incorrect atomic swap from block identifier.'')
        else rbind (if truthy sid then match_hex 64 sid else Inr True) (\<lambda>ok2.
          if \<not> ok2 then Inl (RpcInvalidParamsError ''Incorrect atomic swap identifier.'')
          else Inr [(''from_block'', from_block), (''id'', sid)])))"

fun validate_event_params :: "event_handler \<Rightarrow> dict \<Rightarrow> dict res" where
  "validate_event_params BlockEventHandler params = Inr []"
| "validate_event_params BatchEventHandler params =
     required_id ''id'' ''Missed id'' 128 ''Incorrect batch identifier.'' params"
| "validate_event_params TransferEventHandler params =
     required_id ''address'' ''Missed address'' 70 ''Incorrect transfer address.'' params"
| "validate_event_params AtomicSwapEventHandler params = validate_swap_params params"

section \<open>Events\<close>

text \<open>The attributes of an event, a list of dictionaries with the keys \<open>key\<close> and \<open>value\<close>.\<close>

definition attributes_of :: "dict \<Rightarrow> dict list res" where
  "attributes_of evt = rbind (dict_lookup evt ''attributes'') (\<lambda>v. rbind (as_list v) (rmap as_dict))"

definition key_name :: "pyval \<Rightarrow> string res" where
  "key_name v = (case v of PStr s \<Rightarrow> Inr s | _ \<Rightarrow> Inl TypeError)"

fun block_attributes :: "dict list \<Rightarrow> dict \<Rightarrow> dict res" where
  "block_attributes [] parsed = Inr parsed"
| "block_attributes (a # as) parsed =
     (if dict_get a ''key'' = PNone then block_attributes as parsed
      else rbind (key_name (dict_get a ''key''))
        (\<lambda>k. block_attributes as (AList.update k (dict_get a ''value'') parsed)))"

definition batch_attribute :: "dict \<Rightarrow> (string \<times> pyval) res" where
  "batch_attribute a =
     rbind (rbind (dict_lookup a ''key'') key_name) (\<lambda>k. rbind (dict_lookup a ''value'') (\<lambda>v. Inr (k, v)))"

fun find_entities :: "dict list \<Rightarrow> pyval option res" where
  "find_entities [] = Inr None"
| "find_entities (a # as) =
     rbind (dict_lookup a ''key'') (\<lambda>k.
       if k = PStr ''entities_changed'' then rbind (dict_lookup a ''value'') (\<lambda>v. Inr (Some v))
       else find_entities as)"

definition parse_entities :: "dict \<Rightarrow> pyval res" where
  "parse_entities evt =
     rbind (attributes_of evt) (\<lambda>as. rbind (find_entities as) (\<lambda>r.
       case r of
         None \<Rightarrow> Inr PNone
       | Some (PStr s) \<Rightarrow> json_loads s
       | Some _ \<Rightarrow> Inl TypeError))"

fun parse_evt :: "event_handler \<Rightarrow> dict \<Rightarrow> pyval res" where
  "parse_evt BlockEventHandler evt =
     rbind (attributes_of evt) (\<lambda>as. rbind (block_attributes as []) (\<lambda>d. Inr (PDict d)))"
| "parse_evt BatchEventHandler evt =
     rbind (attributes_of evt) (\<lambda>as. rbind (rmap batch_attribute as) (\<lambda>kvs. Inr (PDict (dict_literal kvs))))"
| "parse_evt TransferEventHandler evt = parse_entities evt"
| "parse_evt AtomicSwapEventHandler evt = parse_entities evt"

section \<open>Responses\<close>

text \<open>\<open>float(v)\<close>: a whole number is rounded to 53 bits, ties to even.\<close>

fun bit_length :: "nat \<Rightarrow> nat" where
  "bit_length n = (if n = 0 then 0 else Suc (bit_length (n div 2)))"

declare bit_length.simps [simp del]

definition round53 :: "int \<Rightarrow> int" where
  "round53 n =
     (if \<bar>n\<bar> \<le> 2 ^ 53 then n
      else (let m = nat \<bar>n\<bar>; k = bit_length m - 53; q = m div 2 ^ k; r = m mod 2 ^ k; h = 2 ^ (k - 1);
                q' = (if r > h \<or> (r = h \<and> odd q) then q + 1 else q)
            in (if n < 0 then - 1 else 1) * int (q' * 2 ^ k)))"

definition py_float :: "pyval \<Rightarrow> pyval res" where
  "py_float v =
     (case v of
        PStr s \<Rightarrow> rbind (py_int 10 s) (\<lambda>n. Inr (PFloat (round53 n)))
      | PInt n \<Rightarrow> Inr (PFloat (round53 n))
      | PBool b \<Rightarrow> Inr (PFloat (if b then 1 else 0))
      | PFloat n \<Rightarrow> Inr (PFloat n)
      | _ \<Rightarrow> Inl TypeError)"

definition account_response :: "pyval \<Rightarrow> pyval res" where
  "account_response acc =
     rbind (item acc ''address'') (\<lambda>a. rbind (item acc ''balance'') (\<lambda>b. rbind (py_float b) (\<lambda>f.
       Inr (PDict [(''address'', a), (''balance'', f)]))))"

definition transfer_response :: "pyval \<Rightarrow> dict \<Rightarrow> pyval res" where
  "transfer_response st validated =
     rbind (nth_item st 0) (\<lambda>sender. rbind (nth_item st 1) (\<lambda>receiver.
     rbind (item sender ''address'') (\<lambda>sa. rbind (dict_lookup validated ''address'') (\<lambda>watched.
     rbind (item receiver ''address'') (\<lambda>ra.
       if sa = watched \<or> ra = watched then
         rbind (account_response sender) (\<lambda>f. rbind (account_response receiver) (\<lambda>t.
           Inr (PDict [(''from'', f), (''to'', t)])))
       else Inr PNone)))))"

fun find_swap :: "pyval list \<Rightarrow> pyval res" where
  "find_swap [] = Inl (OtherException ''StopIteration'')"
| "find_swap (el # els) =
     rbind (item el ''type'') (\<lambda>t. if t = PStr ''AtomicSwapInfo'' then Inr el else find_swap els)"

definition swap_response :: "pyval \<Rightarrow> dict \<Rightarrow> pyval res" where
  "swap_response st validated =
     rbind (as_list st) (\<lambda>els. rbind (find_swap els) (\<lambda>swap_info.
     let ident = dict_get validated ''id'' in
     rbind (if truthy ident then rbind (item swap_info ''swap_id'') (\<lambda>s. Inr (ident \<noteq> s)) else Inr False) (\<lambda>other.
       if other then Inr PNone
       else rbind (as_dict swap_info) (\<lambda>d. Inr (PDict (AList.delete ''type'' d))))))"

text \<open>The block handler looks the block up by its number, counting from zero.\<close>

definition block_response ::
  "rest_lib \<Rightarrow> 'v stream \<Rightarrow> string pblib \<Rightarrow> pyval \<Rightarrow> ('v, pyval) ex"
where
  "block_response L S P st =
     ebind (elift (rbind (item st ''block_num'') py_int_value)) (\<lambda>n.
     ebind (get_block_info L S P (n - 1)) (\<lambda>block_information.
     ebind (elift (as_dict st)) (\<lambda>d.
       eret (PDict [(''id'', dict_get d ''block_id''), (''timestamp'', PInt (timestamp block_information))]))))"

fun prepare_response ::
  "rest_lib \<Rightarrow> 'v stream \<Rightarrow> string pblib \<Rightarrow> event_handler \<Rightarrow> pyval \<Rightarrow> dict \<Rightarrow> ('v, pyval) ex"
where
  "prepare_response L S P BlockEventHandler st validated = block_response L S P st"
| "prepare_response L S P BatchEventHandler st validated = eret st"
| "prepare_response L S P TransferEventHandler st validated = elift (transfer_response st validated)"
| "prepare_response L S P AtomicSwapEventHandler st validated = elift (swap_response st validated)"

definition prepare_evt_hash :: "event_handler \<Rightarrow> pyval \<Rightarrow> string res" where
  "prepare_evt_hash h response =
     rbind (rmap (item response) (hash_keys h)) (\<lambda>vs.
       Inr (to_hash (NAME h @ '':'' @ join ''-'' (map py_str_of vs))))"

section \<open>Subscription messages\<close>

definition prepare_events :: "string list \<Rightarrow> string list" where
  "prepare_events event_types =
     concat (map (\<lambda>t. case map_of EVENT_HANDLERS t of None \<Rightarrow> [] | Some h \<Rightarrow> EVENTS h) event_types)"

definition create_subscriptions :: "rest_lib \<Rightarrow> string list \<Rightarrow> pyval list res" where
  "create_subscriptions L event_types =
     rmap (\<lambda>n. construct L ''EventSubscription'' [(''event_type'', PStr n)]) (prepare_events event_types)"

definition create_subscribe_request :: "rest_lib \<Rightarrow> string list \<Rightarrow> pyval list \<Rightarrow> pyval res" where
  "create_subscribe_request L event_types last_known_block_ids =
     rbind (create_subscriptions L event_types) (\<lambda>subs.
       construct L ''ClientEventsSubscribeRequest''
         [(''subscriptions'', PList subs), (''last_known_block_ids'', PList last_known_block_ids)])"

definition prepare_subscribe_message :: "rest_lib \<Rightarrow> string list \<Rightarrow> pyval \<Rightarrow> pyval res" where
  "prepare_subscribe_message L event_types from_block =
     create_subscribe_request L event_types (if truthy from_block then [from_block] else [])"

section \<open>Batch events\<close>

text \<open>\<open>_create_event_payload\<close> and \<open>produce_custom_msg\<close>: the event the node itself produces.\<close>

definition create_event_payload :: "dict \<Rightarrow> dict" where
  "create_event_payload attributes =
     [(''event_type'', PStr (event_value REMME_BATCH_DELTA)),
      (''attributes'', PList (map (\<lambda>(k, v). PDict [(''key'', PStr k), (''value'', v)]) attributes))]"

definition batch_error :: "pyval \<Rightarrow> pyval option res" where
  "batch_error data =
     (case rbind (item data ''invalid_transactions'') (\<lambda>ts. rbind (nth_item ts 0) (\<lambda>t. item t ''message'')) of
        Inr m \<Rightarrow> Inr (Some m)
      | Inl e \<Rightarrow> if e = KeyError \<or> e = IndexError then Inr None else Inl e)"

definition batch_status_event :: "pyval \<Rightarrow> dict \<Rightarrow> dict res" where
  "batch_status_event batch_id result =
     rbind (dict_lookup result ''data'') (\<lambda>ds. rbind (nth_item ds 0) (\<lambda>data.
     rbind (item data ''status'') (\<lambda>st. rbind (batch_error data) (\<lambda>err.
       let resp = [(''id'', batch_id), (''status'', st)] in
       Inr (create_event_payload (case err of None \<Rightarrow> resp | Some m \<Rightarrow> resp @ [(''error'', m)]))))))"

definition produce_custom_msg ::
  "rest_lib \<Rightarrow> 'v stream \<Rightarrow> event_handler \<Rightarrow> dict \<Rightarrow> ('v, dict option) ex"
where
  "produce_custom_msg L S h validated =
     (case h of
        BatchEventHandler \<Rightarrow>
          ebind (elift (dict_lookup validated ''id'')) (\<lambda>batch_id.
          ebind (ecatch (ebind (list_statuses L S (PList [batch_id])) (\<lambda>r. eret (Some r))) (\<lambda>e. eret None))
            (\<lambda>r. case r of
               None \<Rightarrow> eret None
             | Some result \<Rightarrow> elift (rbind (batch_status_event batch_id result) (\<lambda>e. Inr (Some e)))))
      | _ \<Rightarrow> eret None)"

end
