(* ===== verification/TokenLedger.thy ===== *)
theory TokenLedger
  imports Main
begin

text \<open>
  The abstract specification of the token economy: a ledger of account balances and of the amounts
  locked in open swaps, the operations a transaction may have on it, and the total they circulate.
  Nothing here refers to the code; the transaction families are shown to implement these operations.
\<close>

record token_ledger =
  bal :: "string \<Rightarrow> int"
  locked :: "string \<Rightarrow> int"

definition issue :: "string \<Rightarrow> int \<Rightarrow> token_ledger \<Rightarrow> token_ledger" where
  "issue a n L = L\<lparr>bal := (bal L)(a := n)\<rparr>"

definition move :: "string \<Rightarrow> string \<Rightarrow> int \<Rightarrow> token_ledger \<Rightarrow> token_ledger" where
  "move a b n L =
     (let L1 = L\<lparr>bal := (bal L)(a := bal L a - n)\<rparr> in L1\<lparr>bal := (bal L1)(b := bal L1 b + n)\<rparr>)"

definition lock :: "string \<Rightarrow> string \<Rightarrow> int \<Rightarrow> token_ledger \<Rightarrow> token_ledger" where
  "lock a s n L =
     (let L1 = L\<lparr>bal := (bal L)(a := bal L a - n)\<rparr> in L1\<lparr>locked := (locked L1)(s := n)\<rparr>)"

definition release :: "string \<Rightarrow> string \<Rightarrow> token_ledger \<Rightarrow> token_ledger" where
  "release s b L =
     (let L1 = L\<lparr>bal := (bal L)(b := bal L b + locked L s)\<rparr> in L1\<lparr>locked := (locked L1)(s := 0)\<rparr>)"

definition support :: "(string \<Rightarrow> int) \<Rightarrow> string set" where
  "support f = {a. f a \<noteq> 0}"

definition finite_ledger :: "token_ledger \<Rightarrow> bool" where
  "finite_ledger L \<longleftrightarrow> finite (support (bal L)) \<and> finite (support (locked L))"

definition circulation :: "token_ledger \<Rightarrow> int" where
  "circulation L = (\<Sum>a \<in> support (bal L). bal L a) + (\<Sum>s \<in> support (locked L). locked L s)"

section \<open>Supply\<close>

lemma support_update: "support (f(a := n)) \<subseteq> insert a (support f)"
  by (auto simp: support_def)

lemma finite_support_update: "finite (support f) \<Longrightarrow> finite (support (f(a := n)))"
  using support_update by (metis finite_insert finite_subset)

lemma sum_support:
  assumes "finite A" and "support f \<subseteq> A"
  shows "(\<Sum>a \<in> support f. f a) = (\<Sum>a \<in> A. f a)"
  using assms by (intro sum.mono_neutral_left) (auto simp: support_def)

lemma sum_support_update:
  assumes "finite (support f)"
  shows "(\<Sum>x \<in> support (f(a := n)). (f(a := n)) x) = (\<Sum>x \<in> support f. f x) - f a + n"
proof -
  let ?A = "insert a (support f)"
  have fin: "finite ?A" using assms by simp
  have "(\<Sum>x \<in> support (f(a := n)). (f(a := n)) x) = (\<Sum>x \<in> ?A. (f(a := n)) x)"
    by (rule sum_support [OF fin support_update])
  also have "\<dots> = n + (\<Sum>x \<in> ?A - {a}. f x)"
    using assms by (simp add: sum.insert_remove)
  also have "(\<Sum>x \<in> ?A - {a}. f x) = (\<Sum>x \<in> ?A. f x) - f a"
    using fin by (subst sum_diff1) auto
  also have "(\<Sum>x \<in> ?A. f x) = (\<Sum>x \<in> support f. f x)"
    by (rule sum_support [OF fin subset_insertI, symmetric])
  finally show ?thesis by (simp add: fun_upd_def)
qed

lemma circulation_bal:
  "finite_ledger L \<Longrightarrow> circulation (L\<lparr>bal := (bal L)(a := n)\<rparr>) = circulation L - bal L a + n"
  using sum_support_update [of "bal L" a n] by (simp add: circulation_def finite_ledger_def)

lemma circulation_locked:
  "finite_ledger L \<Longrightarrow> circulation (L\<lparr>locked := (locked L)(s := n)\<rparr>) = circulation L - locked L s + n"
  using sum_support_update [of "locked L" s n] by (simp add: circulation_def finite_ledger_def)

lemma finite_ledger_bal: "finite_ledger L \<Longrightarrow> finite_ledger (L\<lparr>bal := (bal L)(a := n)\<rparr>)"
  by (simp add: finite_ledger_def finite_support_update)

lemma finite_ledger_locked: "finite_ledger L \<Longrightarrow> finite_ledger (L\<lparr>locked := (locked L)(s := n)\<rparr>)"
  by (simp add: finite_ledger_def finite_support_update)

lemmas ledger_finite = finite_ledger_bal finite_ledger_locked

lemma circulation_issue: "finite_ledger L \<Longrightarrow> circulation (issue a n L) = circulation L - bal L a + n"
  by (simp add: issue_def circulation_bal)

lemma circulation_move: "finite_ledger L \<Longrightarrow> circulation (move a b n L) = circulation L"
  unfolding move_def Let_def by (subst circulation_bal circulation_bal; simp add: ledger_finite circulation_bal)

lemma circulation_lock: "finite_ledger L \<Longrightarrow> locked L s = 0 \<Longrightarrow> circulation (lock a s n L) = circulation L"
  unfolding lock_def Let_def by (subst circulation_locked; simp add: ledger_finite circulation_bal)

lemma circulation_release: "finite_ledger L \<Longrightarrow> circulation (release s b L) = circulation L"
  unfolding release_def Let_def by (subst circulation_locked; simp add: ledger_finite circulation_bal)

lemma locked_move [simp]: "locked (move a b n L) = locked L"
  by (simp add: move_def Let_def)

lemma finite_ledger_ops:
  assumes "finite_ledger L"
  shows "finite_ledger (issue a n L)" "finite_ledger (move a b n L)"
    "finite_ledger (lock a s n L)" "finite_ledger (release s b L)"
  using assms by (simp_all only: issue_def move_def lock_def release_def Let_def ledger_finite)

text \<open>The balances of a ledger are bounded by its circulation when nothing is negative.\<close>

definition nonneg_ledger :: "token_ledger \<Rightarrow> bool" where
  "nonneg_ledger L \<longleftrightarrow> (\<forall>a. 0 \<le> bal L a) \<and> (\<forall>s. 0 \<le> locked L s)"

lemma bal_le_circulation:
  assumes "finite_ledger L" and "nonneg_ledger L"
  shows "bal L a \<le> circulation L"
proof -
  have l: "0 \<le> (\<Sum>s \<in> support (locked L). locked L s)"
    using assms(2) by (intro sum_nonneg) (simp add: nonneg_ledger_def)
  have "bal L a \<le> (\<Sum>x \<in> insert a (support (bal L)). bal L x)"
    using assms by (intro member_le_sum) (auto simp: finite_ledger_def nonneg_ledger_def)
  also have "\<dots> = (\<Sum>x \<in> support (bal L). bal L x)"
    using assms(1) by (intro sum_support [symmetric]) (auto simp: finite_ledger_def)
  finally show ?thesis using l by (simp add: circulation_def)
qed

section \<open>Invariants along runs\<close>

text \<open>
  Three contracts of a step relation: steps lead from good states to good states; they keep a
  quantity of a good state; they change what a lookup finds only by the moves of its own state
  machine. Each extends from a step to every run.
\<close>

locale invariant_step =
  fixes step :: "'s \<Rightarrow> 's \<Rightarrow> bool" and good :: "'s \<Rightarrow> bool"
  assumes step_good: "step s t \<Longrightarrow> good s \<Longrightarrow> good t"
begin

lemma run_good: "step\<^sup>*\<^sup>* s t \<Longrightarrow> good s \<Longrightarrow> good t"
  by (induction rule: rtranclp_induct) (auto intro: step_good)

end

locale conserved = invariant_step step good
  for step :: "'s \<Rightarrow> 's \<Rightarrow> bool" and good :: "'s \<Rightarrow> bool" +
  fixes qty :: "'s \<Rightarrow> 'q"
  assumes step_qty: "step s t \<Longrightarrow> good s \<Longrightarrow> qty t = qty s"
begin

lemma run_qty: "step\<^sup>*\<^sup>* s t \<Longrightarrow> good s \<Longrightarrow> qty t = qty s"
proof (induction rule: rtranclp_induct)
  case base
  show ?case by simp
next
  case (step t u)
  then show ?case using run_good [OF step.hyps(1)] step_qty by simp
qed

end

locale tracked_entry = invariant_step step good
  for step :: "'s \<Rightarrow> 's \<Rightarrow> bool" and good :: "'s \<Rightarrow> bool" +
  fixes look :: "'s \<Rightarrow> 'e option" and moves :: "'e \<Rightarrow> 'e \<Rightarrow> bool"
  assumes step_look:
    "step s t \<Longrightarrow> good s \<Longrightarrow> look s = Some x \<Longrightarrow> \<exists>y. look t = Some y \<and> (y = x \<or> moves x y)"
begin

lemma run_look:
  assumes "step\<^sup>*\<^sup>* s t" and "good s" and "look s = Some x"
  shows "\<exists>y. look t = Some y \<and> moves\<^sup>*\<^sup>* x y"
  using assms
proof (induction rule: rtranclp_induct)
  case base
  then show ?case by blast
next
  case (step t u)
  then obtain y where y: "look t = Some y" "moves\<^sup>*\<^sup>* x y" by blast
  from step_look [OF step.hyps(2) run_good [OF step.hyps(1) step.prems(1)] y(1)]
  obtain z where "look u = Some z" "z = y \<or> moves y z" by blast
  with y(2) show ?case by (auto intro: rtranclp.rtrancl_into_rtrancl)
qed

end

end
