(* ===== verification/Events.thy ===== *)
theory Events
  imports EventHandlers TokenLedger
begin

text \<open>
  \<open>remme/rpc_api/event/_event.py\<close> and the bookkeeping of \<open>remme/rpc_api/_base.py\<close>: subscriptions of
  websocket connections and the delivery of events to them. The state holds, for every connection,
  its subscriptions (\<open>_subsevt\<close>) and the hashes of what it was sent (\<open>_evthashes\<close>), the messages that
  went out over the open connections, and the state of the validator. Connections are numbers.
\<close>

type_synonym ws = nat

record subscription =
  sub_msg_id :: pyval
  validated_data :: dict

record notification =
  note_ws :: ws
  note_id :: pyval
  note_event :: string
  note_response :: pyval

record 'v event_state =
  subsevt :: "ws \<rightharpoonup> (string \<times> subscription) list"
  evthashes :: "ws \<rightharpoonup> string list"
  outbox :: "notification list"
  validator :: 'v

text \<open>What the handlers read the chain with, and the subscription call to the validator.\<close>

record 'v event_env =
  ev_lib :: rest_lib
  ev_stream :: "'v stream"
  ev_pb :: "string pblib"
  ev_send :: "pyval \<Rightarrow> ('v, string \<times> string) ex"  \<comment> \<open>type and content of the reply\<close>

definition on_chain :: "('v, 'a) ex \<Rightarrow> ('v event_state, 'a) ex" where
  "on_chain m s = (let (r, v') = m (validator s) in (r, s\<lparr>validator := v'\<rparr>))"

definition get_st :: "('s, 's) ex" where
  "get_st s = (Inr s, s)"

definition modify_st :: "('s \<Rightarrow> 's) \<Rightarrow> ('s, unit) ex" where
  "modify_st f s = (Inr (), f s)"

definition subs_of :: "'v event_state \<Rightarrow> ws \<Rightarrow> (string \<times> subscription) list" where
  "subs_of s w = (case subsevt s w of None \<Rightarrow> [] | Some d \<Rightarrow> d)"

section \<open>Delivery\<close>

text \<open>One event for one handler whose name is subscribed: the body of the inner loop.\<close>

definition deliver ::
  "'v event_env \<Rightarrow> ws \<Rightarrow> event_handler \<Rightarrow> subscription \<Rightarrow> dict \<Rightarrow> ('v event_state, unit) ex"
where
  "deliver E w h sub evt =
     ebind (elift (parse_evt h evt)) (\<lambda>updated_state.
     if \<not> truthy updated_state then eret ()
     else
     ebind (on_chain (prepare_response (ev_lib E) (ev_stream E) (ev_pb E) h updated_state (validated_data sub))) (\<lambda>response.
     if \<not> truthy response then eret ()
     else
     ebind (elift (prepare_evt_hash h response)) (\<lambda>evthash.
     ebind get_st (\<lambda>s.
       case evthashes s w of
         None \<Rightarrow> eraise KeyError
       | Some hs \<Rightarrow>
           if evthash \<in> set hs then eret ()
           else modify_st (\<lambda>s. s\<lparr>
             outbox := outbox s @ [\<lparr>note_ws = w, note_id = sub_msg_id sub, note_event = NAME h, note_response = response\<rparr>],
             evthashes := (evthashes s)(w \<mapsto> evthash # hs)\<rparr>)))))"

definition notify_one :: "'v event_env \<Rightarrow> ws \<Rightarrow> dict \<Rightarrow> string \<Rightarrow> ('v event_state, unit) ex" where
  "notify_one E w evt evt_name =
     ebind (elift (case map_of EVENT_HANDLERS evt_name of None \<Rightarrow> Inl KeyError | Some h \<Rightarrow> Inr h)) (\<lambda>h.
     ebind get_st (\<lambda>s.
       case map_of (subs_of s w) evt_name of
         None \<Rightarrow> eret ()
       | Some sub \<Rightarrow>
           if evthashes s w = None then
             modify_st (\<lambda>s. s\<lparr>subsevt := (subsevt s)(w \<mapsto> AList.delete evt_name (subs_of s w))\<rparr>)
           else deliver E w h sub evt))"

fun notify_all :: "'v event_env \<Rightarrow> ws \<Rightarrow> dict \<Rightarrow> string list \<Rightarrow> ('v event_state, unit) ex" where
  "notify_all E w evt [] = eret ()"
| "notify_all E w evt (n # ns) = ebind (notify_one E w evt n) (\<lambda>_. notify_all E w evt ns)"

definition process_event :: "'v event_env \<Rightarrow> ws \<Rightarrow> dict \<Rightarrow> ('v event_state, unit) ex" where
  "process_event E w evt =
     ebind (elift (rbind (dict_lookup evt ''event_type'') str_of)) (\<lambda>event_type.
       case map_of SAWTOOTH_TO_REMME_EVENT event_type of
         None \<Rightarrow> eret ()
       | Some names \<Rightarrow> notify_all E w evt names)"

fun process_events :: "'v event_env \<Rightarrow> ws \<Rightarrow> dict list \<Rightarrow> ('v event_state, unit) ex" where
  "process_events E w [] = eret ()"
| "process_events E w (evt # evts) = ebind (process_event E w evt) (\<lambda>_. process_events E w evts)"

text \<open>\<open>_process_msg\<close>: a message of another type than \<open>CLIENT_EVENTS\<close> is skipped.\<close>

definition process_msg :: "'v event_env \<Rightarrow> ws \<Rightarrow> string \<Rightarrow> dict list \<Rightarrow> ('v event_state, unit) ex" where
  "process_msg E w message_type events =
     (if message_type \<noteq> ''CLIENT_EVENTS'' then eret () else process_events E w events)"

section \<open>Subscribing\<close>

definition only_websocket :: exc where
  "only_websocket = ClientException ''Subscription available only through websocket''"

definition event_type_param :: "dict \<Rightarrow> string res" where
  "event_type_param params =
     (case map_of params ''event_type'' of
        None \<Rightarrow> Inl (RpcInvalidParamsError ''Missed event_type'')
      | Some (PList _) \<Rightarrow> Inl TypeError
      | Some (PDict _) \<Rightarrow> Inl TypeError
      | Some v \<Rightarrow> Inr (py_str_of v))"

definition subscribe_status :: "rest_lib \<Rightarrow> pyval \<Rightarrow> int option \<times> dict \<Rightarrow> unit res" where
  "subscribe_status L from_block response =
     (let st = fst response; cls = ''ClientEventsSubscribeResponse'' in
      if st = status_attr L cls ''OK'' then Inr ()
      else if st = status_attr L cls ''UNKNOWN_BLOCK'' then
        Inl (ClientException (''Unknown block '' @ [CHR 0x22] @ py_str_of from_block @ [CHR 0x22]))
      else Inl (ClientException ''Subscription failed: Couldn't send multipart''))"

definition subscribe ::
  "'v event_env \<Rightarrow> ws option \<Rightarrow> pyval \<Rightarrow> dict \<Rightarrow> ('v event_state, pyval) ex"
where
  "subscribe E conn msg_id params =
     (case conn of
        None \<Rightarrow> eraise only_websocket
      | Some w \<Rightarrow>
          ebind (elift (event_type_param params)) (\<lambda>event_type.
          case map_of EVENT_HANDLERS event_type of
            None \<Rightarrow> eraise (ClientException (''Event '' @ [CHR 0x22] @ event_type @ [CHR 0x22] @ '' not defined''))
          | Some h \<Rightarrow>
              ebind (modify_st (\<lambda>s. s\<lparr>subsevt := (subsevt s)(w \<mapsto> subs_of s w)\<rparr>)) (\<lambda>_.
              ebind get_st (\<lambda>s.
              if event_type \<in> fst ` set (subs_of s w) then
                eraise (ClientException (''Already subscribed to event '' @ [CHR 0x22] @ event_type @ [CHR 0x22]))
              else
              ebind (elift (validate_event_params h params)) (\<lambda>validated.
              ebind (if truthy (dict_get validated ''from_block'') then eret (dict_get validated ''from_block'')
                     else ebind (on_chain (router_list_blocks (ev_lib E) (ev_stream E) PNone PNone (PInt 1) PNone PNone))
                            (\<lambda>r. elift (dict_lookup r ''head''))) (\<lambda>from_block.
              ebind (elift (prepare_subscribe_message (ev_lib E) (map fst (subs_of s w) @ [event_type]) from_block)) (\<lambda>req_msg.
              ebind (on_chain (ev_send E req_msg)) (\<lambda>(message_type, content).
              if message_type \<noteq> ''CLIENT_EVENTS_SUBSCRIBE_RESPONSE'' then
                eraise (ClientException (''Unexpected message type '' @ message_type))
              else
              ebind (elift (parse_response (ev_lib E) ''ClientEventsSubscribeResponse'' content)) (\<lambda>response.
              ebind (elift (subscribe_status (ev_lib E) from_block response)) (\<lambda>_.
              ebind (modify_st (\<lambda>s. s\<lparr>
                  evthashes := (case evthashes s w of None \<Rightarrow> (evthashes s)(w \<mapsto> []) | Some _ \<Rightarrow> evthashes s),
                  subsevt := (subsevt s)(w \<mapsto> AList.update event_type
                    \<lparr>sub_msg_id = msg_id, validated_data = validated\<rparr> (subs_of s w))\<rparr>)) (\<lambda>_.
                eret (PStr ''SUBSCRIBED''))))))))))))"

definition unsubscribe :: "ws option \<Rightarrow> dict \<Rightarrow> ('v event_state, pyval) ex" where
  "unsubscribe conn params =
     (case conn of
        None \<Rightarrow> eraise only_websocket
      | Some w \<Rightarrow>
          ebind (elift (event_type_param params)) (\<lambda>event_type.
          ebind get_st (\<lambda>s.
          if event_type \<notin> fst ` set (subs_of s w) then eraise (ClientException ''Subscription not found'')
          else ebind (modify_st (\<lambda>s. s\<lparr>subsevt := (subsevt s)(w \<mapsto> AList.delete event_type (subs_of s w))\<rparr>))
            (\<lambda>_. eret (PStr ''UNSUBSCRIBED'')))))"

text \<open>
  \<open>JsonRpc.register\<close>, when the connection ends: its subscriptions and hashes are dropped, and with
  the connection what was sent over it.
\<close>

definition unregister :: "ws \<Rightarrow> 'v event_state \<Rightarrow> 'v event_state" where
  "unregister w s = s\<lparr>subsevt := (subsevt s)(w := None), evthashes := (evthashes s)(w := None),
     outbox := filter (\<lambda>n. note_ws n \<noteq> w) (outbox s)\<rparr>"

section \<open>The producer\<close>

text \<open>One round of \<open>_producer\<close>: the custom events of the subscriptions of a connection.\<close>

fun produce_round :: "'v event_env \<Rightarrow> (string \<times> subscription) list \<Rightarrow> ('v event_state, dict list) ex" where
  "produce_round E [] = eret []"
| "produce_round E ((evt_name, sub) # rest) =
     ebind (elift (case map_of EVENT_HANDLERS evt_name of None \<Rightarrow> Inl KeyError | Some h \<Rightarrow> Inr h)) (\<lambda>h.
     ebind (on_chain (produce_custom_msg (ev_lib E) (ev_stream E) h (validated_data sub))) (\<lambda>r.
     ebind (produce_round E rest) (\<lambda>evts.
       eret (case r of None \<Rightarrow> evts | Some e \<Rightarrow> e # evts))))"

section \<open>What a delivery changes\<close>

lemma get_modify [simp]: "get_st s = (Inr s, s)" "modify_st f s = (Inr (), f s)"
  by (simp_all add: get_st_def modify_st_def)

lemma on_chain_state: "on_chain m s = (r, s') \<Longrightarrow> \<exists>v'. s' = s\<lparr>validator := v'\<rparr>"
  by (auto simp: on_chain_def split: prod.splits)

definition sent :: "ws \<Rightarrow> event_handler \<Rightarrow> subscription \<Rightarrow> pyval \<Rightarrow> notification" where
  "sent w h sub response =
     \<lparr>note_ws = w, note_id = sub_msg_id sub, note_event = NAME h, note_response = response\<rparr>"

lemma deliver_cases:
  assumes "deliver E w h sub evt s = (r, s')"
  obtains (quiet) v' where "s' = s\<lparr>validator := v'\<rparr>"
  | (sent) v' hs response eh where "evthashes s w = Some hs" "prepare_evt_hash h response = Inr eh"
      "eh \<notin> set hs" "s' = s\<lparr>validator := v', outbox := outbox s @ [sent w h sub response],
        evthashes := (evthashes s)(w \<mapsto> eh # hs)\<rparr>"
proof -
  let ?m = "prepare_response (ev_lib E) (ev_stream E) (ev_pb E) h"
  have "(\<exists>v'. s' = s\<lparr>validator := v'\<rparr>) \<or>
    (\<exists>v' hs response eh. evthashes s w = Some hs \<and> prepare_evt_hash h response = Inr eh \<and>
      eh \<notin> set hs \<and> s' = s\<lparr>validator := v', outbox := outbox s @ [sent w h sub response],
        evthashes := (evthashes s)(w \<mapsto> eh # hs)\<rparr>)"
  proof (cases "parse_evt h evt")
    case (Inl e)
    with assms have "s' = s\<lparr>validator := validator s\<rparr>" by (simp add: deliver_def ebind_def)
    then show ?thesis by blast
  next
    case (Inr u)
    obtain r1 s1 where c: "on_chain (?m u (validated_data sub)) s = (r1, s1)" by force
    with on_chain_state [OF c] obtain v' where s1: "s1 = s\<lparr>validator := v'\<rparr>" by blast
    show ?thesis
    proof (cases "truthy u")
      case False
      with assms Inr have "s' = s\<lparr>validator := validator s\<rparr>" by (simp add: deliver_def ebind_def)
      then show ?thesis by blast
    next
      case True
      with assms Inr c s1 show ?thesis
        by (auto simp: deliver_def ebind_def sent_def split: if_splits sum.splits option.splits)
    qed
  qed
  with quiet sent show thesis by blast
qed

lemma handler_name: "map_of EVENT_HANDLERS n = Some h \<Longrightarrow> NAME h = n"
  by (auto simp: EVENT_HANDLERS_def split: if_splits)

text \<open>
  The invariant of deduplication: the hashes of what was sent on a connection are all different and
  all recorded.
\<close>

definition note_hash :: "notification \<Rightarrow> string" where
  "note_hash n =
     (case map_of EVENT_HANDLERS (note_event n) of
        None \<Rightarrow> []
      | Some h \<Rightarrow> (case prepare_evt_hash h (note_response n) of Inr eh \<Rightarrow> eh | Inl _ \<Rightarrow> []))"

definition hashes_sent :: "'v event_state \<Rightarrow> ws \<Rightarrow> string list" where
  "hashes_sent s w = map note_hash (filter (\<lambda>n. note_ws n = w) (outbox s))"

definition no_repeats :: "'v event_state \<Rightarrow> bool" where
  "no_repeats s \<longleftrightarrow> (\<forall>w. distinct (hashes_sent s w) \<and>
     set (hashes_sent s w) \<subseteq> (case evthashes s w of None \<Rightarrow> {} | Some hs \<Rightarrow> set hs))"

lemma hashes_sent_simps [simp]:
  "hashes_sent (s\<lparr>validator := v\<rparr>) w = hashes_sent s w" "hashes_sent (s\<lparr>subsevt := d\<rparr>) w = hashes_sent s w"
  "hashes_sent (s\<lparr>evthashes := e\<rparr>) w = hashes_sent s w"
  by (simp_all add: hashes_sent_def)

lemma no_repeats_same [simp]:
  "no_repeats (s\<lparr>validator := v\<rparr>) = no_repeats s" "no_repeats (s\<lparr>subsevt := d\<rparr>) = no_repeats s"
  by (simp_all add: no_repeats_def)

lemma no_repeats_new_ws [simp]:
  "no_repeats (s\<lparr>evthashes := case evthashes s w of None \<Rightarrow> (evthashes s)(w \<mapsto> []) | Some hs \<Rightarrow> evthashes s\<rparr>)
     = no_repeats s"
proof -
  have "(case evthashes (s\<lparr>evthashes := case evthashes s w of None \<Rightarrow> (evthashes s)(w \<mapsto> []) | Some hs \<Rightarrow> evthashes s\<rparr>) u of
      None \<Rightarrow> {} | Some hs \<Rightarrow> set hs) = (case evthashes s u of None \<Rightarrow> {} | Some hs \<Rightarrow> set hs)" for u
    by (simp split: option.split)
  then show ?thesis by (simp add: no_repeats_def)
qed

lemma NAME_handler: "map_of EVENT_HANDLERS (NAME h) = Some h"
  by (cases h) (simp_all add: EVENT_HANDLERS_def)

lemma note_hash_sent: "prepare_evt_hash h response = Inr eh \<Longrightarrow> note_hash (sent w h sub response) = eh"
  by (simp add: note_hash_def sent_def NAME_handler)

lemma deliver_no_repeats:
  assumes "deliver E w h sub evt s = (r, s')" and "no_repeats s"
  shows "no_repeats s'"
  using assms(1)
proof (cases rule: deliver_cases)
  case (quiet v')
  with assms(2) show ?thesis by simp
next
  case (sent v' hs response eh)
  have "hashes_sent s' u = (if u = w then hashes_sent s w @ [eh] else hashes_sent s u)" for u
    using sent note_hash_sent [OF sent(2)] by (auto simp: hashes_sent_def Events.sent_def)
  with assms(2) sent show ?thesis
    by (auto simp: no_repeats_def split: option.splits if_splits)
qed

section \<open>Steps of the server\<close>

definition preserves :: "('s \<Rightarrow> bool) \<Rightarrow> ('s, 'a) ex \<Rightarrow> bool" where
  "preserves Q m \<longleftrightarrow> (\<forall>s r s'. m s = (r, s') \<longrightarrow> Q s \<longrightarrow> Q s')"

named_theorems preserve_rules
  \<comment> \<open>composition rules of \<open>preserves\<close>\<close>

lemma preservesI: "(\<And>s r s'. m s = (r, s') \<Longrightarrow> Q s \<Longrightarrow> Q s') \<Longrightarrow> preserves Q m"
  by (auto simp: preserves_def)

lemma preservesD: "preserves Q m \<Longrightarrow> m s = (r, s') \<Longrightarrow> Q s \<Longrightarrow> Q s'"
  by (auto simp: preserves_def)

lemma preserves_pure [preserve_rules]:
  "preserves Q (eret x)" "preserves Q (eraise e)" "preserves Q (elift r)" "preserves Q get_st"
  by (auto intro: preservesI)

lemma preserves_ebind [preserve_rules]:
  assumes "preserves Q m" and "\<And>x. preserves Q (f x)" shows "preserves Q (ebind m f)"
proof (rule preservesI)
  fix s r s' assume b: "ebind m f s = (r, s')" and q: "Q s"
  obtain r1 s1 where m: "m s = (r1, s1)" by force
  with assms(1) q have "Q s1" by (auto dest: preservesD)
  with b m assms(2) show "Q s'" by (cases r1) (auto dest: preservesD)
qed

lemma preserves_cases [preserve_rules]:
  "preserves Q m \<Longrightarrow> preserves Q m' \<Longrightarrow> preserves Q (if b then m else m')"
  "preserves Q m \<Longrightarrow> (\<And>x. preserves Q (f x)) \<Longrightarrow> preserves Q (case opt of None \<Rightarrow> m | Some x \<Rightarrow> f x)"
  "(\<And>x y. preserves Q (g x y)) \<Longrightarrow> preserves Q (case p of (x, y) \<Rightarrow> g x y)"
  by (auto split: option.split prod.split)

lemma preserves_on_chain:
  assumes "\<And>s v. Q (s\<lparr>validator := v\<rparr>) = Q s" shows "preserves Q (on_chain m)"
  using assms by (auto intro!: preservesI dest!: on_chain_state)

lemma preserves_modify: "(\<And>s. Q s \<Longrightarrow> Q (f s)) \<Longrightarrow> preserves Q (modify_st f)"
  by (auto intro: preservesI)

text \<open>Loops over the names and over the events of a message.\<close>

lemma preserves_notify_all:
  assumes "\<And>n. preserves Q (notify_one E w evt n)" shows "preserves Q (notify_all E w evt ns)"
  by (induction ns; unfold notify_all.simps; intro preserve_rules assms)

lemma preserves_process_msg:
  assumes "\<And>evt n. preserves Q (notify_one E w evt n)"
  shows "preserves Q (process_msg E w message_type events)"
proof -
  have "preserves Q (process_events E w events)"
    by (induction events; unfold process_events.simps process_event_def;
        intro preserve_rules preserves_notify_all assms)
  then show ?thesis unfolding process_msg_def by (intro preserve_rules)
qed

lemma preserves_deliver: "preserves no_repeats (deliver E w h sub evt)"
  by (rule preservesI) (rule deliver_no_repeats)

lemma notify_one_no_repeats: "preserves no_repeats (notify_one E w evt n)"
  unfolding notify_one_def by (intro preserve_rules preserves_modify preserves_deliver) simp

lemma subscribe_no_repeats: "preserves no_repeats (subscribe E conn i params)"
  unfolding subscribe_def
  by (intro preserve_rules preserves_on_chain preserves_modify no_repeats_same) simp_all

lemma unsubscribe_no_repeats: "preserves no_repeats (unsubscribe conn params)"
  unfolding unsubscribe_def by (intro preserve_rules preserves_modify) simp

lemma produce_round_no_repeats: "preserves no_repeats (produce_round E subs)"
proof (induction subs)
  case (Cons x subs)
  obtain n sub where "x = (n, sub)" by force
  with Cons show ?case
    by (simp only: produce_round.simps)
      (intro preserve_rules preserves_on_chain no_repeats_same; assumption)
qed (simp only: produce_round.simps, intro preserve_rules)

lemma hashes_sent_unregister:
  "hashes_sent (unregister w s) u = (if u = w then [] else hashes_sent s u)"
proof -
  have "filter (\<lambda>n. note_ws n \<noteq> w \<and> note_ws n = u) (outbox s)
      = (if u = w then [] else filter (\<lambda>n. note_ws n = u) (outbox s))"
    by (induction "outbox s") (auto intro: filter_cong)
  then show ?thesis by (simp add: hashes_sent_def unregister_def)
qed

lemma unregister_no_repeats: "no_repeats s \<Longrightarrow> no_repeats (unregister w s)"
  unfolding no_repeats_def hashes_sent_unregister by (simp add: unregister_def)

inductive event_step :: "'v event_env \<Rightarrow> 'v event_state \<Rightarrow> 'v event_state \<Rightarrow> bool" for E where
  message: "process_msg E w message_type events s = (r, s') \<Longrightarrow> event_step E s s'"
| subscribe: "subscribe E conn i params s = (r', s') \<Longrightarrow> event_step E s s'"
| unsubscribe: "unsubscribe conn params s = (r', s') \<Longrightarrow> event_step E s s'"
| produce: "produce_round E (subs_of s w) s = (evts, s') \<Longrightarrow> event_step E s s'"
| disconnect: "event_step E s (unregister w s)"

interpretation event_dedup: invariant_step "event_step E" no_repeats
proof unfold_locales
  fix s t :: "'a event_state" assume "event_step E s t" and q: "no_repeats s"
  then show "no_repeats t"
  proof cases
    case (message w message_type events r)
    with q show ?thesis using preservesD [OF preserves_process_msg [OF notify_one_no_repeats]] by blast
  next
    case (subscribe conn i params r')
    with q show ?thesis using preservesD [OF subscribe_no_repeats] by blast
  next
    case (unsubscribe conn params r')
    with q show ?thesis using preservesD [OF unsubscribe_no_repeats] by blast
  next
    case (produce w evts)
    with q show ?thesis using preservesD [OF produce_round_no_repeats] by blast
  qed (simp add: unregister_no_repeats q)
qed

section \<open>Who is notified\<close>

text \<open>
  Since \<open>s0\<close>, only subscriptions of \<open>s0\<close> were used: every new notification goes to the connection of
  the message, under an event it is subscribed to and with the identifier of that subscription.
\<close>

definition addressed :: "'v event_state \<Rightarrow> ws \<Rightarrow> 'v event_state \<Rightarrow> bool" where
  "addressed s0 w s \<longleftrightarrow>
     (\<forall>n\<in>set (outbox s). n \<in> set (outbox s0) \<or>
        note_ws n = w \<and> (\<exists>sub. map_of (subs_of s0 w) (note_event n) = Some sub \<and> note_id n = sub_msg_id sub)) \<and>
     (\<forall>k sub. map_of (subs_of s w) k = Some sub \<longrightarrow> map_of (subs_of s0 w) k = Some sub)"

lemma subs_of_simps [simp]:
  "subs_of (s\<lparr>validator := v\<rparr>) w = subs_of s w" "subs_of (s\<lparr>outbox := b\<rparr>) w = subs_of s w"
  "subs_of (s\<lparr>evthashes := e\<rparr>) w = subs_of s w"
  "subs_of (s\<lparr>subsevt := (subsevt s)(w \<mapsto> d)\<rparr>) w = d"
  by (simp_all add: subs_of_def)

lemma notify_one_addressed: "preserves (addressed s0 w) (notify_one E w evt n)"
proof (rule preservesI)
  fix s r s' assume o: "notify_one E w evt n s = (r, s')" and a: "addressed s0 w s"
  show "addressed s0 w s'"
  proof (cases "s' = s")
    case False
    with o obtain h sub where h: "map_of EVENT_HANDLERS n = Some h" "map_of (subs_of s w) n = Some sub"
      and d: "s' = s\<lparr>subsevt := (subsevt s)(w \<mapsto> AList.delete n (subs_of s w))\<rparr> \<or> deliver E w h sub evt s = (r, s')"
      by (auto simp: notify_one_def ebind_def split: option.splits if_splits)
    from d show ?thesis
    proof
      assume "s' = s\<lparr>subsevt := (subsevt s)(w \<mapsto> AList.delete n (subs_of s w))\<rparr>"
      with a show ?thesis by (auto simp: addressed_def delete_conv' split: if_splits)
    next
      assume "deliver E w h sub evt s = (r, s')"
      then show ?thesis
        using a h handler_name [OF h(1)]
        by (cases rule: deliver_cases) (auto simp: addressed_def sent_def)
    qed
  qed (use a in simp)
qed

lemma addressed_refl: "addressed s w s"
  by (simp add: addressed_def)

lemma process_msg_addressed:
  assumes "process_msg E w message_type events s = (r, s')"
  shows "addressed s w s'"
  using preservesD [OF preserves_process_msg [OF notify_one_addressed] assms] addressed_refl by blast

end
