(* ===== verification/EventFlow.thy ===== *)
theory EventFlow
  imports Events
begin

text \<open>
  The way of an event from a transaction processor to a subscriber: the attributes that \<open>apply\<close> emits
  are JSON text, the validator passes them on, and the handlers of the API parse them back.
\<close>

section \<open>Printed integers\<close>

lemma digits_value_append:
  "\<exists>k. digits_value 10 acc (digits_base 10 n @ r) = digits_value 10 (acc * 10 ^ k + n) r"
proof (induction n arbitrary: acc r rule: less_induct)
  case (less n)
  have step: "digits_value 10 acc (hex_chars ! d # r) = digits_value 10 (acc * 10 + d) r" if "d < 10" for acc d r
    using that digit_char [OF that] digit_value_hex_chars [of d]
    by (auto simp: is_digit_def simp del: digits_value.simps(1))
  show ?case
  proof (cases "n < 10")
    case True
    then have "digits_value 10 acc (digits_base 10 n @ r) = digits_value 10 (acc * 10 ^ 1 + n) r"
      by (simp add: digits_base_small step del: digits_value.simps)
    then show ?thesis by blast
  next
    case False
    then have d: "digits_base 10 n = digits_base 10 (n div 10) @ [hex_chars ! (n mod 10)]"
      by (subst digits_base.simps) simp
    from less.IH [of "n div 10" acc "hex_chars ! (n mod 10) # r"] False obtain k where
      "digits_value 10 acc (digits_base 10 (n div 10) @ hex_chars ! (n mod 10) # r)
        = digits_value 10 (acc * 10 ^ k + n div 10) (hex_chars ! (n mod 10) # r)" by auto
    also have "\<dots> = digits_value 10 (acc * 10 ^ Suc k + n) r"
      by (simp add: step algebra_simps del: digits_value.simps)
    finally show ?thesis unfolding d by (intro exI [of _ "Suc k"]) (simp del: digits_value.simps)
  qed
qed

lemma digits_base_digits: "list_all is_digit (digits_base 10 n)"
proof (induction n rule: less_induct)
  case (less n)
  then show ?case
    by (subst digits_base.simps) (auto simp: digit_char)
qed

lemma unsigned_value_digits: "unsigned_value 10 (digits_base 10 n) = Some n"
proof -
  obtain c cs where d: "digits_base 10 n = c # cs" "is_digit c" using digits_base_head by blast
  obtain k where "digits_value 10 0 (digits_base 10 n @ []) = digits_value 10 (0 * 10 ^ k + n) []"
    using digits_value_append by blast
  moreover have "c \<noteq> CHR ''_''" using d(2) by (auto simp: is_digit_def)
  ultimately show ?thesis using d(1) by (simp add: unsigned_value_def del: digits_value.simps(2))
qed

lemma strip_no_space: "list_all (\<lambda>c. \<not> is_space c) s \<Longrightarrow> strip s = s"
proof -
  assume a: "list_all (\<lambda>c. \<not> is_space c) s"
  have dw: "dropWhile is_space t = t" if "\<forall>c\<in>set t. \<not> is_space c" for t
    using that by (cases t) auto
  have "\<forall>c\<in>set s. \<not> is_space c" "\<forall>c\<in>set (rev s). \<not> is_space c"
    using a by (simp_all add: list_all_iff)
  then show ?thesis by (simp add: strip_def dw del: set_rev)
qed

lemma digit_not_special: "is_digit c \<Longrightarrow> \<not> is_space c \<and> c \<noteq> CHR ''-'' \<and> c \<noteq> CHR ''+''"
  by (auto simp: is_digit_def is_space_def)

lemma py_int_py_str: "py_int 10 (py_str n) = Inr n"
proof -
  define d where "d = digits_base 10 (nat \<bar>n\<bar>)"
  have l: "list_all is_digit d" and u: "unsigned_value 10 d = Some (nat \<bar>n\<bar>)"
    by (simp_all add: d_def digits_base_digits unsigned_value_digits)
  obtain c cs where c: "d = c # cs" "is_digit c" unfolding d_def using digits_base_head by blast
  have p: "py_str n = (if n < 0 then ''-'' @ d else d)" by (simp add: py_str_def d_def)
  have "strip (py_str n) = py_str n"
    using l digit_not_special by (intro strip_no_space) (auto simp: p list_all_iff is_space_def)
  moreover have "strip_0x 10 x = x" for x by (simp add: strip_0x_def)
  ultimately show ?thesis
    using c u digit_not_special [OF c(2)] by (auto simp: py_int_def p Let_def)
qed

section \<open>Events of the transaction processors\<close>

text \<open>An event as the API receives it: its type and its attributes as dictionaries.\<close>

definition received_event :: "string \<Rightarrow> (string \<times> string) list \<Rightarrow> dict" where
  "received_event event_type attributes =
     [(''event_type'', PStr event_type),
      (''attributes'', PList (map (\<lambda>(k, v). PDict [(''key'', PStr k), (''value'', PStr v)]) attributes))]"

lemma parse_received_entities:
  assumes "json_ok (PList (map (entity_changed P) updated))"
  shows "parse_entities (received_event event_type (get_event_attributes P updated sig))
    = Inr (PList (map (entity_changed P) updated))"
  using json_loads_dumps [OF assms]
  by (simp add: parse_entities_def received_event_def get_event_attributes_def attributes_of_def dict_lookup_def
      as_list_def as_dict_def del: json_dumps.simps)

text \<open>How \<open>MessageToDict\<close> renders an account.\<close>

definition account_dict :: "'b pblib \<Rightarrow> bool" where
  "account_dict P \<longleftrightarrow> (\<forall>x. MessageToDict P (AccountM x) =
     [(''balance'', PStr (py_str (balance x))), (''pub_keys'', PList (map PStr (pub_keys x)))])"

lemma account_entity:
  assumes "account_dict P"
  shows "entity_changed P (a, AccountM x) = PDict
    [(''address'', PStr a), (''type'', PStr ''Account''), (''balance'', PStr (py_str (balance x))),
     (''pub_keys'', PList (map PStr (pub_keys x)))]"
  using assms by (simp add: entity_changed_def account_dict_def)

lemma py_str_ascii: "ascii (py_str n)"
proof -
  have "(of_char c :: nat) < 128" if "is_digit c" for c
    using that by (auto simp: is_digit_def)
  with digits_base_digits show ?thesis by (auto simp: py_str_def ascii_def list_all_iff)
qed

lemma account_entity_ok:
  assumes "account_dict P" and "ascii a" and "list_all ascii (pub_keys x)"
  shows "json_ok (entity_changed P (a, AccountM x))"
  using assms(2,3) py_str_ascii by (auto simp: account_entity [OF assms(1)] list_all_iff) (simp_all add: ascii_def)

lemma account_response_entity:
  assumes "account_dict P"
  shows "account_response (entity_changed P (a, AccountM x)) = Inr (PDict
    [(''address'', PStr a), (''balance'', PFloat (round53 (balance x)))])"
  by (simp add: account_response_def account_entity [OF assms] item_def as_dict_def dict_lookup_def py_float_def
      py_int_py_str)

lemma transfer_event_flow:
  fixes x y :: Account
  assumes "account_dict P" and "ascii a" and "ascii b"
    and "list_all ascii (pub_keys x)" and "list_all ascii (pub_keys y)"
  shows "\<exists>st. parse_evt TransferEventHandler
      (received_event event_type (get_event_attributes P [(a, AccountM x), (b, AccountM y)] sig)) = Inr st \<and>
    truthy st \<and>
    transfer_response st [(''address'', PStr watched)] = Inr
      (if watched = a \<or> watched = b
       then PDict [(''from'', PDict [(''address'', PStr a), (''balance'', PFloat (round53 (balance x)))]),
                   (''to'', PDict [(''address'', PStr b), (''balance'', PFloat (round53 (balance y)))])]
       else PNone)"
proof -
  let ?u = "[(a, AccountM x), (b, AccountM y)]"
  have "json_ok (PList (map (entity_changed P) ?u))"
    using account_entity_ok [OF assms(1,2,4)] account_entity_ok [OF assms(1,3,5)] by simp
  note p = parse_received_entities [OF this, of event_type sig]
  have i: "item (entity_changed P (c, AccountM z)) ''address'' = Inr (PStr c)" for c z
    by (simp add: account_entity [OF assms(1)] item_def as_dict_def dict_lookup_def)
  show ?thesis
    using p by (auto simp: transfer_response_def nth_item_def as_list_def dict_lookup_def i
        account_response_entity [OF assms(1)])
qed


section \<open>From the processor to the subscriber\<close>

text \<open>The notification of a transfer, and the state of the server after it was sent.\<close>

definition transfer_note :: "string \<Rightarrow> Account \<Rightarrow> string \<Rightarrow> Account \<Rightarrow> pyval" where
  "transfer_note a x b y =
     PDict [(''from'', PDict [(''address'', PStr a), (''balance'', PFloat (round53 (balance x)))]),
            (''to'', PDict [(''address'', PStr b), (''balance'', PFloat (round53 (balance y)))])]"

definition note_digest :: "pyval \<Rightarrow> string" where
  "note_digest response =
     (case prepare_evt_hash TransferEventHandler response of Inr eh \<Rightarrow> eh | Inl _ \<Rightarrow> [])"

lemma transfer_note_hash:
  "prepare_evt_hash TransferEventHandler (transfer_note a x b y) = Inr (note_digest (transfer_note a x b y))"
  by (simp add: note_digest_def prepare_evt_hash_def transfer_note_def item_def as_dict_def dict_lookup_def)

lemma transfer_event_names: "map_of SAWTOOTH_TO_REMME_EVENT (event_value ACCOUNT_TRANSFER) = Some [''transfer'']"
  by code_simp

lemma on_chain_elift [simp]: "on_chain (elift r) s = (r, s)"
  by (simp add: on_chain_def)

lemma transfer_notified:
  fixes x y :: Account
  assumes "account_dict P" and "ascii a" and "ascii b"
    and "list_all ascii (pub_keys x)" and "list_all ascii (pub_keys y)"
    and sub: "map_of (subs_of s w) ''transfer'' = Some sub" "validated_data sub = [(''address'', PStr watched)]"
    and hs: "evthashes s w = Some hs"
  shows "process_msg E w ''CLIENT_EVENTS''
      [received_event (event_value ACCOUNT_TRANSFER) (get_event_attributes P [(a, AccountM x), (b, AccountM y)] sig)] s =
    (Inr (), if watched \<in> {a, b} \<and> note_digest (transfer_note a x b y) \<notin> set hs
       then s\<lparr>outbox := outbox s @ [sent w TransferEventHandler sub (transfer_note a x b y)],
              evthashes := (evthashes s)(w \<mapsto> note_digest (transfer_note a x b y) # hs)\<rparr>
       else s)"
proof -
  let ?evt = "received_event (event_value ACCOUNT_TRANSFER) (get_event_attributes P [(a, AccountM x), (b, AccountM y)] sig)"
  from transfer_event_flow [OF assms(1-5), of "event_value ACCOUNT_TRANSFER" sig watched] obtain st where
    st: "parse_evt TransferEventHandler ?evt = Inr st" "truthy st"
      "transfer_response st [(''address'', PStr watched)]
        = Inr (if watched = a \<or> watched = b then transfer_note a x b y else PNone)"
    by (auto simp: transfer_note_def)
  have h: "map_of EVENT_HANDLERS ''transfer'' = Some TransferEventHandler"
    using NAME_handler [of TransferEventHandler] by simp
  have t: "truthy (transfer_note a x b y)" "\<not> truthy PNone" by (simp_all add: transfer_note_def)
  have d: "deliver E w TransferEventHandler sub ?evt s =
    (Inr (), if watched \<in> {a, b} \<and> note_digest (transfer_note a x b y) \<notin> set hs
       then s\<lparr>outbox := outbox s @ [sent w TransferEventHandler sub (transfer_note a x b y)],
              evthashes := (evthashes s)(w \<mapsto> note_digest (transfer_note a x b y) # hs)\<rparr>
       else s)"
    using st sub(2) hs t by (simp add: deliver_def transfer_note_hash sent_def)
  have e: "rbind (dict_lookup ?evt ''event_type'') str_of = Inr (event_value ACCOUNT_TRANSFER)"
    by (simp add: received_event_def dict_lookup_def str_of_def)
  have n: "notify_one E w ?evt ''transfer'' s = deliver E w TransferEventHandler sub ?evt s"
    using h sub(1) hs by (simp add: notify_one_def)
  show ?thesis
    using transfer_event_names
    by (simp add: process_msg_def process_event_def e n d del: event_value.simps)
qed

end
