(* ===== verification/Submission.thy ===== *)
theory Submission
  imports ClientViews RpcApi EventFlow
begin

text \<open>
  The way of a transaction from a client to the state and back: a client of \<open>remme/clients\<close> builds a
  signed batch, the validator hands the transaction of the batch to the transaction processor with
  access to the addresses its header declares, the processor applies it, and the queries of the
  clients show the result. The messages of the SDK and the validator in between are not part of the
  sources; the locale \<open>sdk_messages\<close> and the predicate \<open>delivered\<close> are what the sources rely on of them.
\<close>

section \<open>Messages of the SDK\<close>

text \<open>
  A message has the fields it was constructed with, a serialised header parses back, and so does the
  payload of a transaction.
\<close>

locale sdk_messages =
  fixes L :: rest_lib and Z :: serializer and P :: "string pblib"
  assumes construct_attr:
      "construct L cls kw = Inr m \<Longrightarrow> distinct (map fst kw) \<Longrightarrow> (k, x) \<in> set kw \<Longrightarrow> attr m k = Inr x"
    and header_roundtrip:
      "construct L ''TransactionHeader'' kw = Inr m \<Longrightarrow> distinct (map fst kw) \<Longrightarrow>
         \<exists>hd. parse_header_msg L ''TransactionHeader'' (Z ''TransactionHeader'' m) = Inr hd \<and>
           (\<forall>k x. (k, x) \<in> set kw \<longrightarrow> map_of hd k = Some x)"
    and payload_roundtrip:
      "construct L ''TransactionPayload'' [(''method'', PInt meth), (''data'', PStr d)] = Inr m \<Longrightarrow>
         Parse_TransactionPayload P (Z ''TransactionPayload'' m) = Inr (meth, d)"

text \<open>The transactions of a list of batches.\<close>

definition transactions_of :: "pyval \<Rightarrow> pyval list res" where
  "transactions_of bl =
     rbind (rbind (attr bl ''batches'') as_list) (\<lambda>bs.
     rbind (rmap (\<lambda>b. rbind (attr b ''transactions'') as_list) bs) (\<lambda>ts. Inr (concat ts)))"

text \<open>
  What the validator makes of a transaction: a request with the signer and the inputs of its header,
  its payload and its signature, in a context that grants what the declared inputs cover for reading
  and what the declared outputs cover for writing.
\<close>

definition delivered :: "rest_lib \<Rightarrow> pyval \<Rightarrow> string tp_request \<Rightarrow> string set \<Rightarrow> string set \<Rightarrow> bool" where
  "delivered L t tr rd wr \<longleftrightarrow>
     (\<exists>h hd outs. attr t ''header'' = Inr (PStr h) \<and> parse_header_msg L ''TransactionHeader'' h = Inr hd \<and>
        map_of hd ''signer_public_key'' = Some (PStr (signer tr)) \<and>
        map_of hd ''inputs'' = Some (PList (map PStr (inputs tr))) \<and>
        map_of hd ''outputs'' = Some (PList (map PStr outs)) \<and>
        attr t ''payload'' = Inr (PStr (req_payload tr)) \<and>
        attr t ''header_signature'' = Inr (PStr (signature tr)) \<and>
        {a. covered (inputs tr) a} \<subseteq> rd \<and> {a. covered outs a} \<subseteq> wr)"

lemma map_PStr_eq [simp]: "map PStr xs = map PStr ys \<longleftrightarrow> xs = ys"
  by (rule inj_map_eq_map) (auto simp: inj_on_def)

section \<open>From a client to a request\<close>

context sdk_messages
begin

lemma sign_batch_list_transactions:
  assumes "sign_batch_list L Z sg ts = Inr bl"
  shows "transactions_of bl = Inr ts"
proof -
  from assms obtain header sg_sig b where
      b: "construct L ''Batch'' [(''header'', PStr header), (''transactions'', PList ts), (''header_signature'', PStr sg_sig)] = Inr b"
      and bl: "construct L ''BatchList'' [(''batches'', PList [b])] = Inr bl"
    by (auto simp: sign_batch_list_def Let_def res_simps)
  have "attr b ''transactions'' = Inr (PList ts)" "attr bl ''batches'' = Inr (PList [b])"
    by (auto intro: construct_attr [OF b] construct_attr [OF bl])
  then show ?thesis by (simp add: transactions_of_def as_list_def)
qed

lemma make_batch_list_transaction:
  assumes "make_batch_list L Z cl nonce pl ins outs = Inr bl"
  obtains t h hd where "transactions_of bl = Inr [t]"
    and "attr t ''header'' = Inr (PStr h)" and "parse_header_msg L ''TransactionHeader'' h = Inr hd"
    and "map_of hd ''signer_public_key'' = Some (PStr (public_key_hex (client_signer cl)))"
    and "map_of hd ''inputs'' = Some (PList (map PStr ins))"
    and "map_of hd ''outputs'' = Some (PList (map PStr outs))"
    and "attr t ''payload'' = Inr (PStr (Z ''TransactionPayload'' pl))"
    and "attr t ''header_signature'' = Inr (PStr (sign (client_signer cl) h))"
proof -
  let ?pl = "Z ''TransactionPayload'' pl"
  from assms obtain fh hdr t where
      hdr: "construct L ''TransactionHeader'' (transaction_header fh (client_signer cl) nonce ?pl ins outs) = Inr hdr"
    and t: "construct L ''Transaction'' [(''header'', PStr (Z ''TransactionHeader'' hdr)), (''payload'', PStr ?pl),
        (''header_signature'', PStr (sign (client_signer cl) (Z ''TransactionHeader'' hdr)))] = Inr t"
    and bl: "sign_batch_list L Z (client_signer cl) [t] = Inr bl"
    by (auto simp: make_batch_list_def with_handler_def Let_def res_simps split: option.splits)
  have "distinct (map fst (transaction_header fh (client_signer cl) nonce ?pl ins outs))"
    by (simp add: transaction_header_def)
  from header_roundtrip [OF hdr this] obtain hd where
      hd: "parse_header_msg L ''TransactionHeader'' (Z ''TransactionHeader'' hdr) = Inr hd"
    and f: "\<And>k x. (k, x) \<in> set (transaction_header fh (client_signer cl) nonce ?pl ins outs) \<Longrightarrow> map_of hd k = Some x"
    by blast
  show thesis
    by (rule that [OF sign_batch_list_transactions [OF bl] _ hd])
      (auto intro: construct_attr [OF t] f simp: transaction_header_def)
qed

lemma delivered_request:
  assumes "make_batch_list L Z cl nonce pl ins outs = Inr bl" and "transactions_of bl = Inr [t]"
    and "delivered L t tr rd wr"
  shows "signer tr = public_key_hex (client_signer cl)" and "inputs tr = ins"
    and "req_payload tr = Z ''TransactionPayload'' pl"
    and "{a. covered ins a} \<subseteq> rd" and "{a. covered outs a} \<subseteq> wr"
  by (rule make_batch_list_transaction [OF assms(1)], use assms(2,3) in \<open>auto simp: delivered_def\<close>)+

text \<open>A transaction can be delivered wherever its declared addresses are granted.\<close>

lemma deliverable:
  assumes "make_batch_list L Z cl nonce pl ins outs = Inr bl"
    and "{a. covered ins a} \<subseteq> rd" and "{a. covered outs a} \<subseteq> wr"
  obtains t tr where "transactions_of bl = Inr [t]" and "delivered L t tr rd wr"
proof (rule make_batch_list_transaction [OF assms(1)])
  fix t h hd
  assume t: "transactions_of bl = Inr [t]" "attr t ''header'' = Inr (PStr h)"
    "parse_header_msg L ''TransactionHeader'' h = Inr hd"
    "map_of hd ''signer_public_key'' = Some (PStr (public_key_hex (client_signer cl)))"
    "map_of hd ''inputs'' = Some (PList (map PStr ins))" "map_of hd ''outputs'' = Some (PList (map PStr outs))"
    "attr t ''payload'' = Inr (PStr (Z ''TransactionPayload'' pl))"
    "attr t ''header_signature'' = Inr (PStr (sign (client_signer cl) h))"
  have "delivered L t \<lparr>inputs = ins, signer = public_key_hex (client_signer cl),
      req_payload = Z ''TransactionPayload'' pl, signature = sign (client_signer cl) h\<rparr> rd wr"
    unfolding delivered_def using t assms(2,3) by (intro exI [of _ h] exI [of _ hd] exI [of _ outs]) simp
  with t(1) show thesis by (rule that)
qed

lemma submitted_decoded:
  assumes "transaction_payload L P meth m = Inr pl" and "make_batch_list L Z cl nonce pl ins outs = Inr bl"
    and "transactions_of bl = Inr [t]" and "delivered L t tr rd wr"
    and "ParseFromString P (class_of m) (SerializeToString P m) = Inr m"
    and "map_of sp meth = Some en" and "pb_class_of en = class_of m"
    and "check_payload P wt sp (meth, SerializeToString P m) = Inr ()"
  shows "decode_request P wt sp tr = Inr (en, m)"
proof -
  have "Parse_TransactionPayload P (req_payload tr) = Inr (meth, SerializeToString P m)"
    using payload_roundtrip assms(1) delivered_request(3) [OF assms(2-4)] by (simp add: transaction_payload_def)
  from check_payload_strict [OF this assms(8,6)] assms(5,7) show ?thesis by simp
qed

end

section \<open>From a request to the state\<close>

lemma declared_covers_written:
  assumes "declared_addresses sg r m = Inr (ins, outs)" and "names_receiver P v r m"
    and "a \<in> set (written P v (public_key_hex sg) m)"
  shows "covered outs a"
  using assms
  by (cases m) (auto simp: declared_defs names_receiver_def Let_def covered_self split: option.splits)

text \<open>
  A transaction that a client submits with the addresses it declares is applied if the rules accept
  it: the declared addresses are enough.
\<close>

lemma submitted_applied:
  assumes gc: "granting_context K view readable writable" and pb: "pb_typed P" "pb_decode_errors P"
    and sdk: "sdk_messages L Z P"
    and ad: "declared_addresses (client_signer cl) r m = Inr (ins, outs)" "names_receiver P (view c) r m"
    and tx: "transaction_payload L P meth m = Inr pl" "make_batch_list L Z cl nonce pl ins outs = Inr bl"
      "transactions_of bl = Inr [t]"
    and dl: "delivered L t tr (readable c) (writable c)"
    and ok: "ParseFromString P (class_of m) (SerializeToString P m) = Inr m"
      "map_of (get_state_processor P K Y E fam) meth = Some en" "pb_class_of en = class_of m"
      "check_payload P wt (get_state_processor P K Y E fam) (meth, SerializeToString P m) = Inr ()"
    and step: "state_step P Y E (public_key_hex (client_signer cl)) m (view c) v'"
  shows "\<exists>c'. process_request P K wt Y E fam tr c = (Inr (), c') \<and> view c' = v'"
proof -
  note d = sdk_messages.delivered_request [OF sdk tx(2,3) dl]
  have dec: "decode_request P wt (get_state_processor P K Y E fam) tr = Inr (en, m)"
    using sdk_messages.submitted_decoded [OF sdk tx dl ok] .
  show ?thesis
  proof (rule granting_context.process_request_granted [OF gc pb dec])
    show "state_step P Y E (signer tr) m (view c) v'" using step d(1) by simp
    show "set (filter (\<lambda>a. length a = 70) (inputs tr)) \<subseteq> readable c"
      using d(2,4) covered_self by fastforce
    show "set (footprint P (view c) (signer tr) m) \<subseteq> readable c"
      using declared_covers_footprint [OF ad] d(1,4) by auto
    show "set (written P (view c) (signer tr) m) \<subseteq> writable c"
      using declared_covers_written [OF ad] d(1,5) by auto
  qed
qed

section \<open>The form of a transfer\<close>

text \<open>How \<open>MessageToDict\<close> renders a transfer.\<close>

definition transfer_dict :: "'b pblib \<Rightarrow> bool" where
  "transfer_dict P \<longleftrightarrow> (\<forall>p. MessageToDict P (TransferPayloadM p) =
     [(''address_to'', PStr (address_to p)), (''value'', PStr (py_str (tp_value p)))])"

lemma decimal_value_digits: "decimal_value (digits_base 10 n) = int n"
proof (induction n rule: less_induct)
  case (less n)
  have c: "(of_char (hex_chars ! d) :: int) = 48 + int d" if "d < 10" for d
    using digit_char(2) [OF that] by (metis of_nat_add of_nat_numeral of_nat_of_char)
  show ?case
  proof (cases "n < 10")
    case True
    then show ?thesis by (simp add: digits_base.simps c)
  next
    case False
    then have "digits_base 10 n = digits_base 10 (n div 10) @ [hex_chars ! (n mod 10)]"
      by (subst digits_base.simps) simp
    moreover have "10 * int (n div 10) + int (n mod 10) = int n" by presburger
    ultimately show ?thesis using less.IH [of "n div 10"] False c [of "n mod 10"] by simp
  qed
qed

lemma load_value_py_str:
  assumes "0 \<le> n"
  shows "load_value (PStr (py_str n)) = PInt n"
proof -
  from assms have p: "py_str n = digits_base 10 (nat n)" by (simp add: py_str_def)
  have "isdigit (py_str n)"
    using digits_base_digits [of "nat n"] digits_base_head [of "nat n"] by (auto simp: p isdigit_def)
  then show ?thesis
    using assms decimal_value_digits [of "nat n"] by (simp add: load_value_def p del: decimal_value.simps)
qed

text \<open>
  The form accepts a positive value and an address that begins with seventy hexadecimal digits, not
  all of them decimal.
\<close>

lemma transfer_form_accepts:
  assumes "wt_documented wt" and "transfer_dict P" and "re_match_hex 70 (address_to p)"
    and "\<not> isdigit (address_to p)" and "0 < tp_value p"
  shows "\<exists>f. load_proto P TransferPayloadForm (TransferPayloadM p) = Inr f \<and> validate wt f [] = Inr (True, [])"
proof -
  have a: "load_value (PStr (address_to p)) = PStr (address_to p)"
    using assms(4) by (simp add: load_value_def)
  have v: "load_value (PStr (py_str (tp_value p))) = PInt (tp_value p)"
    using assms(5) by (intro load_value_py_str) simp
  have l: "load_proto P TransferPayloadForm (TransferPayloadM p) = Inr \<lparr>form_cls = TransferPayloadForm,
      form_data = [(''address_to'', PStr (address_to p)), (''value'', PInt (tp_value p))], wrong_fields = []\<rparr>"
    using assms(2) a v
    by (simp add: load_proto_def load_data_def transfer_dict_def gen_load.simps form_fields_defs AddressField_def
        unknown_keys_def)
  show ?thesis
    using assms(1,3,5) re_match_hex_present [OF assms(3)]
    by (simp add: l validate_def validate_form.simps form_fields_defs AddressField_def wt_documented_def field_data_def
        collect_errors_def post_validate_def)
qed

lemma transfer_check_accepts:
  assumes "wt_documented wt" and "transfer_dict P" and "re_match_hex 70 (address_to p)"
    and "\<not> isdigit (address_to p)" and "0 < tp_value p"
    and "map_of sp meth = Some (transfer_entry P K)"
    and "ParseFromString P TransferPayloadC d = Inr (TransferPayloadM p)"
  shows "check_payload P wt sp (meth, d) = Inr ()"
  using transfer_form_accepts [OF assms(1-5)] assms(6,7)
  by (auto simp: check_payload_def get_proto_validator_def transfer_entry_def)

section \<open>A transfer and the balances it leaves\<close>

text \<open>What a serialised account is read as.\<close>

definition accounts_survive :: "'b pblib \<Rightarrow> bool" where
  "accounts_survive P \<longleftrightarrow>
     (\<forall>x. uint 64 (balance x) \<longrightarrow> ParseFromString P AccountC (SerializeToString P (AccountM x)) = Inr (AccountM x))"

lemma account_at_put:
  assumes "accounts_survive P" and "u a = Some (AccountM x)" and "uint 64 (balance x)"
  shows "account_at P (put P v u) a = x"
  using assms by (auto simp: accounts_survive_def account_at_def entry_def put_def map_add_def)

lemma decodes_put:
  fixes P :: "string pblib"
  assumes "accounts_survive P" and "u a = Some (AccountM x)" and "uint 64 (balance x)"
  shows "decodes P (put P v u) AccountC a"
  using assms by (auto simp: accounts_survive_def decodes_def put_def map_add_def)

text \<open>The state after a transfer, and the balances a client reads from a validator that serves it.\<close>

definition transferred :: "'b pblib \<Rightarrow> string \<Rightarrow> string \<Rightarrow> int \<Rightarrow> (string \<rightharpoonup> 'b) \<Rightarrow> (string \<rightharpoonup> 'b)" where
  "transferred P a b n v = put P v
     [a \<mapsto> AccountM ((account_at P v a)\<lparr>balance := balance (account_at P v a) - n\<rparr>),
      b \<mapsto> AccountM ((account_at P v b)\<lparr>balance := balance (account_at P v b) + n\<rparr>)]"

definition transfer_accepted :: "'b pblib \<Rightarrow> (string \<rightharpoonup> 'b) \<Rightarrow> string \<Rightarrow> string \<Rightarrow> int \<Rightarrow> bool" where
  "transfer_accepted P v a b n \<longleftrightarrow> 0 < n \<and> a \<noteq> b \<and> is_account_addr b \<and> n \<le> balance (account_at P v a) \<and>
     balance (account_at P v b) + n < 2 ^ 64"

lemma transferred_step:
  assumes "transfer_accepted P v (account_address pk) (address_to p) (tp_value p)"
  shows "state_step P Y E pk (TransferPayloadM p) v (transferred P (account_address pk) (address_to p) (tp_value p) v)"
  using assms by (auto simp: transfer_accepted_def transferred_def intro!: state_step.transfer)

lemma transferred_balances:
  fixes P :: "string pblib"
  assumes "pb_typed P" and "accounts_survive P" and "transfer_accepted P v a b n"
    and "validator_service L S chain_state root" and "chain_state w = transferred P a b n v"
  shows "get_balance L S P a w = (Inr (balance (account_at P v a) - n), w)"
    and "get_balance L S P b w = (Inr (balance (account_at P v b) + n), w)"
proof -
  let ?a = "(account_at P v a)\<lparr>balance := balance (account_at P v a) - n\<rparr>"
  let ?b = "(account_at P v b)\<lparr>balance := balance (account_at P v b) + n\<rparr>"
  let ?u = "[a \<mapsto> AccountM ?a, b \<mapsto> AccountM ?b]"
  have r: "uint 64 (balance ?a)" "uint 64 (balance ?b)" and u: "?u a = Some (AccountM ?a)" "?u b = Some (AccountM ?b)"
    using assms(3) account_at_range [OF assms(1), of v a] account_at_range [OF assms(1), of v b]
    by (auto simp: transfer_accepted_def)
  have w: "chain_state w = put P v ?u" by (simp add: assms(5) transferred_def)
  note view = validator_service.get_balance_view [OF assms(4), of P w]
  show "get_balance L S P a w = (Inr (balance (account_at P v a) - n), w)"
    using view [of a] decodes_put [where u = ?u, OF assms(2) u(1) r(1), of v] account_at_put [where u = ?u, OF assms(2) u(1) r(1), of v]
    by (simp add: w)
  show "get_balance L S P b w = (Inr (balance (account_at P v b) + n), w)"
    using view [of b] decodes_put [where u = ?u, OF assms(2) u(2) r(2), of v] account_at_put [where u = ?u, OF assms(2) u(2) r(2), of v]
    by (simp add: w)
qed

text \<open>A transfer a client submits is applied and seen by every later query.\<close>

lemma submitted_transfer:
  assumes gc: "granting_context K view readable writable" and pb: "pb_typed P" "pb_decode_errors P"
    and sdk: "sdk_messages L Z P" and wt: "wt_documented wt" "transfer_dict P"
    and p: "get_transfer_payload to n = Inr p" "re_match_hex 70 to" "\<not> isdigit to"
    and ok: "ParseFromString P TransferPayloadC (SerializeToString P (TransferPayloadM p)) = Inr (TransferPayloadM p)"
      "EnumValue P ''AccountMethod'' ''TRANSFER'' \<noteq> EnumValue P ''AccountMethod'' ''GENESIS''"
    and ad: "transfer_addresses (AccountClient sg) to = Inr (ins, outs)"
    and tx: "transaction_payload L P (EnumValue P ''AccountMethod'' ''TRANSFER'') (TransferPayloadM p) = Inr pl"
      "make_batch_list L Z (AccountClient sg) nonce pl ins outs = Inr bl" "transactions_of bl = Inr [t]"
    and dl: "delivered L t tr (readable c) (writable c)"
    and acc: "transfer_accepted P (view c) (account_address (public_key_hex sg)) to n"
  shows "\<exists>c'. process_request P K wt Y E AccountFamily tr c = (Inr (), c') \<and>
    view c' = transferred P (account_address (public_key_hex sg)) to n (view c)"
proof -
  from p(1) have q: "address_to p = to" "tp_value p = n" "0 < n"
    using acc by (auto simp: get_transfer_payload_def res_simps transfer_accepted_def)
  let ?sp = "get_state_processor P K Y E AccountFamily"
  have m: "map_of ?sp (EnumValue P ''AccountMethod'' ''TRANSFER'') = Some (transfer_entry P K)"
    using ok(2) by (simp add: account_state_processor_def)
  have "check_payload P wt ?sp (EnumValue P ''AccountMethod'' ''TRANSFER'', SerializeToString P (TransferPayloadM p)) = Inr ()"
    using transfer_check_accepts [OF wt, of p ?sp _ K] p q m ok(1) by simp
  moreover have "declared_addresses (client_signer (AccountClient sg)) [] (TransferPayloadM p) = Inr (ins, outs)"
    using ad q(1) by (simp add: AccountClient_def)
  moreover have "state_step P Y E (public_key_hex (client_signer (AccountClient sg))) (TransferPayloadM p) (view c)
      (transferred P (account_address (public_key_hex sg)) to n (view c))"
    using transferred_step [of P "view c" "public_key_hex sg" p Y E] acc q by (simp add: AccountClient_def)
  ultimately show ?thesis
    using submitted_applied [OF gc pb sdk _ _ tx dl, where r = "[]" and fam = AccountFamily and wt = wt and Y = Y and E = E] m ok(1)
    by (simp add: names_receiver_def transfer_entry_def)
qed

end
