(* ===== verification/Ledger.thy ===== *)
theory Ledger
  imports Chain TokenLedger
begin

text \<open>
  The token economy of a state: the ledger of \<^verbatim>\<open>TokenLedger\<close> that a state stands for, each
  transaction as an operation on it, and the conservation of the tokens in circulation along every
  run of the node.
\<close>

section \<open>The ledger of a state\<close>

definition is_swap_addr :: "string \<Rightarrow> bool" where
  "is_swap_addr a \<longleftrightarrow> startswith a (prefix_of AtomicSwapHandler)"

lemma is_swap_addr_take: "is_swap_addr a \<longleftrightarrow> take 6 a = ''78173b''"
  by (simp add: is_swap_addr_def prefix_AtomicSwapHandler eval_nat_numeral)

lemma is_swap_addr_swap_address [simp]: "is_swap_addr (swap_address d)"
  by (simp add: is_swap_addr_take take_swap_address)

lemma account_addr_not_swap_addr [simp]: "is_account_addr a \<Longrightarrow> \<not> is_swap_addr a"
  using take_ZERO_ADDRESS by (auto simp: is_account_addr_take is_swap_addr_take)

lemma swap_addr_not_account_addr: "is_swap_addr a \<Longrightarrow> \<not> is_account_addr a"
  using account_addr_not_swap_addr by blast

definition is_key_addr :: "string \<Rightarrow> bool" where
  "is_key_addr a \<longleftrightarrow> startswith a (prefix_of PubKeyHandler)"

lemma is_key_addr_take: "is_key_addr a \<longleftrightarrow> take 6 a = ''a23be1''"
  by (simp add: is_key_addr_def prefix_PubKeyHandler eval_nat_numeral)

lemma is_key_addr_pub_key_address [simp]: "is_key_addr (pub_key_address d)"
  by (simp add: is_key_addr_take take_pub_key_address)

lemma key_addr_not_account_addr: "is_key_addr a \<Longrightarrow> \<not> is_account_addr a"
  using take_ZERO_ADDRESS by (auto simp: is_account_addr_take is_key_addr_take)

lemma key_addr_not_swap_addr: "is_key_addr a \<Longrightarrow> \<not> is_swap_addr a"
  by (auto simp: is_swap_addr_take is_key_addr_take)

lemma GENESIS_not_key_addr [simp]: "\<not> is_key_addr GENESIS_ADDRESS"
  by (simp add: is_key_addr_take take_GENESIS_ADDRESS)

text \<open>Addresses of different families are different.\<close>

lemma family_addr_neq:
  "is_account_addr a \<Longrightarrow> is_swap_addr b \<Longrightarrow> a \<noteq> b" "is_swap_addr b \<Longrightarrow> is_account_addr a \<Longrightarrow> b \<noteq> a"
  "is_account_addr a \<Longrightarrow> is_key_addr b \<Longrightarrow> a \<noteq> b" "is_key_addr b \<Longrightarrow> is_account_addr a \<Longrightarrow> b \<noteq> a"
  "is_key_addr a \<Longrightarrow> is_swap_addr b \<Longrightarrow> a \<noteq> b" "is_swap_addr b \<Longrightarrow> is_key_addr a \<Longrightarrow> b \<noteq> a"
  using account_addr_not_swap_addr key_addr_not_account_addr key_addr_not_swap_addr by blast+

definition swap_funds :: "AtomicSwapInfo option \<Rightarrow> int" where
  "swap_funds s = (case s of None \<Rightarrow> 0 | Some si \<Rightarrow> if not_permitted (state si) then 0 else amount si)"

definition ledger_of :: "'b pblib \<Rightarrow> (string \<rightharpoonup> 'b) \<Rightarrow> token_ledger" where
  "ledger_of P v = \<lparr>
     bal = (\<lambda>a. if is_account_addr a then balance (account_at P v a) else 0),
     locked = (\<lambda>a. if is_swap_addr a then swap_funds (swap_at P v a) else 0) \<rparr>"

lemma bal_ledger_of: "is_account_addr a \<Longrightarrow> bal (ledger_of P v) a = balance (account_at P v a)"
  by (simp add: ledger_of_def)

lemma locked_ledger_of: "is_swap_addr a \<Longrightarrow> locked (ledger_of P v) a = swap_funds (swap_at P v a)"
  by (simp add: ledger_of_def)

lemma ledger_put_account:
  assumes "pb_roundtrip P" and "is_account_addr a" and "uint 64 (balance x)"
  shows "ledger_of P (v(a \<mapsto> SerializeToString P (AccountM x)))
    = (ledger_of P v)\<lparr>bal := (bal (ledger_of P v))(a := balance x)\<rparr>"
proof -
  have "account_at P (v(a \<mapsto> SerializeToString P (AccountM x))) b
      = (if b = a then x else account_at P v b)" for b
    using account_at_update [OF assms(1,3)] by simp
  moreover have "is_swap_addr b \<Longrightarrow> swap_at P (v(a \<mapsto> SerializeToString P (AccountM x))) b = swap_at P v b" for b
    using assms(2) account_addr_not_swap_addr by (intro swap_at_update_other) auto
  ultimately show ?thesis
    using assms(2) by (simp add: ledger_of_def fun_eq_iff)
qed

lemma ledger_put_swap:
  assumes "pb_roundtrip P" and "is_swap_addr a" and "valid_message (AtomicSwapInfoM si)"
  shows "ledger_of P (v(a \<mapsto> SerializeToString P (AtomicSwapInfoM si)))
    = (ledger_of P v)\<lparr>locked := (locked (ledger_of P v))(a := swap_funds (Some si))\<rparr>"
proof -
  have "swap_at P (v(a \<mapsto> SerializeToString P (AtomicSwapInfoM si))) b
      = (if b = a then Some si else swap_at P v b)" for b
    using swap_at_update [OF assms(1,3)] by simp
  moreover have "is_account_addr b \<Longrightarrow>
      account_at P (v(a \<mapsto> SerializeToString P (AtomicSwapInfoM si))) b = account_at P v b" for b
    using assms(2) account_addr_not_swap_addr by (intro account_at_update_other) auto
  ultimately show ?thesis
    using assms(2) by (simp add: ledger_of_def fun_eq_iff)
qed

lemma ledger_put_other:
  assumes "\<not> is_account_addr a" and "\<not> is_swap_addr a"
  shows "ledger_of P (v(a \<mapsto> d)) = ledger_of P v"
proof -
  have "is_account_addr b \<Longrightarrow> account_at P (v(a \<mapsto> d)) b = account_at P v b" for b
    using assms(1) by (intro account_at_update_other) auto
  moreover have "is_swap_addr b \<Longrightarrow> swap_at P (v(a \<mapsto> d)) b = swap_at P v b" for b
    using assms(2) by (intro swap_at_update_other) auto
  ultimately show ?thesis by (simp add: ledger_of_def fun_eq_iff)
qed

lemma finite_ledger_of:
  assumes "finite (dom v)"
  shows "finite_ledger (ledger_of P v)"
proof -
  have "support (bal (ledger_of P v)) \<subseteq> dom v"
    by (auto simp: support_def ledger_of_def account_at_def entry_def Account_default_def
        split: if_splits option.splits)
  moreover have "support (locked (ledger_of P v)) \<subseteq> dom v"
    by (auto simp: support_def ledger_of_def swap_at_def swap_funds_def entry_def
        split: if_splits option.splits)
  ultimately show ?thesis
    using assms by (auto simp: finite_ledger_def intro: finite_subset)
qed

lemma nonneg_ledger_of:
  assumes "pb_typed P"
  shows "nonneg_ledger (ledger_of P v)"
  using account_at_range [OF assms] swap_at_valid [OF assms]
  by (auto simp: nonneg_ledger_def ledger_of_def swap_funds_def split: option.split)

section \<open>Transactions as ledger operations\<close>

lemmas ledger_simps = ledger_put_account ledger_put_swap ledger_put_other bal_ledger_of locked_ledger_of

lemma pub_key_address_not_swap_addr [simp]: "\<not> is_swap_addr (pub_key_address d)"
  using take_pub_key_address [of d] by (simp add: is_swap_addr_take)

lemma GENESIS_not_swap_addr [simp]: "\<not> is_swap_addr GENESIS_ADDRESS"
  by (simp add: is_swap_addr_take take_GENESIS_ADDRESS)

lemma transfer_step_ledger:
  assumes "pb_typed P" and "pb_roundtrip P" and "state_step P Y E pk (TransferPayloadM p) v v'"
  shows "ledger_of P v' = move (account_address pk) (address_to p) (tp_value p) (ledger_of P v)"
  using assms(3)
proof cases
  case (transfer s r)
  with account_at_range [OF assms(1), of v "account_address pk"]
    account_at_range [OF assms(1), of v "address_to p"]
  show ?thesis
    by (simp add: ledger_simps assms(2) move_def)
qed

lemma genesis_step_ledger:
  assumes "pb_roundtrip P" and "state_step P Y E pk (GenesisPayloadM p) v v'"
  shows "ledger_of P v' = issue (account_address pk) (total_supply p) (ledger_of P v)"
  using assms(2)
proof cases
  case (genesis g)
  then show ?thesis by (simp add: ledger_simps assms(1) issue_def)
qed

lemma fee_ledger:
  assumes "pb_typed P" and "pb_roundtrip P" and "charge_ok P v (account_address pk)"
  shows "ledger_of P (put P v (fee_update P v))
    = (if economy_enabled P v
       then (ledger_of P v)\<lparr>bal := (bal (ledger_of P v))
              (ZERO_ADDRESS := balance (account_at P v ZERO_ADDRESS) + PUB_KEY_STORE_PRICE)\<rparr>
       else ledger_of P v)"
  using assms(3) account_at_range [OF assms(1), of v ZERO_ADDRESS]
  by (auto simp: fee_update_def charge_ok_def ledger_put_account assms(2) PUB_KEY_STORE_PRICE_def)

lemma balance_store_public_key_to_account [simp]:
  "balance (store_public_key_to_account ka acc) = balance acc"
  by (simp add: store_public_key_to_account_def)

lemma balance_charged:
  assumes "pb_typed P" and "charge_ok P v (account_address pk)"
  shows "uint 64 (balance (charged P v (account_at P v (account_address pk))))"
  using assms(2) account_at_range [OF assms(1), of v "account_address pk"]
  by (auto simp: charged_def charge_ok_def PUB_KEY_STORE_PRICE_def)

lemma store_step_ledger:
  assumes "pb_typed P" and "pb_roundtrip P" and "state_step P Y E pk (NewPubKeyPayloadM tx) v v'"
  shows "ledger_of P v' =
    (if economy_enabled P v then move (account_address pk) ZERO_ADDRESS PUB_KEY_STORE_PRICE (ledger_of P v)
     else ledger_of P v)"
  using assms(3)
proof cases
  case (store kp ka)
  note b = balance_charged [OF assms(1) \<open>charge_ok P v (account_address pk)\<close>]
  from store b fee_ledger [OF assms(1,2) \<open>charge_ok P v (account_address pk)\<close>]
  show ?thesis
    by (simp add: ledger_simps assms(2) move_def charged_def fun_upd_twist fun_upd_idem)
qed

lemma store_and_pay_step_ledger:
  assumes "pb_typed P" and "pb_roundtrip P"
    and "state_step P Y E pk (NewPubKeyStoreAndPayPayloadM sp) v v'"
  shows "ledger_of P v' =
    (if \<not> economy_enabled P v then ledger_of P v
     else if account_address (bytes_hex (owner_public_key sp)) \<noteq> account_address pk
     then move (account_address pk) ZERO_ADDRESS PUB_KEY_STORE_PRICE (ledger_of P v)
     else issue ZERO_ADDRESS (bal (ledger_of P v) ZERO_ADDRESS + PUB_KEY_STORE_PRICE) (ledger_of P v))"
  using assms(3)
proof cases
  case (store_and_pay oh tx owner_key kp ka)
  note b = balance_charged [OF assms(1) \<open>charge_ok P v (account_address pk)\<close>]
  from store_and_pay b fee_ledger [OF assms(1,2) \<open>charge_ok P v (account_address pk)\<close>]
    account_at_range [OF assms(1), of v "account_address oh"]
  show ?thesis
    by (simp add: ledger_simps assms(2) move_def issue_def charged_def fun_upd_twist fun_upd_idem)
qed

lemma revoke_step_ledger:
  assumes "state_step P Y E pk (RevokePubKeyPayloadM rp) v v'"
    and "\<not> is_account_addr (revoke_address rp)" and "\<not> is_swap_addr (revoke_address rp)"
  shows "ledger_of P v' = ledger_of P v"
  using assms(1)
proof cases
  case (revoke info)
  with assms(2,3) show ?thesis by (simp add: ledger_put_other)
qed

lemma swap_init_step_ledger:
  assumes "pb_typed P" and "pb_roundtrip P" and "state_step P Y E pk (AtomicSwapInitPayloadM ip) v v'"
  shows "\<exists>com. 0 < com \<and> swap_commission (setting_at P v SETTINGS_SWAP_COMMISSION None) = Inr com \<and>
    locked (ledger_of P v) (swap_address (init_swap_id ip)) = 0 \<and>
    ledger_of P v' = lock (account_address pk) (swap_address (init_swap_id ip)) (init_amount ip)
      (move (account_address pk) ZERO_ADDRESS com (ledger_of P v))"
  using assms(3)
proof cases
  case (swap_init a bi com s z)
  with account_at_range [OF assms(1), of v "account_address pk"]
    account_at_range [OF assms(1), of v "ZERO_ADDRESS"]
  have "ledger_of P v' = lock (account_address pk) (swap_address (init_swap_id ip)) (init_amount ip)
      (move (account_address pk) ZERO_ADDRESS com (ledger_of P v))"
    by (simp add: ledger_simps assms(2) move_def lock_def opened_swap_def swap_funds_def
        not_permitted_def fun_upd_twist)
  moreover have "swap_at P v a = None"
    using swap_init by (simp add: swap_at_def)
  ultimately show ?thesis
    using swap_init by (auto simp: locked_ledger_of swap_funds_def)
qed

lemma swap_set_lock_step_ledger:
  assumes "pb_typed P" and "pb_roundtrip P"
    and "state_step P Y E pk (AtomicSwapSetSecretLockPayloadM lp) v v'"
  shows "ledger_of P v' = ledger_of P v"
  using assms(3)
proof cases
  case (swap_set_lock a si)
  with swap_at_valid [OF assms(1), of v a si] show ?thesis
    by (simp add: ledger_simps assms(2) swap_funds_def not_permitted_def fun_upd_idem)
qed

lemma swap_approve_step_ledger:
  assumes "pb_typed P" and "pb_roundtrip P" and "state_step P Y E pk (AtomicSwapApprovePayloadM ap) v v'"
  shows "ledger_of P v' = ledger_of P v"
  using assms(3)
proof cases
  case (swap_approve a si)
  with swap_at_valid [OF assms(1), of v a si] show ?thesis
    by (simp add: ledger_simps assms(2) swap_funds_def not_permitted_def fun_upd_idem)
qed

lemma swap_expire_step_ledger:
  assumes "pb_typed P" and "pb_roundtrip P" and "state_step P Y E pk (AtomicSwapExpirePayloadM ep) v v'"
  shows "ledger_of P v' = release (swap_address (expire_swap_id ep)) (account_address pk) (ledger_of P v)"
  using assms(3)
proof cases
  case (swap_expire a si bi s)
  with swap_at_valid [OF assms(1), of v a si] show ?thesis
    by (simp add: ledger_simps assms(2) swap_funds_def not_permitted_def release_def)
qed

lemma swap_close_step_ledger:
  assumes "pb_typed P" and "pb_roundtrip P" and "state_step P Y E pk (AtomicSwapClosePayloadM cp) v v'"
    and "swap_at P v (swap_address (close_swap_id cp)) = Some si" and "is_account_addr (receiver_address si)"
  shows "ledger_of P v' = release (swap_address (close_swap_id cp)) (receiver_address si) (ledger_of P v)"
  using assms(3)
proof cases
  case (swap_close a si' r)
  with swap_at_valid [OF assms(1), of v a si] assms(4,5) show ?thesis
    by (simp add: ledger_simps assms(2) swap_funds_def not_permitted_def release_def)
qed

section \<open>Conservation\<close>

text \<open>
  Transactions that keep to the address spaces of their families: the receiver of a new swap is an
  account and the address of a revocation is one of the keys. The code checks neither.
\<close>

fun family_tx :: "message \<Rightarrow> bool" where
  "family_tx (AtomicSwapInitPayloadM ip) = is_account_addr (init_receiver_address ip)"
| "family_tx (RevokePubKeyPayloadM rp) = is_key_addr (revoke_address rp)"
| "family_tx _ = True"

text \<open>
  The transactions that keep the tokens in circulation: all but the genesis transaction and a
  \<open>STORE_AND_PAY\<close> whose payer is the owner.
\<close>

fun self_paid :: "string \<Rightarrow> message \<Rightarrow> bool" where
  "self_paid pk (NewPubKeyStoreAndPayPayloadM sp) =
     (account_address (bytes_hex (owner_public_key sp)) = account_address pk)"
| "self_paid pk _ = False"

definition regular_tx :: "string \<Rightarrow> message \<Rightarrow> bool" where
  "regular_tx pk m \<longleftrightarrow> family_tx m \<and> class_of m \<noteq> GenesisPayloadC \<and> \<not> self_paid pk m"

text \<open>Every swap in the state names an account as its receiver.\<close>

definition swaps_ok :: "'b pblib \<Rightarrow> (string \<rightharpoonup> 'b) \<Rightarrow> bool" where
  "swaps_ok P v \<longleftrightarrow>
     (\<forall>a si. is_swap_addr a \<longrightarrow> swap_at P v a = Some si \<longrightarrow> is_account_addr (receiver_address si))"

definition good_state :: "'b pblib \<Rightarrow> (string \<rightharpoonup> 'b) \<Rightarrow> bool" where
  "good_state P v \<longleftrightarrow> finite (dom v) \<and> swaps_ok P v"

lemma swaps_ok_other: "swaps_ok P v \<Longrightarrow> \<not> is_swap_addr a \<Longrightarrow> swaps_ok P (v(a \<mapsto> d))"
  unfolding swaps_ok_def by (metis swap_at_update_other)

lemma swaps_ok_swap:
  assumes "swaps_ok P v" and "pb_roundtrip P" and "valid_message (AtomicSwapInfoM si)"
    and "is_account_addr (receiver_address si)"
  shows "swaps_ok P (v(a \<mapsto> SerializeToString P (AtomicSwapInfoM si)))"
  unfolding swaps_ok_def
proof (intro allI impI)
  fix b sj
  assume b: "is_swap_addr b"
    and s: "swap_at P (v(a \<mapsto> SerializeToString P (AtomicSwapInfoM si))) b = Some sj"
  show "is_account_addr (receiver_address sj)"
  proof (cases "b = a")
    case True
    with s swap_at_update [OF assms(2,3), of v a] assms(4) show ?thesis by simp
  next
    case False
    with s b assms(1) show ?thesis by (auto simp: swaps_ok_def)
  qed
qed

lemma swaps_ok_fee: "swaps_ok P v \<Longrightarrow> swaps_ok P (put P v (fee_update P v))"
  by (auto simp: fee_update_def intro!: swaps_ok_other)

lemma finite_dom_put: "finite (dom v) \<Longrightarrow> finite (dom (put P v (fee_update P v)))"
  by (simp add: fee_update_def)

lemma swaps_ok_receiver:
  "swaps_ok P v \<Longrightarrow> swap_at P v (swap_address sid) = Some si \<Longrightarrow> is_account_addr (receiver_address si)"
  unfolding swaps_ok_def using is_swap_addr_swap_address by blast

lemma state_step_good:
  assumes "pb_typed P" and "pb_roundtrip P" and "state_step P Y E pk m v v'" and "family_tx m"
    and "good_state P v"
  shows "good_state P v'"
proof -
  have fin: "finite (dom v)" and ok: "swaps_ok P v" using assms(5) by (auto simp: good_state_def)
  from assms(3) have "swaps_ok P v'"
  proof cases
    case (swap_set_lock a lp si)
    with swap_at_valid [OF assms(1), of v a si] swaps_ok_receiver [OF ok] show ?thesis
      by (auto intro!: swaps_ok_swap ok assms(2))
  next
    case (swap_approve a ap si)
    with swap_at_valid [OF assms(1), of v a si] swaps_ok_receiver [OF ok] show ?thesis
      by (auto intro!: swaps_ok_swap ok assms(2))
  next
    case (swap_expire a ep si bi s)
    with swap_at_valid [OF assms(1), of v a si] swaps_ok_receiver [OF ok] show ?thesis
      by (auto intro!: swaps_ok_other [OF swaps_ok_swap] ok assms(2))
  next
    case (swap_close a cp si r)
    with swap_at_valid [OF assms(1), of v a si] swaps_ok_receiver [OF ok] show ?thesis
      by (auto intro!: swaps_ok_other [OF swaps_ok_swap] ok assms(2))
  next
    case (swap_init a ip bi com s z)
    with assms(4) show ?thesis
      by (auto simp: opened_swap_def intro!: swaps_ok_other [OF swaps_ok_other [OF swaps_ok_swap]] ok assms(2))
  qed (use assms(4) in \<open>auto intro!: swaps_ok_other swaps_ok_fee ok simp: key_addr_not_swap_addr\<close>)
  moreover have "finite (dom v')"
    using assms(3) fin by cases (auto simp: finite_dom_put)
  ultimately show ?thesis by (simp add: good_state_def)
qed

lemma state_step_circulation:
  assumes "pb_typed P" and "pb_roundtrip P" and "state_step P Y E pk m v v'" and "regular_tx pk m"
    and "good_state P v"
  shows "circulation (ledger_of P v') = circulation (ledger_of P v)"
proof -
  have fin: "finite_ledger (ledger_of P v)" and ok: "swaps_ok P v"
    using assms(5) by (auto simp: good_state_def finite_ledger_of)
  note step = assms(3)
  note tr = assms(1,2) step
  note circ = circulation_move circulation_release circulation_lock finite_ledger_ops [OF fin] fin
  from step show ?thesis
  proof cases
    case (transfer p)
    with transfer_step_ledger [OF assms(1,2)] step show ?thesis by (simp add: circ)
  next
    case (genesis p g)
    with assms(4) show ?thesis by (simp add: regular_tx_def)
  next
    case (store tx)
    with store_step_ledger [OF assms(1,2)] step show ?thesis by (simp add: circ)
  next
    case (store_and_pay oh sp)
    with store_and_pay_step_ledger [OF assms(1,2)] step assms(4) show ?thesis
      by (simp add: circ regular_tx_def)
  next
    case (revoke rp info)
    with assms(4) show ?thesis
      by (simp add: regular_tx_def ledger_put_other key_addr_not_account_addr key_addr_not_swap_addr)
  next
    case (swap_init a ip)
    with swap_init_step_ledger [OF assms(1,2), of Y E pk ip v v'] step obtain com where
      "locked (ledger_of P v) (swap_address (init_swap_id ip)) = 0"
      "ledger_of P v' = lock (account_address pk) (swap_address (init_swap_id ip)) (init_amount ip)
        (move (account_address pk) ZERO_ADDRESS com (ledger_of P v))" by blast
    then show ?thesis by (simp add: circ)
  next
    case (swap_set_lock a lp)
    with swap_set_lock_step_ledger [OF assms(1,2)] step show ?thesis by simp
  next
    case (swap_approve a ap)
    with swap_approve_step_ledger [OF assms(1,2)] step show ?thesis by simp
  next
    case (swap_expire a ep)
    with swap_expire_step_ledger [OF assms(1,2)] step show ?thesis by (simp add: circ)
  next
    case (swap_close a cp si)
    with swap_close_step_ledger [OF assms(1,2)] swaps_ok_receiver [OF ok] step
    show ?thesis by (simp add: circ)
  qed
qed

text \<open>Along every run of the node over regular transactions the circulation is the same.\<close>

lemma chain_invariant:
  assumes "sawtooth_context K view" and "pb_typed P" and "pb_roundtrip P"
    and "\<And>pk m. ok pk m \<Longrightarrow> family_tx m"
  shows "invariant_step (chain_step P K view wt Y E ok) (good_state P)"
proof
  fix v v'
  assume "chain_step P K view wt Y E ok v v'" and good: "good_state P v"
  with chain_step_state_step [OF assms(1,2)] obtain pk m where
    s: "ok pk m" "state_step P Y E pk m v v'" by blast
  show "good_state P v'" by (rule state_step_good [OF assms(2,3) s(2) assms(4) [OF s(1)] good])
qed

lemma chain_conserved:
  assumes "sawtooth_context K view" and "pb_typed P" and "pb_roundtrip P"
  shows "conserved (chain_step P K view wt Y E regular_tx) (good_state P)
    (\<lambda>v. circulation (ledger_of P v))"
  unfolding conserved_def conserved_axioms_def
proof (intro conjI allI impI)
  show "invariant_step (chain_step P K view wt Y E regular_tx) (good_state P)"
    using assms by (rule chain_invariant) (simp add: regular_tx_def)
next
  fix v v'
  assume "chain_step P K view wt Y E regular_tx v v'" and good: "good_state P v"
  with chain_step_state_step [OF assms(1,2)] obtain pk m where
    s: "regular_tx pk m" "state_step P Y E pk m v v'" by blast
  show "circulation (ledger_of P v') = circulation (ledger_of P v)"
    by (rule state_step_circulation [OF assms(2,3) s(2,1) good])
qed

interpretation stub_chain: conserved
  "chain_step wire_lib stub_ops stub_state wt Y E regular_tx" "good_state wire_lib"
  "\<lambda>v. circulation (ledger_of wire_lib v)" for wt Y E
  by (rule chain_conserved) (simp_all add: stub.sawtooth_context_axioms)

end
