(* ===== verification/Lifecycle.thy ===== *)
theory Lifecycle
  imports Ledger
begin

text \<open>
  The life of an entry along the chain: the state machine an atomic swap follows, the permanence of
  stored and revoked keys, and the single genesis. Each is shown for one step of the node and then
  for every run.
\<close>

section \<open>The swap state machine\<close>

text \<open>What one transaction may do to the entry of a swap.\<close>

inductive swap_move :: "AtomicSwapInfo \<Rightarrow> AtomicSwapInfo \<Rightarrow> bool" where
  lock: "\<not> not_permitted (state si) \<Longrightarrow> secret_lock si = [] \<Longrightarrow>
    swap_move si (si\<lparr>secret_lock := l, state := SECRET_LOCK_PROVIDED\<rparr>)"
| approve: "state si = SECRET_LOCK_PROVIDED \<Longrightarrow> is_initiator si \<Longrightarrow> secret_lock si \<noteq> [] \<Longrightarrow>
    swap_move si (si\<lparr>state := APPROVED\<rparr>)"
| expire: "\<not> not_permitted (state si) \<Longrightarrow> swap_move si (si\<lparr>state := EXPIRED\<rparr>)"
| close: "\<not> not_permitted (state si) \<Longrightarrow> secret_lock si \<noteq> [] \<Longrightarrow>
    (is_initiator si \<longrightarrow> state si = APPROVED) \<Longrightarrow>
    swap_move si (si\<lparr>secret_key := k, state := CLOSED\<rparr>)"

text \<open>What a move leaves alone: the terms of the swap.\<close>

definition same_terms :: "AtomicSwapInfo \<Rightarrow> AtomicSwapInfo \<Rightarrow> bool" where
  "same_terms si sj \<longleftrightarrow>
     swap_id sj = swap_id si \<and> amount sj = amount si \<and> created_at sj = created_at si \<and>
     sender_address sj = sender_address si \<and> receiver_address sj = receiver_address si \<and>
     sender_address_non_local sj = sender_address_non_local si \<and>
     is_initiator sj = is_initiator si \<and> (secret_lock si \<noteq> [] \<longrightarrow> secret_lock sj = secret_lock si)"

lemma swap_move_terms: "swap_move si sj \<Longrightarrow> same_terms si sj"
  by (induction rule: swap_move.induct) (auto simp: same_terms_def)

lemma same_terms_refl [simp]: "same_terms si si"
  by (simp add: same_terms_def)

lemma same_terms_trans: "same_terms si sj \<Longrightarrow> same_terms sj sk \<Longrightarrow> same_terms si sk"
  by (auto simp: same_terms_def)

lemma swap_moves_terms: "swap_move\<^sup>*\<^sup>* si sj \<Longrightarrow> same_terms si sj"
  by (induction rule: rtranclp_induct) (auto intro: same_terms_trans swap_move_terms)

lemma swap_move_finished: "not_permitted (state si) \<Longrightarrow> \<not> swap_move si sj"
  by (auto simp: not_permitted_def elim!: swap_move.cases)

lemma swap_moves_finished: "swap_move\<^sup>*\<^sup>* si sj \<Longrightarrow> not_permitted (state si) \<Longrightarrow> sj = si"
  by (induction rule: converse_rtranclp_induct) (auto dest: swap_move_finished)

text \<open>An initiator's swap is closed from the approved state only.\<close>

lemma swap_moves_closed:
  assumes "swap_move\<^sup>*\<^sup>* si sj" and "state si \<noteq> CLOSED" and "state sj = CLOSED" and "is_initiator si"
  shows "\<exists>sk. swap_move\<^sup>*\<^sup>* si sk \<and> state sk = APPROVED \<and> swap_move sk sj"
  using assms
proof (induction rule: rtranclp_induct)
  case base
  then show ?case by simp
next
  case (step sk sl)
  have i: "is_initiator sk"
    using swap_moves_terms [OF step.hyps(1)] step.prems(3) by (simp add: same_terms_def)
  have "state sk = APPROVED"
    using step.hyps(2) step.prems(2) i by (auto elim!: swap_move.cases)
  with step.hyps show ?case by blast
qed

section \<open>Steps of the node on a swap\<close>

text \<open>Who may move a swap, and when.\<close>

definition swap_authorised ::
  "'b pblib \<Rightarrow> swap_env \<Rightarrow> (string \<rightharpoonup> 'b) \<Rightarrow> string \<Rightarrow> AtomicSwapInfo \<Rightarrow> AtomicSwapInfo \<Rightarrow> bool"
where
  "swap_authorised P E v pk si sj \<longleftrightarrow>
     (case state sj of
        OPENED \<Rightarrow> False
      | SECRET_LOCK_PROVIDED \<Rightarrow> secret_lock si = []
      | APPROVED \<Rightarrow> account_address pk = sender_address si
      | EXPIRED \<Rightarrow> account_address pk = sender_address si \<and>
          (\<exists>bi. latest_block_at P v = Some bi \<and> time_lock_passed E si bi)
      | CLOSED \<Rightarrow> web3_hash E (secret_key sj) = Inr (secret_lock si))"

lemma swap_at_fee: "is_swap_addr a \<Longrightarrow> swap_at P (put P v (fee_update P v)) a = swap_at P v a"
  by (auto simp: fee_update_def family_addr_neq)

lemma state_step_swap:
  assumes "pb_typed P" and "pb_roundtrip P" and "state_step P Y E pk m v v'" and "family_tx m"
    and "good_state P v" and "is_swap_addr a" and "swap_at P v a = Some si"
  shows "swap_at P v' a = Some si \<or>
    (\<exists>sj. swap_at P v' a = Some sj \<and> swap_move si sj \<and> swap_authorised P E v pk si sj)"
proof -
  note neq = family_addr_neq(1,5) [OF _ assms(6)] family_addr_neq(2,6) [OF assms(6)] swap_at_fee [OF assms(6)]
  note upd = swap_at_update [OF assms(2)]
  note valid = swap_at_valid [OF assms(1,7)]
  have ok: "swaps_ok P v" using assms(5) by (simp add: good_state_def)
  have "a \<noteq> GENESIS_ADDRESS" using assms(6) GENESIS_not_swap_addr by blast
  note neq = this neq
  from assms(3) show ?thesis
  proof cases
    case (swap_init b ip bi com s z)
    have "b \<noteq> a" using swap_init assms(7) by (auto simp: swap_at_def)
    with swap_init show ?thesis by (simp add: neq assms(7))
  next
    case (swap_set_lock b lp sj)
    show ?thesis
    proof (cases "b = a")
      case True
      with swap_set_lock assms(7) valid show ?thesis
        by (auto simp: upd swap_authorised_def intro!: swap_move.lock)
    next
      case False
      with swap_set_lock show ?thesis by (simp add: assms(7))
    qed
  next
    case (swap_approve b ap sj)
    show ?thesis
    proof (cases "b = a")
      case True
      with swap_approve assms(7) valid show ?thesis
        by (auto simp: upd swap_authorised_def intro!: swap_move.approve)
    next
      case False
      with swap_approve show ?thesis by (simp add: assms(7))
    qed
  next
    case (swap_expire b ep sj bi s)
    show ?thesis
    proof (cases "b = a")
      case True
      with swap_expire assms(7) valid show ?thesis
        by (auto simp: upd neq swap_authorised_def intro!: swap_move.expire)
    next
      case False
      with swap_expire show ?thesis by (simp add: assms(7) neq)
    qed
  next
    case (swap_close b cp sj r)
    have rcv: "is_account_addr (receiver_address sj)"
      using swaps_ok_receiver [OF ok] swap_close by blast
    show ?thesis
    proof (cases "b = a")
      case True
      with swap_close assms(7) valid rcv show ?thesis
        by (auto simp: upd neq swap_authorised_def intro!: swap_move.close)
    next
      case False
      with swap_close rcv show ?thesis by (simp add: assms(7) neq)
    qed
  qed (use assms(4,7) in \<open>auto simp: neq\<close>)
qed

section \<open>Stored keys\<close>

definition key_at :: "'b pblib \<Rightarrow> (string \<rightharpoonup> 'b) \<Rightarrow> string \<Rightarrow> PubKeyStorage option" where
  "key_at P v a = (case entry P v PubKeyStorageC a of Some (PubKeyStorageM x) \<Rightarrow> Some x | _ \<Rightarrow> None)"

lemma key_at_update:
  "pb_roundtrip P \<Longrightarrow> valid_pub_key (payload x) \<Longrightarrow>
   key_at P (v(a \<mapsto> SerializeToString P (PubKeyStorageM x))) a = Some x"
  using entry_update [of P "PubKeyStorageM x" v a] by (simp add: key_at_def)

lemma key_at_update_other [simp]: "a \<noteq> b \<Longrightarrow> key_at P (v(b \<mapsto> d)) a = key_at P v a"
  by (simp add: key_at_def)

lemma key_at_valid: "pb_typed P \<Longrightarrow> key_at P v a = Some x \<Longrightarrow> valid_pub_key (payload x)"
  by (auto simp: key_at_def dest: entry_valid split: option.splits message.splits)

lemma key_at_fee: "is_key_addr a \<Longrightarrow> key_at P (put P v (fee_update P v)) a = key_at P v a"
  by (auto simp: fee_update_def family_addr_neq)

text \<open>The only move of a stored key is its revocation.\<close>

inductive key_move :: "PubKeyStorage \<Rightarrow> PubKeyStorage \<Rightarrow> bool" where
  revoked: "\<not> is_revoked info \<Longrightarrow> key_move info (info\<lparr>is_revoked := True\<rparr>)"

lemma key_moves_revoked: "key_move\<^sup>*\<^sup>* x y \<Longrightarrow> is_revoked x \<Longrightarrow> y = x"
  by (induction rule: converse_rtranclp_induct) (auto elim!: key_move.cases)

lemma key_moves_same: "key_move\<^sup>*\<^sup>* x y \<Longrightarrow> owner y = owner x \<and> payload y = payload x"
  by (induction rule: rtranclp_induct) (auto elim!: key_move.cases)

lemma state_step_key:
  assumes "pb_typed P" and "pb_roundtrip P" and "state_step P Y E pk m v v'" and "family_tx m"
    and "good_state P v" and "is_key_addr a" and "key_at P v a = Some info"
  shows "key_at P v' a = Some info \<or>
    (\<exists>info'. key_at P v' a = Some info' \<and> key_move info info' \<and> pk = owner info)"
proof -
  note neq = family_addr_neq(3) [OF _ assms(6)] family_addr_neq(4,5) [OF assms(6)] key_at_fee [OF assms(6)]
  have ok: "swaps_ok P v" using assms(5) by (simp add: good_state_def)
  from assms(3) show ?thesis
  proof cases
    case (revoke rp info')
    show ?thesis
    proof (cases "revoke_address rp = a")
      case True
      with revoke assms(7) have "info' = info" by (simp add: key_at_def)
      with True revoke key_at_valid [OF assms(1,7)] assms(2) show ?thesis
        by (auto simp: key_at_update intro: key_move.revoked)
    next
      case False
      with revoke show ?thesis by (simp add: assms(7))
    qed
  next
    case (store tx kp ka)
    then have "ka \<noteq> a" using assms(7) by (auto simp: key_at_def)
    with store show ?thesis by (simp add: neq assms(7))
  next
    case (store_and_pay oh sp tx owner_key kp ka)
    then have "ka \<noteq> a" using assms(7) by (auto simp: key_at_def)
    with store_and_pay show ?thesis by (simp add: neq assms(7))
  next
    case (swap_close b cp sj r)
    have "is_account_addr (receiver_address sj)"
      using swaps_ok_receiver [OF ok] swap_close by blast
    with swap_close show ?thesis by (simp add: neq assms(7))
  next
    case (genesis p g)
    have "a \<noteq> GENESIS_ADDRESS" using assms(6) GENESIS_not_key_addr by blast
    with genesis show ?thesis by (simp add: neq assms(7))
  qed (use assms(4,7) in \<open>auto simp: neq\<close>)
qed

section \<open>Genesis\<close>

definition genesis_at :: "'b pblib \<Rightarrow> (string \<rightharpoonup> 'b) \<Rightarrow> GenesisStatus option" where
  "genesis_at P v =
     (case entry P v GenesisStatusC GENESIS_ADDRESS of Some (GenesisStatusM g) \<Rightarrow> Some g | _ \<Rightarrow> None)"

lemma genesis_at_update_other [simp]: "b \<noteq> GENESIS_ADDRESS \<Longrightarrow> genesis_at P (v(b \<mapsto> d)) = genesis_at P v"
  by (simp add: genesis_at_def)

lemma genesis_at_fee [simp]: "genesis_at P (put P v (fee_update P v)) = genesis_at P v"
  by (auto simp: fee_update_def)

lemma genesis_at_update:
  "pb_roundtrip P \<Longrightarrow> genesis_at P (v(GENESIS_ADDRESS \<mapsto> SerializeToString P (GenesisStatusM g))) = Some g"
  using entry_update [of P "GenesisStatusM g" v GENESIS_ADDRESS] by (simp add: genesis_at_def)

text \<open>A genesis transaction is refused once the status is set, and sets it the first time.\<close>

lemma genesis_step_status:
  assumes "pb_roundtrip P" and "state_step P Y E pk (GenesisPayloadM p) v v'"
  shows "genesis_at P v \<noteq> Some \<lparr>status = True\<rparr> \<and>
    (genesis_at P v = None \<longrightarrow> genesis_at P v' = Some \<lparr>status = True\<rparr>)"
  using assms(2)
proof cases
  case (genesis g)
  then have "genesis_at P v = g" by (cases g) (auto simp: genesis_at_def)
  with genesis show ?thesis
    using genesis_at_update [OF assms(1)] by (auto split: option.splits)
qed

lemma state_step_genesis:
  assumes "pb_roundtrip P" and "state_step P Y E pk m v v'" and "family_tx m"
    and "good_state P v" and "genesis_at P v = Some \<lparr>status = True\<rparr>"
  shows "genesis_at P v' = Some \<lparr>status = True\<rparr> \<and> class_of m \<noteq> GenesisPayloadC"
proof -
  have ok: "swaps_ok P v" using assms(4) by (simp add: good_state_def)
  have acc: "is_account_addr b \<Longrightarrow> b \<noteq> GENESIS_ADDRESS" for b
    using GENESIS_not_account_addr by blast
  have key: "is_key_addr b \<Longrightarrow> b \<noteq> GENESIS_ADDRESS" for b
    using GENESIS_not_key_addr by blast
  have swp: "is_swap_addr b \<Longrightarrow> b \<noteq> GENESIS_ADDRESS" for b
    using GENESIS_not_swap_addr by blast
  from assms(2) show ?thesis
  proof cases
    case (genesis p g)
    with assms(2) genesis_step_status [OF assms(1)] assms(5) show ?thesis by blast
  next
    case (swap_close b cp sj r)
    have "is_account_addr (receiver_address sj)"
      using swaps_ok_receiver [OF ok] swap_close by blast
    with swap_close show ?thesis by (simp add: acc swp assms(5))
  qed (use assms(3,5) in \<open>auto simp: acc key swp\<close>)
qed

section \<open>Along the chain\<close>

abbreviation family_run ::
  "'b pblib \<Rightarrow> ('c, 'b) ctx_ops \<Rightarrow> ('c \<Rightarrow> string \<rightharpoonup> 'b) \<Rightarrow> wtforms \<Rightarrow> 'b crypto \<Rightarrow> swap_env
     \<Rightarrow> (string \<rightharpoonup> 'b) \<Rightarrow> (string \<rightharpoonup> 'b) \<Rightarrow> bool"
where
  "family_run P K view wt Y E \<equiv> chain_step P K view wt Y E (\<lambda>pk m. family_tx m)"

lemma chain_tracks:
  assumes "sawtooth_context K view" and "pb_typed P" and "pb_roundtrip P"
    and "\<And>pk m v v' x. state_step P Y E pk m v v' \<Longrightarrow> family_tx m \<Longrightarrow> good_state P v \<Longrightarrow>
      look v = Some x \<Longrightarrow> \<exists>y. look v' = Some y \<and> (y = x \<or> moves x y)"
  shows "tracked_entry (family_run P K view wt Y E) (good_state P) look moves"
  unfolding tracked_entry_def tracked_entry_axioms_def
proof (intro conjI allI impI)
  show "invariant_step (family_run P K view wt Y E) (good_state P)"
    using assms(1-3) by (rule chain_invariant)
next
  fix v v' x
  assume "family_run P K view wt Y E v v'" and good: "good_state P v" "look v = Some x"
  with chain_step_state_step [OF assms(1,2)] obtain pk m where
    "family_tx m" "state_step P Y E pk m v v'" by blast
  with assms(4) good show "\<exists>y. look v' = Some y \<and> (y = x \<or> moves x y)" by blast
qed

lemma swap_tracked:
  assumes "sawtooth_context K view" and "pb_typed P" and "pb_roundtrip P" and "is_swap_addr a"
  shows "tracked_entry (family_run P K view wt Y E) (good_state P) (\<lambda>v. swap_at P v a) swap_move"
  using assms(1-3) by (rule chain_tracks) (use state_step_swap [OF assms(2,3) _ _ _ assms(4)] in blast)

lemma key_tracked:
  assumes "sawtooth_context K view" and "pb_typed P" and "pb_roundtrip P" and "is_key_addr a"
  shows "tracked_entry (family_run P K view wt Y E) (good_state P) (\<lambda>v. key_at P v a) key_move"
  using assms(1-3) by (rule chain_tracks) (use state_step_key [OF assms(2,3) _ _ _ assms(4)] in blast)

lemma genesis_invariant:
  assumes "sawtooth_context K view" and "pb_typed P" and "pb_roundtrip P"
  shows "invariant_step (family_run P K view wt Y E)
    (\<lambda>v. good_state P v \<and> genesis_at P v = Some \<lparr>status = True\<rparr>)"
proof
  fix v v'
  assume "family_run P K view wt Y E v v'" and g: "good_state P v \<and> genesis_at P v = Some \<lparr>status = True\<rparr>"
  with chain_step_state_step [OF assms(1,2)] obtain pk m where
    s: "family_tx m" "state_step P Y E pk m v v'" by blast
  from state_step_good [OF assms(2,3) s(2,1)] state_step_genesis [OF assms(3) s(2,1)] g
  show "good_state P v' \<and> genesis_at P v' = Some \<lparr>status = True\<rparr>" by simp
qed

interpretation stub_swap: tracked_entry
  "family_run wire_lib stub_ops stub_state wt Y E" "good_state wire_lib"
  "\<lambda>v. swap_at wire_lib v (swap_address sid)" swap_move for wt Y E sid
  by (rule swap_tracked) (simp_all add: stub.sawtooth_context_axioms)

interpretation stub_key: tracked_entry
  "family_run wire_lib stub_ops stub_state wt Y E" "good_state wire_lib"
  "\<lambda>v. key_at wire_lib v (pub_key_address d)" key_move for wt Y E d
  by (rule key_tracked) (simp_all add: stub.sawtooth_context_axioms)

interpretation stub_genesis: invariant_step
  "family_run wire_lib stub_ops stub_state wt Y E"
  "\<lambda>v. good_state wire_lib v \<and> genesis_at wire_lib v = Some \<lparr>status = True\<rparr>" for wt Y E
  by (rule genesis_invariant) (simp_all add: stub.sawtooth_context_axioms)

end
