(* ===== verification/Examples.thy ===== *)
theory Examples
  imports Lifecycle Completeness
begin

text \<open>
  Concrete inputs for the evaluation of the model: the plain-field behaviour of \<open>wtforms\<close>, two key
  pairs of the test suite, and requests in the wire format of \<^const>\<open>wire_lib\<close> against contexts of
  the test stub.
\<close>

definition wt_std :: wtforms where
  "wt_std f v =
     (case f of StringField vs \<Rightarrow> wt_chain vs v | IntegerField vs \<Rightarrow> wt_chain vs v | _ \<Rightarrow> Inr [])"

lemma wt_std_documented: "wt_documented wt_std"
  by (simp add: wt_documented_def wt_std_def)

definition alice_key :: string where
  "alice_key = ''02feb988591c78e58e57cdce5a314bd04798971227fcc2316907355392a2c99c25''"

definition bot_key :: string where
  "bot_key = ''03ecc5cb4094eb05319be6c7a63ebf17133d4ffaea48cdcfd1d5fc79dac7db7b6b''"

definition alice_addr :: string where
  "alice_addr = ''112007db8a00c010402e2e3a7d03491323e761e0ea612481c518605648ceeb5ed454f7''"

definition bot_addr :: string where
  "bot_addr = ''112007b9433e1da5c624ff926477141abedfd57585a36590b0a8edc4104ef28093ee30''"

lemma account_address_alice [simp]: "account_address alice_key = alice_addr"
  by (simp add: account_address_def prefix_AccountHandler alice_key_def alice_addr_def hash512_alice_key)

lemma account_address_bot [simp]: "account_address bot_key = bot_addr"
  by (simp add: account_address_def prefix_AccountHandler bot_key_def bot_addr_def hash512_bot_key)

lemma bot_neq_alice [simp]: "bot_addr \<noteq> alice_addr" "alice_addr \<noteq> bot_addr"
  by (simp_all add: alice_addr_def bot_addr_def)

lemma is_account_addr_alice [simp]: "is_account_addr alice_addr"
  by (simp add: is_account_addr_take alice_addr_def)

lemma startswith_alice: "startswith alice_addr (prefix_of AccountHandler)"
  by (simp add: prefix_AccountHandler alice_addr_def)

definition pay_alice :: TransferPayload where
  "pay_alice = \<lparr>address_to = alice_addr, tp_value = 300\<rparr>"

definition pay_request :: "wire tp_request" where
  "pay_request = \<lparr>inputs = [bot_addr, alice_addr], signer = bot_key,
     req_payload = Envelope 0 (Wire (TransferPayloadM pay_alice)), signature = ''sig''\<rparr>"

definition pay_context :: "wire stub_context" where
  "pay_context = \<lparr>stub_inputs = [bot_addr, alice_addr], stub_outputs = [bot_addr, alice_addr],
     stub_state = [bot_addr \<mapsto> Wire (AccountM \<lparr>balance = 1000, pub_keys = []\<rparr>)], stub_events = []\<rparr>"

lemma pay_request_simps:
  "inputs pay_request = [bot_addr, alice_addr]" "signer pay_request = bot_key"
  "signature pay_request = ''sig''"
  by (simp_all add: pay_request_def)

lemma enum_account:
  "EnumValue wire_lib ''AccountMethod'' ''TRANSFER'' = 0"
  "EnumValue wire_lib ''AccountMethod'' ''GENESIS'' = 1"
  by (simp_all add: wire_lib_def wire_items_def)

lemma pay_form:
  "load_proto wire_lib TransferPayloadForm (TransferPayloadM pay_alice) =
     Inr \<lparr>form_cls = TransferPayloadForm,
       form_data = [(''address_to'', PStr alice_addr), (''value'', PInt 300)], wrong_fields = []\<rparr>"
  by code_simp

lemma pay_valid:
  "validate wt_std \<lparr>form_cls = TransferPayloadForm,
       form_data = [(''address_to'', PStr alice_addr), (''value'', PInt 300)], wrong_fields = []\<rparr> []
   = Inr (True, [])"
  by code_simp

lemma pay_table:
  "map_of (account_state_processor wire_lib stub_ops) 0 = Some (transfer_entry wire_lib stub_ops)"
  by (simp add: account_state_processor_def enum_account)

lemma pay_decode:
  "decode_request wire_lib wt_std (account_state_processor wire_lib stub_ops) pay_request
   = Inr (transfer_entry wire_lib stub_ops, TransferPayloadM pay_alice)"
proof -
  have "wire_parse TransferPayloadC (Wire (TransferPayloadM pay_alice)) = Inr (TransferPayloadM pay_alice)"
    by (simp add: pay_alice_def)
  then show ?thesis
    by (simp add: decode_request_def pay_request_def pay_table Let_def transfer_entry_def
        pay_form pay_valid)
qed

definition paid_context :: "wire stub_context" where
  "paid_context = pay_context\<lparr>
     stub_state := [bot_addr \<mapsto> Wire (AccountM \<lparr>balance = 700, pub_keys = []\<rparr>),
                    alice_addr \<mapsto> Wire (AccountM \<lparr>balance = 300, pub_keys = []\<rparr>)],
     stub_events := [(''account/transfer'', get_event_attributes wire_lib
        [(bot_addr, AccountM \<lparr>balance = 700, pub_keys = []\<rparr>),
         (alice_addr, AccountM \<lparr>balance = 300, pub_keys = []\<rparr>)] ''sig'')]\<rparr>"

lemma pay_run: "process_request wire_lib stub_ops wt_std Y E AccountFamily pay_request pay_context
   = (Inr (), paid_context)"
proof -
  let ?cs = "\<lparr>storage = [bot_addr \<mapsto> Some (Wire (AccountM \<lparr>balance = 1000, pub_keys = []\<rparr>)), alice_addr \<mapsto> None],
    context_of = pay_context\<rparr>"
  have pre: "preload_state stub_ops [bot_addr, alice_addr] (new_cache_service pay_context) = Inr ((), ?cs)"
    by (simp add: preload_state_def get_state_def new_cache_service_def stub_ops_def stub_get_state_def
        pay_context_def alice_addr_def bot_addr_def)
  have g: "get_multiple_data wire_lib stub_ops [(bot_addr, AccountC), (alice_addr, AccountC)] ?cs
    = Inr ([map_option AccountM (Some \<lparr>balance = 1000, pub_keys = []\<rparr>), map_option AccountM None], ?cs)"
    by (simp add: get_multiple_data_def get_cached_one_def parse_cached_def)
  have "transfer_from_address wire_lib stub_ops bot_addr pay_alice ?cs
    = Inr ([(bot_addr, AccountM \<lparr>balance = 700, pub_keys = []\<rparr>),
            (alice_addr, AccountM \<lparr>balance = 300, pub_keys = []\<rparr>)], ?cs)"
    using transfer_from_address_run [of wire_lib stub_ops bot_addr pay_alice ?cs
        "Some \<lparr>balance = 1000, pub_keys = []\<rparr>" None ?cs] g startswith_alice
    by (simp add: pay_alice_def account_or_default_def Account_default_def del: startswith_code)
  then have "transfer_proc wire_lib stub_ops bot_key (TransferPayloadM pay_alice) ?cs
    = Inr ([(bot_addr, AccountM \<lparr>balance = 700, pub_keys = []\<rparr>),
            (alice_addr, AccountM \<lparr>balance = 300, pub_keys = []\<rparr>)], ?cs)"
    by (simp add: transfer_Inr)
  with handler_apply_run [OF pay_decode, of stub_ops pay_context ?cs] pre
  have "process_request wire_lib stub_ops wt_std Y E AccountFamily pay_request pay_context
    = write_and_emit wire_lib stub_ops (Some ''account/transfer'') ''sig''
        [(bot_addr, AccountM \<lparr>balance = 700, pub_keys = []\<rparr>),
         (alice_addr, AccountM \<lparr>balance = 300, pub_keys = []\<rparr>)] ?cs"
    by (simp add: process_request_def pay_request_simps transfer_entry_def)
  then show ?thesis
    by (simp add: write_and_emit_def set_state_def service_add_event_def stub_set_state_def
      stub_add_event_def paid_context_def pay_context_def)
qed

lemma pay_good: "good_state wire_lib (stub_state pay_context)"
proof -
  have "\<not> is_swap_addr bot_addr" by (simp add: is_swap_addr_take bot_addr_def)
  then have "is_swap_addr a \<Longrightarrow> swap_at wire_lib (stub_state pay_context) a = None" for a
    by (auto simp: pay_context_def swap_at_def entry_def)
  then show ?thesis by (auto simp: good_state_def swaps_ok_def pay_context_def)
qed

lemma pay_chain:
  "(chain_step wire_lib stub_ops stub_state wt_std Y E regular_tx)\<^sup>*\<^sup>*
     (stub_state pay_context) (stub_state paid_context)"
  by (rule r_into_rtranclp, rule chain_step.applied [OF pay_run, where m = "TransferPayloadM pay_alice"])
    (simp_all add: pay_decode regular_tx_def)

section \<open>Libraries\<close>

definition ex_crypto :: "wire crypto" where
  "ex_crypto = \<lparr>
     load_der_public_key = (\<lambda>k. Inr k),
     rsa_hashes = (\<lambda>n. Inr n),
     rsa_verify = (\<lambda>k s d p a. Inr ()),
     hashlib_digest = (\<lambda>a d. Inr d),
     secp_deserialize = (\<lambda>k. Inr (True, 1)),
     secp_context_verify = 1,
     secp_deserialize_compact = (\<lambda>s. Inr s),
     secp_ecdsa_verify = (\<lambda>s d k. 1),
     ed25519_verify = (\<lambda>k s d. if s = d then Inr () else Inl ValueError),
     Secp256k1PublicKey_from_hex = (\<lambda>k. Inr k),
     Secp256k1Context_verify = (\<lambda>s m k. Inr (s = k)),
     utcoffset = (\<lambda>t. 7200) \<rparr>"

definition ex_env :: swap_env where
  "ex_env = \<lparr>keccak_256 = (\<lambda>b. rev b), local_offset = (\<lambda>t. 7200)\<rparr>"

section \<open>Requests that are applied\<close>

definition ex_request :: "string \<Rightarrow> int \<Rightarrow> message \<Rightarrow> string list \<Rightarrow> wire tp_request" where
  "ex_request pk n m as =
     \<lparr>inputs = as, signer = pk, req_payload = Envelope n (Wire m), signature = ''sig''\<rparr>"

definition ex_context :: "(string \<rightharpoonup> wire) \<Rightarrow> string list \<Rightarrow> wire stub_context" where
  "ex_context v as = \<lparr>stub_inputs = as, stub_outputs = as, stub_state = v, stub_events = []\<rparr>"

lemma ex_simps [simp]:
  "signer (ex_request pk n m as) = pk" "inputs (ex_request pk n m as) = as"
  "stub_state (ex_context v as) = v" "stub_inputs (ex_context v as) = as"
  "stub_outputs (ex_context v as) = as"
  by (simp_all add: ex_request_def ex_context_def)

definition form_ok :: "form_class \<Rightarrow> message \<Rightarrow> bool" where
  "form_ok cls m =
     (case load_proto wire_lib cls m of Inr f \<Rightarrow> validate wt_std f [] = Inr (True, []) | Inl _ \<Rightarrow> False)"

abbreviation ex_table :: "family \<Rightarrow> (wire stub_context, wire) state_processor" where
  "ex_table \<equiv> get_state_processor wire_lib stub_ops ex_crypto ex_env"

abbreviation ex_process :: "family \<Rightarrow> wire tp_request \<Rightarrow> wire stub_context \<Rightarrow> unit res \<times> wire stub_context" where
  "ex_process \<equiv> process_request wire_lib stub_ops wt_std ex_crypto ex_env"

lemma ex_decode:
  assumes "map_of (ex_table fam) n = Some en" and "class_of m = pb_class_of en" and "valid_message m"
    and "form_ok (validator_of en) m"
  shows "decode_request wire_lib wt_std (ex_table fam) (ex_request pk n m as) = Inr (en, m)"
  using assms
  by (auto simp: decode_request_def ex_request_def form_ok_def split: sum.splits)

lemma ex_run:
  assumes "decode_request wire_lib wt_std (ex_table fam) (ex_request pk n m as) = Inr (en, m)"
    and "state_step wire_lib ex_crypto ex_env pk m v v'" and "as = footprint wire_lib v pk m"
  shows "\<exists>c'. ex_process fam (ex_request pk n m as) (ex_context v as) = (Inr (), c') \<and> stub_state c' = v'"
  using stub.process_request_granted [OF wire_lib_typed wire_lib_decode_errors assms(1),
      of "ex_context v as" v'] assms(2,3) written_footprint [of wire_lib v pk m]
  by auto

lemma ex_applied:
  assumes "\<And>as. \<exists>en. decode_request wire_lib wt_std (ex_table fam) (ex_request pk n m as) = Inr (en, m)"
    and "state_step wire_lib ex_crypto ex_env pk m v v'"
  obtains as en c' where
    "decode_request wire_lib wt_std (ex_table fam) (ex_request pk n m as) = Inr (en, m)"
    and "ex_process fam (ex_request pk n m as) (ex_context v as) = (Inr (), c')" and "stub_state c' = v'"
  using assms ex_run by blast

lemma wire_enum: "EnumValue wire_lib X n = position (wire_items X) n"
  by (simp add: wire_lib_def)

lemma ex_account_table:
  "map_of (ex_table AccountFamily) 1 = Some (genesis_entry wire_lib stub_ops)"
  by (simp add: account_state_processor_def wire_enum wire_items_def dict_literal_def)

lemma ex_pub_key_table:
  "map_of (ex_table PubKeyFamily) 0 = Some \<lparr>pb_class_of = NewPubKeyPayloadC,
     processor_of = store_proc wire_lib stub_ops ex_crypto, emit_event = None,
     validator_of = NewPublicKeyPayloadForm\<rparr>"
  "map_of (ex_table PubKeyFamily) 1 = Some \<lparr>pb_class_of = RevokePubKeyPayloadC,
     processor_of = revoke_proc wire_lib stub_ops, emit_event = None,
     validator_of = RevokePubKeyPayloadForm\<rparr>"
  "map_of (ex_table PubKeyFamily) 2 = Some \<lparr>pb_class_of = NewPubKeyStoreAndPayPayloadC,
     processor_of = store_and_pay_proc wire_lib stub_ops ex_crypto, emit_event = None,
     validator_of = NewPubKeyStoreAndPayPayloadForm\<rparr>"
  by (simp_all add: pub_key_state_processor_def wire_enum wire_items_def dict_literal_def)

lemma ex_swap_table:
  "map_of (ex_table AtomicSwapFamily) 0 = Some \<lparr>pb_class_of = AtomicSwapInitPayloadC,
     processor_of = swap_init_proc wire_lib stub_ops, emit_event = Some (event_value SWAP_INIT),
     validator_of = AtomicSwapInitPayloadForm\<rparr>"
  "map_of (ex_table AtomicSwapFamily) 1 = Some \<lparr>pb_class_of = AtomicSwapApprovePayloadC,
     processor_of = swap_approve_proc wire_lib stub_ops, emit_event = Some (event_value SWAP_APPROVE),
     validator_of = AtomicSwapApprovePayloadForm\<rparr>"
  "map_of (ex_table AtomicSwapFamily) 2 = Some \<lparr>pb_class_of = AtomicSwapExpirePayloadC,
     processor_of = swap_expire_proc wire_lib stub_ops ex_env, emit_event = Some (event_value SWAP_EXPIRE),
     validator_of = AtomicSwapExpirePayloadForm\<rparr>"
  "map_of (ex_table AtomicSwapFamily) 4 = Some \<lparr>pb_class_of = AtomicSwapClosePayloadC,
     processor_of = swap_close_proc wire_lib stub_ops ex_env, emit_event = Some (event_value SWAP_CLOSE),
     validator_of = AtomicSwapClosePayloadForm\<rparr>"
  by (simp_all add: swap_state_processor_def wire_enum wire_items_def dict_literal_def)

section \<open>Closing and expiring a swap\<close>

definition ex_sid :: string where
  "ex_sid = ''033102e41346242476b15a3a7966eb5249271025fc7fb0b37ed3fdb4bcce3884''"

definition ex_swap :: AtomicSwapInfo where
  "ex_swap = \<lparr>swap_id = ex_sid, state = OPENED, amount = 200, created_at = 1000,
     secret_lock = [CHR 0x0B, CHR 0x0A], secret_key = [], email_address_encrypted_optional = [],
     sender_address = bot_addr, sender_address_non_local = ''0xe6ca0e7c974f06471759e9a05d18b538c5ced11e'',
     receiver_address = alice_addr, is_initiator = False\<rparr>"

lemma ex_swap_simps [simp]:
  "state ex_swap = OPENED" "amount ex_swap = 200" "created_at ex_swap = 1000"
  "secret_lock ex_swap = [CHR 0x0B, CHR 0x0A]" "sender_address ex_swap = bot_addr"
  "receiver_address ex_swap = alice_addr" "\<not> is_initiator ex_swap"
  by (simp_all add: ex_swap_def)

definition ex_close :: AtomicSwapClosePayload where
  "ex_close = \<lparr>close_swap_id = ex_sid, close_secret_key = ''0a0b''\<rparr>"

definition ex_expire :: AtomicSwapExpirePayload where
  "ex_expire = \<lparr>expire_swap_id = ex_sid\<rparr>"

definition ex_block :: BlockInfo where
  "ex_block = \<lparr>block_num = 5, previous_block_id = [], signer_public_key = [], header_signature = [],
     timestamp = 1000 + 48 * 3600\<rparr>"

definition ex_swap_state :: "string \<rightharpoonup> wire" where
  "ex_swap_state = [swap_address ex_sid \<mapsto> Wire (AtomicSwapInfoM ex_swap),
     bot_addr \<mapsto> Wire (AccountM \<lparr>balance = 1000, pub_keys = []\<rparr>),
     CONFIG_ADDRESS \<mapsto> Wire (BlockInfoConfigM \<lparr>latest_block = 5, oldest_block = 0\<rparr>),
     create_block_address 5 \<mapsto> Wire (BlockInfoM ex_block)]"

lemma web3_hash_example: "web3_hash ex_env ''0a0b'' = Inr [CHR 0x0B, CHR 0x0A]"
  by code_simp

lemma close_decode:
  "\<exists>en. decode_request wire_lib wt_std (ex_table AtomicSwapFamily)
     (ex_request alice_key 4 (AtomicSwapClosePayloadM ex_close) as) = Inr (en, AtomicSwapClosePayloadM ex_close)"
proof -
  have "form_ok AtomicSwapClosePayloadForm (AtomicSwapClosePayloadM ex_close)" by code_simp
  with ex_decode [OF ex_swap_table(4), of "AtomicSwapClosePayloadM ex_close" alice_key as]
  show ?thesis by (intro exI) simp
qed

lemma expire_decode:
  "\<exists>en. decode_request wire_lib wt_std (ex_table AtomicSwapFamily)
     (ex_request bot_key 2 (AtomicSwapExpirePayloadM ex_expire) as) = Inr (en, AtomicSwapExpirePayloadM ex_expire)"
proof -
  have "form_ok AtomicSwapExpirePayloadForm (AtomicSwapExpirePayloadM ex_expire)" by code_simp
  with ex_decode [OF ex_swap_table(3), of "AtomicSwapExpirePayloadM ex_expire" bot_key as]
  show ?thesis by (intro exI) simp
qed

lemma is_account_addr_bot [simp]: "is_account_addr bot_addr"
  by (simp add: is_account_addr_take bot_addr_def)

lemma account_addr_neq_block [simp]:
  "is_account_addr a \<Longrightarrow> a \<noteq> CONFIG_ADDRESS" "is_account_addr a \<Longrightarrow> a \<noteq> create_block_address n"
  "is_account_addr a \<Longrightarrow> CONFIG_ADDRESS \<noteq> a" "is_account_addr a \<Longrightarrow> create_block_address n \<noteq> a"
  using block_address_not_account_addr by metis+

lemma ex_swap_state_reads:
  "swap_at wire_lib ex_swap_state (swap_address ex_sid) = Some ex_swap"
  "account_at wire_lib ex_swap_state bot_addr = \<lparr>balance = 1000, pub_keys = []\<rparr>"
  "account_at wire_lib ex_swap_state alice_addr = Account_default"
  "latest_block_at wire_lib ex_swap_state = Some ex_block"
  by (simp_all add: ex_swap_state_def swap_at_def account_at_def latest_block_at_def entry_def
      ex_block_def)

definition ex_closed_state :: "string \<rightharpoonup> wire" where
  "ex_closed_state = put wire_lib ex_swap_state
     [swap_address ex_sid \<mapsto> AtomicSwapInfoM (ex_swap\<lparr>secret_key := ''0a0b'', state := CLOSED\<rparr>),
      alice_addr \<mapsto> AccountM \<lparr>balance = 200, pub_keys = []\<rparr>]"

lemma ex_close_step:
  "state_step wire_lib ex_crypto ex_env alice_key (AtomicSwapClosePayloadM ex_close)
     ex_swap_state ex_closed_state"
  by (rule state_step.swap_close [where a = "swap_address ex_sid" and si = ex_swap and r = Account_default])
    (simp_all add: ex_swap_state_reads ex_close_def ex_closed_state_def web3_hash_example
      Account_default_def not_permitted_def)

definition ex_expired_state :: "string \<rightharpoonup> wire" where
  "ex_expired_state = put wire_lib ex_swap_state
     [swap_address ex_sid \<mapsto> AtomicSwapInfoM (ex_swap\<lparr>state := EXPIRED\<rparr>),
      bot_addr \<mapsto> AccountM \<lparr>balance = 1200, pub_keys = []\<rparr>]"

lemma ex_expire_step:
  "state_step wire_lib ex_crypto ex_env bot_key (AtomicSwapExpirePayloadM ex_expire)
     ex_swap_state ex_expired_state"
  by (rule state_step.swap_expire [where a = "swap_address ex_sid" and si = ex_swap and bi = ex_block
      and s = "\<lparr>balance = 1000, pub_keys = []\<rparr>"])
    (simp_all add: ex_swap_state_reads ex_expire_def ex_expired_state_def not_permitted_def time_lock_passed_def time_lock_def ex_block_def
      get_datetime_from_timestamp_def ex_env_def NON_INITIATOR_TIME_DELTA_LOCK_def
      NON_INTIATOR_TIME_LOCK_def)

section \<open>Opening and approving a swap\<close>

definition ex_init :: AtomicSwapInitPayload where
  "ex_init = \<lparr>init_receiver_address = alice_addr,
     init_sender_address_non_local = ''0xe6ca0e7c974f06471759e9a05d18b538c5ced11e'', init_amount = 200,
     init_swap_id = ex_sid, init_secret_lock_by_solicitor = [],
     init_email_address_encrypted_by_initiator = [], init_created_at = 1000\<rparr>"

lemma init_decode:
  "\<exists>en. decode_request wire_lib wt_std (ex_table AtomicSwapFamily)
     (ex_request bot_key 0 (AtomicSwapInitPayloadM ex_init) as) = Inr (en, AtomicSwapInitPayloadM ex_init)"
proof -
  have "form_ok AtomicSwapInitPayloadForm (AtomicSwapInitPayloadM ex_init)" by code_simp
  with ex_decode [OF ex_swap_table(1), of "AtomicSwapInitPayloadM ex_init" bot_key as]
  show ?thesis by (intro exI) (simp add: ex_init_def)
qed

lemma take_settings_key: "take 6 (make_settings_key k) = ''000000''"
  by (simp add: make_settings_key_def SETTINGS_NAMESPACE_def Let_def)

lemma settings_key_neq [simp]:
  "make_settings_key k \<noteq> swap_address d" "make_settings_key k \<noteq> CONFIG_ADDRESS"
  "make_settings_key k \<noteq> create_block_address n" "make_settings_key k \<noteq> account_address d"
  "make_settings_key k \<noteq> pub_key_address d"
  "swap_address d \<noteq> make_settings_key k" "CONFIG_ADDRESS \<noteq> make_settings_key k"
  "create_block_address n \<noteq> make_settings_key k" "account_address d \<noteq> make_settings_key k"
  "pub_key_address d \<noteq> make_settings_key k"
  using take_settings_key [of k] take_swap_address [of d] take6_block_addresses(1)
    take6_block_addresses(2) [of n] take_account_address [of d] take_pub_key_address [of d] by force+

lemma bot_neq_settings [simp]:
  "bot_addr \<noteq> make_settings_key k" "make_settings_key k \<noteq> bot_addr"
  using settings_key_neq(4,9) [of k bot_key] settings_key_neq(9) [of bot_key k] by auto

lemma ZERO_not_settings: "ZERO_ADDRESS \<noteq> make_settings_key SETTINGS_SWAP_COMMISSION"
  by (simp add: make_settings_key_def SETTINGS_SWAP_COMMISSION_def split_max_def MAX_KEY_PARTS_def
      ADDRESS_PART_SIZE_def to_hash_remme ZERO_ADDRESS_def SETTINGS_NAMESPACE_def eval_nat_numeral Let_def)

definition ex_init_state :: "string \<rightharpoonup> wire" where
  "ex_init_state = [bot_addr \<mapsto> Wire (AccountM \<lparr>balance = 1000, pub_keys = []\<rparr>),
     make_settings_key SETTINGS_SWAP_COMMISSION \<mapsto>
       Wire (SettingM \<lparr>entries = [(SETTINGS_SWAP_COMMISSION, ''100'')]\<rparr>),
     CONFIG_ADDRESS \<mapsto> Wire (BlockInfoConfigM \<lparr>latest_block = 5, oldest_block = 0\<rparr>),
     create_block_address 5 \<mapsto> Wire (BlockInfoM ex_block)]"

lemma ex_init_state_reads:
  "entry wire_lib ex_init_state AtomicSwapInfoC (swap_address ex_sid) = None"
  "account_at wire_lib ex_init_state bot_addr = \<lparr>balance = 1000, pub_keys = []\<rparr>"
  "account_at wire_lib ex_init_state ZERO_ADDRESS = Account_default"
  "latest_block_at wire_lib ex_init_state = Some ex_block"
  "setting_at wire_lib ex_init_state SETTINGS_SWAP_COMMISSION None = Some ''100''"
  using ZERO_not_settings ZERO_not_settings [symmetric] account_address_not_ZERO [of bot_key]
  by (simp_all add: ex_init_state_def account_at_def latest_block_at_def entry_def ex_block_def setting_at_def)

lemma ex_commission: "swap_commission (Some ''100'') = Inr 100"
  by code_simp

definition ex_opened_state :: "string \<rightharpoonup> wire" where
  "ex_opened_state = put wire_lib ex_init_state
     [swap_address ex_sid \<mapsto> AtomicSwapInfoM (opened_swap bot_key ex_init (1000 + 48 * 3600)),
      bot_addr \<mapsto> AccountM \<lparr>balance = 700, pub_keys = []\<rparr>,
      ZERO_ADDRESS \<mapsto> AccountM \<lparr>balance = 100, pub_keys = []\<rparr>]"

lemma ex_init_step:
  "state_step wire_lib ex_crypto ex_env bot_key (AtomicSwapInitPayloadM ex_init)
     ex_init_state ex_opened_state"
  by (rule state_step.swap_init [where a = "swap_address ex_sid" and bi = ex_block and com = 100
        and s = "\<lparr>balance = 1000, pub_keys = []\<rparr>" and z = Account_default])
    (simp_all add: ex_init_state_reads ex_commission ex_opened_state_def, simp_all add: ex_init_def
      ex_block_def Account_default_def)

definition ex_approve :: AtomicSwapApprovePayload where
  "ex_approve = \<lparr>approve_swap_id = ex_sid\<rparr>"

lemma approve_decode:
  "\<exists>en. decode_request wire_lib wt_std (ex_table AtomicSwapFamily)
     (ex_request bot_key 1 (AtomicSwapApprovePayloadM ex_approve) as) = Inr (en, AtomicSwapApprovePayloadM ex_approve)"
proof -
  have "form_ok AtomicSwapApprovePayloadForm (AtomicSwapApprovePayloadM ex_approve)" by code_simp
  with ex_decode [OF ex_swap_table(2), of "AtomicSwapApprovePayloadM ex_approve" bot_key as]
  show ?thesis by (intro exI) simp
qed

definition ex_locked_state :: "string \<rightharpoonup> wire" where
  "ex_locked_state = [swap_address ex_sid \<mapsto>
     Wire (AtomicSwapInfoM (ex_swap\<lparr>state := SECRET_LOCK_PROVIDED, is_initiator := True\<rparr>))]"

definition ex_approved_state :: "string \<rightharpoonup> wire" where
  "ex_approved_state = put wire_lib ex_locked_state [swap_address ex_sid \<mapsto>
     AtomicSwapInfoM (ex_swap\<lparr>state := APPROVED, is_initiator := True\<rparr>)]"

lemma ex_locked_state_reads:
  "swap_at wire_lib ex_locked_state (swap_address ex_sid)
     = Some (ex_swap\<lparr>state := SECRET_LOCK_PROVIDED, is_initiator := True\<rparr>)"
  by (simp add: ex_locked_state_def swap_at_def entry_def)

lemma ex_approve_step:
  "state_step wire_lib ex_crypto ex_env bot_key (AtomicSwapApprovePayloadM ex_approve)
     ex_locked_state ex_approved_state"
  by (rule state_step.swap_approve [where a = "swap_address ex_sid"
        and si = "ex_swap\<lparr>state := SECRET_LOCK_PROVIDED, is_initiator := True\<rparr>"])
    (simp_all add: ex_locked_state_reads ex_approved_state_def, simp_all add: ex_approve_def ex_swap_def)

section \<open>Storing and revoking a key\<close>

definition ex_key :: NewPubKeyPayload where
  "ex_key = \<lparr>hashing_algorithm = 0, entity_hash = ''hash'', entity_hash_signature = ''hash'',
     valid_from = 1, valid_to = 100,
     which_configuration = Some (Ed25519Configuration ''ed25519 key'')\<rparr>"

definition ex_key_addr :: string where
  "ex_key_addr = pub_key_address ''ed25519 key''"

lemma store_decode:
  "\<exists>en. decode_request wire_lib wt_std (ex_table PubKeyFamily)
     (ex_request bot_key 0 (NewPubKeyPayloadM ex_key) as) = Inr (en, NewPubKeyPayloadM ex_key)"
proof -
  have "form_ok NewPublicKeyPayloadForm (NewPubKeyPayloadM ex_key)" by code_simp
  with ex_decode [OF ex_pub_key_table(1), of "NewPubKeyPayloadM ex_key" bot_key as]
  show ?thesis by (intro exI) (simp add: ex_key_def valid_pub_key_def)
qed

lemma ZERO_not_economy_key: "ZERO_ADDRESS \<noteq> make_settings_key ''remme.economy_enabled''"
  by (simp add: make_settings_key_def split_max_def MAX_KEY_PARTS_def ADDRESS_PART_SIZE_def
      to_hash_remme ZERO_ADDRESS_def SETTINGS_NAMESPACE_def eval_nat_numeral Let_def)

lemma ex_key_processor:
  "get_public_key_processor ex_key = Inr \<lparr>kp_entity_hash = ''hash'', kp_entity_hash_signature = ''hash'',
     kp_valid_from = 1, kp_valid_to = 100, kp_hashing_algorithm = 0,
     kp_config = Ed25519Configuration ''ed25519 key''\<rparr>"
  by (simp add: get_public_key_processor_def ex_key_def)

lemma ex_key_verified:
  "get_public_key_processor ex_key = Inr kp \<Longrightarrow> processor_verify wire_lib ex_crypto kp = Inr True"
  by (auto simp: ex_key_processor processor_verify.simps ed25519_processor_verify_def hashlib_algorithm_def
      wire_lib_def wire_items_def ex_crypto_def succeeds_def)

lemma ex_key_address:
  "get_public_key_processor ex_key = Inr kp \<Longrightarrow> pub_key_address (get_public_key kp) = ex_key_addr"
  by (auto simp: ex_key_processor get_public_key_def ex_key_addr_def)

lemma ex_key_validity: "is_public_key_validity_exceeded ex_crypto (valid_from ex_key) (valid_to ex_key)"
  by (simp add: is_public_key_validity_exceeded_def ex_crypto_def ex_key_def PUB_KEY_MAX_VALIDITY_def)

lemma ex_key_valid: "valid_pub_key ex_key"
  by (simp add: valid_pub_key_def ex_key_def)

text \<open>A state where the payer has fifty tokens and no setting is stored.\<close>

definition ex_payer_state :: "string \<Rightarrow> string \<rightharpoonup> wire" where
  "ex_payer_state pk = [account_address pk \<mapsto> Wire (AccountM \<lparr>balance = 50, pub_keys = []\<rparr>)]"

lemma ex_payer_state_reads:
  "account_at wire_lib (ex_payer_state pk) (account_address pk) = \<lparr>balance = 50, pub_keys = []\<rparr>"
  "account_at wire_lib (ex_payer_state pk) ZERO_ADDRESS = Account_default"
  "entry wire_lib (ex_payer_state pk) PubKeyStorageC ex_key_addr = None"
  "economy_enabled wire_lib (ex_payer_state pk)"
  by (simp_all add: ex_payer_state_def account_at_def entry_def economy_enabled_def setting_at_def
      ex_key_addr_def lower_def lower_char_def)

lemma ex_charge_ok: "charge_ok wire_lib (ex_payer_state pk) (account_address pk)"
  by (simp add: charge_ok_def ex_payer_state_reads PUB_KEY_STORE_PRICE_def Account_default_def)

definition ex_stored_state :: "string \<rightharpoonup> wire" where
  "ex_stored_state = put wire_lib (ex_payer_state bot_key)
     ((fee_update wire_lib (ex_payer_state bot_key))
        (ex_key_addr \<mapsto> PubKeyStorageM \<lparr>owner = bot_key, payload = ex_key, is_revoked = False\<rparr>,
         account_address bot_key \<mapsto> AccountM (store_public_key_to_account ex_key_addr
           (charged wire_lib (ex_payer_state bot_key)
              (account_at wire_lib (ex_payer_state bot_key) (account_address bot_key))))))"

lemma ex_store_step:
  "state_step wire_lib ex_crypto ex_env bot_key (NewPubKeyPayloadM ex_key)
     (ex_payer_state bot_key) ex_stored_state"
  using ex_key_processor
  by (rule state_step.store)
    (use ex_key_processor in \<open>simp_all add: ex_key_verified ex_key_address ex_payer_state_reads ex_key_validity
      ex_key_valid ex_charge_ok ex_stored_state_def del: account_address_bot\<close>)

definition ex_store_and_pay :: NewPubKeyStoreAndPayPayload where
  "ex_store_and_pay = \<lparr>pub_key_payload = ex_key, owner_public_key = ''owner'', signature_by_owner = ''owner''\<rparr>"

lemma store_and_pay_decode:
  "\<exists>en. decode_request wire_lib wt_std (ex_table PubKeyFamily)
     (ex_request pk 2 (NewPubKeyStoreAndPayPayloadM ex_store_and_pay) as)
       = Inr (en, NewPubKeyStoreAndPayPayloadM ex_store_and_pay)"
proof -
  have "form_ok NewPubKeyStoreAndPayPayloadForm (NewPubKeyStoreAndPayPayloadM ex_store_and_pay)" by code_simp
  with ex_decode [OF ex_pub_key_table(3), of "NewPubKeyStoreAndPayPayloadM ex_store_and_pay" pk as]
  show ?thesis by (intro exI) (simp add: ex_store_and_pay_def ex_key_def valid_pub_key_def)
qed

definition ex_revoke :: RevokePubKeyPayload where
  "ex_revoke = \<lparr>revoke_address = ''a23be1db8a00c010402e2e3a7d03491323e761e0ea612481c518605648ceeb5ed454f7''\<rparr>"

lemma revoke_decode:
  "\<exists>en. decode_request wire_lib wt_std (ex_table PubKeyFamily)
     (ex_request bot_key 1 (RevokePubKeyPayloadM ex_revoke) as) = Inr (en, RevokePubKeyPayloadM ex_revoke)"
proof -
  have "form_ok RevokePubKeyPayloadForm (RevokePubKeyPayloadM ex_revoke)" by code_simp
  with ex_decode [OF ex_pub_key_table(2), of "RevokePubKeyPayloadM ex_revoke" bot_key as]
  show ?thesis by (intro exI) simp
qed

definition ex_owner :: string where
  "ex_owner = bytes_hex ''owner''"

definition ex_self_paid_state :: "string \<rightharpoonup> wire" where
  "ex_self_paid_state = put wire_lib (ex_payer_state ex_owner)
     ((fee_update wire_lib (ex_payer_state ex_owner))
        (ex_key_addr \<mapsto> PubKeyStorageM \<lparr>owner = ex_owner, payload = ex_key, is_revoked = False\<rparr>,
         account_address ex_owner \<mapsto> AccountM (charged wire_lib (ex_payer_state ex_owner)
           (account_at wire_lib (ex_payer_state ex_owner) (account_address ex_owner))),
         account_address ex_owner \<mapsto> AccountM (store_public_key_to_account ex_key_addr
           (account_at wire_lib (ex_payer_state ex_owner) (account_address ex_owner)))))"

lemma ex_self_paid_step:
  "state_step wire_lib ex_crypto ex_env ex_owner (NewPubKeyStoreAndPayPayloadM ex_store_and_pay)
     (ex_payer_state ex_owner) ex_self_paid_state"
proof (rule state_step.store_and_pay [where oh = ex_owner and tx = ex_key and ka = ex_key_addr
      and owner_key = ex_owner, OF _ _ _ _ ex_key_processor])
  show "ex_owner = bytes_hex (owner_public_key ex_store_and_pay)" "ex_key = pub_key_payload ex_store_and_pay"
    by (simp_all add: ex_owner_def ex_store_and_pay_def)
  show "Secp256k1PublicKey_from_hex ex_crypto ex_owner = Inr ex_owner"
    "Secp256k1Context_verify ex_crypto (bytes_hex (signature_by_owner ex_store_and_pay))
       (SerializeToString wire_lib (NewPubKeyPayloadM ex_key)) ex_owner = Inr True"
    by (simp_all add: ex_crypto_def ex_owner_def ex_store_and_pay_def)
qed (use ex_key_processor in \<open>simp_all add: ex_key_verified ex_key_address ex_payer_state_reads ex_key_validity
      ex_key_valid ex_charge_ok ex_self_paid_state_def\<close>)

definition ex_key_info :: PubKeyStorage where
  "ex_key_info = \<lparr>owner = bot_key, payload = ex_key, is_revoked = False\<rparr>"

definition ex_key_state :: "string \<rightharpoonup> wire" where
  "ex_key_state = [revoke_address ex_revoke \<mapsto> Wire (PubKeyStorageM ex_key_info)]"

definition ex_revoked_state :: "string \<rightharpoonup> wire" where
  "ex_revoked_state = put wire_lib ex_key_state
     [revoke_address ex_revoke \<mapsto> PubKeyStorageM (ex_key_info\<lparr>is_revoked := True\<rparr>)]"

lemma ex_key_state_reads:
  "entry wire_lib ex_key_state PubKeyStorageC (revoke_address ex_revoke) = Some (PubKeyStorageM ex_key_info)"
  by (simp add: ex_key_state_def entry_def ex_key_info_def ex_key_valid)

lemma ex_revoke_step:
  "state_step wire_lib ex_crypto ex_env bot_key (RevokePubKeyPayloadM ex_revoke) ex_key_state ex_revoked_state"
  by (rule state_step.revoke [OF ex_key_state_reads])
    (simp_all add: ex_key_info_def ex_revoked_state_def)

section \<open>Genesis\<close>

definition ex_genesis :: GenesisPayload where
  "ex_genesis = \<lparr>total_supply = 900\<rparr>"

lemma genesis_decode:
  "\<exists>en. decode_request wire_lib wt_std (ex_table AccountFamily)
     (ex_request bot_key 1 (GenesisPayloadM ex_genesis) as) = Inr (en, GenesisPayloadM ex_genesis)"
proof -
  have "form_ok GenesisPayloadForm (GenesisPayloadM ex_genesis)" by code_simp
  with ex_decode [OF ex_account_table, of "GenesisPayloadM ex_genesis" bot_key as]
  show ?thesis by (intro exI) (simp add: ex_genesis_def genesis_entry_def)
qed

definition genesis_done :: "string \<rightharpoonup> wire" where
  "genesis_done = [GENESIS_ADDRESS \<mapsto> Wire (GenesisStatusM \<lparr>status = True\<rparr>)]"

section \<open>Good states\<close>

lemma swap_at_fun_upd:
  "swap_at P (v(b \<mapsto> d)) a = (if a = b then (case ParseFromString P AtomicSwapInfoC d of
     Inr (AtomicSwapInfoM x) \<Rightarrow> Some x | _ \<Rightarrow> None) else swap_at P v a)"
  by (auto simp: swap_at_def entry_def split: sum.splits message.splits)

lemma swap_at_empty [simp]: "swap_at P Map.empty a = None"
  by (simp add: swap_at_def entry_def)

lemma ex_swap_state_good: "good_state wire_lib ex_swap_state"
  by (auto simp: good_state_def swaps_ok_def ex_swap_state_def swap_at_fun_upd split: if_splits)

lemma ex_locked_state_good: "good_state wire_lib ex_locked_state"
  by (auto simp: good_state_def swaps_ok_def ex_locked_state_def swap_at_fun_upd split: if_splits)

lemma ex_approved_state_reads:
  "swap_at wire_lib ex_approved_state (swap_address ex_sid)
     = Some (ex_swap\<lparr>state := APPROVED, is_initiator := True\<rparr>)"
  by (simp add: ex_approved_state_def swap_at_fun_upd)

definition ex_finished_state :: "string \<rightharpoonup> wire" where
  "ex_finished_state = [swap_address ex_sid \<mapsto> Wire (AtomicSwapInfoM (ex_swap\<lparr>state := CLOSED\<rparr>))]"

lemma ex_finished_state_good: "good_state wire_lib ex_finished_state"
  by (auto simp: good_state_def swaps_ok_def ex_finished_state_def swap_at_fun_upd split: if_splits)

lemma ex_finished_state_reads:
  "swap_at wire_lib ex_finished_state (swap_address ex_sid) = Some (ex_swap\<lparr>state := CLOSED\<rparr>)"
  by (simp add: ex_finished_state_def swap_at_fun_upd)

text \<open>The approved swap of an initiator, closed.\<close>

abbreviation ex_run_step :: "(string \<rightharpoonup> wire) \<Rightarrow> (string \<rightharpoonup> wire) \<Rightarrow> bool" where
  "ex_run_step \<equiv> family_run wire_lib stub_ops stub_state wt_std ex_crypto ex_env"

lemma ex_family_run:
  assumes "\<And>as. \<exists>en. decode_request wire_lib wt_std (ex_table fam) (ex_request pk n m as) = Inr (en, m)"
    and "state_step wire_lib ex_crypto ex_env pk m v v'" and "family_tx m"
  shows "ex_run_step\<^sup>*\<^sup>* v v'"
proof -
  obtain as en c' where
    d: "decode_request wire_lib wt_std (ex_table fam) (ex_request pk n m as) = Inr (en, m)"
    and r: "ex_process fam (ex_request pk n m as) (ex_context v as) = (Inr (), c')" and c': "stub_state c' = v'"
    using assms(1,2) by (rule ex_applied)
  from chain_step.applied [OF r d, where ok = "\<lambda>pk m. family_tx m" and view = stub_state] c' assms(3)
  show ?thesis by (simp add: r_into_rtranclp)
qed

definition ex_approved_swap :: AtomicSwapInfo where
  "ex_approved_swap = ex_swap\<lparr>state := APPROVED, is_initiator := True\<rparr>"

definition ex_approved_only :: "string \<rightharpoonup> wire" where
  "ex_approved_only = [swap_address ex_sid \<mapsto> Wire (AtomicSwapInfoM ex_approved_swap)]"

lemma ex_approved_only_reads:
  "swap_at wire_lib ex_approved_only (swap_address ex_sid) = Some ex_approved_swap"
  "account_at wire_lib ex_approved_only alice_addr = Account_default"
  by (simp_all add: ex_approved_only_def swap_at_fun_upd ex_approved_swap_def account_at_def entry_def)

lemma ex_approved_only_good: "good_state wire_lib ex_approved_only"
  by (auto simp: good_state_def swaps_ok_def ex_approved_only_def ex_approved_swap_def swap_at_fun_upd
      split: if_splits)

definition ex_approved_closed :: "string \<rightharpoonup> wire" where
  "ex_approved_closed = put wire_lib ex_approved_only
     [swap_address ex_sid \<mapsto> AtomicSwapInfoM (ex_approved_swap\<lparr>secret_key := ''0a0b'', state := CLOSED\<rparr>),
      alice_addr \<mapsto> AccountM \<lparr>balance = 200, pub_keys = []\<rparr>]"

lemma ex_approved_closed_reads:
  "swap_at wire_lib ex_approved_closed (swap_address ex_sid)
     = Some (ex_approved_swap\<lparr>secret_key := ''0a0b'', state := CLOSED\<rparr>)"
  by (simp add: ex_approved_closed_def swap_at_fun_upd ex_approved_swap_def)

lemma ex_approved_close_step:
  "state_step wire_lib ex_crypto ex_env alice_key (AtomicSwapClosePayloadM ex_close)
     ex_approved_only ex_approved_closed"
  by (rule state_step.swap_close [where a = "swap_address ex_sid" and si = ex_approved_swap and r = Account_default])
    (simp_all add: ex_approved_only_reads ex_close_def ex_approved_closed_def web3_hash_example
      Account_default_def not_permitted_def,
     simp_all add: ex_approved_swap_def ex_approved_only_reads Account_default_def)

end
