(* ===== verification/RpcServer.thy ===== *)
theory RpcServer
  imports RpcApi
begin

text \<open>
  \<open>remme/rpc_api/_base.py\<close> and the loader of \<open>remme/rpc_api/utils.py\<close>: which methods the server
  offers, and how a message becomes a reply. The JSON-RPC library decodes the text of a message and
  encodes the replies; a reply here is the identifier with the result or the error to encode.

  The server's state pairs the validator's with the node's files, which the methods of the module
  \<open>personal\<close> change.
\<close>

datatype rpc_msg =
    RequestMsg pyval string pyval   \<comment> \<open>identifier, method, parameters\<close>
  | ResultMsg pyval pyval           \<comment> \<open>identifier, result\<close>
  | OtherMsg pyval

datatype rpc_reply = ReplyResult pyval pyval | ReplyError pyval exc

type_synonym 'v server_state = "'v \<times> file_system"
type_synonym 'v rpc_fun = "pyval \<Rightarrow> ('v server_state, pyval) ex"

definition on_validator :: "(pyval \<Rightarrow> ('v, pyval) ex) \<Rightarrow> 'v rpc_fun" where
  "on_validator f params s = (let (r, v') = f params (fst s) in (r, (v', snd s)))"

definition on_files :: "(pyval \<Rightarrow> (file_system, pyval) ex) \<Rightarrow> 'v rpc_fun" where
  "on_files f params s = (let (r, fs') = f params (snd s) in (r, (fst s, fs')))"

section \<open>The methods of the modules\<close>

text \<open>The names in \<open>__all__\<close> of each module; a module without \<open>__all__\<close> offers nothing.\<close>

definition module_methods ::
  "'v api \<Rightarrow> (family \<Rightarrow> ('c, string) state_processor) \<Rightarrow> (string \<times> 'v rpc_fun) list \<Rightarrow> string
     \<Rightarrow> (string \<times> 'v rpc_fun) list"
where
  "module_methods A tables event_methods m =
     (if m = ''account'' then
        [(''get_balance'', on_validator (rpc_get_balance A)),
         (''get_public_keys_list'', on_validator (rpc_get_public_keys_list A))]
      else if m = ''atomic_swap'' then
        [(''get_atomic_swap_info'', on_validator (rpc_get_atomic_swap_info A)),
         (''get_atomic_swap_public_key'', on_validator (rpc_get_atomic_swap_public_key A))]
      else if m = ''block_info'' then
        [(''get_block_number'', on_validator (rpc_get_block_number A)),
         (''get_blocks'', on_validator (rpc_get_blocks A)),
         (''list_blocks'', on_validator (rpc_list_blocks A)),
         (''fetch_block'', on_validator (rpc_fetch_block A))]
      else if m = ''network'' then
        [(''get_node_info'', on_validator (rpc_get_node_info A)),
         (''fetch_peers'', on_validator (rpc_fetch_peers A))]
      else if m = ''personal'' then
        [(''set_node_key'', on_files (rpc_set_node_key A)),
         (''export_node_key'', on_validator (rpc_export_node_key A))]
      else if m = ''pkc'' then
        [(''get_node_config'', on_validator (rpc_get_node_config A)),
         (''get_public_key_info'', on_validator (rpc_get_public_key_info A))]
      else if m = ''state'' then
        [(''list_state'', on_validator (rpc_list_state A)),
         (''fetch_state'', on_validator (rpc_fetch_state A))]
      else if m = ''transaction'' then
        [(''send_raw_transaction'', on_validator (rpc_send_raw_transaction A tables)),
         (''get_batch_status'', on_validator (rpc_get_batch_status A)),
         (''list_receipts'', on_validator (rpc_list_receipts A)),
         (''list_batches'', on_validator (rpc_list_batches A)),
         (''list_transactions'', on_validator (rpc_list_transactions A)),
         (''fetch_batch'', on_validator (rpc_fetch_batch A)),
         (''fetch_transaction'', on_validator (rpc_fetch_transaction A))]
      else if m = ''event'' then event_methods
      else [])"

text \<open>
  With \<open>'*'\<close> the loader takes the Python files beside it, not the package \<open>event\<close>. Importing a
  module that does not exist raises.
\<close>

definition module_files :: "string list" where
  "module_files = [''_base'', ''account'', ''atomic_swap'', ''block_info'', ''network'', ''personal'',
     ''pkc'', ''state'', ''transaction'', ''utils'']"

definition load_methods ::
  "(string \<Rightarrow> (string \<times> 'a) list) \<Rightarrow> string \<Rightarrow> (string \<times> 'a) list res"
where
  "load_methods methods_of modules0 =
     (let modules = (if modules0 = ''*'' then join '','' module_files else modules0);
          names = split (CHR '','') modules
      in if list_all (\<lambda>n. n \<in> set (''event'' # module_files)) names
         then Inr (concat (map methods_of names))
         else Inl (OtherException ''ImportError''))"

text \<open>The methods a server offers, registered without a prefix, and the names of all known ones.\<close>

definition load_from_modules ::
  "(string \<Rightarrow> (string \<times> 'a) list) \<Rightarrow> string \<Rightarrow> (string \<times> 'a) list res"
where
  "load_from_modules methods_of modules = load_methods methods_of modules"

definition rpc_methods :: "(string \<Rightarrow> (string \<times> 'a) list) \<Rightarrow> string list res" where
  "rpc_methods methods_of = rbind (load_methods methods_of ''*'') (\<lambda>ms. Inr (map fst ms))"

section \<open>Messages\<close>

definition passes_error :: "exc \<Rightarrow> bool" where
  "passes_error e \<longleftrightarrow>
     (case e of RpcGenericServerDefinedError _ _ \<Rightarrow> True | RpcInvalidRequestError \<Rightarrow> True
      | RpcInvalidParamsError _ \<Rightarrow> True | _ \<Rightarrow> is_remme_rpc_error e)"

definition handle_rpc_msg ::
  "(string \<Rightarrow> pyval \<times> exc + rpc_msg) \<Rightarrow> (string \<times> (pyval \<Rightarrow> ('s, pyval) ex)) list \<Rightarrow> string list \<Rightarrow> string \<Rightarrow> 's
     \<Rightarrow> rpc_reply \<times> 's"
where
  "handle_rpc_msg decode_msg methods known raw_msg s =
     (case decode_msg raw_msg of
        Inl (i, error) \<Rightarrow> (ReplyError i error, s)
      | Inr (RequestMsg i meth params) \<Rightarrow>
          (case map_of methods meth of
             None \<Rightarrow>
               (ReplyError i (RpcMethodNotFoundError
                  (if meth \<in> set known then ''Method is disabled by the node administrator''
                   else ''Method not found'')), s)
           | Some f \<Rightarrow>
               (case f params s of
                  (Inr result, s') \<Rightarrow> (ReplyResult i result, s')
                | (Inl e, s') \<Rightarrow> (ReplyError i (if passes_error e then e else RpcInternalError), s')))
      | Inr (ResultMsg i result) \<Rightarrow> (ReplyResult i result, s)
      | Inr (OtherMsg i) \<Rightarrow> (ReplyError i RpcInvalidRequestError, s))"

text \<open>\<open>__call__\<close>: what an HTTP request leads to.\<close>

datatype http_action = HandleWebsocket | HandleMessage | MethodNotAllowed | NoResponse

definition http_call :: "string \<Rightarrow> string \<Rightarrow> http_action" where
  "http_call http_method upgrade =
     (if http_method = ''GET'' then
        (if lower upgrade = ''websocket'' then HandleWebsocket else MethodNotAllowed)
      else if http_method = ''POST'' then HandleMessage
      else NoResponse)"

section \<open>Replies\<close>

fun reply_id :: "rpc_reply \<Rightarrow> pyval" where
  "reply_id (ReplyResult i r) = i"
| "reply_id (ReplyError i e) = i"

lemma handle_request_reply:
  assumes "decode_msg raw = Inr (RequestMsg i meth params)"
    and "handle_rpc_msg decode_msg methods known raw s = (r, s')"
  shows "reply_id r = i \<and>
    (\<forall>e. r = ReplyError i e \<longrightarrow> passes_error e \<or> e = RpcInternalError \<or> (\<exists>m. e = RpcMethodNotFoundError m))"
  using assms
  by (auto simp: handle_rpc_msg_def split: option.splits sum.splits prod.splits if_splits)

lemma handle_request_run:
  assumes "decode_msg raw = Inr (RequestMsg i meth params)" and "map_of methods meth = Some f"
    and "f params s = (Inr result, s')"
  shows "handle_rpc_msg decode_msg methods known raw s = (ReplyResult i result, s')"
  using assms by (simp add: handle_rpc_msg_def)

text \<open>A method that is loaded is never reported as missing, and one that is not loaded changes nothing.\<close>

lemma handle_request_unknown:
  assumes "decode_msg raw = Inr (RequestMsg i meth params)" and "map_of methods meth = None"
  shows "\<exists>m. handle_rpc_msg decode_msg methods known raw s = (ReplyError i (RpcMethodNotFoundError m), s)"
  using assms by (simp add: handle_rpc_msg_def)

section \<open>Loading\<close>

lemma split_modules: "split (CHR '','') (join '','' module_files) = module_files"
  by (rule split_join) (auto simp: module_files_def)

lemma load_methods_star: "load_methods f ''*'' = Inr (concat (map f module_files))"
  by (simp add: load_methods_def split_modules list_all_iff)

text \<open>
  The names of all known methods are those of the module files: a method that a configuration leaves
  out is reported as disabled, except for those of the package \<open>event\<close>, which are reported as unknown.
\<close>

lemma rpc_methods_files: "rpc_methods f = Inr (map fst (concat (map f module_files)))"
  by (simp add: rpc_methods_def load_methods_star)

lemma left_out_disabled:
  assumes "decode_msg raw = Inr (RequestMsg i meth params)" and "load_from_modules f modules = Inr methods"
    and "rpc_methods f = Inr known" and "map_of methods meth = None"
    and "md \<in> set module_files" and "meth \<in> fst ` set (f md)"
  shows "handle_rpc_msg decode_msg methods known raw s =
    (ReplyError i (RpcMethodNotFoundError ''Method is disabled by the node administrator''), s)"
proof -
  have "meth \<in> set known" using assms(3,5,6) by (force simp: rpc_methods_files)
  then show ?thesis using assms(1,4) by (simp add: handle_rpc_msg_def)
qed

lemma left_out_event_unknown:
  assumes "decode_msg raw = Inr (RequestMsg i meth params)" and "rpc_methods f = Inr known"
    and "map_of methods meth = None" and "\<And>md. md \<in> set module_files \<Longrightarrow> meth \<notin> fst ` set (f md)"
  shows "handle_rpc_msg decode_msg methods known raw s = (ReplyError i (RpcMethodNotFoundError ''Method not found''), s)"
proof -
  have "meth \<notin> set known" using assms(2,4) by (force simp: rpc_methods_files)
  then show ?thesis using assms(1,3) by (simp add: handle_rpc_msg_def)
qed

text \<open>The method to spend the node's own tokens is in no module.\<close>

lemma module_without_send_tokens:
  "''send_tokens'' \<notin> fst ` set event_methods \<Longrightarrow>
     ''send_tokens'' \<notin> fst ` set (module_methods A tables event_methods m)"
  by (cases "m = ''event''") (simp_all add: module_methods_def)

lemma send_tokens_not_offered:
  assumes "load_methods (module_methods A tables event_methods) modules = Inr methods"
    and "''send_tokens'' \<notin> fst ` set event_methods"
  shows "map_of methods ''send_tokens'' = None"
proof -
  from assms(1) obtain names where m: "methods = concat (map (module_methods A tables event_methods) names)"
    by (auto simp: load_methods_def Let_def split: if_splits)
  show ?thesis
    unfolding map_of_eq_None_iff m using module_without_send_tokens [OF assms(2)] by force
qed

end
