(* ===== verification/Messaging.thy ===== *)
theory Messaging
  imports Prelude TokenLedger
begin

text \<open>
  \<open>remme/shared/messaging.py\<close>: the connection to the validator. Requests carry a correlation
  identifier; the receiver hands every incoming message to the router, which resolves the future of
  the request with that identifier or, when there is none, queues the message. Writing to a busy
  socket is retried with growing pauses.
\<close>

section \<open>Backoff\<close>

record backoff =
  num_retries :: nat
  max_retries :: nat
  interval :: nat      \<comment> \<open>milliseconds\<close>

text \<open>\<open>do_backoff\<close>: the error, or the pause to make with the next state.\<close>

definition do_backoff :: "backoff \<Rightarrow> (nat \<times> backoff) res" where
  "do_backoff b =
     (if num_retries b = max_retries b then Inl SendBackoffTimeoutError
      else Inr (interval b, b\<lparr>num_retries := num_retries b + 1, interval := interval b * 2\<rparr>))"

datatype write_result = Written | Again | WriteError exc

text \<open>
  The loop of \<open>_Sender.send\<close>: \<open>w i\<close> is the outcome of the \<open>i\<close>-th write. The result is \<open>None\<close> when the
  loop does not end, and otherwise the outcome, the number of writes and the pauses made.
\<close>

partial_function (option) write_loop ::
  "(nat \<Rightarrow> write_result) \<Rightarrow> nat \<Rightarrow> backoff \<Rightarrow> nat list \<Rightarrow> (unit res \<times> nat \<times> nat list) option"
where
  "write_loop w i b pauses =
     (case w i of
        Written \<Rightarrow> Some (Inr (), i + 1, pauses)
      | WriteError e \<Rightarrow> Some (Inl e, i + 1, pauses)
      | Again \<Rightarrow>
          (case do_backoff b of
             Inl e \<Rightarrow> Some (Inl e, i + 1, pauses)
           | Inr (p, b') \<Rightarrow> write_loop w (i + 1) b' (pauses @ [p])))"

declare write_loop.simps [code]

definition send_backoff :: backoff where
  "send_backoff = \<lparr>num_retries = 0, max_retries = 3, interval = 200\<rparr>"

definition write_message :: "(nat \<Rightarrow> write_result) \<Rightarrow> (unit res \<times> nat \<times> nat list) option" where
  "write_message w = write_loop w 0 send_backoff []"

lemma write_loop_ends:
  assumes "num_retries b \<le> max_retries b"
  shows "\<exists>r n ps. write_loop w i b pauses = Some (r, n, ps)"
  using assms
proof (induction "max_retries b - num_retries b" arbitrary: i b pauses)
  case 0
  then show ?case
    by (subst write_loop.simps) (auto simp: do_backoff_def split: write_result.split)
next
  case (Suc k)
  then have "\<exists>r n ps. write_loop w (i + 1) (b\<lparr>num_retries := num_retries b + 1, interval := interval b * 2\<rparr>)
      (pauses @ [interval b]) = Some (r, n, ps)"
    by simp
  with Suc show ?case
    by (subst write_loop.simps) (auto simp: do_backoff_def split: write_result.split)
qed

text \<open>The four possible courses of a send, with the pauses made in each.\<close>

lemma write_message_eq:
  "write_message w = Some
    (case w 0 of Written \<Rightarrow> (Inr (), 1, []) | WriteError e \<Rightarrow> (Inl e, 1, []) | Again \<Rightarrow>
    (case w 1 of Written \<Rightarrow> (Inr (), 2, [200]) | WriteError e \<Rightarrow> (Inl e, 2, [200]) | Again \<Rightarrow>
    (case w 2 of Written \<Rightarrow> (Inr (), 3, [200, 400]) | WriteError e \<Rightarrow> (Inl e, 3, [200, 400]) | Again \<Rightarrow>
    (case w 3 of Written \<Rightarrow> (Inr (), 4, [200, 400, 800]) | WriteError e \<Rightarrow> (Inl e, 4, [200, 400, 800])
     | Again \<Rightarrow> (Inl SendBackoffTimeoutError, 4, [200, 400, 800])))))"
  by (simp add: write_message_def send_backoff_def write_loop.simps do_backoff_def numeral_2_eq_2 numeral_3_eq_3
      split: write_result.split)

lemma less_4_cases:
  fixes Q :: "nat \<Rightarrow> bool"
  shows "(\<forall>i<4. Q i) \<longleftrightarrow> Q 0 \<and> Q 1 \<and> Q 2 \<and> Q 3" "(\<exists>i<4. Q i) \<longleftrightarrow> Q 0 \<or> Q 1 \<or> Q 2 \<or> Q 3"
  by (auto simp: eval_nat_numeral All_less_Suc Ex_less_Suc)

lemma before_cases:
  fixes Q :: "nat \<Rightarrow> bool"
  shows "(\<forall>j<1. Q j) \<longleftrightarrow> Q 0" "(\<forall>j<2. Q j) \<longleftrightarrow> Q 0 \<and> Q 1" "(\<forall>j<3. Q j) \<longleftrightarrow> Q 0 \<and> Q 1 \<and> Q 2"
  by (simp_all add: eval_nat_numeral All_less_Suc conj_ac)

text \<open>
  A send succeeds when one of the first four writes does and those before it found the socket busy;
  it fails with the backoff error when all four found it busy.
\<close>

lemma write_message_outcome:
  "\<exists>r n pauses. write_message w = Some (r, n, pauses) \<and>
     n \<le> 4 \<and> sum_list pauses \<le> 1400 \<and> length pauses + 1 = n \<and>
     (r = Inr () \<longleftrightarrow> (\<exists>i<4. w i = Written \<and> (\<forall>j<i. w j = Again))) \<and>
     ((\<forall>i<4. w i = Again) \<longrightarrow> r = Inl SendBackoffTimeoutError)"
  unfolding write_message_eq less_4_cases before_cases
  by (cases "w 0"; cases "w 1"; cases "w 2"; cases "w 3") simp_all

section \<open>The message router\<close>

record 'm validator_msg =
  correlation_id :: string
  message_type :: string
  msg_content :: 'm

datatype 'm future = Pending | Result "'m validator_msg" | Failed exc

record 'm msg_router =
  futures :: "string \<rightharpoonup> 'm future"
  msg_queue :: "'m validator_msg list"

definition new_router :: "'m msg_router" where
  "new_router = \<lparr>futures = Map.empty, msg_queue = []\<rparr>"

definition push_incoming :: "'m validator_msg \<Rightarrow> 'm msg_router \<Rightarrow> 'm msg_router" where
  "push_incoming msg r = r\<lparr>msg_queue := msg_queue r @ [msg]\<rparr>"

text \<open>\<open>incoming\<close> waits (\<open>None\<close>) on an empty queue; \<open>incoming_nowait\<close> raises there.\<close>

definition incoming :: "'m msg_router \<Rightarrow> ('m validator_msg \<times> 'm msg_router) option" where
  "incoming r = (case msg_queue r of [] \<Rightarrow> None | m # ms \<Rightarrow> Some (m, r\<lparr>msg_queue := ms\<rparr>))"

definition incoming_nowait :: "'m msg_router \<Rightarrow> 'm validator_msg res \<times> 'm msg_router" where
  "incoming_nowait r =
     (case incoming r of None \<Rightarrow> (Inl (OtherException ''QueueEmpty''), r) | Some (m, r') \<Rightarrow> (Inr m, r'))"

definition expect_reply :: "string \<Rightarrow> 'm msg_router \<Rightarrow> 'm msg_router" where
  "expect_reply cid r = r\<lparr>futures := (futures r)(cid \<mapsto> Pending)\<rparr>"

definition expected_replies :: "'m msg_router \<Rightarrow> string set" where
  "expected_replies r = dom (futures r)"

text \<open>Resolving a future that is resolved already is logged and changes nothing.\<close>

definition set_reply :: "string \<Rightarrow> 'm validator_msg \<Rightarrow> 'm msg_router \<Rightarrow> 'm msg_router" where
  "set_reply cid msg r =
     (case futures r cid of
        Some Pending \<Rightarrow> r\<lparr>futures := (futures r)(cid \<mapsto> Result msg)\<rparr>
      | _ \<Rightarrow> r)"

definition fail_future :: "exc \<Rightarrow> 'm future \<Rightarrow> 'm future" where
  "fail_future err f = (case f of Pending \<Rightarrow> Failed err | _ \<Rightarrow> f)"

lemma fail_future_Result [simp]: "fail_future err f = Result m \<longleftrightarrow> f = Result m"
  by (cases f) (simp_all add: fail_future_def)

lemma fail_future_not_Pending [simp]: "fail_future err f \<noteq> Pending"
  by (cases f) (simp_all add: fail_future_def)

definition fail_reply :: "string \<Rightarrow> exc \<Rightarrow> 'm msg_router \<Rightarrow> 'm msg_router" where
  "fail_reply cid err r =
     (case futures r cid of
        Some f \<Rightarrow> r\<lparr>futures := (futures r)(cid \<mapsto> fail_future err f)\<rparr>
      | None \<Rightarrow> r)"

definition fail_all :: "exc \<Rightarrow> 'm msg_router \<Rightarrow> 'm msg_router" where
  "fail_all err r = r\<lparr>futures := map_option (fail_future err) \<circ> futures r\<rparr>"

definition route_msg :: "'m validator_msg \<Rightarrow> 'm msg_router \<Rightarrow> 'm msg_router" where
  "route_msg msg r =
     (if correlation_id msg \<in> dom (futures r) then set_reply (correlation_id msg) msg r
      else push_incoming msg r)"

text \<open>
  \<open>await_reply\<close> ends when the future is resolved or the time is over, and forgets the future in
  either case; \<open>None\<close> while it waits.
\<close>

definition await_reply :: "string \<Rightarrow> bool \<Rightarrow> 'm msg_router \<Rightarrow> ('m validator_msg res \<times> 'm msg_router) option" where
  "await_reply cid timed_out r =
     (let r' = r\<lparr>futures := (futures r)(cid := None)\<rparr> in
      case futures r cid of
        None \<Rightarrow> Some (Inl KeyError, r')
      | Some (Result m) \<Rightarrow> Some (Inr m, r')
      | Some (Failed e) \<Rightarrow> Some (Inl e, r')
      | Some Pending \<Rightarrow> if timed_out then Some (Inl TimeoutError, r') else None)"

text \<open>
  \<open>_Sender.send\<close> up to the wait for the reply. When the writes fail the exception leaves \<open>send\<close>
  before \<open>await_reply\<close>, so that the future stays registered.
\<close>

definition start_send :: "string \<Rightarrow> (nat \<Rightarrow> write_result) \<Rightarrow> 'm msg_router \<Rightarrow> (unit res \<times> 'm msg_router) option" where
  "start_send cid w r =
     (case write_message w of
        None \<Rightarrow> None
      | Some (reply, n, pauses) \<Rightarrow> Some (reply, expect_reply cid r))"

section \<open>The receiver\<close>

datatype 'z read_result = ReadMsg 'z | ReadError | ReadCancelled

text \<open>\<open>_Receiver.start\<close> on a sequence of reads: undecodable messages are skipped, errors end the loop.\<close>

fun receive_loop :: "('z \<Rightarrow> 'm validator_msg res) \<Rightarrow> 'z read_result list \<Rightarrow> 'm msg_router \<Rightarrow> 'm msg_router res" where
  "receive_loop parse [] r = Inr r"
| "receive_loop parse (ReadError # xs) r = Inr r"
| "receive_loop parse (ReadCancelled # xs) r = Inr r"
| "receive_loop parse (ReadMsg z # xs) r =
     (case parse z of
        Inr m \<Rightarrow> receive_loop parse xs (route_msg m r)
      | Inl e \<Rightarrow> if e = DecodeError then receive_loop parse xs r else Inl e)"

section \<open>The connection\<close>

record 'm connection =
  url :: string
  conn_router :: "'m msg_router"
  receiving :: bool

definition new_connection :: "string \<Rightarrow> 'm connection" where
  "new_connection u = \<lparr>url = u, conn_router = new_router, receiving = False\<rparr>"

definition get_single_connection :: "'m connection option \<Rightarrow> string \<Rightarrow> 'm connection" where
  "get_single_connection existing u = (case existing of None \<Rightarrow> new_connection u | Some c \<Rightarrow> c)"

definition open_connection :: "'m connection \<Rightarrow> 'm connection" where
  "open_connection c = c\<lparr>receiving := True\<rparr>"

definition close :: "'m connection \<Rightarrow> 'm connection" where
  "close c = c\<lparr>receiving := False, conn_router := fail_all DisconnectError (conn_router c)\<rparr>"

section \<open>Replies reach their requests\<close>

text \<open>
  The life of a router with the messages it was given: \<open>taken\<close> are the unexpected messages that were
  received from the queue, \<open>unexpected\<close> all that went into it. A request takes an identifier that is
  not in use (\<open>uuid4\<close>).
\<close>

record 'm traffic =
  traffic_router :: "'m msg_router"
  unexpected :: "'m validator_msg list"
  taken :: "'m validator_msg list"
  answered :: "(string \<times> 'm validator_msg res) list"

inductive traffic_step :: "'m traffic \<Rightarrow> 'm traffic \<Rightarrow> bool" where
  send: "futures (traffic_router t) cid = None \<Longrightarrow>
    traffic_step t (t\<lparr>traffic_router := expect_reply cid (traffic_router t)\<rparr>)"
| arrive: "traffic_step t (t\<lparr>traffic_router := route_msg m (traffic_router t),
      unexpected := unexpected t @ (if correlation_id m \<in> dom (futures (traffic_router t)) then [] else [m])\<rparr>)"
| answer: "await_reply cid timed_out (traffic_router t) = Some (reply, r') \<Longrightarrow>
    traffic_step t (t\<lparr>traffic_router := r', answered := answered t @ [(cid, reply)]\<rparr>)"
| receive: "incoming (traffic_router t) = Some (m, r') \<Longrightarrow>
    traffic_step t (t\<lparr>traffic_router := r', taken := taken t @ [m]\<rparr>)"
| fail: "traffic_step t (t\<lparr>traffic_router := fail_all err (traffic_router t)\<rparr>)"

definition well_routed :: "'m traffic \<Rightarrow> bool" where
  "well_routed t \<longleftrightarrow>
     (\<forall>cid m. futures (traffic_router t) cid = Some (Result m) \<longrightarrow> correlation_id m = cid) \<and>
     (\<forall>cid m. (cid, Inr m) \<in> set (answered t) \<longrightarrow> correlation_id m = cid) \<and>
     unexpected t = taken t @ msg_queue (traffic_router t)"

lemma route_msg_parts:
  "msg_queue (route_msg m r) = msg_queue r @ (if correlation_id m \<in> dom (futures r) then [] else [m])"
  "futures (route_msg m r) = (if futures r (correlation_id m) = Some Pending
     then (futures r)(correlation_id m \<mapsto> Result m) else futures r)"
  by (auto simp: route_msg_def set_reply_def push_incoming_def domIff split: option.split future.split)

interpretation traffic: invariant_step traffic_step well_routed
proof unfold_locales
  fix s t :: "'a traffic" assume "traffic_step s t" and g: "well_routed s"
  then show "well_routed t"
  proof cases
    case (arrive m)
    with g show ?thesis by (auto simp: well_routed_def route_msg_parts split: if_splits)
  next
    case (answer cid timed_out reply r')
    with g show ?thesis
      by (auto simp: well_routed_def await_reply_def Let_def split: option.splits future.splits if_splits)
  next
    case (receive m r')
    with g show ?thesis by (auto simp: well_routed_def incoming_def split: list.splits)
  next
    case (fail err)
    with g show ?thesis
      by (auto simp: well_routed_def fail_all_def)
  qed (auto simp: well_routed_def expect_reply_def)
qed

text \<open>After \<open>close\<close> nobody is left waiting.\<close>

lemma close_resolves:
  "futures (conn_router (close c)) cid = Some f \<Longrightarrow> f \<noteq> Pending"
  by (auto simp: close_def fail_all_def)

lemma await_after_close:
  "\<exists>reply r'. await_reply cid timed_out (conn_router (close c)) = Some (reply, r')"
  using close_resolves [of c cid]
  by (auto simp: await_reply_def Let_def split: option.split future.split)

end
