(* ===== verification/Genesis.thy ===== *)
theory Genesis
  imports KeyFiles ClientViews
begin

text \<open>
  \<open>remme/genesis/__main__.py\<close>: the command that prepares the genesis batch. It reads the section
  \<open>remme.genesis\<close> of the configuration, loads (or creates) the key of the node and writes a batch with
  one genesis transaction to a file the validator picks up. \<open>arg\<close> is the value of \<open>--token-supply\<close>
  when it is given.
\<close>

definition OUTPUT_BATCH :: string where
  "OUTPUT_BATCH = ''/genesis/batch/token-proposal.batch''"

definition genesis_addresses :: "signer \<Rightarrow> (string list \<times> string list) res" where
  "genesis_addresses sg =
     rbind (make_address AccountHandler (replicate 64 (CHR ''0''))) (\<lambda>zero_address.
     rbind (make_address_from_data AccountHandler (public_key_hex sg)) (\<lambda>target_address.
       Inr ([GENESIS_ADDRESS], [GENESIS_ADDRESS, target_address])))"

text \<open>The file is opened and written without a handler for \<open>OSError\<close>.\<close>

definition write_batch_file :: "string \<Rightarrow> (file_system, unit) ex" where
  "write_batch_file bytes fs =
     (case write_file OUTPUT_BATCH bytes fs of
        Inl m \<Rightarrow> (Inl (OtherException m), fs)
      | Inr fs' \<Rightarrow> (Inr (), fs'))"

definition genesis_main ::
  "rest_lib \<Rightarrow> serializer \<Rightarrow> string pblib \<Rightarrow> key_loader \<Rightarrow> signer \<Rightarrow> signer \<Rightarrow> string \<Rightarrow> dict \<Rightarrow> pyval option
     \<Rightarrow> (file_system, unit) ex"
where
  "genesis_main L Z P from_hex fresh fresh' nonce parameters arg =
     ebind (elift (dict_lookup parameters ''token_supply'')) (\<lambda>default_supply.
     let token_supply = (case arg of None \<Rightarrow> default_supply | Some v \<Rightarrow> v) in
     ebind (BasicClient from_hex fresh (Some AccountHandler)) (\<lambda>account_client.
     ebind (elift (dict_lookup parameters ''economy_enabled'')) (\<lambda>economy_enabled.
     if \<not> truthy economy_enabled then eret ()
     else
     ebind (elift (genesis_addresses (client_signer account_client))) (\<lambda>(addresses_input, addresses_output).
     ebind (elift (get_genesis_payload token_supply)) (\<lambda>data.
     ebind (elift (transaction_payload L P (EnumValue P ''AccountMethod'' ''GENESIS'') (GenesisPayloadM data))) (\<lambda>pl.
     ebind (BasicClient from_hex fresh' (Some AccountHandler)) (\<lambda>second_client.
     ebind (elift (make_batch_list L Z second_client nonce pl addresses_input addresses_output)) (\<lambda>batch_list.
       write_batch_file (Z ''BatchList'' batch_list)))))))))"

lemma genesis_addresses_eq:
  "genesis_addresses sg = Inr ([GENESIS_ADDRESS], [GENESIS_ADDRESS, account_address (public_key_hex sg)])"
proof -
  have "list_all is_hex (replicate 64 (CHR ''0''))"
    by (simp add: list_all_iff is_hex_def hex_chars_def)
  then show ?thesis
    using make_address_hex [OF valid_AccountHandler, of "replicate 64 (CHR ''0'')"]
    by (simp add: genesis_addresses_def)
qed

text \<open>The batch file is none of the key files.\<close>

lemma output_not_key [simp]: "OUTPUT_BATCH \<noteq> PRIV_KEY_FILE" "PRIV_KEY_FILE \<noteq> OUTPUT_BATCH"
  by (simp_all add: OUTPUT_BATCH_def PRIV_KEY_FILE_def KEY_DIR_def)

lemma write_batch_file_ok:
  assumes "write_batch_file bytes fs = (Inr (), fs')"
  shows "fs' = fs\<lparr>contents := (contents fs)(OUTPUT_BATCH \<mapsto> bytes)\<rparr>"
  using assms by (auto simp: write_batch_file_def write_file_def split: sum.splits option.splits)

text \<open>Loading is stable: once a client could load its key, every later client loads the same.\<close>

lemma load_signer_stable:
  assumes "get_signer_priv_key_from_file from_hex PRIV_KEY_FILE fs = Inr sg"
    and "contents fs' PRIV_KEY_FILE = contents fs PRIV_KEY_FILE"
  shows "load_signer from_hex fresh fs' = (Inr sg, fs')"
  using assms by (auto simp: load_signer_def get_signer_priv_key_from_file_def split: option.splits sum.splits)

lemma load_signer_then_reads:
  assumes "load_signer from_hex fresh fs = (Inr sg, fs')"
    and "list_all is_hex (private_key_hex fresh)" and "from_hex (private_key_hex fresh) = Inr fresh"
  shows "get_signer_priv_key_from_file from_hex PRIV_KEY_FILE fs' = Inr sg"
  using assms strip_hex [OF assms(2)]
  by (auto simp: load_signer_def generate_signer_def get_signer_priv_key_from_file_def write_file_def
      split: sum.splits option.splits if_splits)

lemma genesis_main_writes:
  assumes "genesis_main L Z P from_hex fresh fresh' nonce parameters arg fs = (Inr (), fs')"
    and "map_of parameters ''economy_enabled'' = Some e" and "truthy e"
    and "list_all is_hex (private_key_hex fresh)" and "from_hex (private_key_hex fresh) = Inr fresh"
  shows "\<exists>sg dflt data pl bl.
    load_signer from_hex other fs' = (Inr sg, fs') \<and>
    map_of parameters ''token_supply'' = Some dflt \<and>
    get_genesis_payload (case arg of None \<Rightarrow> dflt | Some v \<Rightarrow> v) = Inr data \<and>
    transaction_payload L P (EnumValue P ''AccountMethod'' ''GENESIS'') (GenesisPayloadM data) = Inr pl \<and>
    make_batch_list L Z (AccountClient sg) nonce pl
      [GENESIS_ADDRESS] [GENESIS_ADDRESS, account_address (public_key_hex sg)] = Inr bl \<and>
    contents fs' OUTPUT_BATCH = Some (Z ''BatchList'' bl)"
proof -
  from assms(1-3) obtain dflt c1 fs1 data pl c2 fs2 bl where
    t: "map_of parameters ''token_supply'' = Some dflt"
    and c1: "BasicClient from_hex fresh (Some AccountHandler) fs = (Inr c1, fs1)"
    and d: "get_genesis_payload (case arg of None \<Rightarrow> dflt | Some v \<Rightarrow> v) = Inr data"
    and p: "transaction_payload L P (EnumValue P ''AccountMethod'' ''GENESIS'') (GenesisPayloadM data) = Inr pl"
    and c2: "BasicClient from_hex fresh' (Some AccountHandler) fs1 = (Inr c2, fs2)"
    and b: "make_batch_list L Z c2 nonce pl [GENESIS_ADDRESS]
        [GENESIS_ADDRESS, account_address (public_key_hex (client_signer c1))] = Inr bl"
    and w: "write_batch_file (Z ''BatchList'' bl) fs2 = (Inr (), fs')"
    by (auto simp: genesis_main_def Let_def res_simps genesis_addresses_eq dict_lookup_def
        split: option.splits if_splits)
  from c1 obtain sg where l: "load_signer from_hex fresh fs = (Inr sg, fs1)"
      and c1': "c1 = AccountClient sg"
    by (auto simp: BasicClient_def AccountClient_def res_simps)
  note r = load_signer_then_reads [OF l assms(4,5)]
  from c2 have "fs2 = fs1" "c2 = AccountClient sg"
    using load_signer_stable [OF r refl] by (auto simp: BasicClient_def AccountClient_def res_simps)
  moreover from write_batch_file_ok [OF w] have
    "contents fs' OUTPUT_BATCH = Some (Z ''BatchList'' bl)" "contents fs' PRIV_KEY_FILE = contents fs2 PRIV_KEY_FILE"
    by simp_all
  ultimately show ?thesis
    using t d p b c1' load_signer_stable [OF r, of fs'] by (auto simp: AccountClient_def)
qed

text \<open>The outputs of the genesis transaction are what its processor writes.\<close>

lemma genesis_outputs:
  assumes "state_step P Y E pk (GenesisPayloadM p) v v'"
  shows "v' a \<noteq> v a \<Longrightarrow> covered [GENESIS_ADDRESS, account_address pk] a"
  using assms by (auto elim!: genesis_stepE intro: covered_self split: if_splits)

end
