(* ===== verification/ApiExamples.thy ===== *)
theory ApiExamples
  imports Examples RpcServer EventFlow Messaging Genesis
begin

text \<open>
  Concrete inputs for the API side of the model: a codec whose byte strings are decimal numerals, and
  the parameters of the RPC methods over the validator of theory Validator that serves a given state.
\<close>

definition text_parse :: "pb_class \<Rightarrow> string \<Rightarrow> message res" where
  "text_parse cls d =
     (case py_int 10 d of
        Inl _ \<Rightarrow> Inl DecodeError
      | Inr n \<Rightarrow>
          if cls = AccountC then Inr (AccountM \<lparr>balance = n, pub_keys = []\<rparr>)
          else if cls = BlockInfoC then
            Inr (BlockInfoM \<lparr>block_num = n, previous_block_id = [], signer_public_key = [],
              header_signature = [], timestamp = 10 * n\<rparr>)
          else if cls = BlockInfoConfigC then Inr (BlockInfoConfigM \<lparr>latest_block = n, oldest_block = 0\<rparr>)
          else Inl DecodeError)"

definition text_lib :: "string pblib" where
  "text_lib =
     \<lparr>ParseFromString = text_parse,
      SerializeToString = (\<lambda>m. case m of AccountM x \<Rightarrow> py_str (balance x) | GenesisPayloadM p \<Rightarrow> py_str (total_supply p) | _ \<Rightarrow> []),
      Parse_TransactionPayload = (\<lambda>d. Inl DecodeError),
      MessageToDict = wire_dict,
      EnumValue = EnumValue wire_lib,
      EnumName = EnumName wire_lib\<rparr>"

lemma text_lib_simps [simp]: "ParseFromString text_lib = text_parse" "MessageToDict text_lib = wire_dict"
  by (simp_all add: text_lib_def)

lemma text_account_dict: "account_dict text_lib"
  by (simp add: account_dict_def)

definition node_signer :: signer where
  "node_signer = \<lparr>public_key_hex = alice_key, private_key_hex = ''ab'', sign = (\<lambda>m. ''cd'')\<rparr>"

definition mirror_api :: "(string \<rightharpoonup> string) api" where
  "mirror_api =
     \<lparr>api_lib = mirror_lib, api_stream = mirror_stream, api_pb = text_lib, api_ser = (\<lambda>cls m. cls),
      api_wt = wt_std, api_odd_form = (\<lambda>cls ignore d. Inl TypeError), api_parse = (\<lambda>cls bytes. Inl DecodeError),
      api_signer = node_signer, api_nonce = ''1'', api_now = 0\<rparr>"

lemma mirror_api_simps [simp]:
  "api_lib mirror_api = mirror_lib" "api_stream mirror_api = mirror_stream" "api_pb mirror_api = text_lib"
  "api_wt mirror_api = wt_std" "api_signer mirror_api = node_signer"
  by (simp_all add: mirror_api_def)

text \<open>A chain with one account and two blocks.\<close>

definition small_chain :: "string \<rightharpoonup> string" where
  "small_chain = [alice_addr \<mapsto> ''700'', CONFIG_ADDRESS \<mapsto> ''1'', create_block_address 0 \<mapsto> ''0'',
     create_block_address 1 \<mapsto> ''1'']"

lemma py_int_numerals: "py_int 10 ''700'' = Inr 700" "py_int 10 ''1'' = Inr 1" "py_int 10 ''0'' = Inr 0"
  by code_simp+

lemma small_chain_decodes:
  "cls \<in> {AccountC, BlockInfoC} \<Longrightarrow> decodes text_lib small_chain cls a"
  by (auto simp: decodes_def small_chain_def text_parse_def py_int_numerals split: if_splits)

lemma block_addresses_differ [simp]:
  "create_block_address 0 \<noteq> create_block_address 1" "create_block_address 1 \<noteq> create_block_address 0"
  by code_simp+

lemma alice_not_block [simp]:
  "alice_addr \<noteq> CONFIG_ADDRESS" "alice_addr \<noteq> create_block_address n"
  "CONFIG_ADDRESS \<noteq> alice_addr" "create_block_address n \<noteq> alice_addr"
  using account_addr_neq_block [OF is_account_addr_alice] by auto

lemma alice_hex: "re_match_hex 70 alice_addr"
  by code_simp

lemma small_chain_entries:
  "account_at text_lib small_chain alice_addr = \<lparr>balance = 700, pub_keys = []\<rparr>"
  "entry text_lib small_chain BlockInfoConfigC CONFIG_ADDRESS
     = Some (BlockInfoConfigM \<lparr>latest_block = 1, oldest_block = 0\<rparr>)"
  by (simp_all add: account_at_def entry_def small_chain_def text_parse_def py_int_numerals)

lemma small_chain_blocks:
  "blocks_in text_lib small_chain [0..1] =
     map (\<lambda>n. interpret_block_info \<lparr>block_num = n, previous_block_id = [], signer_public_key = [],
       header_signature = [], timestamp = 10 * n\<rparr>) [0, 1]"
proof -
  have "[0..1] = [0, 1::int]" by (simp add: upto_rec1)
  then show ?thesis
    by (simp add: blocks_in_def map_filter_simps block_at_def entry_def small_chain_def text_parse_def py_int_numerals)
qed

end
