(* ===== verification/CertClient.thy ===== *)
theory CertClient
  imports KeyFiles
begin

text \<open>
  The certificates of \<open>remme/clients/pub_key.py\<close>. Keys, signatures, name attributes and the encodings
  of the \<open>cryptography\<close> package are parameters (\<open>x509_lib\<close>); the model holds what the client puts into
  a certificate and how it derives dates and signatures. A naive \<open>datetime\<close> is its distance from
  1970-01-01 in microseconds.
\<close>

datatype encryption = NoEncryption | BestAvailableEncryption string

record certificate =
  cert_subject :: "(string \<times> string) list"
  cert_issuer :: "(string \<times> string) list"
  cert_public_key :: string
  serial_number :: int
  not_valid_before :: int
  not_valid_after :: int

record x509_lib =
  NameAttribute :: "string \<Rightarrow> pyval \<Rightarrow> (string \<times> string) res"
  generate_private_key :: "int \<Rightarrow> int \<Rightarrow> string"   \<comment> \<open>public exponent and key size\<close>
  private_bytes :: "string \<Rightarrow> encryption \<Rightarrow> string res"
  key_public_key :: "string \<Rightarrow> string"
  random_serial_number :: int
  sign_certificate :: "certificate \<Rightarrow> string \<Rightarrow> certificate res"
  cert_pem :: "certificate \<Rightarrow> string"
  cert_der :: "certificate \<Rightarrow> string"
  public_key_pem :: "string \<Rightarrow> string"
  pss_sign :: "string \<Rightarrow> string \<Rightarrow> string"
  utcnow :: int
  local_timestamp :: "int \<Rightarrow> int"   \<comment> \<open>\<open>strftime("%s")\<close> of a naive time\<close>

section \<open>Parameters of a certificate\<close>

definition PUB_KEY_ORGANIZATION :: string where
  "PUB_KEY_ORGANIZATION = ''REMME''"

definition get_encryption_algorithm :: "dict \<Rightarrow> encryption res" where
  "get_encryption_algorithm pl =
     (case map_of pl ''passphrase'' of
        None \<Rightarrow> Inr NoEncryption
      | Some v \<Rightarrow>
          if \<not> truthy v then Inr NoEncryption
          else (case v of PStr s \<Rightarrow> Inr (BestAvailableEncryption s) | _ \<Rightarrow> Inl AttributeError))"

definition generate_key :: "x509_lib \<Rightarrow> string" where
  "generate_key X = generate_private_key X 65537 2048"

definition generate_key_export :: "x509_lib \<Rightarrow> string \<Rightarrow> encryption \<Rightarrow> string res" where
  "generate_key_export X key encryption_algorithm = private_bytes X key encryption_algorithm"

definition get_params :: "(string \<times> string) list" where
  "get_params =
     [(''country_name'', ''COUNTRY_NAME''), (''state_name'', ''STATE_OR_PROVINCE_NAME''),
      (''street_address'', ''STREET_ADDRESS''), (''postal_address'', ''POSTAL_ADDRESS''),
      (''postal_code'', ''POSTAL_CODE''), (''locality_name'', ''LOCALITY_NAME''),
      (''common_name'', ''COMMON_NAME''), (''name'', ''GIVEN_NAME''), (''surname'', ''SURNAME''),
      (''pseudonym'', ''PSEUDONYM''), (''business_category'', ''BUSINESS_CATEGORY''), (''title'', ''TITLE''),
      (''email'', ''EMAIL_ADDRESS''), (''serial'', ''SERIAL_NUMBER''),
      (''generation_qualifier'', ''GENERATION_QUALIFIER'')]"

section \<open>Dates\<close>

definition day :: int where
  "day = 86400000000"

definition OverflowError :: exc where
  "OverflowError = OtherException ''OverflowError''"

text \<open>\<open>datetime.timedelta(days=v)\<close>, within the range of the class.\<close>

definition timedelta_days :: "pyval \<Rightarrow> int res" where
  "timedelta_days v =
     rbind (case v of PInt n \<Rightarrow> Inr n | PBool b \<Rightarrow> Inr (if b then 1 else 0) | PFloat n \<Rightarrow> Inr n | _ \<Rightarrow> Inl TypeError)
       (\<lambda>n. if \<bar>n\<bar> \<le> 999999999 then Inr (n * day) else Inl OverflowError)"

text \<open>The first and the last moment of the class \<open>datetime\<close>: the years 1 and 9999.\<close>

definition datetime_min :: int where
  "datetime_min = - 62135596800000000"

definition datetime_max :: int where
  "datetime_max = 253402300799999999"

definition datetime_add :: "int \<Rightarrow> int \<Rightarrow> int res" where
  "datetime_add t d = (if datetime_min \<le> t + d \<and> t + d \<le> datetime_max then Inr (t + d) else Inl OverflowError)"

definition get_dates_from_payload :: "x509_lib \<Rightarrow> dict \<Rightarrow> (int \<times> int) res" where
  "get_dates_from_payload X pl =
     rbind (case map_of pl ''validity_after'' of
              Some v \<Rightarrow> rbind (timedelta_days v) (datetime_add (utcnow X))
            | None \<Rightarrow> Inr (utcnow X)) (\<lambda>before.
     rbind (case map_of pl ''validity'' of
              Some v \<Rightarrow> rbind (timedelta_days v) (datetime_add before)
            | None \<Rightarrow> datetime_add before (PUB_KEY_MAX_VALIDITY * 1000000)) (\<lambda>after.
       Inr (before, after)))"

section \<open>Certificates\<close>

definition certificate_name :: "x509_lib \<Rightarrow> (string \<times> string) list \<Rightarrow> dict \<Rightarrow> string \<Rightarrow> string \<Rightarrow> (string \<times> string) list res" where
  "certificate_name X parameters pl signer_pub_key org_name =
     rbind (NameAttribute X ''ORGANIZATION_NAME'' (PStr org_name)) (\<lambda>organization.
     rbind (NameAttribute X ''USER_ID'' (PStr signer_pub_key)) (\<lambda>user.
     rbind (rmap (\<lambda>(k, oid). rbind (dict_lookup pl k) (NameAttribute X oid))
              (filter (\<lambda>(k, oid). k \<in> fst ` set pl) parameters)) (\<lambda>names.
       Inr ([organization, user] @ names))))"

definition build_certificate ::
  "x509_lib \<Rightarrow> (string \<times> string) list \<Rightarrow> dict \<Rightarrow> string \<Rightarrow> string \<Rightarrow> string \<Rightarrow> certificate res"
where
  "build_certificate X parameters pl key signer_pub_key org_name =
     rbind (certificate_name X parameters pl signer_pub_key org_name) (\<lambda>subject.
     rbind (get_dates_from_payload X pl) (\<lambda>(before, after).
       sign_certificate X
         \<lparr>cert_subject = subject, cert_issuer = subject, cert_public_key = key_public_key X key,
          serial_number = random_serial_number X, not_valid_before = before, not_valid_after = after\<rparr> key))"

text \<open>\<open>own\<close> is the signer of a new \<open>PubKeyClient\<close>, used when no signer is given.\<close>

definition create_certificate ::
  "x509_lib \<Rightarrow> signer \<Rightarrow> dict \<Rightarrow> string \<Rightarrow> signer option \<Rightarrow> (certificate \<times> string \<times> string) res"
where
  "create_certificate X own pl org_name given =
     rbind (get_encryption_algorithm pl) (\<lambda>encryption_algorithm.
     let key = generate_key X in
     rbind (generate_key_export X key encryption_algorithm) (\<lambda>key_export.
     let sg = (case given of None \<Rightarrow> own | Some s \<Rightarrow> s) in
     rbind (build_certificate X get_params pl key (public_key_hex sg) org_name) (\<lambda>cert.
       Inr (cert, key, key_export))))"

definition get_signer_pubkey :: "client \<Rightarrow> string" where
  "get_signer_pubkey c = public_key_hex (client_signer c)"

definition sign_text :: "client \<Rightarrow> string \<Rightarrow> string" where
  "sign_text c data = sign (client_signer c) data"

text \<open>\<open>bytes.fromhex\<close>: pairs of digits, between which ASCII white space is skipped.\<close>

fun fromhex :: "string \<Rightarrow> string res" where
  "fromhex [] = Inr []"
| "fromhex [c] = (if is_space c then Inr [] else Inl ValueError)"
| "fromhex (c # d # cs) =
     (if is_space c then fromhex (d # cs)
      else (case (digit_value c, digit_value d) of
              (Some h, Some l) \<Rightarrow> if h < 16 \<and> l < 16 then rbind (fromhex cs) (\<lambda>r. Inr (char_of (16 * h + l) # r)) else Inl ValueError
            | _ \<Rightarrow> Inl ValueError))"

definition get_pub_key_signature :: "x509_lib \<Rightarrow> string \<Rightarrow> string \<Rightarrow> string res" where
  "get_pub_key_signature X key sig = rbind (fromhex sig) (\<lambda>bytes. Inr (pss_sign X key bytes))"

record certificate_export =
  crt_export :: string
  crt_bin :: string
  crt_sig :: string
  rem_sig :: string
  exported_key :: string
  export_valid_from :: int
  export_valid_to :: int

definition get_crt_export_bin_sig_rem_sig :: "x509_lib \<Rightarrow> certificate \<Rightarrow> string \<Rightarrow> client \<Rightarrow> certificate_export res" where
  "get_crt_export_bin_sig_rem_sig X cert key c =
     (let crt_hash = hash512 (bytes_hex (cert_der X cert)); sig = sign_text c crt_hash in
      rbind (get_pub_key_signature X key sig) (\<lambda>key_sig.
        Inr \<lparr>crt_export = cert_pem X cert, crt_bin = cert_der X cert, crt_sig = bytes_hex key_sig, rem_sig = sig,
             exported_key = public_key_pem X (cert_public_key cert),
             export_valid_from = local_timestamp X (not_valid_before cert),
             export_valid_to = local_timestamp X (not_valid_after cert)\<rparr>))"

text \<open>A request for a certificate holds a subject and a public key.\<close>

definition process_csr ::
  "x509_lib \<Rightarrow> client \<Rightarrow> (string \<times> string) list \<Rightarrow> string \<Rightarrow> string \<Rightarrow> int option \<Rightarrow> int option \<Rightarrow> certificate res"
where
  "process_csr X c subject public_key key before after =
     rbind (NameAttribute X ''ORGANIZATION_NAME'' (PStr PUB_KEY_ORGANIZATION)) (\<lambda>organization.
     rbind (NameAttribute X ''USER_ID'' (PStr (get_signer_pubkey c))) (\<lambda>user.
     let nvb = (case before of None \<Rightarrow> utcnow X | Some t \<Rightarrow> t) in
     rbind (case after of None \<Rightarrow> datetime_add nvb (PUB_KEY_MAX_VALIDITY * 1000000) | Some t \<Rightarrow> Inr t) (\<lambda>nva.
       sign_certificate X
         \<lparr>cert_subject = subject, cert_issuer = [organization, user], cert_public_key = public_key,
          serial_number = random_serial_number X, not_valid_before = nvb, not_valid_after = nva\<rparr> key)))"

section \<open>What a certificate says\<close>

text \<open>The documented contract of signing: the certificate has the fields it was built with.\<close>

definition signing_keeps :: "x509_lib \<Rightarrow> bool" where
  "signing_keeps X \<longleftrightarrow> (\<forall>c key c'. sign_certificate X c key = Inr c' \<longrightarrow> c' = c)"

lemma signing_keepsD: "sign_certificate X c key = Inr c' \<Longrightarrow> signing_keeps X \<Longrightarrow> c' = c"
  by (simp add: signing_keeps_def)

lemma dates_default:
  assumes "get_dates_from_payload X pl = Inr (before, after)" and "map_of pl ''validity'' = None"
  shows "after = before + PUB_KEY_MAX_VALIDITY * 1000000"
  using assms by (auto simp: get_dates_from_payload_def datetime_add_def res_simps split: option.splits if_splits)

lemma dates_in_range:
  assumes "get_dates_from_payload X pl = Inr (before, after)" and "datetime_min \<le> utcnow X" and "utcnow X \<le> datetime_max"
  shows "datetime_min \<le> before \<and> before \<le> datetime_max \<and> datetime_min \<le> after \<and> after \<le> datetime_max"
  using assms by (auto simp: get_dates_from_payload_def datetime_add_def res_simps split: option.splits if_splits)

text \<open>A self-signed certificate names its signer, and carries the key pair it is signed with.\<close>

lemma build_certificate_fields:
  assumes "build_certificate X parameters pl key pk org = Inr cert" and "signing_keeps X"
  shows "cert_issuer cert = cert_subject cert \<and> cert_public_key cert = key_public_key X key \<and>
    (\<exists>u. NameAttribute X ''USER_ID'' (PStr pk) = Inr u \<and> u \<in> set (cert_subject cert)) \<and>
    get_dates_from_payload X pl = Inr (not_valid_before cert, not_valid_after cert)"
  using assms
  by (auto simp: build_certificate_def certificate_name_def res_simps dest!: signing_keepsD)

text \<open>
  The default validity is the longest the transaction processor accepts: a certificate without an
  explicit validity is one whose key can be stored, where the local time has a fixed offset.
\<close>

lemma default_certificate_accepted:
  assumes "build_certificate X parameters pl key pk org = Inr cert" and "signing_keeps X"
    and "map_of pl ''validity'' = None"
    and "\<And>t. local_timestamp X t = t div 1000000 - offset" and "\<And>t. utcoffset Y t = offset"
  shows "is_public_key_validity_exceeded Y (local_timestamp X (not_valid_before cert))
    (local_timestamp X (not_valid_after cert))"
proof -
  from build_certificate_fields [OF assms(1,2)] have
    "get_dates_from_payload X pl = Inr (not_valid_before cert, not_valid_after cert)" by blast
  from dates_default [OF this assms(3)] show ?thesis
    by (simp add: is_public_key_validity_exceeded_def assms(4,5))
qed

text \<open>Every byte string has a hexadecimal form that reads back.\<close>

lemma fixed_hex_byte:
  "fixed_hex 2 (of_char c) = [hex_chars ! (of_char c div 16), hex_chars ! (of_char c mod 16)]"
proof -
  define n where "n = (of_char c :: nat)"
  have i: "(of_char c :: int) = int n" by (simp add: n_def of_nat_of_char)
  have "n div 16 < 16" unfolding n_def by (rule byte_div)
  then show ?thesis
    unfolding i n_def [symmetric] by (simp add: numeral_2_eq_2 nat_div_distrib nat_mod_distrib)
qed

lemma bytes_hex_hex: "list_all is_hex (bytes_hex b)"
  using is_hex_hex_chars byte_div by (auto simp: bytes_hex_def fixed_hex_byte list_all_iff)

lemma fromhex_bytes_hex: "fromhex (bytes_hex b) = Inr b"
proof (induction b)
  case (Cons c b)
  have "(of_char c :: nat) div 16 < 16" by (rule byte_div)
  moreover have "\<not> is_space (hex_chars ! (of_char c div 16))"
    using is_hex_not_special [OF is_hex_hex_chars [OF calculation]] by blast
  ultimately show ?case
    using Cons by (simp add: bytes_hex_def fixed_hex_byte digit_value_hex_chars)
qed (simp add: bytes_hex_def)

end
