(* ===== verification/WalletExample.thy ===== *)
theory WalletExample
  imports Submission ApiExamples CertClient
begin

text \<open>
  A concrete transfer from a client to the state: a codec of byte strings for accounts and transfers
  (decimal numerals and hexadecimal strings between commas), the messages of the SDK as JSON texts,
  and the context of the test double.
\<close>

section \<open>A codec for accounts and transfers\<close>

definition wallet_parse :: "pb_class \<Rightarrow> string \<Rightarrow> message res" where
  "wallet_parse cls d =
     (case split (CHR '','') d of
        [] \<Rightarrow> Inl DecodeError
      | w # ws \<Rightarrow>
          if cls = AccountC then
            (case (py_int 10 w, rmap fromhex ws) of
               (Inr n, Inr ks) \<Rightarrow> if uint 64 n then Inr (AccountM \<lparr>balance = n, pub_keys = ks\<rparr>) else Inl DecodeError
             | _ \<Rightarrow> Inl DecodeError)
          else if cls = TransferPayloadC then
            (case (py_int 10 w, rmap fromhex ws) of
               (Inr n, Inr [to]) \<Rightarrow> if uint 64 n then Inr (TransferPayloadM \<lparr>address_to = to, tp_value = n\<rparr>) else Inl DecodeError
             | _ \<Rightarrow> Inl DecodeError)
          else Inl DecodeError)"

fun wallet_serialize :: "message \<Rightarrow> string" where
  "wallet_serialize (AccountM x) = join '','' (py_str (balance x) # map bytes_hex (pub_keys x))"
| "wallet_serialize (TransferPayloadM p) = join '','' [py_str (tp_value p), bytes_hex (address_to p)]"
| "wallet_serialize _ = []"

definition wallet_payload :: "string \<Rightarrow> (int \<times> string) res" where
  "wallet_payload d =
     (case json_loads d of
        Inr (PDict [(_, PInt meth), (_, PStr x)]) \<Rightarrow> Inr (meth, x)
      | _ \<Rightarrow> Inl DecodeError)"

definition wallet_lib :: "string pblib" where
  "wallet_lib =
     \<lparr>ParseFromString = wallet_parse, SerializeToString = wallet_serialize, Parse_TransactionPayload = wallet_payload,
      MessageToDict = wire_dict, EnumValue = EnumValue wire_lib, EnumName = EnumName wire_lib\<rparr>"

lemma wallet_lib_simps [simp]:
  "ParseFromString wallet_lib = wallet_parse" "SerializeToString wallet_lib = wallet_serialize"
  "Parse_TransactionPayload wallet_lib = wallet_payload" "EnumValue wallet_lib = EnumValue wire_lib"
  by (simp_all add: wallet_lib_def)

lemma comma_free: "CHR '','' \<notin> set (py_str n)" "CHR '','' \<notin> set (bytes_hex b)"
proof -
  have "\<not> is_digit (CHR '','')" "\<not> is_hex (CHR '','')" by (simp_all add: is_digit_def is_hex_def hex_chars_def)
  then show "CHR '','' \<notin> set (py_str n)" "CHR '','' \<notin> set (bytes_hex b)"
    using digits_base_digits [of "nat n"] digits_base_digits [of "nat (- n)"] bytes_hex_hex [of b]
    by (auto simp: list_all_iff py_str_def)
qed

lemma fromhex_all: "rmap fromhex (map bytes_hex ks) = Inr ks"
  by (induction ks) (simp_all add: fromhex_bytes_hex)

lemma split_wallet: "split (CHR '','') (join '','' (py_str n # map bytes_hex ks)) = py_str n # map bytes_hex ks"
  by (rule split_join) (auto simp: comma_free)

lemma wallet_accounts: "accounts_survive wallet_lib"
  by (simp add: accounts_survive_def wallet_parse_def split_wallet py_int_py_str fromhex_all del: join.simps)

lemma wallet_transfers:
  "uint 64 (tp_value p) \<Longrightarrow> wallet_parse TransferPayloadC (wallet_serialize (TransferPayloadM p)) = Inr (TransferPayloadM p)"
  using split_wallet [of "tp_value p" "[address_to p]"] fromhex_all [of "[address_to p]"]
  by (simp add: wallet_parse_def py_int_py_str del: join.simps)

lemma wallet_typed: "pb_typed wallet_lib"
  by (auto simp: pb_typed_def wallet_parse_def split: list.splits if_splits sum.splits)

lemma wallet_decode_errors: "pb_decode_errors wallet_lib"
  by (auto simp: pb_decode_errors_def wallet_parse_def split: list.splits if_splits sum.splits)

lemma wallet_transfer_dict: "transfer_dict wallet_lib"
  by (simp add: transfer_dict_def wallet_lib_def)

section \<open>Messages as JSON texts\<close>

definition wallet_sdk :: rest_lib where
  "wallet_sdk =
     \<lparr>construct = (\<lambda>cls kw. if cls \<in> {''TransactionHeader'', ''TransactionPayload''} \<and> \<not> json_ok (PDict kw)
         then Inl TypeError else Inr (PDict kw)),
      parse_header_msg = (\<lambda>cls d. case json_loads d of Inr (PDict h) \<Rightarrow> Inr h | _ \<Rightarrow> Inl DecodeError),
      parse_response = (\<lambda>cls d. Inl DecodeError), status_attr = (\<lambda>cls n. None)\<rparr>"

definition wallet_ser :: serializer where
  "wallet_ser cls m = json_dumps m"

lemma wallet_construct:
  "construct wallet_sdk cls kw = Inr m \<longleftrightarrow>
     (cls \<in> {''TransactionHeader'', ''TransactionPayload''} \<longrightarrow> json_ok (PDict kw)) \<and> m = PDict kw"
  by (auto simp: wallet_sdk_def)

interpretation wallet: sdk_messages wallet_sdk wallet_ser wallet_lib
proof
  fix cls kw m k x
  assume "construct wallet_sdk cls kw = Inr m" "distinct (map fst kw)" "(k, x) \<in> set kw"
  then show "attr m k = Inr x" by (auto simp: wallet_construct attr_def)
next
  fix kw m
  assume "construct wallet_sdk ''TransactionHeader'' kw = Inr m" and d: "distinct (map fst kw)"
  then have "json_ok (PDict kw)" and m: "m = PDict kw" by (auto simp: wallet_construct simp del: json_ok.simps)
  from json_loads_dumps [OF this(1)] d show "\<exists>hd. parse_header_msg wallet_sdk ''TransactionHeader'' (wallet_ser ''TransactionHeader'' m) = Inr hd \<and>
      (\<forall>k x. (k, x) \<in> set kw \<longrightarrow> map_of hd k = Some x)"
    by (simp add: m wallet_ser_def wallet_sdk_def del: json_dumps.simps)
next
  fix meth d m
  assume "construct wallet_sdk ''TransactionPayload'' [(''method'', PInt meth), (''data'', PStr d)] = Inr m"
  then have "json_ok (PDict [(''method'', PInt meth), (''data'', PStr d)])"
    and m: "m = PDict [(''method'', PInt meth), (''data'', PStr d)]" by (auto simp: wallet_construct simp del: json_ok.simps)
  from json_loads_dumps [OF this(1)] show "Parse_TransactionPayload wallet_lib (wallet_ser ''TransactionPayload'' m) = Inr (meth, d)"
    by (simp add: m wallet_ser_def wallet_payload_def del: json_dumps.simps)
qed

section \<open>A transfer of 300 tokens\<close>

definition wallet_state :: "string \<rightharpoonup> string" where
  "wallet_state = [alice_addr \<mapsto> wallet_serialize (AccountM \<lparr>balance = 700, pub_keys = []\<rparr>)]"

definition wallet_context :: "string stub_context" where
  "wallet_context = \<lparr>stub_inputs = [bot_addr, alice_addr], stub_outputs = [bot_addr, alice_addr],
     stub_state = wallet_state, stub_events = []\<rparr>"

text \<open>The signature libraries play no part in a transfer; here they reject everything.\<close>

definition wallet_crypto :: "string crypto" where
  "wallet_crypto = \<lparr>load_der_public_key = (\<lambda>k. Inl ValueError), rsa_hashes = (\<lambda>n. Inl AttributeError),
     rsa_verify = (\<lambda>k s d p a. Inl ValueError), hashlib_digest = (\<lambda>a d. Inl AttributeError),
     secp_deserialize = (\<lambda>k. Inl ValueError), secp_context_verify = 1,
     secp_deserialize_compact = (\<lambda>s. Inl ValueError), secp_ecdsa_verify = (\<lambda>s d k. 0),
     ed25519_verify = (\<lambda>k s d. Inl ValueError), Secp256k1PublicKey_from_hex = (\<lambda>k. Inl ValueError),
     Secp256k1Context_verify = (\<lambda>s m k. Inr False), utcoffset = (\<lambda>t. 0)\<rparr>"

abbreviation wallet_payment :: TransferPayload where
  "wallet_payment \<equiv> \<lparr>address_to = bot_addr, tp_value = 300\<rparr>"

definition wallet_message :: pyval where
  "wallet_message = PDict [(''method'', PInt (EnumValue wallet_lib ''AccountMethod'' ''TRANSFER'')),
     (''data'', PStr (wallet_serialize (TransferPayloadM wallet_payment)))]"

lemma wallet_accepted: "transfer_accepted wallet_lib (stub_state wallet_context) alice_addr bot_addr 300"
  using wallet_accounts
  by (simp add: transfer_accepted_def wallet_context_def wallet_state_def account_at_def entry_def accounts_survive_def
      Account_default_def del: wallet_serialize.simps)

lemma hex_ascii: "list_all is_hex s \<Longrightarrow> ascii s"
proof -
  have "(of_char c :: nat) < 128" if "is_hex c" for c using that by (auto simp: is_hex_def hex_chars_def)
  then show "list_all is_hex s \<Longrightarrow> ascii s" by (auto simp: ascii_def list_all_iff)
qed

lemma wallet_ascii [simp]: "ascii (bytes_hex b)" "ascii (hash512 b)" "ascii (py_str n)" "ascii alice_key"
    "ascii bot_addr" "ascii alice_addr"
  using hex_ascii bytes_hex_hex sha512.hex_digest_chars py_str_ascii
  by (auto simp: alice_key_def bot_addr_def alice_addr_def ascii_def)

lemma wallet_transaction_payload:
  "transaction_payload wallet_sdk wallet_lib (EnumValue wallet_lib ''AccountMethod'' ''TRANSFER'')
     (TransferPayloadM wallet_payment) = Inr wallet_message"
proof -
  have "ascii (wallet_serialize (TransferPayloadM wallet_payment))"
    using wallet_ascii(1) [of bot_addr] wallet_ascii(3) [of 300] by (simp add: ascii_def)
  then show ?thesis
    by (simp add: transaction_payload_def wallet_construct wallet_message_def ascii_def del: wallet_serialize.simps)
qed

lemma wallet_batch:
  "\<exists>bl. make_batch_list wallet_sdk wallet_ser (AccountClient node_signer) ''1'' wallet_message
     [bot_addr, alice_addr] [bot_addr, alice_addr] = Inr bl"
proof -
  have "json_ok (PDict (transaction_header AccountHandler node_signer ''1'' pl [bot_addr, alice_addr] [bot_addr, alice_addr]))" for pl
    by (simp add: transaction_header_def node_signer_def AccountHandler_def)
      (simp add: ascii_def BasicHandler_def AccountTP.FAMILY_NAME_def AccountTP.FAMILY_VERSIONS_def)
  then show ?thesis
    by (simp add: make_batch_list_def sign_batch_list_def AccountClient_def with_handler_def wallet_sdk_def Let_def attr_def
        del: json_ok.simps)
qed

lemma wallet_covered: "{a. covered [bot_addr, alice_addr] a} = {bot_addr, alice_addr}"
  by (auto simp: covered_def bot_addr_def alice_addr_def)

lemma wallet_delivered:
  obtains bl t tr where
    "make_batch_list wallet_sdk wallet_ser (AccountClient node_signer) ''1'' wallet_message
       [bot_addr, alice_addr] [bot_addr, alice_addr] = Inr bl"
    and "transactions_of bl = Inr [t]"
    and "delivered wallet_sdk t tr (set (stub_inputs wallet_context)) (set (stub_outputs wallet_context))"
proof -
  obtain bl where b: "make_batch_list wallet_sdk wallet_ser (AccountClient node_signer) ''1'' wallet_message
       [bot_addr, alice_addr] [bot_addr, alice_addr] = Inr bl" using wallet_batch by blast
  show thesis
    by (rule wallet.deliverable [OF b, of "set (stub_inputs wallet_context)" "set (stub_outputs wallet_context)"])
      (use that b in \<open>auto simp: wallet_covered wallet_context_def\<close>)
qed

lemma bot_addr_form: "re_match_hex 70 bot_addr" "\<not> isdigit bot_addr"
  by code_simp+

lemma wallet_balances:
  "balance (account_at wallet_lib (stub_state wallet_context) alice_addr) = 700"
  "balance (account_at wallet_lib (stub_state wallet_context) bot_addr) = 0"
  using wallet_accounts
  by (simp_all add: wallet_context_def wallet_state_def account_at_def entry_def accounts_survive_def
      Account_default_def del: wallet_serialize.simps)

end
