(* ===== verification/WebSocket.thy ===== *)
theory WebSocket
  imports RpcServer EventFlow Messaging
begin

text \<open>
  The websocket side of the RPC server: the session of a connection
  (\<open>JsonRpc.handle_websocket_request\<close> and \<open>register\<close> of \<open>remme/rpc_api/_base.py\<close>) and the tasks
  \<open>_consumer\<close> and \<open>_producer\<close> of \<open>remme/rpc_api/event/_event.py\<close>, which join the message router of the
  connection with the delivery of events. The requests of a session are handled in the order of their
  arrival; the tasks are single rounds of their loops. The connection to the validator that a session
  opens and closes is the one of \<open>Messaging\<close>.
\<close>

section \<open>Sessions\<close>

record 'v ws_server =
  accepting :: bool
  ws_clients :: "ws list"
  transport_closing :: "ws \<Rightarrow> bool"
  socket_closed :: "ws \<Rightarrow> bool"
  ws_sent :: "(ws \<times> rpc_reply) list"
  ws_events :: "'v event_state"

datatype frame = TextFrame string | OtherFrame

text \<open>
  \<open>_ws_send_str\<close>: a client whose transport is closing is removed and its socket closed, but the text
  is sent all the same, which fails on the closed socket.
\<close>

definition ws_send_str :: "ws \<Rightarrow> rpc_reply \<Rightarrow> ('v ws_server, unit) ex" where
  "ws_send_str w reply s =
     (if transport_closing s w
      then (Inl (OtherException ''ConnectionResetError''), 
            s\<lparr>ws_clients := remove1 w (ws_clients s), socket_closed := (socket_closed s)(w := True)\<rparr>)
      else (Inr (), s\<lparr>ws_sent := ws_sent s @ [(w, reply)]\<rparr>))"

text \<open>\<open>_send_str\<close>: a reply to an upgraded request goes over the socket, any other is the HTTP response.\<close>

definition send_str :: "ws option \<Rightarrow> rpc_reply \<Rightarrow> ('v ws_server, rpc_reply option) ex" where
  "send_str upgraded reply =
     (case upgraded of
        Some w \<Rightarrow> ebind (ws_send_str w reply) (\<lambda>_. eret None)
      | None \<Rightarrow> eret (Some reply))"

lemma http_reply_leaves_sockets: "send_str None reply s = (Inr (Some reply), s)"
  by (simp add: send_str_def)

lemma ws_reply_sent:
  "\<not> transport_closing s w \<Longrightarrow> send_str (Some w) reply s = (Inr None, s\<lparr>ws_sent := ws_sent s @ [(w, reply)]\<rparr>)"
  by (simp add: send_str_def ws_send_str_def ebind_def)

text \<open>A text frame is handled in a task of its own, whose exceptions go nowhere; others are skipped.\<close>

definition ws_frame ::
  "(string \<Rightarrow> 'v event_state \<Rightarrow> rpc_reply \<times> 'v event_state) \<Rightarrow> ws \<Rightarrow> frame \<Rightarrow> 'v ws_server \<Rightarrow> 'v ws_server"
where
  "ws_frame handle w f s =
     (case f of
        OtherFrame \<Rightarrow> s
      | TextFrame raw_msg \<Rightarrow>
          (let (reply, ev) = handle raw_msg (ws_events s) in snd (send_str (Some w) reply (s\<lparr>ws_events := ev\<rparr>))))"

text \<open>The loop of a session ends when the socket is closed, here or by its peer after the last frame.\<close>

fun ws_session ::
  "(string \<Rightarrow> 'v event_state \<Rightarrow> rpc_reply \<times> 'v event_state) \<Rightarrow> ws \<Rightarrow> frame list \<Rightarrow> 'v ws_server \<Rightarrow> 'v ws_server"
where
  "ws_session handle w [] s = s"
| "ws_session handle w (f # fs) s =
     (if socket_closed s w then s else ws_session handle w fs (ws_frame handle w f s))"

datatype ws_result = Response503 | SessionEnded

definition handle_websocket_request ::
  "(string \<Rightarrow> 'v event_state \<Rightarrow> rpc_reply \<times> 'v event_state) \<Rightarrow> ws \<Rightarrow> frame list \<Rightarrow> ('v ws_server, ws_result) ex"
where
  "handle_websocket_request handle w frames s =
     (if \<not> accepting s then (Inr Response503, s)
      else
        (let s1 = ws_session handle w frames
               (s\<lparr>ws_clients := ws_clients s @ [w], socket_closed := (socket_closed s)(w := False)\<rparr>);
             s2 = s1\<lparr>ws_events := unregister w (ws_events s1)\<rparr>
         in if w \<in> set (ws_clients s2) then (Inr SessionEnded, s2\<lparr>ws_clients := remove1 w (ws_clients s2)\<rparr>)
            else (Inl ValueError, s2)))"

lemma ws_frame_open:
  assumes "\<not> transport_closing s w"
  shows "ws_clients (ws_frame handle w f s) = ws_clients s \<and> transport_closing (ws_frame handle w f s) = transport_closing s"
  using assms by (auto simp: ws_frame_def send_str_def ebind_def ws_send_str_def split: frame.split prod.split)

lemma session_frames_open:
  assumes "\<not> transport_closing s w"
  shows "ws_clients (ws_session handle w frames s) = ws_clients s"
  using assms by (induction frames arbitrary: s) (simp_all add: ws_frame_open)

text \<open>
  After a session nothing is left of the connection, neither subscriptions nor hashes nor the client;
  if the transport stayed open the session ends without an error.
\<close>

lemma session_leaves_nothing:
  assumes "handle_websocket_request handle w frames s = (r, s')" and "accepting s"
  shows "subsevt (ws_events s') w = None \<and> evthashes (ws_events s') w = None"
  using assms by (auto simp: handle_websocket_request_def Let_def unregister_def split: if_splits)

lemma open_session_ends:
  assumes "accepting s" and "\<not> transport_closing s w"
  shows "\<exists>s'. handle_websocket_request handle w frames s = (Inr SessionEnded, s') \<and>
    (w \<notin> set (ws_clients s) \<longrightarrow> ws_clients s' = ws_clients s)"
proof -
  define s0 where "s0 = s\<lparr>ws_clients := ws_clients s @ [w], socket_closed := (socket_closed s)(w := False)\<rparr>"
  have "ws_clients (ws_session handle w frames s0) = ws_clients s @ [w]"
    using session_frames_open [of s0 w handle frames] assms(2) by (simp add: s0_def)
  then show ?thesis using assms(1) by (simp add: handle_websocket_request_def Let_def remove1_append s0_def)
qed

text \<open>
  A reply on a closing transport removes the client, and the end of the session then fails to remove
  it again.
\<close>

lemma closing_session_raises:
  assumes "accepting s" and "transport_closing s w" and "w \<notin> set (ws_clients s)"
  shows "fst (handle_websocket_request handle w [TextFrame raw] s) = Inl ValueError"
  using assms
  by (auto simp: handle_websocket_request_def ws_frame_def send_str_def ebind_def ws_send_str_def Let_def remove1_append
      split: prod.splits)

section \<open>The consumer and the producer\<close>

text \<open>
  One round of \<open>_consumer\<close>: the next message of the queue is taken and, when it is an event message,
  parsed and processed. \<open>None\<close> while the queue is empty.
\<close>

definition consume ::
  "('m \<Rightarrow> dict list res) \<Rightarrow> 'v event_env \<Rightarrow> ws \<Rightarrow> 'm msg_router \<times> 'v event_state
     \<Rightarrow> (unit res \<times> 'm msg_router \<times> 'v event_state) option"
where
  "consume parse E w = (\<lambda>(r, s).
     case incoming r of
       None \<Rightarrow> None
     | Some (m, r') \<Rightarrow>
         Some (if message_type m \<noteq> ''CLIENT_EVENTS'' then (Inr (), r', s)
               else (case parse (msg_content m) of
                       Inl e \<Rightarrow> (Inl e, r', s)
                     | Inr evts \<Rightarrow>
                         (let (res, s') = process_msg E w (message_type m) evts s in (res, r', s')))))"

text \<open>One round of \<open>_producer\<close>: \<open>cid\<close> is the fresh identifier of the message it routes.\<close>

definition produce ::
  "(dict \<Rightarrow> 'm) \<Rightarrow> 'v event_env \<Rightarrow> ws \<Rightarrow> string \<Rightarrow> ('m msg_router \<times> 'v event_state, unit) ex"
where
  "produce ser E w cid = (\<lambda>(r, s).
     (let (res, s') = produce_round E (subs_of s w) s in
      case res of
        Inl e \<Rightarrow> (Inl e, r, s')
      | Inr evts \<Rightarrow>
          (Inr (), foldl (\<lambda>r e. route_msg \<lparr>correlation_id = cid, message_type = ''CLIENT_EVENTS'', msg_content = ser e\<rparr> r)
             r evts, s')))"

text \<open>What one round of the producer asks of the validator and what the subscriber is sent.\<close>

definition batch_note :: "string \<Rightarrow> string \<Rightarrow> pyval" where
  "batch_note b st = PDict [(''id'', PStr b), (''status'', PStr st)]"

definition batch_digest :: "pyval \<Rightarrow> string" where
  "batch_digest response =
     (case prepare_evt_hash BatchEventHandler response of Inr eh \<Rightarrow> eh | Inl _ \<Rightarrow> [])"

lemma batch_note_hash: "prepare_evt_hash BatchEventHandler (batch_note b st) = Inr (batch_digest (batch_note b st))"
  by (simp add: batch_digest_def prepare_evt_hash_def batch_note_def item_def as_dict_def dict_lookup_def)

lemma batch_handler: "map_of EVENT_HANDLERS ''batch'' = Some BatchEventHandler"
  using NAME_handler [of BatchEventHandler] by simp

lemma batch_event_names: "map_of SAWTOOTH_TO_REMME_EVENT (event_value REMME_BATCH_DELTA) = Some [''batch'']"
  by code_simp

abbreviation batch_event :: "string \<Rightarrow> string \<Rightarrow> dict" where
  "batch_event b st \<equiv> create_event_payload [(''id'', PStr b), (''status'', PStr st)]"

lemma parse_batch_event: "parse_evt BatchEventHandler (batch_event b st) = Inr (batch_note b st)"
  by (simp add: create_event_payload_def attributes_of_def dict_lookup_def as_list_def as_dict_def batch_attribute_def
      key_name_def dict_literal_def batch_note_def)

text \<open>The producer asks for the status of the batch of the one subscription it serves.\<close>

lemma produce_batch:
  assumes "subs_of s w = [(''batch'', sub)]" and "validated_data sub = [(''id'', PStr b)]"
    and "list_statuses (ev_lib E) (ev_stream E) (PList [PStr b]) (validator s) = (Inr result, v')"
    and "map_of result ''data'' = Some (PList (PDict d # ds))" and "map_of d ''status'' = Some (PStr st)"
    and "map_of d ''invalid_transactions'' = None"
    and "futures r cid = None"
  shows "produce ser E w cid (r, s) =
    (Inr (), push_incoming \<lparr>correlation_id = cid, message_type = ''CLIENT_EVENTS'', msg_content = ser (batch_event b st)\<rparr> r,
     s\<lparr>validator := v'\<rparr>)"
proof -
  have "batch_error (PDict d) = Inr None"
    using assms(6) by (simp add: batch_error_def item_def as_dict_def dict_lookup_def)
  then have e: "batch_status_event (PStr b) result = Inr (batch_event b st)"
    using assms(4,5)
    by (simp add: batch_status_event_def dict_lookup_def nth_item_def as_list_def item_def as_dict_def)
  have "produce_custom_msg (ev_lib E) (ev_stream E) BatchEventHandler (validated_data sub) (validator s)
      = (Inr (Some (batch_event b st)), v')"
    using assms(2,3) e by (simp add: produce_custom_msg_def dict_lookup_def)
  then have "produce_round E (subs_of s w) s = (Inr [batch_event b st], s\<lparr>validator := v'\<rparr>)"
    using assms(1) by (simp add: batch_handler on_chain_def)
  then show ?thesis using assms(7) by (simp add: produce_def route_msg_def domIff)
qed

lemma batch_notified:
  assumes "map_of (subs_of s w) ''batch'' = Some sub" and "evthashes s w = Some hs"
  shows "process_msg E w ''CLIENT_EVENTS'' [batch_event b st] s =
    (Inr (), if batch_digest (batch_note b st) \<notin> set hs
       then s\<lparr>outbox := outbox s @ [sent w BatchEventHandler sub (batch_note b st)],
              evthashes := (evthashes s)(w \<mapsto> batch_digest (batch_note b st) # hs)\<rparr>
       else s)"
proof -
  have o: "on_chain (eret x) s = (Inr x, s)" for x :: pyval by (simp add: on_chain_def)
  have t: "truthy (batch_note b st)" by (simp add: batch_note_def)
  have d: "deliver E w BatchEventHandler sub (batch_event b st) s =
    (Inr (), if batch_digest (batch_note b st) \<notin> set hs
       then s\<lparr>outbox := outbox s @ [sent w BatchEventHandler sub (batch_note b st)],
              evthashes := (evthashes s)(w \<mapsto> batch_digest (batch_note b st) # hs)\<rparr>
       else s)"
    using assms(2) t o by (simp add: deliver_def parse_batch_event batch_note_hash sent_def del: parse_evt.simps)
  have e: "rbind (dict_lookup (batch_event b st) ''event_type'') str_of = Inr (event_value REMME_BATCH_DELTA)"
    by (simp add: create_event_payload_def dict_lookup_def str_of_def)
  have n: "notify_one E w (batch_event b st) ''batch'' s = deliver E w BatchEventHandler sub (batch_event b st) s"
    using batch_handler assms by (simp add: notify_one_def)
  show ?thesis
    using batch_event_names by (simp add: process_msg_def process_event_def e n d del: event_value.simps)
qed

text \<open>
  From the validator to the subscriber of a batch: what one round of the producer learns is what the
  next round of the consumer reports, once per status.
\<close>

lemma batch_status_flow:
  assumes "subs_of s w = [(''batch'', sub)]" and "validated_data sub = [(''id'', PStr b)]"
    and "list_statuses (ev_lib E) (ev_stream E) (PList [PStr b]) (validator s) = (Inr result, v')"
    and "map_of result ''data'' = Some (PList (PDict d # ds))" and "map_of d ''status'' = Some (PStr st)"
    and "map_of d ''invalid_transactions'' = None"
    and "futures r cid = None" and "msg_queue r = []" and "evthashes s w = Some hs"
    and "\<And>e. parse (ser e) = Inr [e]"
  shows "produce ser E w cid (r, s) = (Inr (), (r1, s1)) \<Longrightarrow>
    consume parse E w (r1, s1) = Some (Inr (), r,
      if batch_digest (batch_note b st) \<notin> set hs
      then s\<lparr>validator := v', outbox := outbox s @ [sent w BatchEventHandler sub (batch_note b st)],
             evthashes := (evthashes s)(w \<mapsto> batch_digest (batch_note b st) # hs)\<rparr>
      else s\<lparr>validator := v'\<rparr>)"
  using produce_batch [where ser = ser, OF assms(1-7)] assms(8-10)
    batch_notified [of "s\<lparr>validator := v'\<rparr>" w sub hs E b st] assms(1)
  by (auto simp: consume_def push_incoming_def incoming_def)

end
