(* ===== verification/Transport.thy ===== *)
theory Transport
  imports Messaging Router
begin

text \<open>
  A request of \<open>remme/shared/router.py\<close> over the connection of \<open>remme/shared/messaging.py\<close>: the whole of
  \<open>_Sender.send\<close> behind \<open>Connection.send\<close>, with what happens on the connection while it waits, as the
  stream that the router is given; and how each outcome of the connection appears to the caller.
\<close>

section \<open>The whole of send\<close>

text \<open>While a request waits, messages arrive or the connection is closed.\<close>

datatype 'm conn_event = Arrives "'m validator_msg" | Lost

fun conn_happens :: "'m conn_event \<Rightarrow> 'm msg_router \<Rightarrow> 'm msg_router" where
  "conn_happens (Arrives m) r = route_msg m r"
| "conn_happens Lost r = fail_all DisconnectError r"

text \<open>
  \<open>send\<close> with a timeout: \<open>evs\<close> is what happens before the time is over, \<open>w\<close> the outcomes of the writes.
\<close>

definition sender_send ::
  "string \<Rightarrow> (nat \<Rightarrow> write_result) \<Rightarrow> 'm conn_event list \<Rightarrow> 'm msg_router \<Rightarrow> ('m validator_msg res \<times> 'm msg_router) option"
where
  "sender_send cid w evs r =
     (case start_send cid w r of
        None \<Rightarrow> None
      | Some (Inl e, r1) \<Rightarrow> Some (Inl e, r1)
      | Some (Inr _, r1) \<Rightarrow> await_reply cid True (fold conn_happens evs r1))"

text \<open>The methods of \<open>Connection\<close> that pass on to its parts.\<close>

definition connection_send ::
  "string \<Rightarrow> (nat \<Rightarrow> write_result) \<Rightarrow> 'm conn_event list \<Rightarrow> 'm connection \<Rightarrow> ('m validator_msg res \<times> 'm connection) option"
where
  "connection_send cid w evs c =
     map_option (\<lambda>(reply, r). (reply, c\<lparr>conn_router := r\<rparr>)) (sender_send cid w evs (conn_router c))"

definition connection_receive :: "'m connection \<Rightarrow> ('m validator_msg \<times> 'm connection) option" where
  "connection_receive c = map_option (\<lambda>(m, r). (m, c\<lparr>conn_router := r\<rparr>)) (incoming (conn_router c))"

definition connection_receive_nowait :: "'m connection \<Rightarrow> 'm validator_msg res \<times> 'm connection" where
  "connection_receive_nowait c = (let (m, r) = incoming_nowait (conn_router c) in (m, c\<lparr>conn_router := r\<rparr>))"

definition connection_route_msg :: "'m validator_msg \<Rightarrow> 'm connection \<Rightarrow> 'm connection" where
  "connection_route_msg m c = c\<lparr>conn_router := route_msg m (conn_router c)\<rparr>"

section \<open>Who gets the answer\<close>

text \<open>The first event that resolves a request: a message with its identifier, or the loss of the connection.\<close>

fun resolution :: "string \<Rightarrow> 'm conn_event list \<Rightarrow> 'm future" where
  "resolution cid [] = Pending"
| "resolution cid (Arrives m # evs) = (if correlation_id m = cid then Result m else resolution cid evs)"
| "resolution cid (Lost # evs) = Failed DisconnectError"

lemma happens_resolved:
  "futures r cid = Some f \<Longrightarrow> f \<noteq> Pending \<Longrightarrow> futures (fold conn_happens evs r) cid = Some f"
proof (induction evs arbitrary: r)
  case (Cons e evs)
  then have "futures (conn_happens e r) cid = Some f"
    by (cases e) (auto simp: route_msg_def set_reply_def push_incoming_def fail_all_def fail_future_def
        split: option.split future.split)
  with Cons show ?case by simp
qed simp

lemma happens_pending:
  "futures r cid = Some Pending \<Longrightarrow> futures (fold conn_happens evs r) cid = Some (resolution cid evs)"
proof (induction evs arbitrary: r)
  case (Cons e evs)
  show ?case
  proof (cases e)
    case (Arrives m)
    show ?thesis
    proof (cases "correlation_id m = cid")
      case True
      then have "futures (conn_happens e r) cid = Some (Result m)"
        using Arrives Cons.prems by (simp add: route_msg_def set_reply_def domIff)
      from happens_resolved [OF this] True Arrives show ?thesis by simp
    next
      case False
      then have "futures (conn_happens e r) cid = Some Pending"
        using Arrives Cons.prems
        by (auto simp: route_msg_def set_reply_def push_incoming_def split: option.split future.split)
      from Cons.IH [OF this] False Arrives show ?thesis by simp
    qed
  next
    case Lost
    then have "futures (conn_happens e r) cid = Some (Failed DisconnectError)"
      using Cons.prems by (simp add: fail_all_def fail_future_def)
    from happens_resolved [OF this] Lost show ?thesis by simp
  qed
qed simp

definition reply_of :: "'m future \<Rightarrow> 'm validator_msg res" where
  "reply_of f = (case f of Pending \<Rightarrow> Inl TimeoutError | Result m \<Rightarrow> Inr m | Failed e \<Rightarrow> Inl e)"

text \<open>Some write went through after busy ones.\<close>

definition gets_through :: "(nat \<Rightarrow> write_result) \<Rightarrow> bool" where
  "gets_through w \<longleftrightarrow> (\<exists>i<4. w i = Written \<and> (\<forall>j<i. w j = Again))"

lemma start_send_outcome:
  "\<exists>res. start_send cid w r = Some (res, expect_reply cid r) \<and> (res = Inr () \<longleftrightarrow> gets_through w) \<and>
     ((\<forall>i<4. w i = Again) \<longrightarrow> res = Inl SendBackoffTimeoutError)"
  using write_message_outcome [of w] by (auto simp: start_send_def gets_through_def)

lemma sender_send_through:
  assumes "gets_through w"
  shows "sender_send cid w evs r = Some (reply_of (resolution cid evs),
    (let r' = fold conn_happens evs (expect_reply cid r) in r'\<lparr>futures := (futures r')(cid := None)\<rparr>))"
proof -
  have "start_send cid w r = Some (Inr (), expect_reply cid r)"
    using start_send_outcome [of cid w r] assms by auto
  moreover have "futures (fold conn_happens evs (expect_reply cid r)) cid = Some (resolution cid evs)"
    by (rule happens_pending) (simp add: expect_reply_def)
  ultimately show ?thesis
    by (simp add: sender_send_def await_reply_def reply_of_def Let_def split: future.split)
qed

lemma sender_send_blocked:
  assumes "\<not> gets_through w"
  shows "\<exists>e. sender_send cid w evs r = Some (Inl e, expect_reply cid r) \<and>
    ((\<forall>i<4. w i = Again) \<longrightarrow> e = SendBackoffTimeoutError)"
proof -
  from start_send_outcome [of cid w r] assms obtain res where
    "start_send cid w r = Some (res, expect_reply cid r)" "res \<noteq> Inr ()"
    "(\<forall>i<4. w i = Again) \<longrightarrow> res = Inl SendBackoffTimeoutError" by auto
  then show ?thesis by (cases res) (auto simp: sender_send_def)
qed

text \<open>What others wait for is not touched by a request of another identifier.\<close>

lemma happens_others:
  assumes "\<And>m. Arrives m \<in> set evs \<Longrightarrow> correlation_id m = cid" and "Lost \<notin> set evs" and "other \<noteq> cid"
  shows "futures (fold conn_happens evs r) other = futures r other"
  using assms(1,2)
proof (induction evs arbitrary: r)
  case (Cons e evs)
  then obtain m where e: "e = Arrives m" "correlation_id m = cid" by (cases e) auto
  then have "futures (conn_happens e r) other = futures r other"
    using assms(3) by (auto simp: route_msg_def set_reply_def push_incoming_def split: option.split future.split)
  with Cons show ?case by simp
qed simp

section \<open>The stream of the router\<close>

text \<open>
  What a request finds: a fresh identifier, the outcomes of its writes, and what the validator, whose
  state is \<open>'v\<close>, lets happen on the connection once the request was written.
\<close>

record 'v link =
  link_id :: string
  link_writes :: "nat \<Rightarrow> write_result"
  link_events :: "string \<Rightarrow> pyval \<Rightarrow> 'v \<Rightarrow> string conn_event list \<times> 'v"

text \<open>\<open>send\<close> always ends (\<open>sender_send_through\<close>, \<open>sender_send_blocked\<close>); the first case is never taken.\<close>

definition conn_stream :: "'v link \<Rightarrow> (string msg_router \<times> 'v) stream" where
  "conn_stream lk msg_type req = (\<lambda>(r, v).
     let (evs, v') = (if gets_through (link_writes lk) then link_events lk msg_type req v else ([], v)) in
     case sender_send (link_id lk) (link_writes lk) evs r of
       None \<Rightarrow> (Inl TimeoutError, (r, v'))
     | Some (reply, r') \<Rightarrow> (rbind reply (\<lambda>m. Inr (msg_content m)), (r', v')))"

text \<open>The answer to a request is the first message with its identifier.\<close>

lemma conn_stream_answered:
  assumes "gets_through (link_writes lk)" and "link_events lk msg_type req v = (evs, v')"
    and "resolution (link_id lk) evs = Result m"
  shows "\<exists>r'. conn_stream lk msg_type req (r, v) = (Inr (msg_content m), (r', v')) \<and> futures r' (link_id lk) = None"
  using sender_send_through [OF assms(1), of "link_id lk" evs r] assms by (simp add: conn_stream_def reply_of_def Let_def)

text \<open>
  The outcomes of a request: answered with the response parsed and its status checked, or one of two
  messages for the failures of the connection, the second of which stands for a lost connection and
  for a socket that stays busy alike.
\<close>

lemma request_over_connection:
  assumes "gets_through (link_writes lk)" and "link_events lk msg_type req v = (evs, v')"
  shows "\<exists>r'. futures r' (link_id lk) = None \<and>
    handle_response L (conn_stream lk) msg_type resp_proto req (r, v) =
      (case resolution (link_id lk) evs of
         Result m \<Rightarrow>
           (case parse_response L resp_proto (msg_content m) of
              Inl e \<Rightarrow> Inl (stream_error e)
            | Inr (st, data) \<Rightarrow> (case status_error L resp_proto st of Some e \<Rightarrow> Inl e | None \<Rightarrow> Inr data))
       | Pending \<Rightarrow> Inl (ClientException ''Validator connection timeout'')
       | Failed e \<Rightarrow> Inl (ClientException ''Unexpected validator error''), (r', v'))"
proof -
  have f: "resolution (link_id lk) evs = Failed e \<Longrightarrow> e = DisconnectError" for e
    by (induction "link_id lk" evs rule: resolution.induct) (auto split: if_splits)
  show ?thesis
    using sender_send_through [OF assms(1), of "link_id lk" evs r] assms f
    by (auto simp: conn_stream_def reply_of_def Let_def handle_response_def ebind_def ecatch_def stream_error_def
        split: future.split sum.split option.split)
qed

lemma request_blocked:
  assumes "\<And>i. i < 4 \<Longrightarrow> link_writes lk i = Again"
  shows "handle_response L (conn_stream lk) msg_type resp_proto req (r, v) =
    (Inl (ClientException ''Unexpected validator error''), (expect_reply (link_id lk) r, v))"
proof -
  have g: "\<not> gets_through (link_writes lk)" using assms by (auto simp: gets_through_def)
  with sender_send_blocked [OF g, of "link_id lk" "[]" r] assms show ?thesis
    by (auto simp: conn_stream_def handle_response_def ebind_def ecatch_def stream_error_def)
qed

text \<open>With nothing else on the connection, the stream is the exchange with the validator itself.\<close>

lemma conn_stream_direct:
  assumes "gets_through (link_writes lk)" and "futures r (link_id lk) = None"
    and "link_events lk msg_type req v = ([Arrives \<lparr>correlation_id = link_id lk, message_type = ty, msg_content = content\<rparr>], v')"
  shows "conn_stream lk msg_type req (r, v) = (Inr content, (r, v'))"
  using sender_send_through [OF assms(1), of "link_id lk" "[Arrives \<lparr>correlation_id = link_id lk, message_type = ty, msg_content = content\<rparr>]" r]
    assms
  by (simp add: conn_stream_def reply_of_def Let_def route_msg_def set_reply_def expect_reply_def fun_upd_idem)

end
