(* ===== verification/ApiGuarantees.thy ===== *)
theory ApiGuarantees
  imports WalletExample WebSocket Transport
begin

text \<open>
  The properties of the node's API: what its queries return, what its submissions may touch, how
  errors reach the caller, how messages and notifications find their receivers.
\<close>

section \<open>Queries\<close>

text \<open>
  C18. The balance query: with a well-formed address, the RPC method returns the balance that the
  transaction processors have stored there (zero for an account that does not exist yet); with any
  other address it reports the parameter without asking the validator.
\<close>

theorem balance_query:
  assumes "validator_service (api_lib A) (api_stream A) chain_state root" and "wt_documented (api_wt A)"
    and "decodes (api_pb A) (chain_state v) AccountC a"
  shows "rpc_get_balance A (PDict [(''public_key_address'', PStr a)]) v =
    (if re_match_hex 70 a then Inr (PInt (balance (account_at (api_pb A) (chain_state v) a)))
     else Inl (RpcInvalidParamsError (if strip a = [] then ''Missed address''
                                      else ''Address is not of a blockchain token type.'')), v)"
  using validator_service.get_balance_view [OF assms(1,3)] address_params [OF assms(2), of "''public_key_address''" a]
  by (auto simp: rpc_get_balance_def rpc_method_def param_def dict_lookup_def str_of_def)

theorem balance_query_witness:
  "rpc_get_balance mirror_api (PDict [(''public_key_address'', PStr alice_addr)]) small_chain
     = (Inr (PInt 700), small_chain)"
  using balance_query [of mirror_api "\<lambda>v. v" "\<lambda>v. ''root''" small_chain alice_addr]
    mirror.validator_service_axioms wt_std_documented small_chain_decodes [of AccountC]
  by (simp add: alice_hex small_chain_entries)

text \<open>
  C19. The block query: without parameters it returns the blocks from the newest to the oldest the
  node knows, each with its number counted from one.
\<close>

theorem blocks_newest_first:
  assumes "validator_service (api_lib A) (api_stream A) chain_state root"
    and "\<And>n. decodes (api_pb A) (chain_state v) BlockInfoC (create_block_address n)"
    and "entry (api_pb A) (chain_state v) BlockInfoConfigC CONFIG_ADDRESS = Some (BlockInfoConfigM cfg)"
    and "0 \<le> oldest_block cfg" and "oldest_block cfg \<le> latest_block cfg"
  shows "rpc_get_blocks A (PDict []) v =
    (Inr (PList (map PDict (rev (blocks_in (api_pb A) (chain_state v)
       [max 0 (oldest_block cfg - 1)..latest_block cfg])))), v)"
proof -
  have "validate_params A ProtoForm [''start'', ''limit''] (PDict []) = Inr []"
    by (simp add: validate_params_def validate_kwargs_def validate_form.simps unknown_keys_def form_values_def
        form_fields_defs collect_errors_def post_validate_def)
  with validator_service.get_blocks_info_default [OF assms] show ?thesis
    by (simp add: rpc_get_blocks_def rpc_method_def int_param_def rename_not_found_def)
qed

theorem blocks_newest_first_witness:
  "rpc_get_blocks mirror_api (PDict []) small_chain =
     (Inr (PList (map PDict (rev (blocks_in text_lib small_chain [0..1])))), small_chain)"
  using blocks_newest_first [of mirror_api "\<lambda>v. v" "\<lambda>v. ''root''" small_chain
      "\<lparr>latest_block = 1, oldest_block = 0\<rparr>"]
    mirror.validator_service_axioms small_chain_decodes [of BlockInfoC]
  by (simp add: small_chain_entries)


section \<open>Submissions\<close>







text \<open>
  C23. The reply to a request carries the identifier of the request. The error of a reply is one the
  method raised on purpose, a missing method, or the internal error that stands for every other
  exception; a request for a method that is not loaded changes nothing.
\<close>

theorem request_is_answered:
  assumes "decode_msg raw = Inr (RequestMsg i meth params)"
    and "handle_rpc_msg decode_msg methods known raw s = (r, s')"
  shows "reply_id r = i \<and>
    (\<forall>e. r = ReplyError i e \<longrightarrow> passes_error e \<or> e = RpcInternalError \<or> (\<exists>m. e = RpcMethodNotFoundError m)) \<and>
    (map_of methods meth = None \<longrightarrow> s' = s \<and> (\<exists>m. r = ReplyError i (RpcMethodNotFoundError m)))"
  using handle_request_reply [where decode_msg = decode_msg and methods = methods, OF assms]
    handle_request_unknown [where decode_msg = decode_msg and methods = methods and known = known and s = s,
      OF assms(1)] assms(2)
  by auto

theorem request_is_answered_witness:
  "reply_id (fst (handle_rpc_msg (\<lambda>raw. Inr (RequestMsg (PInt 7) raw (PDict []))) [] [] ''get_balance'' ())) = PInt 7"
  using request_is_answered [of "\<lambda>raw. Inr (RequestMsg (PInt 7) raw (PDict []))" "''get_balance''" "PInt 7"
      "''get_balance''" "PDict []" "[]" "[]" "()"]
  by (metis prod.collapse)

section \<open>Text formats\<close>



text \<open>
  C25. The base64 text of a header is decoded and replaced by the fields of the header message; every
  failure to do so is reported as an invalid header.
\<close>

theorem header_expanded:
  assumes "\<And>bytes x. parse_header_msg L cls bytes = Inl x \<Longrightarrow> x = DecodeError"
  shows "(map_of d ''header'' = Some (PStr (b64encode bytes)) \<and> parse_header_msg L cls bytes = Inr h \<longrightarrow>
      parse_header L cls d = Inr (AList.update ''header'' (PDict h) d)) \<and>
    (\<forall>e. parse_header L cls d = Inl e \<longrightarrow> e = ResourceHeaderInvalid)"
  using parse_header_ok [of d bytes L cls h] parse_header_error [where L = L and cls = cls and d = d] assms
  by blast

theorem header_expanded_witness:
  "parse_header mirror_lib ''BlockHeader'' [(''header'', PStr (b64encode ''ff00''))]
     = Inr [(''header'', PDict [(''state_root_hash'', PStr ''ff00'')])]"
  using header_expanded [of mirror_lib "''BlockHeader''" "[(''header'', PStr (b64encode ''ff00''))]" "''ff00''"
      "[(''state_root_hash'', PStr ''ff00'')]"]
  by (simp add: mirror_lib_def)

text \<open>
  C26. A list of identifiers passes through its comma-separated form unchanged, and what the filter
  accepts is a list of well-formed identifiers that spells the query.
\<close>

theorem id_filter_roundtrip:
  assumes "xs \<noteq> []" and "list_all (re_fullmatch_hex 128) xs"
  shows "rbind (id_query (PList (map PStr xs))) get_filter_ids = Inr (Some xs) \<and>
    (\<forall>q ys. get_filter_ids (Some q) = Inr (Some ys) \<longrightarrow>
       list_all (re_fullmatch_hex 128) ys \<and> join '','' ys = q)"
  using filter_ids_sent [OF assms] get_filter_ids_valid by blast

theorem id_filter_roundtrip_witness:
  "rbind (id_query (PList (map PStr [replicate 128 (CHR ''a''), replicate 128 (CHR ''0'')]))) get_filter_ids
     = Inr (Some [replicate 128 (CHR ''a''), replicate 128 (CHR ''0'')])"
proof -
  have "list_all (re_fullmatch_hex 128) [replicate 128 (CHR ''a''), replicate 128 (CHR ''0'')]"
    by (simp add: re_fullmatch_hex_def list_all_iff is_hex_def hex_chars_def)
  from id_filter_roundtrip [OF _ this] show ?thesis by blast
qed

text \<open>
  Receipts and batch statuses are cleaned: no property holds the empty string, every key that
  ends in \<open>id\<close> has become \<open>id\<close>, and cleaning again changes nothing.
\<close>

lemma receipts_cleaned:
  "no_empty_props (drop_empty_props v) \<and> short_keys (drop_id_prefixes (drop_empty_props v)) \<and>
   drop_empty_props (drop_empty_props v) = drop_empty_props v"
  using no_empty_props_drop short_keys_drop drop_empty_props_idem by blast

section \<open>Errors of the validator\<close>

text \<open>
  C29. The response class of a batch submission has no status \<open>NO_RESOURCE\<close>, and so none of its
  statuses is looked at: the identifiers of the batches are returned for every reply that parses,
  also when the validator has refused the batches.
\<close>

theorem submission_status_ignored:
  assumes "status_attr L ''ClientBatchSubmitResponse'' ''NO_RESOURCE'' = None"
    and "construct L ''ClientBatchSubmitRequest'' [(''batches'', PList batches)] = Inr req"
    and "S ''CLIENT_BATCH_SUBMIT_REQUEST'' req v = (Inr content, v')"
    and "parse_response L ''ClientBatchSubmitResponse'' content = Inr (st, data)"
    and "rmap (\<lambda>b. rbind (attr b ''header_signature'') str_of) batches = Inr ids"
  shows "submit_batches L S batches v = (Inr [(''data'', PStr (join '','' ids))], v')"
  using assms by (rule submit_batches_unchecked)

theorem submission_status_ignored_witness:
  "submit_batches mirror_lib mirror_stream [PDict [(''header_signature'', PStr ''ab'')]] Map.empty
     = (Inr [(''data'', PStr ''ab'')], Map.empty)"
  using submission_status_ignored [of mirror_lib "[PDict [(''header_signature'', PStr ''ab'')]]"
      "PDict [(''batches'', PList [PDict [(''header_signature'', PStr ''ab'')]])]" mirror_stream Map.empty "[]"
      Map.empty "Some 3" "[]" "[''ab'']"]
  by (simp add: mirror_lib_def mirror_stream_def attr_def str_of_def)

section \<open>The connection\<close>

text \<open>
  C30. Sending ends: after at most four writes and pauses of at most 1400 milliseconds in total the
  message is written or an error is raised, and the backoff gives up only when all four writes found
  the socket busy.
\<close>

theorem send_terminates:
  "\<exists>r n pauses. write_message w = Some (r, n, pauses) \<and>
     n \<le> 4 \<and> sum_list pauses \<le> 1400 \<and> length pauses + 1 = n \<and>
     (r = Inr () \<longleftrightarrow> (\<exists>i<4. w i = Written \<and> (\<forall>j<i. w j = Again))) \<and>
     ((\<forall>i<4. w i = Again) \<longrightarrow> r = Inl SendBackoffTimeoutError)"
  by (rule write_message_outcome)

theorem send_terminates_witness:
  "\<exists>n pauses. write_message (\<lambda>i. Again) = Some (Inl SendBackoffTimeoutError, n, pauses) \<and> n \<le> 4"
  using send_terminates [of "\<lambda>i. Again"] by auto

text \<open>
  C31. Replies reach their requests: along every run of the message router, a request is answered
  only by a message with its own correlation identifier, and the messages nobody waits for are
  received in the order of their arrival.
\<close>

definition no_traffic :: "'m traffic" where
  "no_traffic = \<lparr>traffic_router = new_router, unexpected = [], taken = [], answered = []\<rparr>"

lemma no_traffic_routed: "well_routed no_traffic"
  by (simp add: well_routed_def no_traffic_def new_router_def)

theorem replies_reach_requests:
  assumes "traffic_step\<^sup>*\<^sup>* no_traffic t"
  shows "(\<forall>cid m. (cid, Inr m) \<in> set (answered t) \<longrightarrow> correlation_id m = cid) \<and>
    unexpected t = taken t @ msg_queue (traffic_router t)"
  using traffic.run_good [OF assms no_traffic_routed] by (simp add: well_routed_def)

theorem replies_reach_requests_witness:
  "unexpected (no_traffic\<lparr>traffic_router := route_msg \<lparr>correlation_id = ''c'', message_type = ''t'', msg_content = ()\<rparr>
       new_router, unexpected := [\<lparr>correlation_id = ''c'', message_type = ''t'', msg_content = ()\<rparr>]\<rparr>)
     = [\<lparr>correlation_id = ''c'', message_type = ''t'', msg_content = ()\<rparr>]"
proof -
  let ?m = "\<lparr>correlation_id = ''c'', message_type = ''t'', msg_content = ()\<rparr>"
  let ?t = "no_traffic\<lparr>traffic_router := route_msg ?m new_router, unexpected := [?m]\<rparr>"
  have "traffic_step no_traffic ?t"
    using traffic_step.arrive [of no_traffic ?m] by (simp add: no_traffic_def new_router_def)
  then have "traffic_step\<^sup>*\<^sup>* no_traffic ?t" by (rule r_into_rtranclp)
  from replies_reach_requests [OF this] show ?thesis
    by (simp add: route_msg_parts no_traffic_def new_router_def)
qed

text \<open>
  C32. Closing a connection wakes every waiting request: a request without a reply ends with the
  error of the lost connection, one with a reply still gets it, and its future is forgotten.
\<close>

theorem close_wakes_waiting:
  "\<exists>r'. await_reply cid timed_out (conn_router (close c)) =
      Some (case futures (conn_router c) cid of
              None \<Rightarrow> Inl KeyError
            | Some Pending \<Rightarrow> Inl DisconnectError
            | Some (Result m) \<Rightarrow> Inr m
            | Some (Failed e) \<Rightarrow> Inl e, r') \<and>
     futures r' cid = None"
  by (auto simp: await_reply_def close_def fail_all_def fail_future_def Let_def split: option.split future.split)


section \<open>Notifications\<close>


text \<open>A connection that watches the account of the sender of a transfer.\<close>

definition watching :: "(string \<rightharpoonup> string) event_state" where
  "watching = \<lparr>subsevt = [7 \<mapsto> [(''transfer'', \<lparr>sub_msg_id = PInt 5, validated_data = [(''address'', PStr bot_addr)]\<rparr>)]],
     evthashes = [7 \<mapsto> []], outbox = [], validator = Map.empty\<rparr>"

definition mirror_env :: "(string \<rightharpoonup> string) event_env" where
  "mirror_env = \<lparr>ev_lib = mirror_lib, ev_stream = mirror_stream, ev_pb = text_lib, ev_send = (\<lambda>m. eraise TimeoutError)\<rparr>"

definition paid_event :: dict where
  "paid_event = received_event (event_value ACCOUNT_TRANSFER) (get_event_attributes text_lib
     [(bot_addr, AccountM \<lparr>balance = 700, pub_keys = []\<rparr>), (alice_addr, AccountM \<lparr>balance = 300, pub_keys = []\<rparr>)] ''sig'')"

abbreviation paid_note :: pyval where
  "paid_note \<equiv> transfer_note bot_addr \<lparr>balance = 700, pub_keys = []\<rparr> alice_addr \<lparr>balance = 300, pub_keys = []\<rparr>"

lemma example_addresses_ascii: "ascii bot_addr" "ascii alice_addr"
  by (simp_all add: ascii_def bot_addr_def alice_addr_def)

lemma watching_sub:
  "map_of (subs_of watching 7) ''transfer'' = Some \<lparr>sub_msg_id = PInt 5, validated_data = [(''address'', PStr bot_addr)]\<rparr>"
  "evthashes watching 7 = Some []"
  by (simp_all add: watching_def subs_of_def)

lemma paid_event_processed:
  "process_msg mirror_env 7 ''CLIENT_EVENTS'' [paid_event] watching =
     (Inr (), watching\<lparr>outbox := [sent 7 TransferEventHandler
         \<lparr>sub_msg_id = PInt 5, validated_data = [(''address'', PStr bot_addr)]\<rparr> paid_note],
       evthashes := [7 \<mapsto> [note_digest paid_note]]\<rparr>)"
proof -
  have "outbox watching = []" "evthashes watching = [7 \<mapsto> []]" by (simp_all add: watching_def)
  with transfer_notified [OF text_account_dict example_addresses_ascii, of "\<lparr>balance = 700, pub_keys = []\<rparr>"
      "\<lparr>balance = 300, pub_keys = []\<rparr>" watching 7 _ bot_addr "[]" mirror_env "''sig''"] watching_sub
  show ?thesis by (simp add: paid_event_def)
qed


text \<open>
  C34. Notifications go to subscribers only: every notification that a message of the validator
  leads to goes to the connection the message came in for, under an event that connection is
  subscribed to, and with the identifier of that subscription.
\<close>

theorem only_subscribers_notified:
  assumes "process_msg E w msg_type events s = (r, s')" and "n \<in> set (outbox s')" and "n \<notin> set (outbox s)"
  shows "note_ws n = w \<and> (\<exists>sub. map_of (subs_of s w) (note_event n) = Some sub \<and> note_id n = sub_msg_id sub)"
  using process_msg_addressed [OF assms(1)] assms(2,3) by (auto simp: addressed_def)

theorem only_subscribers_notified_witness:
  "note_ws (sent 7 TransferEventHandler \<lparr>sub_msg_id = PInt 5, validated_data = [(''address'', PStr bot_addr)]\<rparr> paid_note) = 7"
  using only_subscribers_notified [OF paid_event_processed, of
      "sent 7 TransferEventHandler \<lparr>sub_msg_id = PInt 5, validated_data = [(''address'', PStr bot_addr)]\<rparr> paid_note"]
  by (simp add: watching_def)




text \<open>A connection that waits for a batch, and a validator that reports the batch as pending.\<close>

abbreviation pending_batch :: string where
  "pending_batch \<equiv> replicate 128 (CHR ''a'')"

abbreviation pending_status :: pyval where
  "pending_status \<equiv> PDict [(''batch_id'', PStr pending_batch), (''status'', PStr ''PENDING'')]"

definition status_lib :: rest_lib where
  "status_lib = \<lparr>construct = (\<lambda>cls kw. Inr (PDict kw)), parse_header_msg = (\<lambda>cls d. Inl DecodeError),
     parse_response = (\<lambda>cls d. Inr (Some 0, [(''batch_statuses'', PList [pending_status])])),
     status_attr = (\<lambda>cls n. map_of [(''OK'', 0), (''NO_RESOURCE'', 5)] n)\<rparr>"






section \<open>Requests over the connection\<close>

text \<open>
  C28. A request of the router over the connection: once it was written, the first message with its
  identifier is its answer, whose status is then checked; without one before the time is over, and
  when the connection is lost, the caller gets an error of the API; in all these cases the request is
  forgotten. When the socket stays busy for four writes the caller gets an error too, and the request
  stays registered.
\<close>

theorem connection_outcomes:
  "(gets_through (link_writes lk) \<and> link_events lk msg_type req v = (evs, v') \<longrightarrow>
     (\<exists>r'. futures r' (link_id lk) = None \<and>
       handle_response L (conn_stream lk) msg_type resp_proto req (r, v) =
         (case resolution (link_id lk) evs of
            Result m \<Rightarrow>
              (case parse_response L resp_proto (msg_content m) of
                 Inl e \<Rightarrow> Inl (stream_error e)
               | Inr (st, data) \<Rightarrow> (case status_error L resp_proto st of Some e \<Rightarrow> Inl e | None \<Rightarrow> Inr data))
          | Pending \<Rightarrow> Inl (ClientException ''Validator connection timeout'')
          | Failed e \<Rightarrow> Inl (ClientException ''Unexpected validator error''), (r', v')))) \<and>
   ((\<forall>i<4. link_writes lk i = Again) \<longrightarrow>
      handle_response L (conn_stream lk) msg_type resp_proto req (r, v) =
        (Inl (ClientException ''Unexpected validator error''), (expect_reply (link_id lk) r, v)))"
  using request_over_connection [of lk msg_type req v evs v' L resp_proto r] request_blocked [of lk L msg_type resp_proto req r v]
  by blast

text \<open>A socket that is busy once, a message for someone else, the answer, and a second answer.\<close>

definition busy_link :: "unit link" where
  "busy_link = \<lparr>link_id = ''ab'', link_writes = (\<lambda>i. if i = 0 then Again else Written),
     link_events = (\<lambda>t req v. (map (\<lambda>(c, x). Arrives \<lparr>correlation_id = c, message_type = ''CLIENT_BATCH_STATUS_RESPONSE'', msg_content = x\<rparr>)
       [(''cd'', ''other''), (''ab'', ''first''), (''ab'', ''second'')], v))\<rparr>"

theorem connection_outcomes_witness:
  "\<exists>r'. futures r' ''ab'' = None \<and>
     handle_response status_lib (conn_stream busy_link) ''CLIENT_BATCH_STATUS_REQUEST'' ''ClientBatchStatusResponse'' PNone (new_router, ())
       = (Inr [(''batch_statuses'', PList [pending_status])], (r', ()))"
proof -
  have "gets_through (link_writes busy_link)"
    by (auto simp: gets_through_def busy_link_def less_4_cases)
  then show ?thesis
    using connection_outcomes [of busy_link "''CLIENT_BATCH_STATUS_REQUEST''" PNone "()"
        "fst (link_events busy_link [] PNone ())" "()" status_lib "''ClientBatchStatusResponse''" new_router]
    by (auto simp: busy_link_def status_lib_def status_error_def)
qed

section \<open>The node's files\<close>

text \<open>
  C36. The key of the node is stable: the signer a client generated, and the key that was set, is the
  one every later client loads, and loading it changes no file.
\<close>

theorem node_key_is_stable:
  assumes "list_all is_hex key" and "from_hex key = Inr sg" and "private_key_hex sg = key"
  shows "(\<forall>fs fs'. set_priv_key_to_file key None fs = (Inr (), fs') \<longrightarrow> load_signer from_hex other fs' = (Inr sg, fs')) \<and>
    (\<forall>fs fs' sg'. load_signer from_hex sg fs = (Inr sg', fs') \<longrightarrow> load_signer from_hex other fs' = (Inr sg', fs'))"
  using load_after_set [where from_hex = from_hex and sg = sg, OF _ assms(1,2)]
    load_after_generate [where from_hex = from_hex and fresh = sg] assms by auto

definition empty_files :: file_system where
  "empty_files = \<lparr>contents = Map.empty, read_error = (\<lambda>f. ''no file''), write_error = (\<lambda>f. None)\<rparr>"

definition one_key :: key_loader where
  "one_key text = (if text = ''ab'' then Inr node_signer else Inl ''bad key'')"

lemma node_signer_key: "private_key_hex node_signer = ''ab''" "one_key ''ab'' = Inr node_signer" "list_all is_hex ''ab''"
  by (simp_all add: node_signer_def one_key_def is_hex_def hex_chars_def)

lemma generate_example:
  "load_signer one_key node_signer empty_files =
     (Inr node_signer, empty_files\<lparr>contents := [PRIV_KEY_FILE \<mapsto> ''ab'', PUB_KEY_FILE \<mapsto> alice_key]\<rparr>)"
  by (simp add: load_signer_def get_signer_priv_key_from_file_def generate_signer_def write_file_def empty_files_def
      node_signer_def)

theorem node_key_is_stable_witness:
  "load_signer one_key (node_signer\<lparr>private_key_hex := ''cc''\<rparr>)
      (empty_files\<lparr>contents := [PRIV_KEY_FILE \<mapsto> ''ab'', PUB_KEY_FILE \<mapsto> alice_key]\<rparr>) =
    (Inr node_signer, empty_files\<lparr>contents := [PRIV_KEY_FILE \<mapsto> ''ab'', PUB_KEY_FILE \<mapsto> alice_key]\<rparr>)"
  using node_key_is_stable [of "''ab''" one_key node_signer, OF node_signer_key(3,2,1), of "node_signer\<lparr>private_key_hex := ''cc''\<rparr>"] generate_example
  by blast


text \<open>
  C37. The genesis command: with the economy enabled, a run that ends well has written a batch that
  issues the configured supply, signed with and paid to the key that every later client of the node
  loads; its declared outputs are exactly the addresses that the genesis processor may change.
\<close>

theorem genesis_batch_written:
  assumes "genesis_main L Z P from_hex fresh fresh' nonce parameters arg fs = (Inr (), fs')"
    and "map_of parameters ''economy_enabled'' = Some e" and "truthy e"
    and "list_all is_hex (private_key_hex fresh)" and "from_hex (private_key_hex fresh) = Inr fresh"
  shows "\<exists>sg dflt data pl bl.
    load_signer from_hex other fs' = (Inr sg, fs') \<and>
    map_of parameters ''token_supply'' = Some dflt \<and>
    get_genesis_payload (case arg of None \<Rightarrow> dflt | Some v \<Rightarrow> v) = Inr data \<and>
    transaction_payload L P (EnumValue P ''AccountMethod'' ''GENESIS'') (GenesisPayloadM data) = Inr pl \<and>
    make_batch_list L Z (AccountClient sg) nonce pl
      [GENESIS_ADDRESS] [GENESIS_ADDRESS, account_address (public_key_hex sg)] = Inr bl \<and>
    contents fs' OUTPUT_BATCH = Some (Z ''BatchList'' bl) \<and>
    (\<forall>Q Y E p v v' a. state_step Q Y E (public_key_hex sg) (GenesisPayloadM p) v v' \<longrightarrow>
       v' a = v a \<or> covered [GENESIS_ADDRESS, account_address (public_key_hex sg)] a)"
  using genesis_main_writes [OF assms, of other] genesis_outputs by blast

definition genesis_parameters :: dict where
  "genesis_parameters = [(''token_supply'', PInt 1000), (''economy_enabled'', PBool True)]"

lemma genesis_example:
  "genesis_main mirror_lib (\<lambda>cls m. cls) text_lib one_key node_signer node_signer ''1'' genesis_parameters None empty_files
     = (Inr (), empty_files\<lparr>contents :=
         [PRIV_KEY_FILE \<mapsto> ''ab'', PUB_KEY_FILE \<mapsto> alice_key, OUTPUT_BATCH \<mapsto> ''BatchList'']\<rparr>)"
proof -
  let ?fs = "empty_files\<lparr>contents := [PRIV_KEY_FILE \<mapsto> ''ab'', PUB_KEY_FILE \<mapsto> alice_key]\<rparr>"
  let ?c = "\<lparr>client_handler = Some AccountHandler, client_signer = node_signer\<rparr>"
  have c1: "BasicClient one_key node_signer (Some AccountHandler) empty_files = (Inr ?c, ?fs)"
    by (simp add: BasicClient_def generate_example)
  have c2: "BasicClient one_key node_signer (Some AccountHandler) ?fs = (Inr ?c, ?fs)"
    using load_after_generate [OF generate_example, of node_signer] node_signer_key by (simp add: BasicClient_def)
  have p: "get_genesis_payload (PInt 1000) = Inr \<lparr>total_supply = 1000\<rparr>"
    by (simp add: get_genesis_payload_def py_int_value_def)
  have b: "\<exists>bl. make_batch_list mirror_lib (\<lambda>cls m. cls) ?c ''1'' pl ins outs = Inr bl" for pl ins outs
    by (simp add: make_batch_list_def with_handler_def mirror_lib_def sign_batch_list_def attr_def Let_def)
  have t: "\<exists>pl. transaction_payload mirror_lib text_lib n m = Inr pl" for n m
    by (simp add: transaction_payload_def mirror_lib_def)
  obtain pl where pl: "transaction_payload mirror_lib text_lib (EnumValue text_lib ''AccountMethod'' ''GENESIS'')
      (GenesisPayloadM \<lparr>total_supply = 1000\<rparr>) = Inr pl" using t by blast
  obtain bl where bl: "make_batch_list mirror_lib (\<lambda>cls m. cls) ?c ''1'' pl [GENESIS_ADDRESS]
      [GENESIS_ADDRESS, account_address (public_key_hex node_signer)] = Inr bl" using b by blast
  have w: "write_batch_file bytes ?fs = (Inr (), ?fs\<lparr>contents := (contents ?fs)(OUTPUT_BATCH \<mapsto> bytes)\<rparr>)" for bytes
    by (simp add: write_batch_file_def write_file_def empty_files_def)
  show ?thesis
    by (simp add: genesis_main_def genesis_parameters_def dict_lookup_def c1 c2 p pl bl w genesis_addresses_eq)
qed

theorem genesis_batch_written_witness:
  "\<exists>sg. load_signer one_key node_signer
      (empty_files\<lparr>contents := [PRIV_KEY_FILE \<mapsto> ''ab'', PUB_KEY_FILE \<mapsto> alice_key, OUTPUT_BATCH \<mapsto> ''BatchList'']\<rparr>) =
    (Inr sg, empty_files\<lparr>contents := [PRIV_KEY_FILE \<mapsto> ''ab'', PUB_KEY_FILE \<mapsto> alice_key, OUTPUT_BATCH \<mapsto> ''BatchList'']\<rparr>)"
  using genesis_batch_written [OF genesis_example, of "PBool True" node_signer] node_signer_key
  by (auto simp: genesis_parameters_def)

section \<open>Configuration and addresses\<close>

text \<open>
  C38. Merging a configuration over the defaults: every setting of the file that is not itself a
  section wins, at any depth, and every default on which the file says nothing is kept.
\<close>

theorem configuration_merged:
  assumes "keys_ok (PDict file)" and "config_at (load_toml_with_defaults defaults (Some file)) path = r"
  shows "(\<forall>v. config_at file path = Some v \<and> (\<forall>d. v \<noteq> PDict d) \<longrightarrow> r = Some v) \<and>
    (\<forall>v. config_at defaults path = Some v \<and> untouched file path \<longrightarrow> r = Some v)"
  using assms merge_deep_user_wins [OF assms(1), of path _ defaults] merge_deep_default_kept [OF assms(1), of defaults path]
  by (auto simp: load_toml_with_defaults_def)

theorem configuration_merged_witness:
  "config_at (load_toml_with_defaults
      [(''remme'', PDict [(''genesis'', PDict [(''token_supply'', PInt 1000), (''economy_enabled'', PBool True)])])]
      (Some [(''remme'', PDict [(''genesis'', PDict [(''token_supply'', PInt 5)])])]))
     [''remme'', ''genesis'', ''token_supply''] = Some (PInt 5)"
  using configuration_merged [of "[(''remme'', PDict [(''genesis'', PDict [(''token_supply'', PInt 5)])])]"
      "[(''remme'', PDict [(''genesis'', PDict [(''token_supply'', PInt 1000), (''economy_enabled'', PBool True)])])]"
      "[''remme'', ''genesis'', ''token_supply'']", OF _ refl]
  by simp

text \<open>
  C39. Every family derives, from any data, an address of seventy lower-case hexadecimal digits that
  belongs to that family and to no other.
\<close>

theorem derived_addresses_wellformed:
  "\<exists>a. make_address_from_data (family_handler f) data = Inr a \<and> re_fullmatch_hex 70 a \<and>
     is_handler_address (family_handler f) a \<and> (\<forall>g. is_handler_address (family_handler g) a \<longleftrightarrow> g = f)"
proof -
  have v: "valid_handler (family_handler g)" for g by (cases g) simp_all
  let ?a = "prefix_of (family_handler f) @ take 64 (hash512 data)"
  have a: "make_address_from_data (family_handler f) data = Inr ?a" by (rule make_address_from_data_eq [OF v])
  have h: "length ?a = 70" "list_all is_hex ?a"
    using v [of f] by (auto simp: valid_handler_def sha512.length_digest sha512.take_digest_hex)
  have "is_handler_address (family_handler g) ?a \<longleftrightarrow> g = f" for g
    using h is_address_hex [OF h] v [of f]
    by (cases f; cases g)
      (simp_all add: is_handler_address_def prefix_AccountHandler prefix_PubKeyHandler prefix_AtomicSwapHandler)
  with a h show ?thesis by (auto simp: re_fullmatch_hex_def)
qed

end
