(* ===== verification/Metrics.thy ===== *)
theory Metrics
  imports Basic
begin

text \<open>
  \<open>remme/shared/metrics.py\<close>: timings of requests, sent to an InfluxDB server. The client of that server
  is a parameter, a record of operations on the state \<open>'d\<close> of the database. Times are in microseconds.
  A non-blocking call hands the point to a thread pool, which drops what the write raises; here the
  write happens at once.
\<close>

definition InfluxDBClientError :: exc where
  "InfluxDBClientError = OtherException ''InfluxDBClientError''"

definition InfluxDBServerError :: exc where
  "InfluxDBServerError = OtherException ''InfluxDBServerError''"

definition InfluxConnectionError :: exc where
  "InfluxConnectionError = OtherException ''ConnectionError''"

lemmas influx_errors = InfluxDBClientError_def InfluxDBServerError_def InfluxConnectionError_def

record 'd influx_client =
  influx_ping :: "('d, unit) ex"
  influx_create_database :: "string \<Rightarrow> ('d, unit) ex"
  influx_switch_database :: "string \<Rightarrow> ('d, unit) ex"
  influx_write_points :: "pyval \<Rightarrow> ('d, unit) ex"

record 'd metrics_sender =
  influxdb_client :: "'d influx_client"
  metrics_ready :: bool

section \<open>The sender\<close>

text \<open>An unreachable server leaves the sender without effect; an existing database is used.\<close>

definition MetricsSender :: "'d influx_client \<Rightarrow> string \<Rightarrow> ('d, 'd metrics_sender) ex" where
  "MetricsSender cl db =
     ebind (ecatch (ebind (influx_ping cl) (\<lambda>_. eret True))
              (\<lambda>e. if e \<in> {InfluxDBClientError, InfluxDBServerError, InfluxConnectionError} then eret False else eraise e))
       (\<lambda>reached.
         if \<not> reached then eret \<lparr>influxdb_client = cl, metrics_ready = False\<rparr>
         else
         ebind (ecatch (ebind (influx_create_database cl db) (\<lambda>_. eret True))
                  (\<lambda>e. if e = InfluxDBClientError then eret True
                       else if e = InfluxDBServerError then eret False else eraise e))
           (\<lambda>created.
             if \<not> created then eret \<lparr>influxdb_client = cl, metrics_ready = False\<rparr>
             else ebind (influx_switch_database cl db)
               (\<lambda>_. eret \<lparr>influxdb_client = cl, metrics_ready = True\<rparr>)))"

definition write_point :: "'d influx_client \<Rightarrow> pyval \<Rightarrow> ('d, unit) ex" where
  "write_point cl data_point =
     ecatch (influx_write_points cl data_point)
       (\<lambda>e. if e \<in> {InfluxDBClientError, InfluxDBServerError} then eret () else eraise e)"

record metrics_env =
  hostname :: string
  time_text :: string

definition data_point :: "metrics_env \<Rightarrow> string \<Rightarrow> pyval \<Rightarrow> pyval" where
  "data_point env metric values =
     PDict [(''measurement'', PStr (''remme.'' @ metric)),
            (''tags'', PDict [(''hostname'', PStr (hostname env))]),
            (''time'', PStr (time_text env)), (''fields'', values)]"

definition send_metric :: "metrics_env \<Rightarrow> 'd metrics_sender \<Rightarrow> pyval \<Rightarrow> pyval \<Rightarrow> bool \<Rightarrow> ('d, unit) ex" where
  "send_metric env sender metric values noblock =
     (if \<not> metrics_ready sender then eret ()
      else (case (metric, values) of
              (PStr m, PDict _) \<Rightarrow>
                if noblock then ecatch (write_point (influxdb_client sender) (data_point env m values)) (\<lambda>e. eret ())
                else write_point (influxdb_client sender) (data_point env m values)
            | _ \<Rightarrow> eraise ValueError))"

section \<open>Measurements\<close>

record measurement =
  measured_metric :: string
  measurement_done :: bool
  start_time :: int

definition TimeMeasurement :: "pyval \<Rightarrow> int \<Rightarrow> measurement res" where
  "TimeMeasurement metric now =
     (case metric of
        PStr m \<Rightarrow> Inr \<lparr>measured_metric = m, measurement_done = False, start_time = now\<rparr>
      | _ \<Rightarrow> Inl ValueError)"

definition get_time_measurement :: "pyval \<Rightarrow> int \<Rightarrow> measurement res" where
  "get_time_measurement metric now = TimeMeasurement metric now"

definition finish_measurement ::
  "metrics_env \<Rightarrow> 'd metrics_sender \<Rightarrow> int \<Rightarrow> bool \<Rightarrow> ('d \<times> measurement, unit) ex"
where
  "finish_measurement env sender stop_time noblock = (\<lambda>(d, m).
     if measurement_done m then (Inr (), (d, m))
     else (let (r, d') = send_metric env sender (PStr (measured_metric m))
                 (PDict [(''execution_time'', PFloat (stop_time - start_time m))]) noblock d
           in (r, (d', m\<lparr>measurement_done := True\<rparr>))))"

text \<open>A measurement is sent at most once.\<close>

lemma finish_twice:
  assumes "finish_measurement env sender t b (d, m) = (r, (d', m'))"
  shows "finish_measurement env sender t' b' (d', m') = (Inr (), (d', m'))"
  using assms by (auto simp: finish_measurement_def Let_def split: if_splits prod.splits)

lemma not_ready_silent:
  "\<not> metrics_ready sender \<Longrightarrow> send_metric env sender metric values noblock d = (Inr (), d)"
  by (simp add: send_metric_def)

text \<open>Errors the server reports stay inside; a non-blocking call never raises for a named metric.\<close>

lemma reported_errors_stay_inside:
  assumes "write_point cl p d = (Inl e, d')"
  shows "e \<notin> {InfluxDBClientError, InfluxDBServerError}"
  using assms by (auto simp: write_point_def ecatch_def split: prod.splits sum.splits if_splits)

lemma noblock_never_raises: "\<exists>d'. send_metric env sender (PStr m) (PDict vs) True d = (Inr (), d')"
  by (cases "write_point (influxdb_client sender) (data_point env m (PDict vs)) d")
    (auto simp: send_metric_def ecatch_def split: sum.splits)

section \<open>Measured requests\<close>

text \<open>
  \<open>BasicHandler.apply\<close> with its measurement: it is finished at the end of an applied request, so that
  what finishing raises is raised by \<open>apply\<close>, after the state was written.
\<close>

definition apply_measured ::
  "metrics_env \<Rightarrow> 'd metrics_sender \<Rightarrow> measurement \<Rightarrow> int \<Rightarrow> 'b pblib \<Rightarrow> ('c, 'b) ctx_ops \<Rightarrow> wtforms \<Rightarrow> ('c, 'b) state_processor
     \<Rightarrow> 'b tp_request \<Rightarrow> 'c \<times> 'd \<Rightarrow> unit res \<times> 'c \<times> 'd"
where
  "apply_measured env sender m stop_time P K wt sp tr = (\<lambda>(c, d).
     case handler_apply P K wt sp tr c of
       (Inl e, c') \<Rightarrow> (Inl e, c', d)
     | (Inr _, c') \<Rightarrow>
         (let (r, (d', _)) = finish_measurement env sender stop_time False (d, m) in (r, c', d')))"

lemma apply_measured_context:
  "apply_measured env sender m t P K wt sp tr (c, d) = (r, c', d') \<Longrightarrow> c' = snd (handler_apply P K wt sp tr c)"
  by (auto simp: apply_measured_def Let_def split: prod.splits sum.splits)

lemma apply_measured_result:
  assumes "apply_measured env sender m t P K wt sp tr (c, d) = (r, c', d')"
    and "\<not> metrics_ready sender \<or> (\<forall>p d. \<exists>d'. influx_write_points (influxdb_client sender) p d = (Inr (), d'))"
  shows "r = fst (handler_apply P K wt sp tr c)"
proof (cases "handler_apply P K wt sp tr c")
  case (Pair r0 c0)
  have "\<exists>d'. send_metric env sender (PStr x) (PDict vs) False d = (Inr (), d')" for x vs
  proof (cases "metrics_ready sender")
    case True
    with assms(2) obtain d1 where
      "influx_write_points (influxdb_client sender) (data_point env x (PDict vs)) d = (Inr (), d1)" by blast
    with True show ?thesis by (simp add: send_metric_def write_point_def)
  qed (simp add: send_metric_def)
  then obtain d1 where s: "send_metric env sender (PStr (measured_metric m))
      (PDict [(''execution_time'', PFloat (t - start_time m))]) False d = (Inr (), d1)" by blast
  from assms(1) Pair s show ?thesis
    by (cases r0) (auto simp: apply_measured_def finish_measurement_def Let_def split: prod.splits if_splits)
qed

text \<open>
  A lost connection to the metrics server is not among the errors \<open>_write_point\<close> handles: it makes a
  request fail whose state has been written.
\<close>

lemma lost_metrics_server_fails_request:
  assumes "metrics_ready sender" and "\<not> measurement_done m"
    and "\<And>p d. influx_write_points (influxdb_client sender) p d = (Inl InfluxConnectionError, d)"
    and "handler_apply P K wt sp tr c = (Inr (), c')"
  shows "apply_measured env sender m t P K wt sp tr (c, d) = (Inl InfluxConnectionError, c', d)"
  using assms
  by (simp add: apply_measured_def finish_measurement_def send_metric_def write_point_def ecatch_def influx_errors)

end
