(* ===== verification/Services.thy ===== *)
theory Services
  imports WebSocket
begin

text \<open>
  The commands that start the services: \<open>remme/rpc_api/__main__.py\<close>, which reads its configuration,
  sets up the cross-origin rules and loads the RPC methods, and \<open>scripts/node/toml-to-env.py\<close>, which
  exports two settings to the shell; the setup of logging and the single instances of the handlers. Parsing TOML, the web framework and the event loop are not part
  of the model; a configuration is the dictionary that was read.
\<close>

section \<open>The RPC service\<close>

text \<open>\<open>allow_origin\<close> is one origin or a list of them.\<close>

definition cors_origins :: "dict \<Rightarrow> pyval list res" where
  "cors_origins cors =
     rbind (dict_lookup cors ''allow_origin'') (\<lambda>v.
       case v of
         PStr s \<Rightarrow> Inr [PStr s]
       | PList xs \<Rightarrow> Inr xs
       | PDict d \<Rightarrow> Inr (map (PStr \<circ> fst) d)
       | _ \<Rightarrow> Inl TypeError)"

definition hashable :: "pyval \<Rightarrow> bool" where
  "hashable v = (case v of PList _ \<Rightarrow> False | PDict _ \<Rightarrow> False | _ \<Rightarrow> True)"

definition resource_options :: "dict \<Rightarrow> dict res" where
  "resource_options cors =
     rmap (\<lambda>k. rbind (dict_lookup cors k) (\<lambda>v. Inr (k, v)))
       [''allow_methods'', ''max_age'', ''allow_credentials'', ''allow_headers'', ''expose_headers'']"

definition cors_defaults :: "dict \<Rightarrow> (pyval \<times> dict) list res" where
  "cors_defaults cors =
     rbind (cors_origins cors) (\<lambda>origins.
     rbind (rmap (\<lambda>ao. rbind (resource_options cors) (\<lambda>opts.
              if hashable ao then Inr (ao, opts) else Inl TypeError)) origins)
       (\<lambda>items. Inr (dict_literal items)))"

definition zmq_url :: "dict \<Rightarrow> string res" where
  "zmq_url cfg_ws =
     rbind (dict_lookup cfg_ws ''validator_ip'') (\<lambda>ip.
     rbind (dict_lookup cfg_ws ''validator_port'') (\<lambda>port.
       Inr (''tcp://'' @ py_str_of ip @ '':'' @ py_str_of port)))"

text \<open>
  \<open>argparse\<close> converts the text of an option, and a default that is a text, with \<open>type=int\<close>; a text
  that is no number ends the program.
\<close>

definition port_option :: "pyval \<Rightarrow> string option \<Rightarrow> pyval res" where
  "port_option dflt arg =
     (let text = (case arg of Some s \<Rightarrow> Some s | None \<Rightarrow> (case dflt of PStr s \<Rightarrow> Some s | _ \<Rightarrow> None)) in
      case text of
        None \<Rightarrow> Inr dflt
      | Some s \<Rightarrow> (case py_int 10 s of Inr n \<Rightarrow> Inr (PInt n) | Inl _ \<Rightarrow> Inl (OtherException ''SystemExit'')))"

record 'a rpc_service =
  service_bind :: pyval
  service_port :: pyval
  service_cors :: "(pyval \<times> dict) list"
  service_url :: string
  service_methods :: "(string \<times> 'a) list"

definition as_dict_value :: "dict \<Rightarrow> string \<Rightarrow> dict res" where
  "as_dict_value d k = rbind (dict_lookup d k) as_dict"

definition rpc_service_main ::
  "(string \<Rightarrow> (string \<times> 'a) list) \<Rightarrow> dict \<Rightarrow> dict \<Rightarrow> string option \<Rightarrow> pyval option \<Rightarrow> 'a rpc_service res"
where
  "rpc_service_main methods_of rpc_config client_config port_arg bind_arg =
     rbind (rbind (as_dict_value rpc_config ''remme'') (\<lambda>r. as_dict_value r ''rpc_api'')) (\<lambda>cfg_rpc.
     rbind (rbind (as_dict_value client_config ''remme'') (\<lambda>r. as_dict_value r ''client'')) (\<lambda>cfg_ws.
     rbind (dict_lookup cfg_rpc ''port'') (\<lambda>dflt_port.
     rbind (dict_lookup cfg_rpc ''bind'') (\<lambda>dflt_bind.
     rbind (port_option dflt_port port_arg) (\<lambda>port.
     rbind (as_dict_value cfg_rpc ''cors'') (\<lambda>cors_config.
     rbind (cors_defaults cors_config) (\<lambda>cors.
     rbind (zmq_url cfg_ws) (\<lambda>url.
     rbind (dict_lookup cfg_rpc ''websocket_state_logger'') (\<lambda>_.
     rbind (rbind (dict_lookup cfg_rpc ''available_modules'') str_of) (\<lambda>modules.
     rbind (load_from_modules methods_of modules) (\<lambda>methods.
       Inr \<lparr>service_bind = (case bind_arg of None \<Rightarrow> dflt_bind | Some b \<Rightarrow> b), service_port = port,
            service_cors = cors, service_url = url, service_methods = methods\<rparr>)))))))))))"

text \<open>One origin and a list of just that origin are the same configuration.\<close>

lemma cors_single_origin:
  assumes "map_of cors ''allow_origin'' = Some (PStr s)"
  shows "cors_origins cors = cors_origins (AList.update ''allow_origin'' (PList [PStr s]) cors)"
  using assms by (simp add: cors_origins_def dict_lookup_def update_conv')

text \<open>Every origin gets the same options, and origins are unique.\<close>

lemma cors_defaults_uniform:
  assumes "cors_defaults cors = Inr rules" and "(ao, opts) \<in> set rules"
  shows "resource_options cors = Inr opts \<and> distinct (map fst rules)"
proof -
  from assms(1) obtain origins items where
    i: "list_all2 (\<lambda>o' it. rbind (resource_options cors) (\<lambda>opts.
          if hashable o' then Inr (o', opts) else Inl TypeError) = Inr it) origins items"
    and r: "rules = dict_literal items"
    by (auto simp: cors_defaults_def res_simps)
  from assms(2) r set_dict_literal have "(ao, opts) \<in> set items" by fastforce
  with i obtain o' where "rbind (resource_options cors) (\<lambda>opts.
      if hashable o' then Inr (o', opts) else Inl TypeError) = Inr (ao, opts)"
    by (auto simp: list_all2_conv_all_nth in_set_conv_nth)
  with r show ?thesis by (auto simp: res_simps split: if_splits)
qed

text \<open>The methods of the service are those of the modules its configuration names.\<close>

lemma rpc_service_methods:
  assumes "rpc_service_main methods_of rc cc pa ba = Inr svc"
  shows "\<exists>names. service_methods svc = concat (map methods_of names) \<and>
    set names \<subseteq> set (''event'' # module_files)"
  using assms
  by (auto simp: rpc_service_main_def res_simps load_from_modules_def load_methods_def Let_def list_all_iff split: if_splits)

section \<open>Logging\<close>

text \<open>
  \<open>remme/shared/logging_setup.py\<close>: the logging functions of the SDK are a parameter; \<open>'l\<close> is the state of
  the logging library.
\<close>

record 'l log_lib =
  get_log_config :: "string \<Rightarrow> dict option res"
  log_configuration :: "dict \<Rightarrow> ('l, unit) ex"
  init_console_logging :: "int \<Rightarrow> ('l, unit) ex"
  default_log_config_filename :: string

definition set_log_file :: "string \<Rightarrow> dict \<Rightarrow> dict res" where
  "set_log_file filename cfg =
     rbind (as_dict_value cfg ''handlers'') (\<lambda>handlers.
     rbind (as_dict_value handlers ''file'') (\<lambda>file.
       Inr (AList.update ''handlers'' (PDict (AList.update ''file''
              (PDict (AList.update ''filename'' (PStr filename) file)) handlers)) cfg)))"

text \<open>A configuration that the library rejects is replaced by the default one, with a file for the service.\<close>

definition load_default_logging :: "'l log_lib \<Rightarrow> string \<Rightarrow> ('l, unit) ex" where
  "load_default_logging G name =
     ebind (elift (get_log_config G (default_log_config_filename G))) (\<lambda>cfg.
     ebind (elift (case cfg of None \<Rightarrow> Inl TypeError
                   | Some d \<Rightarrow> set_log_file (''/var/log/remme/'' @ name @ ''.log'') d))
       (log_configuration G))"

definition setup_logging :: "'l log_lib \<Rightarrow> string \<Rightarrow> int \<Rightarrow> ('l, unit) ex" where
  "setup_logging G name verbosity =
     ebind (elift (get_log_config G ''/etc/sawtooth/log_config.toml'')) (\<lambda>toml.
     ebind (elift (case toml of None \<Rightarrow> get_log_config G ''/etc/sawtooth/log_config.yaml'' | Some d \<Rightarrow> Inr (Some d))) (\<lambda>cfg.
     ebind (case cfg of
              None \<Rightarrow> eret ()
            | Some d \<Rightarrow> ecatch (log_configuration G d) (\<lambda>e. load_default_logging G name)) (\<lambda>_.
       init_console_logging G verbosity)))"

text \<open>
  A broken configuration file does not keep a service from starting: with a usable default the service
  logs to its own file and to the console.
\<close>

lemma set_log_file_path:
  assumes "set_log_file f cfg = Inr cfg'"
  shows "rbind (as_dict_value cfg' ''handlers'') (\<lambda>h. rbind (as_dict_value h ''file'') (\<lambda>d. dict_lookup d ''filename'')) = Inr (PStr f)"
  using assms by (auto simp: set_log_file_def as_dict_value_def as_dict_def dict_lookup_def res_simps update_conv')

lemma broken_logging_falls_back:
  assumes "get_log_config G ''/etc/sawtooth/log_config.toml'' = Inr (Some bad)" and "log_configuration G bad s = (Inl e, s1)"
    and "get_log_config G (default_log_config_filename G) = Inr (Some d)"
    and "set_log_file (''/var/log/remme/'' @ name @ ''.log'') d = Inr d'"
    and "log_configuration G d' s1 = (Inr (), s2)"
  shows "setup_logging G name n s = init_console_logging G n s2"
  using assms by (simp add: setup_logging_def load_default_logging_def ebind_def ecatch_def)

section \<open>Single instances\<close>

text \<open>
  The metaclass \<open>Singleton\<close> of \<open>remme/shared/utils.py\<close>: \<open>instances\<close> is its table, \<open>build\<close> the constructor of
  the class, which may raise. The handlers are made this way.
\<close>

definition Singleton_call :: "'k \<Rightarrow> (unit \<Rightarrow> 'o res) \<Rightarrow> ('k \<rightharpoonup> 'o, 'o) ex" where
  "Singleton_call cls build instances =
     (case instances cls of
        Some obj \<Rightarrow> (Inr obj, instances)
      | None \<Rightarrow> (case build () of
                   Inl e \<Rightarrow> (Inl e, instances)
                 | Inr obj \<Rightarrow> (Inr obj, instances(cls \<mapsto> obj))))"

lemma Singleton_same:
  assumes "Singleton_call cls build instances = (Inr obj, instances')"
  shows "Singleton_call cls build' instances' = (Inr obj, instances')"
  using assms by (auto simp: Singleton_call_def split: option.splits sum.splits)

section \<open>Settings for the shell\<close>

definition DEFAULT_GENESIS_CONFIG :: dict where
  "DEFAULT_GENESIS_CONFIG =
     [(''token_supply'', PInt 1000000000000), (''economy_enabled'', PBool True), (''consensus'', PStr ''poet-simulator'')]"

fun subpath_value :: "pyval \<Rightarrow> string list \<Rightarrow> pyval res" where
  "subpath_value v [] = Inr v"
| "subpath_value v (k # ks) = rbind (item v k) (\<lambda>w. subpath_value w ks)"

definition script_load_toml :: "dict \<Rightarrow> string list \<Rightarrow> dict \<Rightarrow> dict res" where
  "script_load_toml file subpath defaults =
     rbind (subpath_value (PDict file) subpath) (\<lambda>v. rbind (as_dict v) (\<lambda>d. Inr (merge_deep defaults d)))"

definition toml_to_env :: "dict \<Rightarrow> string list res" where
  "toml_to_env file =
     rbind (script_load_toml file [''remme'', ''genesis''] DEFAULT_GENESIS_CONFIG) (\<lambda>config.
     rbind (dict_lookup config ''consensus'') (\<lambda>consensus.
     rbind (dict_lookup config ''economy_enabled'') (\<lambda>economy.
       Inr [''export REMME_CONSENSUS='' @ py_str_of consensus @ '';'',
            ''export REMME_ECONOMY_ENABLED='' @ py_str_of economy @ '';''])))"

text \<open>With a genesis section in the file both variables are exported, from the file or by default.\<close>

lemma toml_to_env_exports:
  assumes "subpath_value (PDict file) [''remme'', ''genesis''] = Inr (PDict d)" and "keys_ok (PDict d)"
  shows "\<exists>c e. toml_to_env file =
    Inr [''export REMME_CONSENSUS='' @ c @ '';'', ''export REMME_ECONOMY_ENABLED='' @ e @ '';''] \<and>
    (\<forall>s. map_of d ''consensus'' = Some (PStr s) \<longrightarrow> c = s) \<and>
    (map_of d ''consensus'' = None \<longrightarrow> c = ''poet-simulator'')"
proof -
  from assms(2) have "distinct (map fst d)" by simp
  note l = merge_deep_lookup [OF this, of DEFAULT_GENESIS_CONFIG]
  have c: "map_of DEFAULT_GENESIS_CONFIG ''consensus'' = Some (PStr ''poet-simulator'')"
    and e: "map_of DEFAULT_GENESIS_CONFIG ''economy_enabled'' = Some (PBool True)"
    by (simp_all add: DEFAULT_GENESIS_CONFIG_def)
  show ?thesis
    using assms(1)
    by (auto simp: toml_to_env_def script_load_toml_def as_dict_def dict_lookup_def l c e
        py_str_of_def split: option.split pyval.split)
qed

end
