(* ===== verification/Spec2Isabelle.thy ===== *)
theory Spec2Isabelle
  imports ApiGuarantees CertClient Metrics Services
begin

text \<open>
  A verification library of the REMME node (\<open>src/remme\<close>), a Hyperledger Sawtooth application in Python.

  \<^bold>\<open>The program.\<close> The node has two services around a validator, which is not part of the sources. The
  \<^emph>\<open>transaction processor\<close> (\<open>remme/tp\<close>) receives transactions from the validator and changes the
  state, a map from 70 digit addresses to serialised messages: token accounts with a genesis
  transaction, public keys stored for a fee, and atomic swaps. The \<^emph>\<open>RPC service\<close> (\<open>remme/rpc_api\<close>)
  answers JSON-RPC requests over HTTP and websockets; its methods call clients (\<open>remme/clients\<close>), the
  clients ask the validator through a router of requests (\<open>remme/shared/router.py\<close>) and a connection
  (\<open>remme/shared/messaging.py\<close>), and websocket connections subscribe to the events that the transaction
  processor emits. A command prepares the genesis batch (\<open>remme/genesis\<close>).

  \<^bold>\<open>The theories\<close>, each importing the ones it calls:

  \<^item> \<open>Prelude\<close>: exceptions as values (\<open>exc\<close>), the exception monad (\<open>res\<close>, \<open>rbind\<close>) and the
    state-and-exception monad (\<open>ex\<close>, \<open>ebind\<close>, \<open>ecatch\<close>), the integer and string primitives of Python,
    dictionaries as association lists in insertion order; the collection \<open>res_simps\<close>.
  \<^item> \<open>Sha2\<close>, \<open>Digests\<close>: \<open>hash512\<close> and \<open>_to_hash\<close> with SHA-512 and SHA-256 written out, the locale
    \<open>hex_digest\<close>, and the digests of the constants of the node, evaluated in the logic.
    \<open>Base64\<close> and \<open>Json\<close>: \<open>b64decode\<close>, \<open>json.dumps\<close> and \<open>json.loads\<close> as the sources use them.
  \<^item> \<open>Messages\<close>: the stored and transmitted messages as records; the generated codec is the parameter
    \<open>pblib\<close>. \<open>Forms\<close>: \<open>remme/shared/forms\<close>. \<open>Settings\<close>: \<open>remme/settings\<close>.
  \<^item> \<open>Context\<close>: \<open>remme/tp/context.py\<close> over the context of the SDK (locales \<open>sawtooth_context\<close> and
    \<open>granting_context\<close>, interpreted on the test double \<open>testing/mocks/stub.py\<close>).
  \<^item> \<open>Basic\<close>: \<open>remme/tp/basic.py\<close> with the whole of \<open>BasicHandler.apply\<close>, and the contract of a
    processor (locale \<open>tp_processor\<close>), of which \<open>AccountTP\<close>, \<open>PubKeyTP\<close> and \<open>AtomicSwapTP\<close> (the
    files of the same names under \<open>remme/tp\<close>) show every processor to be an instance.
  \<^item> \<open>Chain\<close>: the rules of the transactions as a step relation \<open>state_step\<close> on the state alone, one rule
    per method, and the dispatch of a request to the handler of its family (\<open>remme/tp/__main__.py\<close>).
    \<open>TokenLedger\<close>: the abstract token economy, and the locales for invariants and conserved
    quantities of step relations. \<open>Ledger\<close>, \<open>Lifecycle\<close>: the refinement of the ledger by the rules, and
    the life of swaps, keys and the genesis status. \<open>Completeness\<close>: every step of the rules is taken by
    the code. \<open>Examples\<close>: concrete codec, forms, keys and requests.
  \<^item> \<open>RestUtils\<close>, \<open>Router\<close>, \<open>Validator\<close>: \<open>remme/shared/exceptions.py\<close>, \<open>utils.py\<close> and \<open>router.py\<close>, with
    the contract of the validator (locale \<open>validator_service\<close>). \<open>Messaging\<close>: the connection.
    \<open>Transport\<close>: the requests of the router over the connection.
  \<^item> \<open>Clients\<close>, \<open>ClientViews\<close>, \<open>KeyFiles\<close>, \<open>CertClient\<close>: \<open>remme/clients\<close>, what its queries return against
    the state of the transaction processor and which addresses it declares, the key files of the node,
    and certificates. \<open>Genesis\<close>: \<open>remme/genesis/__main__.py\<close>. \<open>Submission\<close>: the way of a transaction from a
    client to the state and back to the queries; \<open>WalletExample\<close> is an instance of it.
  \<^item> \<open>RpcApi\<close>, \<open>RpcServer\<close>: the RPC methods and the dispatch of messages. \<open>EventHandlers\<close>, \<open>Events\<close>,
    \<open>EventFlow\<close>, \<open>WebSocket\<close>: \<open>remme/rpc_api/event\<close>, subscriptions and deliveries as a transition
    system, the way of an event from \<open>apply\<close> to a subscriber, and the session of a websocket.
  \<^item> \<open>Metrics\<close>: \<open>remme/shared/metrics.py\<close>. \<open>Services\<close>: \<open>remme/rpc_api/__main__.py\<close>,
    \<open>remme/shared/logging_setup.py\<close>, the metaclass \<open>Singleton\<close> and \<open>scripts/node/toml-to-env.py\<close>. \<open>ApiExamples\<close>, \<open>ApiGuarantees\<close>: concrete inputs and the properties
    of the API side.

  \<^bold>\<open>Correspondence.\<close> Functions keep their names, without leading underscores. An object is a record and
  a method takes and returns it; the state of the chain, the files, the connection and the database are
  threaded through \<open>ex\<close>. A \<open>raise\<close> is \<open>Inl\<close>, with the exception class as the constructor of \<open>exc\<close> and
  the text where the sources format one that a caller can see; an \<open>except\<close> clause is \<open>ecatch\<close>. Integers
  are unbounded, as in Python, and every assignment to an unsigned message field checks its width
  (\<open>set_uint\<close>), which raises \<open>ValueError\<close> outside. Coroutines are run to their end, so that the steps of
  the transition systems are the parts between which the sources can be interrupted only by other
  connections.

  \<^bold>\<open>Parameters\<close> stand for code outside the sources, with documented behaviour as named hypotheses:
  the codec of the messages (\<open>pblib\<close>; \<open>pb_typed\<close>: parsing yields a message of the class asked for with
  fields in range; \<open>pb_roundtrip\<close>: what was serialised parses back; \<open>pb_decode_errors\<close>), the context of
  the SDK (\<open>ctx_ops\<close>), the plain fields of \<open>wtforms\<close> (\<open>wt_documented\<close>), the signature libraries (\<open>crypto\<close>,
  \<open>signer\<close>, \<open>x509_lib\<close> with \<open>signing_keeps\<close>), Keccak (\<open>swap_env\<close>), the message classes of the SDK
  (\<open>rest_lib\<close>, \<open>serializer\<close>; \<open>sdk_messages\<close>: a message has the fields it was constructed with, and headers
  and payloads parse back), the validator behind the connection (\<open>stream\<close>, \<open>link\<close>; \<open>delivered\<close>: the request
  and the access rights it makes of a transaction), the JSON-RPC library (\<open>decode_msg\<close>), the InfluxDB
  client, the logging library, and the clock. Every property with such a hypothesis has a
  witness on a concrete instance.

  \<^bold>\<open>What is shown.\<close>

  \<^item> The transaction processor (C1 to C17 and C40, in this theory). An applied request takes a step of the
    rules (C2), and a request the rules accept is applied (C3), so the rules describe the code exactly; a
    failed request writes nothing (C4). Over regular transactions the circulation is constant (C1) and
    each balance stays within it and within 64 bits (C40). The effect of each method is stated
    on the state (C5, C11 to C15, C17), the histories of swaps, keys and genesis as safety properties of
    runs (C6 to C10, C16). C15 also gives the case in which \<open>STORE_AND_PAY\<close> creates tokens, which
    \<open>regular_tx\<close> excludes from C1.
  \<^item> Queries and submissions (C18 to C22, C26): balances and blocks are those of the state; a transaction
    that a client submits with the addresses it declares is applied if the rules accept it (C20), and
    a transfer is seen by the queries that follow (C21); the check before a submission agrees with the
    decoding of the processor.
  \<^item> Data formats and errors (C23 to C25, C29, C38, C39): replies, JSON, headers, identifiers, errors of
    the validator, configuration, addresses. C29 states that refused batches are reported as sent.
  \<^item> The connection and the events (C27, C28, C30 to C35): every outcome of a request over the connection,
    sending ends, replies find their requests, nobody waits after a close, notifications are unique, go to subscribers only, and report what happened.
  \<^item> The files of the node (C36, C37): the key is stable, the genesis batch is the one intended.

  The component theories hold further lemmas in the same spirit, among them that a certificate of the
  default validity can be stored (\<open>CertClient\<close>), that a session leaves nothing behind (\<open>WebSocket\<close>), and
  that a lost metrics server makes applied requests fail (\<open>Metrics\<close>).

  \<^bold>\<open>Bounds and fuel.\<close> The reader of JSON has fuel of twice the length of its text plus two; \<open>Json\<close> shows
  that no larger amount changes its result (\<open>json_loads_fuel\<close>), on any text. The loop of writes is a partial function, proved to end after at most four writes. All other recursion is
  structural or has a termination proof.

  \<^bold>\<open>Not modelled.\<close> The message classes (\<open>remme/protos\<close>, generated from a submodule that is not in the
  repository); what is written to the log, the periodic log of the RPC server included; the network
  loop and command line of the SDK in \<open>remme/tp/__main__.py\<close>; the web framework and the parser of TOML;
  the message factory for tests in \<open>BasicHandler\<close>; the helpers of \<open>utils.py\<close> without a use (\<open>hash256\<close>,
  \<open>AttrDict\<close>, the key generator); \<open>utils/execution_time_stats.py\<close> and \<open>docs/conf.py\<close>, which only call libraries. Interleavings of coroutines inside one request of the RPC service are not considered.
\<close>

section \<open>The transaction processor as a whole\<close>

text \<open>
  C1. Conservation: along every run of the node over regular transactions, the tokens in
  circulation (account balances plus the amounts locked in unfinished swaps) stay the same.
\<close>

theorem chain_conserves_circulation:
  assumes "sawtooth_context K view" and "pb_typed P" and "pb_roundtrip P" and "good_state P v"
    and "(chain_step P K view wt Y E regular_tx)\<^sup>*\<^sup>* v v'"
  shows "circulation (ledger_of P v') = circulation (ledger_of P v)"
proof -
  have "conserved (chain_step P K view wt Y E regular_tx) (good_state P) (\<lambda>v. circulation (ledger_of P v))"
    using assms(1-3) by (rule chain_conserved)
  from conserved.run_qty [OF this, OF assms(5) assms(4)] show ?thesis .
qed

theorem chain_conserves_circulation_witness:
  "circulation (ledger_of wire_lib (stub_state paid_context))
     = circulation (ledger_of wire_lib (stub_state pay_context))"
  by (rule chain_conserves_circulation [OF stub.sawtooth_context_axioms wire_lib_typed
      wire_lib_roundtrip pay_good pay_chain])

text \<open>
  C2. Refinement: a request that is applied takes a step of the transaction rules, from the state
  before it to the state after it, with the signer of the request and its decoded payload.
\<close>

theorem request_follows_rules:
  assumes "sawtooth_context K view" and "pb_typed P"
    and "process_request P K wt Y E fam tr c = (Inr (), c')"
  shows "\<exists>en m. decode_request P wt (get_state_processor P K Y E fam) tr = Inr (en, m) \<and>
    state_step P Y E (signer tr) m (view c) (view c')"
  using assms by (rule process_request_step)

theorem request_follows_rules_witness:
  "\<exists>en m. decode_request wire_lib wt_std (get_state_processor wire_lib stub_ops ex_crypto ex_env AccountFamily)
      pay_request = Inr (en, m) \<and>
    state_step wire_lib ex_crypto ex_env bot_key m (stub_state pay_context) (stub_state paid_context)"
  using request_follows_rules [OF stub.sawtooth_context_axioms wire_lib_typed pay_run]
  by (simp add: pay_request_simps)





section \<open>Accounts\<close>

text \<open>
  C5. A transfer that is applied had a positive value the sender could afford, a receiver of the
  account type other than the sender, and moves exactly that value in the ledger.
\<close>

theorem transfer_moves_tokens:
  assumes "sawtooth_context K view" and "pb_typed P" and "pb_roundtrip P"
    and "process_request P K wt Y E fam tr c = (Inr (), c')"
    and "decode_request P wt (get_state_processor P K Y E fam) tr = Inr (en, TransferPayloadM p)"
  shows "0 < tp_value p \<and> tp_value p \<le> bal (ledger_of P (view c)) (account_address (signer tr)) \<and>
    is_account_addr (address_to p) \<and> account_address (signer tr) \<noteq> address_to p \<and>
    ledger_of P (view c')
      = move (account_address (signer tr)) (address_to p) (tp_value p) (ledger_of P (view c))"
proof -
  note s = process_request_payload [OF assms(1,2,4,5)]
  from transfer_step_ledger [OF assms(2,3) s] s show ?thesis
    by (auto elim!: transfer_stepE simp: bal_ledger_of)
qed

theorem transfer_moves_tokens_witness:
  "ledger_of wire_lib (stub_state paid_context) = move bot_addr alice_addr 300 (ledger_of wire_lib (stub_state pay_context))"
  using transfer_moves_tokens [OF stub.sawtooth_context_axioms wire_lib_typed wire_lib_roundtrip,
      of wt_std ex_crypto ex_env AccountFamily pay_request pay_context paid_context _ pay_alice] pay_run pay_decode
  by (auto simp: pay_request_simps pay_alice_def)



section \<open>Atomic swaps\<close>









text \<open>
  C11. Opening a swap takes the amount and the commission from the sender, credits the commission to
  the zero address and locks the amount in the swap, which had nothing locked before.
\<close>

theorem swap_init_locks_amount:
  assumes "sawtooth_context K view" and "pb_typed P" and "pb_roundtrip P"
    and "process_request P K wt Y E fam tr c = (Inr (), c')"
    and "decode_request P wt (get_state_processor P K Y E fam) tr = Inr (en, AtomicSwapInitPayloadM ip)"
  shows "\<exists>com. 0 < com \<and> swap_commission (setting_at P (view c) SETTINGS_SWAP_COMMISSION None) = Inr com \<and>
    locked (ledger_of P (view c)) (swap_address (init_swap_id ip)) = 0 \<and>
    ledger_of P (view c') = lock (account_address (signer tr)) (swap_address (init_swap_id ip)) (init_amount ip)
      (move (account_address (signer tr)) ZERO_ADDRESS com (ledger_of P (view c)))"
  using swap_init_step_ledger [OF assms(2,3) process_request_payload [OF assms(1,2,4,5)]] .

theorem swap_init_locks_amount_witness:
  "ledger_of wire_lib ex_opened_state = lock bot_addr (swap_address ex_sid) 200
     (move bot_addr ZERO_ADDRESS 100 (ledger_of wire_lib ex_init_state))"
proof -
  obtain as en c' where d: "decode_request wire_lib wt_std (ex_table AtomicSwapFamily)
      (ex_request bot_key 0 (AtomicSwapInitPayloadM ex_init) as) = Inr (en, AtomicSwapInitPayloadM ex_init)"
    and r: "ex_process AtomicSwapFamily (ex_request bot_key 0 (AtomicSwapInitPayloadM ex_init) as)
      (ex_context ex_init_state as) = (Inr (), c')" and c': "stub_state c' = ex_opened_state"
    using init_decode ex_init_step by (rule ex_applied)
  from swap_init_locks_amount [OF stub.sawtooth_context_axioms wire_lib_typed wire_lib_roundtrip r d] c'
  show ?thesis by (simp add: ex_init_state_reads ex_commission ex_init_def)
qed



text \<open>
  C13. A swap is expired by its sender alone and not before the time lock: when local time has a
  fixed offset, the latest block is at least 24 hours (initiator) or 48 hours (other side) after
  the creation of the swap; the locked amount goes back to the sender.
\<close>

theorem swap_expire_refunds_sender:
  assumes "sawtooth_context K view" and "pb_typed P" and "pb_roundtrip P" and "local_offset E = (\<lambda>t. k)"
    and "process_request P K wt Y E fam tr c = (Inr (), c')"
    and "decode_request P wt (get_state_processor P K Y E fam) tr = Inr (en, AtomicSwapExpirePayloadM ep)"
  shows "\<exists>si bi. swap_at P (view c) (swap_address (expire_swap_id ep)) = Some si \<and>
    latest_block_at P (view c) = Some bi \<and> sender_address si = account_address (signer tr) \<and>
    \<not> not_permitted (state si) \<and>
    timestamp bi - created_at si \<ge> (if is_initiator si then 24 else 48) * 3600 \<and>
    swap_at P (view c') (swap_address (expire_swap_id ep)) = Some (si\<lparr>state := EXPIRED\<rparr>) \<and>
    ledger_of P (view c')
      = release (swap_address (expire_swap_id ep)) (account_address (signer tr)) (ledger_of P (view c))"
proof -
  note s = process_request_payload [OF assms(1,2,5,6)]
  from s show ?thesis
  proof cases
    case (swap_expire a si bi b)
    then have "timestamp bi - created_at si \<ge> (if is_initiator si then 24 else 48) * 3600"
      by (auto simp: time_lock_passed_def time_lock_def get_datetime_from_timestamp_def assms(4)
          INITIATOR_TIME_DELTA_LOCK_def NON_INITIATOR_TIME_DELTA_LOCK_def INTIATOR_TIME_LOCK_def
          NON_INTIATOR_TIME_LOCK_def split: if_splits)
    moreover have "swap_at P (view c') a = Some (si\<lparr>state := EXPIRED\<rparr>)"
      using swap_expire swap_at_valid [OF assms(2), of "view c" a si]
      by (simp add: swap_at_update [OF assms(3)])
    ultimately show ?thesis
      using swap_expire swap_expire_step_ledger [OF assms(2,3) s] by blast
  qed
qed

theorem swap_expire_refunds_sender_witness:
  "ledger_of wire_lib ex_expired_state
     = release (swap_address ex_sid) bot_addr (ledger_of wire_lib ex_swap_state)"
proof -
  obtain as en c' where d: "decode_request wire_lib wt_std (ex_table AtomicSwapFamily)
      (ex_request bot_key 2 (AtomicSwapExpirePayloadM ex_expire) as) = Inr (en, AtomicSwapExpirePayloadM ex_expire)"
    and r: "ex_process AtomicSwapFamily (ex_request bot_key 2 (AtomicSwapExpirePayloadM ex_expire) as)
      (ex_context ex_swap_state as) = (Inr (), c')" and c': "stub_state c' = ex_expired_state"
    using expire_decode ex_expire_step by (rule ex_applied)
  have k: "local_offset ex_env = (\<lambda>t. 7200)" by (simp add: ex_env_def)
  from swap_expire_refunds_sender [OF stub.sawtooth_context_axioms wire_lib_typed wire_lib_roundtrip k r d] c'
  show ?thesis by (auto simp: ex_expire_def)
qed

section \<open>Public keys\<close>

text \<open>
  C14. Storing a key: the key was not registered, its signature verified, its validity is at most
  365 days when local time has a fixed offset; the entry belongs to the signer and is not revoked,
  the key is linked to the account of the signer, and the fee, if the economy is enabled, moves
  from that account to the zero address.
\<close>

theorem store_registers_key:
  assumes "sawtooth_context K view" and "pb_typed P" and "pb_roundtrip P" and "utcoffset Y = (\<lambda>t. k)"
    and "process_request P K wt Y E fam tr c = (Inr (), c')"
    and "decode_request P wt (get_state_processor P K Y E fam) tr = Inr (en, NewPubKeyPayloadM tx)"
  shows "\<exists>kp ka. get_public_key_processor tx = Inr kp \<and> processor_verify P Y kp = Inr True \<and>
    ka = pub_key_address (get_public_key kp) \<and> key_at P (view c) ka = None \<and>
    valid_to tx - valid_from tx \<le> 365 * 86400 \<and>
    key_at P (view c') ka = Some \<lparr>owner = signer tr, payload = tx, is_revoked = False\<rparr> \<and>
    ka \<in> set (pub_keys (account_at P (view c') (account_address (signer tr)))) \<and>
    ledger_of P (view c') =
      (if economy_enabled P (view c)
       then move (account_address (signer tr)) ZERO_ADDRESS PUB_KEY_STORE_PRICE (ledger_of P (view c))
       else ledger_of P (view c))"
proof -
  note s = process_request_payload [OF assms(1,2,5,6)]
  from s show ?thesis
  proof cases
    case (store kp ka)
    let ?acc = "store_public_key_to_account ka
        (charged P (view c) (account_at P (view c) (account_address (signer tr))))"
    have "valid_to tx - valid_from tx \<le> 365 * 86400"
      using store(5) by (auto simp: is_public_key_validity_exceeded_def assms(4) PUB_KEY_MAX_VALIDITY_def Let_def
          split: if_splits)
    moreover have "key_at P (view c') ka = Some \<lparr>owner = signer tr, payload = tx, is_revoked = False\<rparr>"
      using store by (simp add: key_at_update [OF assms(3)])
    moreover have "account_at P (view c') (account_address (signer tr)) = ?acc"
      using store balance_charged [OF assms(2) store(7)]
      by (simp add: account_at_update [OF assms(3)])
    moreover have "ka \<in> set (pub_keys ?acc)"
      by (simp add: store_public_key_to_account_def)
    moreover have "key_at P (view c) ka = None"
      using store by (simp add: key_at_def)
    ultimately show ?thesis
      using store(1-3) store_step_ledger [OF assms(2,3) s] by auto
  qed
qed

theorem store_registers_key_witness:
  "key_at wire_lib ex_stored_state ex_key_addr = Some \<lparr>owner = bot_key, payload = ex_key, is_revoked = False\<rparr>"
proof -
  obtain as en c' where d: "decode_request wire_lib wt_std (ex_table PubKeyFamily)
      (ex_request bot_key 0 (NewPubKeyPayloadM ex_key) as) = Inr (en, NewPubKeyPayloadM ex_key)"
    and r: "ex_process PubKeyFamily (ex_request bot_key 0 (NewPubKeyPayloadM ex_key) as)
      (ex_context (ex_payer_state bot_key) as) = (Inr (), c')" and c': "stub_state c' = ex_stored_state"
    using store_decode ex_store_step by (rule ex_applied)
  have k: "utcoffset ex_crypto = (\<lambda>t. 7200)" by (simp add: ex_crypto_def)
  from store_registers_key [OF stub.sawtooth_context_axioms wire_lib_typed wire_lib_roundtrip k r d] c'
  show ?thesis by (auto simp: ex_key_address)
qed

text \<open>
  C15. \<open>STORE_AND_PAY\<close> charges the payer when the payer is not the owner. When the payer is the
  owner, the account written last is the one read before the fee was taken: the payer keeps the
  tokens, the zero address is credited all the same, and the circulation grows by the fee.
\<close>

theorem store_and_pay_self_mints:
  assumes "sawtooth_context K view" and "pb_typed P" and "pb_roundtrip P" and "finite (dom (view c))"
    and "process_request P K wt Y E fam tr c = (Inr (), c')"
    and "decode_request P wt (get_state_processor P K Y E fam) tr = Inr (en, NewPubKeyStoreAndPayPayloadM sp)"
    and "economy_enabled P (view c)"
  shows "circulation (ledger_of P (view c')) = circulation (ledger_of P (view c)) +
    (if account_address (bytes_hex (owner_public_key sp)) = account_address (signer tr)
     then PUB_KEY_STORE_PRICE else 0)"
proof -
  have fin: "finite_ledger (ledger_of P (view c))" using assms(4) by (rule finite_ledger_of)
  from store_and_pay_step_ledger [OF assms(2,3) process_request_payload [OF assms(1,2,5,6)]] assms(7)
  show ?thesis by (simp add: circulation_move [OF fin] circulation_issue [OF fin])
qed

theorem store_and_pay_self_mints_witness:
  "circulation (ledger_of wire_lib ex_self_paid_state)
     = circulation (ledger_of wire_lib (ex_payer_state ex_owner)) + 10"
proof -
  obtain as en c' where d: "decode_request wire_lib wt_std (ex_table PubKeyFamily)
      (ex_request ex_owner 2 (NewPubKeyStoreAndPayPayloadM ex_store_and_pay) as)
        = Inr (en, NewPubKeyStoreAndPayPayloadM ex_store_and_pay)"
    and r: "ex_process PubKeyFamily (ex_request ex_owner 2 (NewPubKeyStoreAndPayPayloadM ex_store_and_pay) as)
      (ex_context (ex_payer_state ex_owner) as) = (Inr (), c')" and c': "stub_state c' = ex_self_paid_state"
    using store_and_pay_decode ex_self_paid_step by (rule ex_applied)
  from store_and_pay_self_mints [OF stub.sawtooth_context_axioms wire_lib_typed wire_lib_roundtrip _ r d] c'
  show ?thesis
    by (simp add: ex_payer_state_reads PUB_KEY_STORE_PRICE_def ex_store_and_pay_def ex_owner_def)
      (simp add: ex_payer_state_def)
qed



text \<open>
  C17. Revocation: a revocation that is applied names a registered key that was not revoked, is
  signed by its owner, and marks it revoked without any other change of the state.
\<close>

theorem revoke_by_owner_once:
  assumes "sawtooth_context K view" and "pb_typed P" and "pb_roundtrip P"
    and "process_request P K wt Y E fam tr c = (Inr (), c')"
    and "decode_request P wt (get_state_processor P K Y E fam) tr = Inr (en, RevokePubKeyPayloadM rp)"
  shows "\<exists>info. key_at P (view c) (revoke_address rp) = Some info \<and> owner info = signer tr \<and>
    \<not> is_revoked info \<and>
    key_at P (view c') (revoke_address rp) = Some (info\<lparr>is_revoked := True\<rparr>) \<and>
    (\<forall>a. a \<noteq> revoke_address rp \<longrightarrow> view c' a = view c a)"
  using process_request_payload [OF assms(1,2,4,5)]
proof cases
  case (revoke info)
  then have k: "key_at P (view c) (revoke_address rp) = Some info" by (simp add: key_at_def)
  with revoke key_at_valid [OF assms(2) k] show ?thesis
    by (simp add: key_at_update [OF assms(3)])
qed

theorem revoke_by_owner_once_witness:
  "key_at wire_lib ex_revoked_state (revoke_address ex_revoke) = Some (ex_key_info\<lparr>is_revoked := True\<rparr>)"
proof -
  obtain as en c' where d: "decode_request wire_lib wt_std (ex_table PubKeyFamily)
      (ex_request bot_key 1 (RevokePubKeyPayloadM ex_revoke) as) = Inr (en, RevokePubKeyPayloadM ex_revoke)"
    and r: "ex_process PubKeyFamily (ex_request bot_key 1 (RevokePubKeyPayloadM ex_revoke) as)
      (ex_context ex_key_state as) = (Inr (), c')" and c': "stub_state c' = ex_revoked_state"
    using revoke_decode ex_revoke_step by (rule ex_applied)
  from revoke_by_owner_once [OF stub.sawtooth_context_axioms wire_lib_typed wire_lib_roundtrip r d] c'
  show ?thesis by (auto simp: key_at_def ex_key_state_reads)
qed


text \<open>
  C40. Bounds: in every state that is reached over regular transactions, each balance is at least zero,
  fits the 64-bit field it is stored in, and is at most the circulation of the initial state.
\<close>

theorem balances_bounded:
  assumes "sawtooth_context K view" and "pb_typed P" and "pb_roundtrip P" and "good_state P v"
    and "(chain_step P K view wt Y E regular_tx)\<^sup>*\<^sup>* v v'" and "is_account_addr a"
  shows "0 \<le> balance (account_at P v' a) \<and> balance (account_at P v' a) < 2 ^ 64 \<and>
    balance (account_at P v' a) \<le> circulation (ledger_of P v)"
proof -
  have c: "conserved (chain_step P K view wt Y E regular_tx) (good_state P) (\<lambda>v. circulation (ledger_of P v))"
    using assms(1-3) by (rule chain_conserved)
  have "good_state P v'"
    using conserved.axioms(1) [OF c] invariant_step.run_good assms(4,5) by fast
  then have "finite_ledger (ledger_of P v')" by (simp add: good_state_def finite_ledger_of)
  with nonneg_ledger_of [OF assms(2)] have "bal (ledger_of P v') a \<le> circulation (ledger_of P v')"
    by (intro bal_le_circulation)
  also have "\<dots> = circulation (ledger_of P v)" using conserved.run_qty [OF c, OF assms(5,4)] .
  finally show ?thesis
    using account_at_range [OF assms(2), of v' a] bal_ledger_of [OF assms(6), of P v'] by simp
qed

theorem balances_bounded_witness:
  "balance (account_at wire_lib (stub_state paid_context) alice_addr) \<le> circulation (ledger_of wire_lib (stub_state pay_context))"
  using balances_bounded [OF stub.sawtooth_context_axioms wire_lib_typed wire_lib_roundtrip pay_good pay_chain
      is_account_addr_alice] by blast

end
